(* ===== verification/Coap_Prelude.thy ===== *)
theory Coap_Prelude
  imports Main "HOL-Library.Word"
begin

text \<open>
  Shared vocabulary of the libcoap-rs development: the machine integer and byte types, Rust's
  \<^verbatim>\<open>Result\<close> (a sum whose left injection is the error), the outcome of code that may panic, the
  generic facts on lists, sums and outcomes that the component theories use, and the
  \<open>named_theorems\<close> collections they share.
\<close>

section \<open>Machine integers, byte strings\<close>

type_synonym u8 = "8 word"
type_synonym u16 = "16 word"
type_synonym u32 = "32 word"
type_synonym u64 = "64 word"
type_synonym bytes = "8 word list"

text \<open>A Rust \<^verbatim>\<open>String\<close> is a byte buffer; theory \<open>Utf8\<close> states when the buffer is valid.\<close>

type_synonym rstring = bytes

definition ascii :: "string \<Rightarrow> bytes" where
  "ascii s = map of_char s"

lemma ascii_Nil [simp]: "ascii [] = []"
  by (simp add: ascii_def)

lemma ascii_append: "ascii (a @ b) = ascii a @ ascii b"
  by (simp add: ascii_def)

lemma length_ascii [simp]: "length (ascii s) = length s"
  by (simp add: ascii_def)

section \<open>Code that may panic\<close>

text \<open>
  A Rust function that can panic returns a \<open>run\<close>: the value, or \<open>Panic\<close>. A fallible function
  returns \<open>'e + 'a\<close>; one that can do both returns \<open>('e + 'a) run\<close>.
\<close>

datatype 'a run = Ret 'a | Panic

named_theorems run_simps \<open>evaluation of panicking and fallible code\<close>

definition run_bind :: "'a run \<Rightarrow> ('a \<Rightarrow> 'b run) \<Rightarrow> 'b run" where
  "run_bind m f = (case m of Ret x \<Rightarrow> f x | Panic \<Rightarrow> Panic)"

definition run_map :: "('a \<Rightarrow> 'b) \<Rightarrow> 'a run \<Rightarrow> 'b run" where
  "run_map f m = run_bind m (\<lambda>x. Ret (f x))"

text \<open>The \<^verbatim>\<open>?\<close> operator inside a function that can also panic.\<close>

definition run_try :: "('e + 'a) run \<Rightarrow> ('a \<Rightarrow> ('e + 'b) run) \<Rightarrow> ('e + 'b) run" where
  "run_try m f = run_bind m (\<lambda>r. case r of Inl e \<Rightarrow> Ret (Inl e) | Inr x \<Rightarrow> f x)"

definition res_try :: "'e + 'a \<Rightarrow> ('a \<Rightarrow> 'e + 'b) \<Rightarrow> 'e + 'b" where
  "res_try r f = (case r of Inl e \<Rightarrow> Inl e | Inr x \<Rightarrow> f x)"

definition map_err :: "('e \<Rightarrow> 'f) \<Rightarrow> 'e + 'a \<Rightarrow> 'f + 'a" where
  "map_err f r = (case r of Inl e \<Rightarrow> Inl (f e) | Inr x \<Rightarrow> Inr x)"

text \<open>\<^verbatim>\<open>Option::expect\<close>/\<^verbatim>\<open>unwrap\<close>, \<^verbatim>\<open>Option::ok_or\<close> and \<^verbatim>\<open>Result::ok\<close>.\<close>

definition expect :: "'a option \<Rightarrow> 'a run" where
  "expect x = (case x of Some v \<Rightarrow> Ret v | None \<Rightarrow> Panic)"

definition ok_or :: "'a option \<Rightarrow> 'e \<Rightarrow> 'e + 'a" where
  "ok_or x e = (case x of Some v \<Rightarrow> Inr v | None \<Rightarrow> Inl e)"

definition res_ok :: "'e + 'a \<Rightarrow> 'a option" where
  "res_ok r = (case r of Inl _ \<Rightarrow> None | Inr x \<Rightarrow> Some x)"

lemma run_bind_simps [simp, run_simps]:
  "run_bind (Ret x) f = f x"
  "run_bind Panic f = Panic"
  by (simp_all add: run_bind_def)

lemma run_map_simps [simp, run_simps]:
  "run_map g (Ret x) = Ret (g x)"
  "run_map g Panic = Panic"
  by (simp_all add: run_map_def)

lemma run_try_simps [simp, run_simps]:
  "run_try (Ret (Inl e)) f = Ret (Inl e)"
  "run_try (Ret (Inr x)) f = f x"
  "run_try Panic f = Panic"
  by (simp_all add: run_try_def)

lemma res_try_simps [simp, run_simps]:
  "res_try (Inl e) f = Inl e"
  "res_try (Inr x) f = f x"
  by (simp_all add: res_try_def)

lemma map_err_simps [simp, run_simps]:
  "map_err f (Inl e) = Inl (f e)"
  "map_err f (Inr x) = Inr x"
  by (simp_all add: map_err_def)

lemma option_conv_simps [simp, run_simps]:
  "expect (Some v) = Ret v"
  "expect None = Panic"
  "ok_or (Some v) e = Inr v"
  "ok_or None e = Inl e"
  "res_ok (Inl e') = None"
  "res_ok (Inr w) = Some w"
  by (simp_all add: expect_def ok_or_def res_ok_def)

lemma res_ok_eq_Some: "res_ok r = Some x \<longleftrightarrow> r = Inr x"
  by (cases r) simp_all

lemma run_bind_eq_Ret: "run_bind m f = Ret y \<longleftrightarrow> (\<exists>x. m = Ret x \<and> f x = Ret y)"
  by (cases m) auto

lemma run_try_eq_Inr: "run_try m f = Ret (Inr y) \<longleftrightarrow> (\<exists>x. m = Ret (Inr x) \<and> f x = Ret (Inr y))"
  by (auto simp: run_try_def run_bind_def split: run.splits sum.splits)

lemma res_try_eq_Inr: "res_try r f = Inr y \<longleftrightarrow> (\<exists>x. r = Inr x \<and> f x = Inr y)"
  by (cases r) auto

lemma res_try_assoc: "res_try (res_try r f) g = res_try r (\<lambda>x. res_try (f x) g)"
  by (cases r) auto

lemma run_map_eq_Ret: "run_map f m = Ret y \<longleftrightarrow> (\<exists>x. m = Ret x \<and> f x = y)"
  by (cases m) auto

lemma run_map_eq_Panic: "run_map f m = Panic \<longleftrightarrow> m = Panic"
  by (cases m) auto

lemma expect_eq_Ret: "expect x = Ret v \<longleftrightarrow> x = Some v"
  by (cases x) auto

lemma ok_or_eq_Inr: "ok_or x e = Inr v \<longleftrightarrow> x = Some v"
  by (cases x) auto

lemmas run_elims = run_bind_eq_Ret run_try_eq_Inr res_try_eq_Inr expect_eq_Ret ok_or_eq_Inr

section \<open>Loops with early return\<close>

text \<open>
  A \<^verbatim>\<open>for\<close> loop over a vector whose body updates local variables and may return an error
  early.
\<close>

fun try_fold :: "('s \<Rightarrow> 'a \<Rightarrow> 'e + 's) \<Rightarrow> 's \<Rightarrow> 'a list \<Rightarrow> 'e + 's" where
  "try_fold f s [] = Inr s"
| "try_fold f s (x # xs) = res_try (f s x) (\<lambda>s'. try_fold f s' xs)"

lemma try_fold_append: "try_fold f s (xs @ ys) = res_try (try_fold f s xs) (\<lambda>s'. try_fold f s' ys)"
  by (induction xs arbitrary: s) (simp_all add: res_try_assoc)

text \<open>An invariant of the body is an invariant of the loop.\<close>

lemma try_fold_invariant:
  assumes "\<And>s x s'. P s \<Longrightarrow> f s x = Inr s' \<Longrightarrow> P s'" and "P s" and "try_fold f s xs = Inr s'"
  shows "P s'"
  using assms(2,3)
proof (induction xs arbitrary: s)
  case (Cons x xs)
  then obtain t where "f s x = Inr t" and "try_fold f t xs = Inr s'"
    by (auto simp: res_try_eq_Inr)
  with Cons show ?case using assms(1) by blast
qed simp

text \<open>
  A result computed from the state is determined by the loop, one element at a time: if the body
  turns \<open>g s\<close> into \<open>h (g s) x\<close>, the loop folds \<open>h\<close>.
\<close>

lemma try_fold_project:
  assumes "\<And>s x s'. f s x = Inr s' \<Longrightarrow> g s' = h (g s) x" and "try_fold f s xs = Inr s'"
  shows "g s' = foldl h (g s) xs"
  using assms(2)
proof (induction xs arbitrary: s)
  case (Cons x xs)
  then obtain t where "f s x = Inr t" and "try_fold f t xs = Inr s'"
    by (auto simp: res_try_eq_Inr)
  with Cons.IH[of t] show ?case by (simp add: assms(1))
qed simp

text \<open>The same loop whose body may also panic.\<close>

fun run_map_list :: "('a \<Rightarrow> ('e + 'b) run) \<Rightarrow> 'a list \<Rightarrow> ('e + 'b list) run" where
  "run_map_list f [] = Ret (Inr [])"
| "run_map_list f (x # xs) =
     run_try (f x) (\<lambda>y. run_try (run_map_list f xs) (\<lambda>ys. Ret (Inr (y # ys))))"

lemma run_map_list_all:
  assumes "\<And>x. x \<in> set xs \<Longrightarrow> f x = Ret (Inr (g x))"
  shows "run_map_list f xs = Ret (Inr (map g xs))"
  using assms by (induction xs) auto

lemma run_map_list_Inr:
  "run_map_list f xs = Ret (Inr ys) \<Longrightarrow> list_all2 (\<lambda>x y. f x = Ret (Inr y)) xs ys"
  by (induction xs arbitrary: ys) (auto simp: run_try_eq_Inr)

lemma run_map_list_Panic:
  "run_map_list f xs = Panic \<longleftrightarrow>
     (\<exists>pre x post ys. xs = pre @ x # post \<and> run_map_list f pre = Ret (Inr ys) \<and> f x = Panic)"
proof (induction xs)
  case (Cons a xs)
  show ?case
  proof (cases "f a")
    case Panic
    then have "\<exists>pre x post ys. a # xs = pre @ x # post \<and> run_map_list f pre = Ret (Inr ys) \<and> f x = Panic"
      by (intro exI[of _ "[]"]) simp
    with Panic show ?thesis by simp
  next
    case (Ret r)
    show ?thesis
    proof (cases r)
      case (Inl e)
      with Ret show ?thesis by (auto simp: Cons_eq_append_conv)
    next
      case (Inr y)
      have "run_map_list f (a # xs) = Panic \<longleftrightarrow> run_map_list f xs = Panic"
        using Ret Inr by (simp add: run_try_def run_bind_def split: run.splits sum.splits)
      also have "\<dots> \<longleftrightarrow> (\<exists>pre x post ys. a # xs = pre @ x # post \<and> run_map_list f pre = Ret (Inr ys) \<and> f x = Panic)"
        (is "_ \<longleftrightarrow> ?split")
      proof
        assume "run_map_list f xs = Panic"
        then obtain pre x post ys where "xs = pre @ x # post" "run_map_list f pre = Ret (Inr ys)" "f x = Panic"
          using Cons.IH by blast
        then have "a # xs = (a # pre) @ x # post \<and> run_map_list f (a # pre) = Ret (Inr (y # ys)) \<and> f x = Panic"
          using Ret Inr by simp
        then show ?split by blast
      next
        assume ?split
        then obtain pre x post ys where s: "a # xs = pre @ x # post" "run_map_list f pre = Ret (Inr ys)" "f x = Panic"
          by blast
        with Ret obtain pre' where "pre = a # pre'" "xs = pre' @ x # post" by (cases pre) auto
        moreover from this s(2) obtain zs where "run_map_list f pre' = Ret (Inr zs)"
          by (auto simp: run_try_eq_Inr)
        ultimately show "run_map_list f xs = Panic" using Cons.IH s(3) by blast
      qed
      finally show ?thesis .
    qed
  qed
qed simp

section \<open>Lists\<close>

lemma filter_neq_length: "length (filter P xs) + length (filter (\<lambda>x. \<not> P x) xs) = length xs"
  by (induction xs) auto

lemma foldl_append_concat: "foldl (\<lambda>a x. a @ f x) acc xs = acc @ concat (map f xs)"
  by (induction xs arbitrary: acc) auto

text \<open>Collecting the values of the elements selected by \<open>f\<close>, in order.\<close>

lemma foldl_filter_append:
  "foldl (\<lambda>a x. case f x of None \<Rightarrow> a | Some v \<Rightarrow> a @ [v]) acc xs = acc @ List.map_filter f xs"
  by (induction xs arbitrary: acc) (auto simp: List.map_filter_simps split: option.splits)

section \<open>Sequences of calls\<close>

text \<open>A sequence of calls, of which each may panic.\<close>

fun run_all :: "('e \<Rightarrow> 's \<Rightarrow> ('r \<times> 's) run) \<Rightarrow> 'e list \<Rightarrow> 's \<Rightarrow> 's run" where
  "run_all step [] s = Ret s"
| "run_all step (e # es) s = run_bind (step e s) (\<lambda>(_, s). run_all step es s)"

section \<open>Loops that collect options\<close>

text \<open>
  A loop that reads a list item by item into variables and stops at the first item it rejects. Its
  declarative reading says which lists are accepted and what the variables then hold; the two agree
  if one iteration does.
\<close>

locale option_loop =
  fixes step :: "'s \<Rightarrow> 'o \<Rightarrow> 'e + 's"
    and init :: 's
    and accepts :: "'o list \<Rightarrow> bool"
    and reading :: "'o list \<Rightarrow> 's"
  assumes start: "accepts []" "init = reading []"
    and shorter: "accepts (xs @ [x]) \<Longrightarrow> accepts xs"
    and iteration: "accepts xs \<Longrightarrow> step (reading xs) x = Inr s \<longleftrightarrow> accepts (xs @ [x]) \<and> s = reading (xs @ [x])"
begin

lemma loop_reads: "try_fold step init xs = Inr s \<longleftrightarrow> accepts xs \<and> s = reading xs"
proof (induction xs arbitrary: s rule: rev_induct)
  case Nil
  show ?case using start by auto
next
  case (snoc x xs)
  show ?case
    using shorter[of xs x] iteration[of xs x]
    by (auto simp: try_fold_append res_try_eq_Inr snoc.IH)
qed

lemma loop_rejects: "(\<exists>e. try_fold step init xs = Inl e) \<longleftrightarrow> \<not> accepts xs"
  using loop_reads[of xs] by (cases "try_fold step init xs") auto

end

end
