(* ===== verification/Utf8.thy ===== *)
theory Utf8
  imports Coap_Prelude
begin

text \<open>
  The validity check of \<^verbatim>\<open>String::from_utf8\<close> (Rust standard library), which option parsing in
  \<^verbatim>\<open>libcoap/src/message/mod.rs\<close> applies to every string option. A Rust \<^verbatim>\<open>String\<close> is a byte buffer
  for which \<open>utf8_valid\<close> holds; the lemmas show that the concatenations the crate performs keep
  that invariant.
\<close>

definition utf8_cont :: "u8 \<Rightarrow> bool" where
  "utf8_cont b \<longleftrightarrow> 0x80 \<le> b \<and> b \<le> 0xBF"

text \<open>Well-formed sequences of two, three and four bytes (Unicode, table 3-7).\<close>

definition utf8_seq2 :: "u8 \<Rightarrow> u8 \<Rightarrow> bool" where
  "utf8_seq2 b0 b1 \<longleftrightarrow> 0xC2 \<le> b0 \<and> b0 \<le> 0xDF \<and> utf8_cont b1"

definition utf8_seq3 :: "u8 \<Rightarrow> u8 \<Rightarrow> u8 \<Rightarrow> bool" where
  "utf8_seq3 b0 b1 b2 \<longleftrightarrow> 0xE0 \<le> b0 \<and> b0 \<le> 0xEF \<and> utf8_cont b2 \<and>
     (if b0 = 0xE0 then 0xA0 \<le> b1 \<and> b1 \<le> 0xBF
      else if b0 = 0xED then 0x80 \<le> b1 \<and> b1 \<le> 0x9F
      else utf8_cont b1)"

definition utf8_seq4 :: "u8 \<Rightarrow> u8 \<Rightarrow> u8 \<Rightarrow> u8 \<Rightarrow> bool" where
  "utf8_seq4 b0 b1 b2 b3 \<longleftrightarrow> 0xF0 \<le> b0 \<and> b0 \<le> 0xF4 \<and> utf8_cont b2 \<and> utf8_cont b3 \<and>
     (if b0 = 0xF0 then 0x90 \<le> b1 \<and> b1 \<le> 0xBF
      else if b0 = 0xF4 then 0x80 \<le> b1 \<and> b1 \<le> 0x8F
      else utf8_cont b1)"

text \<open>The number of bytes of the well-formed sequence that starts the buffer, 0 if there is none.\<close>

fun utf8_width :: "bytes \<Rightarrow> nat" where
  "utf8_width [] = 0"
| "utf8_width [b0] = (if b0 < 0x80 then 1 else 0)"
| "utf8_width [b0, b1] = (if b0 < 0x80 then 1 else if utf8_seq2 b0 b1 then 2 else 0)"
| "utf8_width [b0, b1, b2] =
     (if b0 < 0x80 then 1 else if utf8_seq2 b0 b1 then 2 else if utf8_seq3 b0 b1 b2 then 3 else 0)"
| "utf8_width (b0 # b1 # b2 # b3 # bs) =
     (if b0 < 0x80 then 1 else if utf8_seq2 b0 b1 then 2 else if utf8_seq3 b0 b1 b2 then 3
      else if utf8_seq4 b0 b1 b2 b3 then 4 else 0)"

function utf8_valid :: "bytes \<Rightarrow> bool" where
  "utf8_valid bs =
     (if bs = [] then True
      else if utf8_width bs = 0 then False
      else utf8_valid (drop (utf8_width bs) bs))"
  by pat_completeness auto
termination by (relation "measure length") auto

declare utf8_valid.simps [simp del]

lemma utf8_valid_Nil [simp]: "utf8_valid []"
  by (simp add: utf8_valid.simps)

lemma utf8_width_append: "utf8_width bs \<noteq> 0 \<Longrightarrow> utf8_width (bs @ cs) = utf8_width bs"
  by (cases bs rule: utf8_width.cases; cases cs rule: utf8_width.cases) (simp_all split: if_splits)

lemma utf8_width_le: "utf8_width bs \<le> length bs"
  by (cases bs rule: utf8_width.cases) simp_all

lemma utf8_valid_append: "utf8_valid bs \<Longrightarrow> utf8_valid cs \<Longrightarrow> utf8_valid (bs @ cs)"
proof (induction bs rule: utf8_valid.induct)
  case (1 bs)
  show ?case
  proof (cases "bs = []")
    case False
    with "1.prems"(1) have w: "utf8_width bs \<noteq> 0" and v: "utf8_valid (drop (utf8_width bs) bs)"
      by (simp_all add: utf8_valid.simps[of bs] split: if_splits)
    with False "1.IH" "1.prems"(2) have "utf8_valid (drop (utf8_width bs) bs @ cs)" by simp
    with w False show ?thesis
      by (simp add: utf8_valid.simps[of "bs @ cs"] utf8_width_append utf8_width_le)
  qed (use "1.prems" in simp)
qed

lemma utf8_valid_ascii_Cons: "b < 0x80 \<Longrightarrow> utf8_valid bs \<Longrightarrow> utf8_valid (b # bs)"
  by (cases bs rule: utf8_width.cases) (simp_all add: utf8_valid.simps[of "b # _"])

text \<open>\<^verbatim>\<open>String::from_utf8\<close>: the error carries the rejected bytes.\<close>

definition from_utf8 :: "bytes \<Rightarrow> bytes + rstring" where
  "from_utf8 bs = (if utf8_valid bs then Inr bs else Inl bs)"

lemma from_utf8_eq_Inr: "from_utf8 bs = Inr s \<longleftrightarrow> utf8_valid bs \<and> s = bs"
  by (auto simp: from_utf8_def)

lemma from_utf8_valid [simp]: "utf8_valid bs \<Longrightarrow> from_utf8 bs = Inr bs"
  by (simp add: from_utf8_def)

end
