(* ===== verification/Protocol.thy ===== *)
theory Protocol
  imports Coap_Prelude Utf8
begin

text \<open>
  Protocol constants (\<^verbatim>\<open>libcoap/src/protocol.rs\<close>): option types with their numbers and length
  bounds, content formats, message codes and message types, and the conversions between them and
  the raw values of the C library. The numeric values come from the bindings generated from
  libcoap's headers, which are not part of the repository: they are the fields of the parameter
  record \<open>bindings\<close>, and \<open>bindings_ok\<close> states what the Rust compiler and the CoAP code registry
  guarantee of them (distinct discriminants; message codes are one byte).
\<close>

section \<open>Enumerations\<close>

datatype CoapOptionType =
    IfMatch | UriHost | ETag | IfNoneMatch | Observe | UriPort | LocationPath | Oscore |
    UriPath | ContentFormat | MaxAge | UriQuery | HopLimit | Accept | QBlock1 | LocationQuery |
    Block2 | Block1 | Size2 | QBlock2 | ProxyUri | ProxyScheme | Size1 | Echo | NoResponse |
    RTag

datatype CoapContentFormat =
    Cbor | DotsCbor | SenMlCbor | SenMlExi | CoseEncrypt | CoseEncrypt0 | CoseKey |
    CoseKeySet | CoseMac | CoseMac0 | CoseSign | CoseSign1 | Cwt | Exi | Json | LinkFormat |
    OctetStream | RdfXml | SenMlJson | SenMlXml | SensMlCbor | SensMlExi | SensMlJson |
    SensMlXml | ApplicationXml | TextPlain | AceCbor | CoapGroupJson | MbCborSeq | Oscore |
    Other

datatype CoapRequestCode = Get | Put | Delete | Post | Fetch | IPatch | Patch

datatype CoapResponseCode =
    Content | BadGateway | Continue | Conflict | BadRequest | BadOption | Changed | Created |
    Deleted | Forbidden | GatewayTimeout | HopLimitReached | Incomplete | InternalError |
    NotAcceptable | NotAllowed | NotFound | NotImplemented | PreconditionFailed |
    ProxyingNotSupported | RequestTooLarge | ServiceUnavailable | TooManyRequests |
    Unauthorized | Unprocessable | UnsupportedContentFormat | Valid

datatype CoapMessageCode = Empty | Request CoapRequestCode | Response CoapResponseCode

datatype CoapMessageType = Con | Non | Ack | Rst

text \<open>
  The enumerations of the C library, with the members the crate names; the last constructor of
  each stands for the members it does not name.
\<close>

datatype coap_pdu_code_t =
    COAP_EMPTY_CODE | COAP_REQUEST_CODE_GET | COAP_REQUEST_CODE_PUT |
    COAP_REQUEST_CODE_DELETE | COAP_REQUEST_CODE_POST | COAP_REQUEST_CODE_FETCH |
    COAP_REQUEST_CODE_IPATCH | COAP_REQUEST_CODE_PATCH | COAP_RESPONSE_CODE_CONTENT |
    COAP_RESPONSE_CODE_BAD_GATEWAY | COAP_RESPONSE_CODE_CONTINUE |
    COAP_RESPONSE_CODE_CONFLICT | COAP_RESPONSE_CODE_BAD_REQUEST |
    COAP_RESPONSE_CODE_BAD_OPTION | COAP_RESPONSE_CODE_CHANGED | COAP_RESPONSE_CODE_CREATED |
    COAP_RESPONSE_CODE_DELETED | COAP_RESPONSE_CODE_FORBIDDEN |
    COAP_RESPONSE_CODE_GATEWAY_TIMEOUT | COAP_RESPONSE_CODE_HOP_LIMIT_REACHED |
    COAP_RESPONSE_CODE_INCOMPLETE | COAP_RESPONSE_CODE_INTERNAL_ERROR |
    COAP_RESPONSE_CODE_NOT_ACCEPTABLE | COAP_RESPONSE_CODE_NOT_ALLOWED |
    COAP_RESPONSE_CODE_NOT_FOUND | COAP_RESPONSE_CODE_NOT_IMPLEMENTED |
    COAP_RESPONSE_CODE_PRECONDITION_FAILED | COAP_RESPONSE_CODE_PROXYING_NOT_SUPPORTED |
    COAP_RESPONSE_CODE_REQUEST_TOO_LARGE | COAP_RESPONSE_CODE_SERVICE_UNAVAILABLE |
    COAP_RESPONSE_CODE_TOO_MANY_REQUESTS | COAP_RESPONSE_CODE_UNAUTHORIZED |
    COAP_RESPONSE_CODE_UNPROCESSABLE | COAP_RESPONSE_CODE_UNSUPPORTED_CONTENT_FORMAT |
    COAP_RESPONSE_CODE_VALID | COAP_OTHER_CODE nat

datatype coap_request_t =
    COAP_REQUEST_GET | COAP_REQUEST_POST | COAP_REQUEST_PUT | COAP_REQUEST_DELETE |
    COAP_REQUEST_FETCH | COAP_REQUEST_PATCH | COAP_REQUEST_IPATCH | COAP_REQUEST_OTHER nat

datatype coap_pdu_type_t = COAP_MESSAGE_CON | COAP_MESSAGE_NON | COAP_MESSAGE_ACK | COAP_MESSAGE_RST

datatype UnknownOptionError = UnknownOption

datatype MessageCodeError = NotARequestCode | NotAResponseCode

section \<open>The generated bindings as a parameter\<close>

record bindings =
  opt_num :: "CoapOptionType \<Rightarrow> u16"
  media_num :: "CoapContentFormat \<Rightarrow> u16"
  code_num :: "coap_pdu_code_t \<Rightarrow> nat"
  type_num :: "coap_pdu_type_t \<Rightarrow> nat"

text \<open>
  \<^verbatim>\<open>derive(FromPrimitive)\<close>: the variant whose discriminant is the number, searched in the order
  of declaration.
\<close>

definition from_primitive :: "'v list \<Rightarrow> ('v \<Rightarrow> 'n) \<Rightarrow> 'n \<Rightarrow> 'v option" where
  "from_primitive variants disc n = find (\<lambda>v. disc v = n) variants"

definition option_types :: "CoapOptionType list" where
  "option_types =
    [IfMatch, UriHost, ETag, IfNoneMatch, Observe, UriPort, LocationPath, CoapOptionType.Oscore, UriPath,
     ContentFormat, MaxAge, UriQuery, HopLimit, Accept, QBlock1, LocationQuery, Block2, Block1,
     Size2, QBlock2, ProxyUri, ProxyScheme, Size1, Echo, NoResponse, RTag]"

definition content_formats :: "CoapContentFormat list" where
  "content_formats =
    [Cbor, DotsCbor, SenMlCbor, SenMlExi, CoseEncrypt, CoseEncrypt0, CoseKey, CoseKeySet,
     CoseMac, CoseMac0, CoseSign, CoseSign1, Cwt, Exi, Json, LinkFormat, OctetStream, RdfXml,
     SenMlJson, SenMlXml, SensMlCbor, SensMlExi, SensMlJson, SensMlXml, ApplicationXml,
     TextPlain, AceCbor, CoapGroupJson, MbCborSeq, Oscore, Other]"

definition request_codes :: "CoapRequestCode list" where
  "request_codes = [Get, Put, Delete, Post, Fetch, IPatch, Patch]"

definition response_codes :: "CoapResponseCode list" where
  "response_codes =
    [Content, BadGateway, Continue, Conflict, BadRequest, BadOption, Changed, Created, Deleted,
     Forbidden, GatewayTimeout, HopLimitReached, Incomplete, InternalError, NotAcceptable,
     NotAllowed, NotFound, NotImplemented, PreconditionFailed, ProxyingNotSupported,
     RequestTooLarge, ServiceUnavailable, TooManyRequests, Unauthorized, Unprocessable,
     UnsupportedContentFormat, Valid]"

definition message_types :: "CoapMessageType list" where
  "message_types = [Con, Non, Ack, Rst]"

section \<open>Option types\<close>

fun max_len :: "CoapOptionType \<Rightarrow> nat" where
  "max_len CoapOptionType.IfMatch = 8"
| "max_len CoapOptionType.UriHost = 255"
| "max_len CoapOptionType.ETag = 8"
| "max_len CoapOptionType.IfNoneMatch = 0"
| "max_len CoapOptionType.UriPort = 2"
| "max_len CoapOptionType.LocationPath = 255"
| "max_len CoapOptionType.UriPath = 255"
| "max_len CoapOptionType.ContentFormat = 2"
| "max_len CoapOptionType.MaxAge = 4"
| "max_len CoapOptionType.UriQuery = 255"
| "max_len CoapOptionType.Accept = 2"
| "max_len CoapOptionType.LocationQuery = 255"
| "max_len CoapOptionType.ProxyUri = 1034"
| "max_len CoapOptionType.ProxyScheme = 255"
| "max_len CoapOptionType.Size1 = 4"
| "max_len CoapOptionType.Size2 = 4"
| "max_len CoapOptionType.Block1 = 3"
| "max_len CoapOptionType.Block2 = 3"
| "max_len CoapOptionType.HopLimit = 1"
| "max_len CoapOptionType.NoResponse = 1"
| "max_len CoapOptionType.Observe = 3"
| "max_len CoapOptionType.Oscore = 255"
| "max_len CoapOptionType.Echo = 40"
| "max_len CoapOptionType.RTag = 8"
| "max_len CoapOptionType.QBlock1 = 3"
| "max_len CoapOptionType.QBlock2 = 3"

fun min_len :: "CoapOptionType \<Rightarrow> nat" where
  "min_len CoapOptionType.IfMatch = 0"
| "min_len CoapOptionType.UriHost = 1"
| "min_len CoapOptionType.ETag = 1"
| "min_len CoapOptionType.IfNoneMatch = 0"
| "min_len CoapOptionType.UriPort = 0"
| "min_len CoapOptionType.LocationPath = 0"
| "min_len CoapOptionType.UriPath = 0"
| "min_len CoapOptionType.ContentFormat = 0"
| "min_len CoapOptionType.MaxAge = 0"
| "min_len CoapOptionType.UriQuery = 0"
| "min_len CoapOptionType.Accept = 0"
| "min_len CoapOptionType.LocationQuery = 0"
| "min_len CoapOptionType.ProxyUri = 1"
| "min_len CoapOptionType.ProxyScheme = 1"
| "min_len CoapOptionType.Size1 = 0"
| "min_len CoapOptionType.Size2 = 0"
| "min_len CoapOptionType.Block1 = 0"
| "min_len CoapOptionType.Block2 = 0"
| "min_len CoapOptionType.HopLimit = 1"
| "min_len CoapOptionType.NoResponse = 0"
| "min_len CoapOptionType.Observe = 0"
| "min_len CoapOptionType.Oscore = 0"
| "min_len CoapOptionType.Echo = 1"
| "min_len CoapOptionType.RTag = 0"
| "min_len CoapOptionType.QBlock1 = 0"
| "min_len CoapOptionType.QBlock2 = 0"

definition to_raw_option_num :: "bindings \<Rightarrow> CoapOptionType \<Rightarrow> u16" where
  "to_raw_option_num B t = opt_num B t"

definition option_type_from_u16 :: "bindings \<Rightarrow> u16 \<Rightarrow> CoapOptionType option" where
  "option_type_from_u16 B num = from_primitive option_types (opt_num B) num"

definition option_type_try_from :: "bindings \<Rightarrow> u16 \<Rightarrow> UnknownOptionError + CoapOptionType" where
  "option_type_try_from B num = ok_or (option_type_from_u16 B num) UnknownOption"

section \<open>Content formats\<close>

text \<open>The last variant, \<^verbatim>\<open>Other\<close>, has no explicit discriminant: it is the one before it plus one.\<close>

definition content_format_disc :: "bindings \<Rightarrow> CoapContentFormat \<Rightarrow> u16" where
  "content_format_disc B f =
     (if f = Other then media_num B Oscore + 1 else media_num B f)"

definition content_format_from :: "bindings \<Rightarrow> u16 \<Rightarrow> CoapContentFormat" where
  "content_format_from B value =
     (case from_primitive content_formats (content_format_disc B) value of
        Some f \<Rightarrow> f | None \<Rightarrow> Other)"

section \<open>Message codes\<close>

text \<open>The constant each variant is declared with.\<close>

fun request_code_const :: "CoapRequestCode \<Rightarrow> coap_pdu_code_t" where
  "request_code_const CoapRequestCode.Get = COAP_REQUEST_CODE_GET"
| "request_code_const CoapRequestCode.Put = COAP_REQUEST_CODE_PUT"
| "request_code_const CoapRequestCode.Delete = COAP_REQUEST_CODE_DELETE"
| "request_code_const CoapRequestCode.Post = COAP_REQUEST_CODE_POST"
| "request_code_const CoapRequestCode.Fetch = COAP_REQUEST_CODE_FETCH"
| "request_code_const CoapRequestCode.IPatch = COAP_REQUEST_CODE_IPATCH"
| "request_code_const CoapRequestCode.Patch = COAP_REQUEST_CODE_PATCH"

fun response_code_const :: "CoapResponseCode \<Rightarrow> coap_pdu_code_t" where
  "response_code_const CoapResponseCode.Content = COAP_RESPONSE_CODE_CONTENT"
| "response_code_const CoapResponseCode.BadGateway = COAP_RESPONSE_CODE_BAD_GATEWAY"
| "response_code_const CoapResponseCode.Continue = COAP_RESPONSE_CODE_CONTINUE"
| "response_code_const CoapResponseCode.Conflict = COAP_RESPONSE_CODE_CONFLICT"
| "response_code_const CoapResponseCode.BadRequest = COAP_RESPONSE_CODE_BAD_REQUEST"
| "response_code_const CoapResponseCode.BadOption = COAP_RESPONSE_CODE_BAD_OPTION"
| "response_code_const CoapResponseCode.Changed = COAP_RESPONSE_CODE_CHANGED"
| "response_code_const CoapResponseCode.Created = COAP_RESPONSE_CODE_CREATED"
| "response_code_const CoapResponseCode.Deleted = COAP_RESPONSE_CODE_DELETED"
| "response_code_const CoapResponseCode.Forbidden = COAP_RESPONSE_CODE_FORBIDDEN"
| "response_code_const CoapResponseCode.GatewayTimeout = COAP_RESPONSE_CODE_GATEWAY_TIMEOUT"
| "response_code_const CoapResponseCode.HopLimitReached = COAP_RESPONSE_CODE_HOP_LIMIT_REACHED"
| "response_code_const CoapResponseCode.Incomplete = COAP_RESPONSE_CODE_INCOMPLETE"
| "response_code_const CoapResponseCode.InternalError = COAP_RESPONSE_CODE_INTERNAL_ERROR"
| "response_code_const CoapResponseCode.NotAcceptable = COAP_RESPONSE_CODE_NOT_ACCEPTABLE"
| "response_code_const CoapResponseCode.NotAllowed = COAP_RESPONSE_CODE_NOT_ALLOWED"
| "response_code_const CoapResponseCode.NotFound = COAP_RESPONSE_CODE_NOT_FOUND"
| "response_code_const CoapResponseCode.NotImplemented = COAP_RESPONSE_CODE_NOT_IMPLEMENTED"
| "response_code_const CoapResponseCode.PreconditionFailed = COAP_RESPONSE_CODE_PRECONDITION_FAILED"
| "response_code_const CoapResponseCode.ProxyingNotSupported = COAP_RESPONSE_CODE_PROXYING_NOT_SUPPORTED"
| "response_code_const CoapResponseCode.RequestTooLarge = COAP_RESPONSE_CODE_REQUEST_TOO_LARGE"
| "response_code_const CoapResponseCode.ServiceUnavailable = COAP_RESPONSE_CODE_SERVICE_UNAVAILABLE"
| "response_code_const CoapResponseCode.TooManyRequests = COAP_RESPONSE_CODE_TOO_MANY_REQUESTS"
| "response_code_const CoapResponseCode.Unauthorized = COAP_RESPONSE_CODE_UNAUTHORIZED"
| "response_code_const CoapResponseCode.Unprocessable = COAP_RESPONSE_CODE_UNPROCESSABLE"
| "response_code_const CoapResponseCode.UnsupportedContentFormat = COAP_RESPONSE_CODE_UNSUPPORTED_CONTENT_FORMAT"
| "response_code_const CoapResponseCode.Valid = COAP_RESPONSE_CODE_VALID"

fun request_to_raw_request :: "CoapRequestCode \<Rightarrow> coap_request_t" where
  "request_to_raw_request CoapRequestCode.Get = COAP_REQUEST_GET"
| "request_to_raw_request CoapRequestCode.Put = COAP_REQUEST_PUT"
| "request_to_raw_request CoapRequestCode.Delete = COAP_REQUEST_FETCH"
| "request_to_raw_request CoapRequestCode.Post = COAP_REQUEST_POST"
| "request_to_raw_request CoapRequestCode.Fetch = COAP_REQUEST_FETCH"
| "request_to_raw_request CoapRequestCode.IPatch = COAP_REQUEST_IPATCH"
| "request_to_raw_request CoapRequestCode.Patch = COAP_REQUEST_PATCH"

fun request_to_raw_pdu_code :: "CoapRequestCode \<Rightarrow> coap_pdu_code_t" where
  "request_to_raw_pdu_code CoapRequestCode.Get = COAP_REQUEST_CODE_GET"
| "request_to_raw_pdu_code CoapRequestCode.Put = COAP_REQUEST_CODE_PUT"
| "request_to_raw_pdu_code CoapRequestCode.Delete = COAP_REQUEST_CODE_FETCH"
| "request_to_raw_pdu_code CoapRequestCode.Post = COAP_REQUEST_CODE_POST"
| "request_to_raw_pdu_code CoapRequestCode.Fetch = COAP_REQUEST_CODE_FETCH"
| "request_to_raw_pdu_code CoapRequestCode.IPatch = COAP_REQUEST_CODE_IPATCH"
| "request_to_raw_pdu_code CoapRequestCode.Patch = COAP_REQUEST_CODE_PATCH"

fun response_to_raw_pdu_code :: "CoapResponseCode \<Rightarrow> coap_pdu_code_t" where
  "response_to_raw_pdu_code CoapResponseCode.Content = COAP_RESPONSE_CODE_CONTENT"
| "response_to_raw_pdu_code CoapResponseCode.BadGateway = COAP_RESPONSE_CODE_BAD_GATEWAY"
| "response_to_raw_pdu_code CoapResponseCode.Continue = COAP_RESPONSE_CODE_CONTINUE"
| "response_to_raw_pdu_code CoapResponseCode.Conflict = COAP_RESPONSE_CODE_CONFLICT"
| "response_to_raw_pdu_code CoapResponseCode.BadRequest = COAP_RESPONSE_CODE_BAD_REQUEST"
| "response_to_raw_pdu_code CoapResponseCode.BadOption = COAP_RESPONSE_CODE_BAD_OPTION"
| "response_to_raw_pdu_code CoapResponseCode.Changed = COAP_RESPONSE_CODE_CHANGED"
| "response_to_raw_pdu_code CoapResponseCode.Created = COAP_RESPONSE_CODE_CREATED"
| "response_to_raw_pdu_code CoapResponseCode.Deleted = COAP_RESPONSE_CODE_DELETED"
| "response_to_raw_pdu_code CoapResponseCode.Forbidden = COAP_RESPONSE_CODE_FORBIDDEN"
| "response_to_raw_pdu_code CoapResponseCode.GatewayTimeout = COAP_RESPONSE_CODE_GATEWAY_TIMEOUT"
| "response_to_raw_pdu_code CoapResponseCode.HopLimitReached = COAP_RESPONSE_CODE_HOP_LIMIT_REACHED"
| "response_to_raw_pdu_code CoapResponseCode.Incomplete = COAP_RESPONSE_CODE_INCOMPLETE"
| "response_to_raw_pdu_code CoapResponseCode.InternalError = COAP_RESPONSE_CODE_INTERNAL_ERROR"
| "response_to_raw_pdu_code CoapResponseCode.NotAcceptable = COAP_RESPONSE_CODE_NOT_ACCEPTABLE"
| "response_to_raw_pdu_code CoapResponseCode.NotAllowed = COAP_RESPONSE_CODE_NOT_ALLOWED"
| "response_to_raw_pdu_code CoapResponseCode.NotFound = COAP_RESPONSE_CODE_NOT_FOUND"
| "response_to_raw_pdu_code CoapResponseCode.NotImplemented = COAP_RESPONSE_CODE_NOT_IMPLEMENTED"
| "response_to_raw_pdu_code CoapResponseCode.PreconditionFailed = COAP_RESPONSE_CODE_PRECONDITION_FAILED"
| "response_to_raw_pdu_code CoapResponseCode.ProxyingNotSupported = COAP_RESPONSE_CODE_PROXYING_NOT_SUPPORTED"
| "response_to_raw_pdu_code CoapResponseCode.RequestTooLarge = COAP_RESPONSE_CODE_REQUEST_TOO_LARGE"
| "response_to_raw_pdu_code CoapResponseCode.ServiceUnavailable = COAP_RESPONSE_CODE_SERVICE_UNAVAILABLE"
| "response_to_raw_pdu_code CoapResponseCode.TooManyRequests = COAP_RESPONSE_CODE_TOO_MANY_REQUESTS"
| "response_to_raw_pdu_code CoapResponseCode.Unauthorized = COAP_RESPONSE_CODE_UNAUTHORIZED"
| "response_to_raw_pdu_code CoapResponseCode.Unprocessable = COAP_RESPONSE_CODE_UNPROCESSABLE"
| "response_to_raw_pdu_code CoapResponseCode.UnsupportedContentFormat = COAP_RESPONSE_CODE_UNSUPPORTED_CONTENT_FORMAT"
| "response_to_raw_pdu_code CoapResponseCode.Valid = COAP_RESPONSE_CODE_VALID"

fun to_raw_pdu_code :: "CoapMessageCode \<Rightarrow> coap_pdu_code_t" where
  "to_raw_pdu_code Empty = COAP_EMPTY_CODE"
| "to_raw_pdu_code (Request req) = request_to_raw_pdu_code req"
| "to_raw_pdu_code (Response rsp) = response_to_raw_pdu_code rsp"

fun request_code_from_raw :: "coap_request_t \<Rightarrow> CoapRequestCode run" where
  "request_code_from_raw COAP_REQUEST_GET = Ret Get"
| "request_code_from_raw COAP_REQUEST_POST = Ret Post"
| "request_code_from_raw COAP_REQUEST_PUT = Ret Put"
| "request_code_from_raw COAP_REQUEST_DELETE = Ret Delete"
| "request_code_from_raw COAP_REQUEST_FETCH = Ret Fetch"
| "request_code_from_raw COAP_REQUEST_PATCH = Ret Patch"
| "request_code_from_raw COAP_REQUEST_IPATCH = Ret IPatch"
| "request_code_from_raw (COAP_REQUEST_OTHER _) = Panic"

text \<open>The discriminants are the constants cast to \<^verbatim>\<open>u8\<close>; \<^verbatim>\<open>from_u32\<close> compares the whole number.\<close>

definition request_code_try_from ::
    "bindings \<Rightarrow> coap_pdu_code_t \<Rightarrow> MessageCodeError + CoapRequestCode" where
  "request_code_try_from B req =
     ok_or (from_primitive request_codes (\<lambda>c. code_num B (request_code_const c) mod 256)
              (code_num B req)) NotARequestCode"

definition response_code_try_from ::
    "bindings \<Rightarrow> coap_pdu_code_t \<Rightarrow> MessageCodeError + CoapResponseCode" where
  "response_code_try_from B value =
     ok_or (from_primitive response_codes (\<lambda>c. code_num B (response_code_const c) mod 256)
              (code_num B value)) NotAResponseCode"

definition message_code_try_from ::
    "bindings \<Rightarrow> coap_pdu_code_t \<Rightarrow> MessageCodeError + CoapMessageCode" where
  "message_code_try_from B code =
     (if code = COAP_EMPTY_CODE then Inr Empty
      else (case request_code_try_from B code of
              Inr c \<Rightarrow> Inr (Request c)
            | Inl _ \<Rightarrow> (case response_code_try_from B code of
                         Inr c \<Rightarrow> Inr (Response c) | Inl e \<Rightarrow> Inl e)))"

text \<open>
  \<^verbatim>\<open>coap_response_phrase\<close>, a function of libcoap, is a parameter: the phrase of a code as a C string,
  or a null pointer.
\<close>

definition response_code_fmt ::
    "bindings \<Rightarrow> (u8 \<Rightarrow> bytes option) \<Rightarrow> CoapResponseCode \<Rightarrow> rstring" where
  "response_code_fmt B coap_response_phrase c =
     (case coap_response_phrase (of_nat (code_num B (response_code_const c))) of
        None \<Rightarrow> ascii ''unknown response code''
      | Some raw_phrase \<Rightarrow>
          (case from_utf8 raw_phrase of
             Inl _ \<Rightarrow> ascii ''unable to retrieve phrase for response code''
           | Inr s \<Rightarrow> s))"

section \<open>Message types\<close>

fun to_raw_pdu_type :: "CoapMessageType \<Rightarrow> coap_pdu_type_t" where
  "to_raw_pdu_type Con = COAP_MESSAGE_CON"
| "to_raw_pdu_type Non = COAP_MESSAGE_NON"
| "to_raw_pdu_type Ack = COAP_MESSAGE_ACK"
| "to_raw_pdu_type Rst = COAP_MESSAGE_RST"

definition message_type_from :: "bindings \<Rightarrow> coap_pdu_type_t \<Rightarrow> CoapMessageType run" where
  "message_type_from B raw_type =
     expect (from_primitive message_types (\<lambda>t. type_num B (to_raw_pdu_type t) mod 256)
               (type_num B raw_type))"

section \<open>What the bindings guarantee\<close>

text \<open>
  Distinct discriminants are a rule of the Rust language for enumerations; a CoAP message code
  is one byte and the message type two bits.
\<close>

definition named_code :: "coap_pdu_code_t \<Rightarrow> bool" where
  "named_code c \<longleftrightarrow> (\<forall>n. c \<noteq> COAP_OTHER_CODE n)"

definition bindings_ok :: "bindings \<Rightarrow> bool" where
  "bindings_ok B \<longleftrightarrow>
     inj (opt_num B) \<and> inj (content_format_disc B) \<and> inj (code_num B) \<and> inj (type_num B) \<and>
     (\<forall>c. named_code c \<longrightarrow> code_num B c < 256) \<and> (\<forall>t. type_num B t < 4)"

section \<open>The registered values\<close>

text \<open>
  A concrete instance of the parameter: the numbers the CoAP standards cited in
  \<^verbatim>\<open>protocol.rs\<close> register. Members the crate does not name get the signalling codes 7.01 to 7.05
  and numbers above one byte.
\<close>

fun iana_option_num :: "CoapOptionType \<Rightarrow> u16" where
  "iana_option_num CoapOptionType.IfMatch = 1"
| "iana_option_num CoapOptionType.UriHost = 3"
| "iana_option_num CoapOptionType.ETag = 4"
| "iana_option_num CoapOptionType.IfNoneMatch = 5"
| "iana_option_num CoapOptionType.Observe = 6"
| "iana_option_num CoapOptionType.UriPort = 7"
| "iana_option_num CoapOptionType.LocationPath = 8"
| "iana_option_num CoapOptionType.Oscore = 9"
| "iana_option_num CoapOptionType.UriPath = 11"
| "iana_option_num CoapOptionType.ContentFormat = 12"
| "iana_option_num CoapOptionType.MaxAge = 14"
| "iana_option_num CoapOptionType.UriQuery = 15"
| "iana_option_num CoapOptionType.HopLimit = 16"
| "iana_option_num CoapOptionType.Accept = 17"
| "iana_option_num CoapOptionType.QBlock1 = 19"
| "iana_option_num CoapOptionType.LocationQuery = 20"
| "iana_option_num CoapOptionType.Block2 = 23"
| "iana_option_num CoapOptionType.Block1 = 27"
| "iana_option_num CoapOptionType.Size2 = 28"
| "iana_option_num CoapOptionType.QBlock2 = 31"
| "iana_option_num CoapOptionType.ProxyUri = 35"
| "iana_option_num CoapOptionType.ProxyScheme = 39"
| "iana_option_num CoapOptionType.Size1 = 60"
| "iana_option_num CoapOptionType.Echo = 252"
| "iana_option_num CoapOptionType.NoResponse = 258"
| "iana_option_num CoapOptionType.RTag = 292"

fun iana_media_num :: "CoapContentFormat \<Rightarrow> u16" where
  "iana_media_num CoapContentFormat.Cbor = 60"
| "iana_media_num CoapContentFormat.DotsCbor = 271"
| "iana_media_num CoapContentFormat.SenMlCbor = 112"
| "iana_media_num CoapContentFormat.SenMlExi = 114"
| "iana_media_num CoapContentFormat.CoseEncrypt = 96"
| "iana_media_num CoapContentFormat.CoseEncrypt0 = 16"
| "iana_media_num CoapContentFormat.CoseKey = 101"
| "iana_media_num CoapContentFormat.CoseKeySet = 102"
| "iana_media_num CoapContentFormat.CoseMac = 97"
| "iana_media_num CoapContentFormat.CoseMac0 = 17"
| "iana_media_num CoapContentFormat.CoseSign = 98"
| "iana_media_num CoapContentFormat.CoseSign1 = 18"
| "iana_media_num CoapContentFormat.Cwt = 61"
| "iana_media_num CoapContentFormat.Exi = 47"
| "iana_media_num CoapContentFormat.Json = 50"
| "iana_media_num CoapContentFormat.LinkFormat = 40"
| "iana_media_num CoapContentFormat.OctetStream = 42"
| "iana_media_num CoapContentFormat.RdfXml = 43"
| "iana_media_num CoapContentFormat.SenMlJson = 110"
| "iana_media_num CoapContentFormat.SenMlXml = 310"
| "iana_media_num CoapContentFormat.SensMlCbor = 113"
| "iana_media_num CoapContentFormat.SensMlExi = 115"
| "iana_media_num CoapContentFormat.SensMlJson = 111"
| "iana_media_num CoapContentFormat.SensMlXml = 311"
| "iana_media_num CoapContentFormat.ApplicationXml = 41"
| "iana_media_num CoapContentFormat.TextPlain = 0"
| "iana_media_num CoapContentFormat.AceCbor = 19"
| "iana_media_num CoapContentFormat.CoapGroupJson = 256"
| "iana_media_num CoapContentFormat.MbCborSeq = 272"
| "iana_media_num CoapContentFormat.Oscore = 10001"
| "iana_media_num CoapContentFormat.Other = 10002"

fun iana_code_num :: "coap_pdu_code_t \<Rightarrow> nat" where
  "iana_code_num COAP_EMPTY_CODE = 0"
| "iana_code_num COAP_REQUEST_CODE_GET = 1"
| "iana_code_num COAP_REQUEST_CODE_PUT = 3"
| "iana_code_num COAP_REQUEST_CODE_DELETE = 4"
| "iana_code_num COAP_REQUEST_CODE_POST = 2"
| "iana_code_num COAP_REQUEST_CODE_FETCH = 5"
| "iana_code_num COAP_REQUEST_CODE_IPATCH = 7"
| "iana_code_num COAP_REQUEST_CODE_PATCH = 6"
| "iana_code_num COAP_RESPONSE_CODE_CONTENT = 69"
| "iana_code_num COAP_RESPONSE_CODE_BAD_GATEWAY = 162"
| "iana_code_num COAP_RESPONSE_CODE_CONTINUE = 95"
| "iana_code_num COAP_RESPONSE_CODE_CONFLICT = 137"
| "iana_code_num COAP_RESPONSE_CODE_BAD_REQUEST = 128"
| "iana_code_num COAP_RESPONSE_CODE_BAD_OPTION = 130"
| "iana_code_num COAP_RESPONSE_CODE_CHANGED = 68"
| "iana_code_num COAP_RESPONSE_CODE_CREATED = 65"
| "iana_code_num COAP_RESPONSE_CODE_DELETED = 66"
| "iana_code_num COAP_RESPONSE_CODE_FORBIDDEN = 131"
| "iana_code_num COAP_RESPONSE_CODE_GATEWAY_TIMEOUT = 164"
| "iana_code_num COAP_RESPONSE_CODE_HOP_LIMIT_REACHED = 168"
| "iana_code_num COAP_RESPONSE_CODE_INCOMPLETE = 136"
| "iana_code_num COAP_RESPONSE_CODE_INTERNAL_ERROR = 160"
| "iana_code_num COAP_RESPONSE_CODE_NOT_ACCEPTABLE = 134"
| "iana_code_num COAP_RESPONSE_CODE_NOT_ALLOWED = 133"
| "iana_code_num COAP_RESPONSE_CODE_NOT_FOUND = 132"
| "iana_code_num COAP_RESPONSE_CODE_NOT_IMPLEMENTED = 161"
| "iana_code_num COAP_RESPONSE_CODE_PRECONDITION_FAILED = 140"
| "iana_code_num COAP_RESPONSE_CODE_PROXYING_NOT_SUPPORTED = 165"
| "iana_code_num COAP_RESPONSE_CODE_REQUEST_TOO_LARGE = 141"
| "iana_code_num COAP_RESPONSE_CODE_SERVICE_UNAVAILABLE = 163"
| "iana_code_num COAP_RESPONSE_CODE_TOO_MANY_REQUESTS = 157"
| "iana_code_num COAP_RESPONSE_CODE_UNAUTHORIZED = 129"
| "iana_code_num COAP_RESPONSE_CODE_UNPROCESSABLE = 150"
| "iana_code_num COAP_RESPONSE_CODE_UNSUPPORTED_CONTENT_FORMAT = 143"
| "iana_code_num COAP_RESPONSE_CODE_VALID = 67"
| "iana_code_num (COAP_OTHER_CODE n) = (if n < 5 then 225 + n else 256 + n)"

fun iana_type_num :: "coap_pdu_type_t \<Rightarrow> nat" where
  "iana_type_num COAP_MESSAGE_CON = 0"
| "iana_type_num COAP_MESSAGE_NON = 1"
| "iana_type_num COAP_MESSAGE_ACK = 2"
| "iana_type_num COAP_MESSAGE_RST = 3"

definition iana :: bindings where
  "iana = \<lparr>opt_num = iana_option_num, media_num = iana_media_num,
           code_num = iana_code_num, type_num = iana_type_num\<rparr>"

section \<open>Lookup by discriminant\<close>

lemma inj_if_distinct_map: "set xs = UNIV \<Longrightarrow> distinct (map f xs) \<Longrightarrow> inj f"
  by (simp add: distinct_map)

lemma set_option_types [simp]: "set option_types = UNIV"
proof -
  have "t \<in> set option_types" for t by (cases t) (simp_all add: option_types_def)
  then show ?thesis by auto
qed

lemma set_content_formats [simp]: "set content_formats = UNIV"
proof -
  have "f \<in> set content_formats" for f by (cases f) (simp_all add: content_formats_def)
  then show ?thesis by auto
qed

lemma set_request_codes [simp]: "set request_codes = UNIV"
proof -
  have "c \<in> set request_codes" for c by (cases c) (simp_all add: request_codes_def)
  then show ?thesis by auto
qed

lemma set_response_codes [simp]: "set response_codes = UNIV"
proof -
  have "c \<in> set response_codes" for c by (cases c) (simp_all add: response_codes_def)
  then show ?thesis by auto
qed

lemma set_message_types [simp]: "set message_types = UNIV"
proof -
  have "t \<in> set message_types" for t by (cases t) (simp_all add: message_types_def)
  then show ?thesis by auto
qed

lemma from_primitive_eq_Some:
  assumes "inj disc" and "set variants = UNIV"
  shows "from_primitive variants disc n = Some v \<longleftrightarrow> disc v = n"
proof
  assume "disc v = n"
  moreover have "find (\<lambda>u. disc u = disc v) variants \<noteq> None"
    using assms(2) by (auto simp: find_None_iff)
  ultimately show "from_primitive variants disc n = Some v"
    using assms(1) by (auto simp: from_primitive_def find_Some_iff dest: injD)
qed (auto simp: from_primitive_def find_Some_iff)

lemma from_primitive_eq_None:
  "from_primitive variants disc n = None \<longleftrightarrow> (\<forall>v \<in> set variants. disc v \<noteq> n)"
  by (auto simp: from_primitive_def find_None_iff)

lemma option_type_from_u16_iff:
  "bindings_ok B \<Longrightarrow> option_type_from_u16 B num = Some t \<longleftrightarrow> opt_num B t = num"
  by (simp add: bindings_ok_def option_type_from_u16_def from_primitive_eq_Some)

lemma option_type_from_u16_num [simp]:
  "bindings_ok B \<Longrightarrow> option_type_from_u16 B (opt_num B t) = Some t"
  by (simp add: option_type_from_u16_iff)

lemma option_type_from_u16_None:
  "option_type_from_u16 B num = None \<longleftrightarrow> num \<notin> range (opt_num B)"
  by (auto simp: option_type_from_u16_def from_primitive_eq_None)

section \<open>Conversions of codes and types\<close>

lemma named_code_const [simp]:
  "named_code (request_code_const c)"
  "named_code (response_code_const r)"
  by (cases c; simp add: named_code_def) (cases r; simp add: named_code_def)

lemma inj_request_code_const: "inj request_code_const"
  by (rule inj_if_distinct_map[OF set_request_codes]) (simp add: request_codes_def)

lemma inj_response_code_const: "inj response_code_const"
  by (rule inj_if_distinct_map[OF set_response_codes]) (simp add: response_codes_def)

lemma request_neq_response_const [simp]: "request_code_const c \<noteq> response_code_const r"
  by (cases c) (cases r; simp)+

lemma response_to_raw_const [simp]: "response_to_raw_pdu_code r = response_code_const r"
  by (cases r) simp_all

lemma request_to_raw_const:
  "request_to_raw_pdu_code c = request_code_const (if c = Delete then Fetch else c)"
  by (cases c) simp_all

lemma bindings_ok_code:
  assumes "bindings_ok B"
  shows "inj (\<lambda>c. code_num B (request_code_const c))"
    and "inj (\<lambda>c. code_num B (response_code_const c))"
    and "code_num B c = code_num B d \<longleftrightarrow> c = d"
    and "named_code c \<Longrightarrow> code_num B c < 256"
  using assms injD[OF inj_request_code_const] injD[OF inj_response_code_const]
  by (auto simp: bindings_ok_def inj_def)

lemma code_num_const_mod [simp]:
  "bindings_ok B \<Longrightarrow> code_num B (request_code_const c) mod 256 = code_num B (request_code_const c)"
  "bindings_ok B \<Longrightarrow> code_num B (response_code_const r) mod 256 = code_num B (response_code_const r)"
  by (simp_all add: bindings_ok_code(4))

lemma request_code_try_from_const [simp]:
  "bindings_ok B \<Longrightarrow> request_code_try_from B (request_code_const c) = Inr c"
  by (simp add: request_code_try_from_def ok_or_eq_Inr from_primitive_eq_Some bindings_ok_code)

lemma request_code_try_from_response [simp]:
  assumes "bindings_ok B"
  shows "request_code_try_from B (response_code_const r) = Inl NotARequestCode"
proof -
  have "from_primitive request_codes (\<lambda>c. code_num B (request_code_const c) mod 256)
      (code_num B (response_code_const r)) = None"
    using assms by (simp add: from_primitive_eq_None bindings_ok_code)
  then show ?thesis by (simp add: request_code_try_from_def)
qed

lemma response_code_try_from_const [simp]:
  "bindings_ok B \<Longrightarrow> response_code_try_from B (response_code_const r) = Inr r"
  by (simp add: response_code_try_from_def ok_or_eq_Inr from_primitive_eq_Some bindings_ok_code)

lemma code_const_not_empty [simp]:
  "request_code_const c \<noteq> COAP_EMPTY_CODE" "response_code_const r \<noteq> COAP_EMPTY_CODE"
  by (cases c; simp) (cases r; simp)

text \<open>What a message code becomes when it is sent and parsed again.\<close>

fun wire_code :: "CoapMessageCode \<Rightarrow> CoapMessageCode" where
  "wire_code (Request Delete) = Request Fetch"
| "wire_code c = c"

lemma message_code_wire:
  assumes "bindings_ok B"
  shows "message_code_try_from B (to_raw_pdu_code c) = Inr (wire_code c)"
proof (cases c)
  case (Request r)
  with assms show ?thesis
    by (cases r) (simp_all add: message_code_try_from_def request_to_raw_const del: request_code_const.simps
        request_to_raw_pdu_code.simps)
qed (use assms in \<open>simp_all add: message_code_try_from_def\<close>)

lemma inj_to_raw_pdu_type: "to_raw_pdu_type t = to_raw_pdu_type u \<longleftrightarrow> t = u"
  by (cases t; cases u; simp)

lemma message_type_wire [simp]:
  assumes "bindings_ok B"
  shows "message_type_from B (to_raw_pdu_type t) = Ret t"
proof -
  have small: "type_num B x mod 256 = type_num B x" for x
    using assms by (simp add: bindings_ok_def order_less_trans[of _ 4 256])
  have "inj (\<lambda>t. type_num B (to_raw_pdu_type t))"
    using assms by (simp add: inj_def bindings_ok_def) (metis inj_to_raw_pdu_type)
  then show ?thesis
    by (simp add: message_type_from_def small expect_eq_Ret from_primitive_eq_Some)
qed

section \<open>The registered values satisfy the assumptions\<close>

lemma iana_named: "named_code c \<Longrightarrow> iana_code_num c < 225"
  by (cases c) (auto simp: named_code_def)

lemma inj_iana_code_num: "inj iana_code_num"
proof (rule injI)
  fix x y assume eq: "iana_code_num x = iana_code_num y"
  show "x = y"
  proof (cases "named_code x \<and> named_code y")
    case True
    let ?named = "COAP_EMPTY_CODE # map request_code_const request_codes @
        map response_code_const response_codes"
    have mem: "z \<in> set ?named" if "named_code z" for z
      using that by (cases z) (simp_all add: named_code_def request_codes_def response_codes_def)
    have "inj_on iana_code_num (set ?named)"
      by (rule iffD1[OF distinct_map, THEN conjunct2])
         (simp add: request_codes_def response_codes_def)
    with True eq mem show ?thesis by (blast dest: inj_onD)
  next
    case False
    then obtain n where "x = COAP_OTHER_CODE n \<or> y = COAP_OTHER_CODE n"
      by (auto simp: named_code_def)
    with eq iana_named[of x] iana_named[of y] show ?thesis
      by (cases "named_code x"; cases "named_code y") (auto simp: named_code_def split: if_splits)
  qed
qed

lemma bindings_ok_iana [simp]: "bindings_ok iana"
proof -
  have "inj iana_option_num"
    by (rule inj_if_distinct_map[OF set_option_types]) (simp add: option_types_def)
  moreover have "inj (content_format_disc iana)"
    by (rule inj_if_distinct_map[OF set_content_formats])
       (simp add: content_formats_def content_format_disc_def iana_def)
  moreover have "inj iana_type_num"
    by (rule injI) (case_tac x; case_tac y; simp)
  moreover have "iana_type_num t < 4" for t by (cases t) simp_all
  ultimately show ?thesis
    using inj_iana_code_num iana_named by (fastforce simp: bindings_ok_def iana_def)
qed

lemma iana_num: "opt_num iana = iana_option_num"
  by (simp add: iana_def)

lemma known_iana: "option_type_from_u16 iana (opt_num iana t) = Some t"
  by (simp add: option_type_from_u16_num)

section \<open>Properties\<close>

text \<open>
  Option numbers. \<^verbatim>\<open>CoapOptionType::try_from\<close> and \<^verbatim>\<open>to_raw_option_num\<close> are inverse to each
  other: a number is recognised as a type exactly when it is that type's number, and every other
  number is rejected.
\<close>

theorem option_type_numbers:
  assumes "bindings_ok B"
  shows "(option_type_try_from B num = Inr t \<longleftrightarrow> to_raw_option_num B t = num) \<and>
    (option_type_try_from B num = Inl UnknownOption \<longleftrightarrow> num \<notin> range (to_raw_option_num B))"
proof -
  have "to_raw_option_num B = opt_num B" by (simp add: fun_eq_iff to_raw_option_num_def)
  moreover have "option_type_try_from B num = Inl UnknownOption \<longleftrightarrow> option_type_from_u16 B num = None"
    by (cases "option_type_from_u16 B num") (simp_all add: option_type_try_from_def)
  ultimately show ?thesis
    using assms
    by (simp add: option_type_try_from_def ok_or_eq_Inr option_type_from_u16_iff option_type_from_u16_None)
qed

text \<open>A code the crate names is the code of the empty message, of a request or of a response.\<close>

lemma named_code_cases:
  assumes "named_code code"
  obtains "code = COAP_EMPTY_CODE" | c where "code = request_code_const c"
    | r where "code = response_code_const r"
proof -
  have "code \<in> set (COAP_EMPTY_CODE # map request_code_const request_codes @
      map response_code_const response_codes)"
    using assms by (cases code) (simp_all add: named_code_def request_codes_def response_codes_def)
  then show thesis using that by auto
qed

lemma unnamed_code_rejected:
  assumes "bindings_ok B" and "\<not> named_code code"
  shows "message_code_try_from B code = Inl NotAResponseCode"
proof -
  have "code \<noteq> COAP_EMPTY_CODE" using assms(2) by (auto simp: named_code_def)
  moreover have "code_num B (request_code_const c) \<noteq> code_num B code"
    and "code_num B (response_code_const r) \<noteq> code_num B code" for c r
    using assms named_code_const by (auto simp: bindings_ok_code)
  ultimately show ?thesis
    using assms(1)
    by (simp add: message_code_try_from_def request_code_try_from_def response_code_try_from_def
        from_primitive_eq_None[THEN iffD2])
qed

lemma message_code_named:
  assumes "bindings_ok B"
  shows "named_code code \<longleftrightarrow> (\<exists>c. message_code_try_from B code = Inr c)"
proof
  assume "named_code code"
  then show "\<exists>c. message_code_try_from B code = Inr c"
    using assms by (cases rule: named_code_cases) (simp_all add: message_code_try_from_def)
next
  assume "\<exists>c. message_code_try_from B code = Inr c"
  then show "named_code code" using unnamed_code_rejected[OF assms] by force
qed

lemma message_type_total:
  assumes "bindings_ok B"
  shows "\<exists>u. message_type_from B raw = Ret u \<and> to_raw_pdu_type u = raw"
proof -
  obtain u where "to_raw_pdu_type u = raw" by (cases raw) (metis to_raw_pdu_type.simps)+
  with assms show ?thesis by (metis message_type_wire)
qed

text \<open>
  C35: message codes. A message code written with \<^verbatim>\<open>to_raw_pdu_code\<close> is always recognised by
  \<^verbatim>\<open>CoapMessageCode::try_from\<close>, and read back as it was unless it is the request code Delete, which
  is written as Fetch.
\<close>

theorem message_code_roundtrip:
  assumes "bindings_ok B"
  shows "message_code_try_from B (to_raw_pdu_code c) =
           Inr (if c = Request Delete then Request Fetch else c)"
  using message_code_wire[OF assms, of c] by (cases c rule: wire_code.cases) simp_all

theorem message_code_roundtrip_witness:
  "message_code_try_from iana (to_raw_pdu_code (Request Delete)) = Inr (Request Fetch) \<and>
   message_code_try_from iana (to_raw_pdu_code (Response NotFound)) = Inr (Response NotFound)"
  using message_code_roundtrip[OF bindings_ok_iana, of "Request Delete"]
    message_code_roundtrip[OF bindings_ok_iana, of "Response NotFound"] by simp

text \<open>
  \<^verbatim>\<open>CoapMessageCode::try_from\<close> accepts exactly the codes the crate names, each as the variant
  declared with that code; on any other code, such as a signalling code, it returns
  \<^verbatim>\<open>NotAResponseCode\<close>.
\<close>

theorem message_code_decided:
  assumes "bindings_ok B"
  shows "message_code_try_from B COAP_EMPTY_CODE = Inr Empty \<and>
    (\<forall>c. message_code_try_from B (request_code_const c) = Inr (Request c)) \<and>
    (\<forall>r. message_code_try_from B (response_code_const r) = Inr (Response r)) \<and>
    (\<forall>code. message_code_try_from B code = Inl NotAResponseCode \<longleftrightarrow> \<not> named_code code)"
proof -
  have empty: "message_code_try_from B COAP_EMPTY_CODE = Inr Empty"
    by (simp add: message_code_try_from_def)
  have req: "message_code_try_from B (request_code_const c) = Inr (Request c)" for c
    using assms by (simp add: message_code_try_from_def)
  have rsp: "message_code_try_from B (response_code_const r) = Inr (Response r)" for r
    using assms by (simp add: message_code_try_from_def)
  have "message_code_try_from B code \<noteq> Inl NotAResponseCode" if "named_code code" for code
    using that by (cases rule: named_code_cases) (simp_all add: empty req rsp)
  with unnamed_code_rejected[OF assms] empty req rsp show ?thesis by blast
qed

text \<open>
  Message types. Converting a message type to its raw value and back gives the type again,
  and the conversion from a raw type, which unwraps, never panics on the four values of the
  protocol.
\<close>

theorem message_type_roundtrip:
  assumes "bindings_ok B"
  shows "message_type_from B (to_raw_pdu_type t) = Ret t \<and>
    (\<exists>u. message_type_from B raw = Ret u \<and> to_raw_pdu_type u = raw)"
  using message_type_wire[OF assms] message_type_total[OF assms] by blast

end
