(* ===== verification/Coap_Error.thy ===== *)
theory Coap_Error
  imports Protocol
begin

text \<open>
  The error types of \<^verbatim>\<open>libcoap/src/error.rs\<close>, one datatype per enumeration with the source's
  variants (suffixed where a variant name is shared), and its two error conversions.
\<close>

datatype EndpointCreationError = EndpointUnknown

datatype ContextConfigurationError = ContextUnknown | CryptoContextAlreadySet

datatype IoProcessError = IoUnknown

datatype SessionGetAppDataError = WrongType

datatype SessionCreationError = SessionUnknown

datatype RngError = RngUnknown | GlobalMutexPoisonError

text \<open>\<^verbatim>\<open>NulError\<close> carries the position of the null byte and the rejected bytes.\<close>

datatype UriParsingError = UriUnknown | NotACoapScheme rstring | ContainsNullByte nat bytes

datatype OptionValueError =
  TooShort | TooLong | StringConversion bytes | UriParsing UriParsingError | IllegalValue

datatype MessageConversionError =
    InvalidOptionValue "CoapOptionType option" OptionValueError
  | InvalidOptionForMessageType CoapOptionType
  | NonRepeatableOptionRepeated CoapOptionType
  | NotACoapUri UriParsingError
  | InvalidMessageCode MessageCodeError
  | DataInEmptyMessage
  | MissingToken
  | MissingMessageId
  | InvalidOptionCombination CoapOptionType CoapOptionType
  | CriticalOptionUnrecognized
  | MessageUnknown

datatype MessageTypeError = InvalidForMessageCode CoapMessageType

text \<open>\<^verbatim>\<open>From<PoisonError<T>> for RngError\<close> and \<^verbatim>\<open>From<UriParsingError> for MessageConversionError\<close>.\<close>

definition rng_error_from_poison :: "'t \<Rightarrow> RngError" where
  "rng_error_from_poison value = GlobalMutexPoisonError"

definition conversion_error_from_uri :: "UriParsingError \<Rightarrow> MessageConversionError" where
  "conversion_error_from_uri v = NotACoapUri v"

end
