(* ===== verification/Var_Int.thy ===== *)
theory Var_Int
  imports Coap_Prelude
begin

text \<open>
  Variable-length unsigned integers (\<^verbatim>\<open>libcoap/src/types.rs\<close>, the functions at its end): CoAP
  option values of type uint are big-endian byte strings without leading zeros. The theory models
  \<^verbatim>\<open>convert_to_fixed_size_slice\<close>, \<^verbatim>\<open>encode_var_len_*\<close> and \<^verbatim>\<open>decode_var_len_*\<close> and shows that
  encoding is minimal, that decoding inverts it, and what decoding does on every input.
\<close>

section \<open>Standard library operations\<close>

text \<open>\<^verbatim>\<open>uN::to_be_bytes\<close>, \<^verbatim>\<open>uN::from_be_bytes\<close> and \<^verbatim>\<open>uN::leading_zeros\<close>.\<close>

fun be_digits :: "nat \<Rightarrow> nat \<Rightarrow> bytes" where
  "be_digits 0 v = []"
| "be_digits (Suc n) v = word_of_nat (v div 256 ^ n) # be_digits n v"

definition be_val :: "bytes \<Rightarrow> nat" where
  "be_val bs = foldl (\<lambda>a b. a * 256 + unat b) 0 bs"

definition to_be_bytes :: "'a::len word \<Rightarrow> bytes" where
  "to_be_bytes w = be_digits (LENGTH('a) div 8) (unat w)"

definition from_be_bytes :: "bytes \<Rightarrow> 'a::len word" where
  "from_be_bytes bs = word_of_nat (be_val bs)"

definition leading_zeros :: "'a::len word \<Rightarrow> nat" where
  "leading_zeros w = length (takeWhile (\<lambda>i. \<not> bit w i) (rev [0..<LENGTH('a)]))"

section \<open>The functions of types.rs\<close>

definition convert_to_fixed_size_slice :: "nat \<Rightarrow> bytes \<Rightarrow> bytes run" where
  "convert_to_fixed_size_slice n val =
     (if length val > n then Panic
      else Ret (take n (take (n - length val) (replicate n 0) @ val)))"

text \<open>
  \<^verbatim>\<open>slice[..n].try_into().expect(..)\<close> for an array of \<open>m\<close> bytes: slicing panics when the slice
  is shorter than \<open>n\<close>, the conversion fails (and \<^verbatim>\<open>expect\<close> panics) unless the lengths agree.
\<close>

definition slice_into_array :: "nat \<Rightarrow> nat \<Rightarrow> bytes \<Rightarrow> bytes run" where
  "slice_into_array n m bs =
     (if length bs < n then Panic else if length (take n bs) = m then Ret (take n bs) else Panic)"

definition decode_var_len_u32 :: "bytes \<Rightarrow> u32 run" where
  "decode_var_len_u32 val =
     run_bind (convert_to_fixed_size_slice 4 val)
       (\<lambda>b. run_map from_be_bytes (slice_into_array 4 4 b))"

definition encode_var_len_u32 :: "u32 \<Rightarrow> bytes" where
  "encode_var_len_u32 val = drop (leading_zeros val div 8) (to_be_bytes val)"

definition decode_var_len_u64 :: "bytes \<Rightarrow> u64 run" where
  "decode_var_len_u64 val =
     run_bind (convert_to_fixed_size_slice 8 val)
       (\<lambda>b. run_map from_be_bytes (slice_into_array 8 8 b))"

definition encode_var_len_u64 :: "u64 \<Rightarrow> bytes" where
  "encode_var_len_u64 val = drop (leading_zeros val div 8) (to_be_bytes val)"

definition decode_var_len_u16 :: "bytes \<Rightarrow> u16 run" where
  "decode_var_len_u16 val =
     run_bind (convert_to_fixed_size_slice 2 val)
       (\<lambda>b. run_map from_be_bytes (slice_into_array 2 2 b))"

definition encode_var_len_u16 :: "u16 \<Rightarrow> bytes" where
  "encode_var_len_u16 val = drop (leading_zeros val div 8) (to_be_bytes val)"

text \<open>The result type of \<^verbatim>\<open>decode_var_len_u8\<close> is \<^verbatim>\<open>u16\<close>, so the array it converts to has two bytes.\<close>

definition decode_var_len_u8 :: "bytes \<Rightarrow> u16 run" where
  "decode_var_len_u8 val =
     run_bind (convert_to_fixed_size_slice 1 val)
       (\<lambda>b. run_map from_be_bytes (slice_into_array 1 2 b))"

definition encode_var_len_u8 :: "u8 \<Rightarrow> bytes" where
  "encode_var_len_u8 val = [val]"

section \<open>Big-endian digits\<close>

lemma length_be_digits [simp]: "length (be_digits n v) = n"
  by (induction n) simp_all

lemma be_val_Nil [simp]: "be_val [] = 0"
  by (simp add: be_val_def)

lemma be_val_foldl: "foldl (\<lambda>a b. a * 256 + unat b) acc bs = acc * 256 ^ length bs + be_val bs"
proof (induction bs arbitrary: acc)
  case (Cons b bs)
  show ?case
    using Cons[of "acc * 256 + unat b"] Cons[of "unat b"]
    by (simp add: be_val_def algebra_simps)
qed (simp add: be_val_def)

lemma be_val_Cons: "be_val (b # bs) = unat b * 256 ^ length bs + be_val bs"
  using be_val_foldl[of "unat b" bs] by (simp add: be_val_def)

lemma be_val_replicate0 [simp]: "be_val (replicate n 0 @ bs) = be_val bs"
  by (induction n) (simp_all add: be_val_Cons)

lemma be_val_less: "be_val bs < 256 ^ length bs"
proof (induction bs)
  case (Cons b bs)
  have "unat b < 256" using unsigned_less[of b] by simp
  then have "unat b * 256 ^ length bs + 256 ^ length bs \<le> 256 * 256 ^ length bs"
    using mult_le_mono1[of "Suc (unat b)" 256 "256 ^ length bs"] by (simp add: add.commute)
  with Cons have "be_val (b # bs) < 256 * 256 ^ length bs"
    unfolding be_val_Cons by linarith
  then show ?case by simp
qed simp

lemma be_val_digits: "be_val (be_digits n v) = v mod 256 ^ n"
proof (induction n)
  case (Suc n)
  have "unat (word_of_nat (v div 256 ^ n) :: u8) = v div 256 ^ n mod 256"
    by (simp add: unat_of_nat)
  moreover have "v mod 256 ^ Suc n = v div 256 ^ n mod 256 * 256 ^ n + v mod 256 ^ n"
    by (metis mod_mult2_eq mult.commute power_Suc2 add.commute)
  ultimately show ?case using Suc by (simp add: be_val_Cons)
qed simp

lemma be_digits_val: "be_digits (length bs) (be_val bs) = bs"
proof (induction bs)
  case (Cons b bs)
  have div: "be_val (b # bs) div 256 ^ length bs = unat b"
    by (simp add: be_val_Cons be_val_less)
  have "be_digits n (w + k * 256 ^ n) = be_digits n w" for n w k
  proof (induction n arbitrary: k)
    case (Suc n)
    have "(w + k * 256 ^ Suc n) div 256 ^ n = w div 256 ^ n + k * 256"
      using div_mult_self1[of "256 ^ n" w "k * 256"] by (simp add: mult.assoc add.commute)
    moreover have "(word_of_nat (w div 256 ^ n + k * 256) :: u8) = word_of_nat (w div 256 ^ n)"
      by (simp only: word_of_nat_eq_iff take_bit_eq_mod) simp
    moreover have "be_digits n (w + k * 256 ^ Suc n) = be_digits n w"
      using Suc.IH[of "k * 256"] by (simp add: ac_simps)
    ultimately show ?case by simp
  qed simp
  then have "be_digits (length bs) (be_val (b # bs)) = bs"
    using Cons by (simp add: be_val_Cons add.commute)
  with div show ?case by simp
qed simp

text \<open>Dropping the leading digits of a small value.\<close>

lemma drop_be_digits:
  "j \<le> n \<Longrightarrow> v < 256 ^ (n - j) \<Longrightarrow> be_digits n v = replicate j 0 @ be_digits (n - j) v"
proof (induction n arbitrary: j)
  case (Suc n)
  show ?case
  proof (cases j)
    case (Suc i)
    with Suc.prems have "v < 256 ^ n"
      using less_le_trans[of v "256 ^ (n - i)" "256 ^ n"] by (simp add: power_increasing)
    then have "v div 256 ^ n = 0" by simp
    with Suc Suc.IH[of i] Suc.prems show ?thesis by simp
  qed simp
qed simp

lemma hd_be_digits_nonzero:
  assumes "256 ^ n \<le> v" and "v < 256 ^ Suc n"
  shows "(word_of_nat (v div 256 ^ n) :: u8) \<noteq> 0"
proof -
  have "v div 256 ^ n < 256" using assms(2) by (simp add: less_mult_imp_div_less)
  moreover have "0 < v div 256 ^ n" using assms(1) by (simp add: div_greater_zero_iff)
  ultimately show ?thesis by (simp add: word_of_nat_eq_0_iff nat_dvd_not_less)
qed

section \<open>Leading zeros\<close>

lemma takeWhile_rev_upt:
  "k \<le> length (takeWhile P (rev [0..<n])) \<longleftrightarrow> k \<le> n \<and> (\<forall>i. n - k \<le> i \<and> i < n \<longrightarrow> P i)"
proof (induction n arbitrary: k)
  case (Suc n)
  show ?case
  proof (cases k)
    case (Suc j)
    have "(\<forall>i. Suc n - Suc j \<le> i \<and> i < Suc n \<longrightarrow> P i) \<longleftrightarrow>
        P n \<and> (\<forall>i. n - j \<le> i \<and> i < n \<longrightarrow> P i)" if "j \<le> n"
      using that by (auto simp: less_Suc_eq)
    with Suc Suc.IH[of j] show ?thesis by auto
  qed auto
qed simp

lemma leading_zeros_iff:
  fixes w :: "'a::len word"
  shows "k \<le> leading_zeros w \<longleftrightarrow> k \<le> LENGTH('a) \<and> unat w < 2 ^ (LENGTH('a) - k)"
proof -
  have "(\<forall>i. LENGTH('a) - k \<le> i \<and> i < LENGTH('a) \<longrightarrow> \<not> bit w i) \<longleftrightarrow>
      take_bit (LENGTH('a) - k) w = w"
    by (simp only: bit_eq_iff [of "take_bit (LENGTH('a) - k) w"] bit_take_bit_iff
          possible_bit_word) (meson not_le)
  also have "\<dots> \<longleftrightarrow> take_bit (LENGTH('a) - k) (unat w) = unat w"
    by (metis unsigned_take_bit_eq unsigned_word_eqI)
  finally show ?thesis
    by (simp add: leading_zeros_def takeWhile_rev_upt take_bit_nat_eq_self_iff)
qed

section \<open>Encoding is minimal\<close>

lemma encode_drop_eq:
  fixes w :: "'a::len word"
  assumes len: "LENGTH('a) = 8 * n"
  shows "drop (leading_zeros w div 8) (to_be_bytes w) = dropWhile (\<lambda>b. b = 0) (to_be_bytes w)"
proof -
  define j where "j = leading_zeros w div 8"
  have pow: "(2::nat) ^ (8 * m) = 256 ^ m" for m by (simp add: power_mult)
  have "8 * j \<le> leading_zeros w" by (simp add: j_def)
  then have "8 * j \<le> 8 * n" and "unat w < 2 ^ (8 * n - 8 * j)"
    unfolding leading_zeros_iff len by simp_all
  then have j: "j \<le> n" and small: "unat w < 256 ^ (n - j)"
    using pow[of "n - j"] by (simp_all add: diff_mult_distrib2)
  have split: "to_be_bytes w = replicate j 0 @ be_digits (n - j) (unat w)"
    using drop_be_digits[OF j small] by (simp add: to_be_bytes_def len)
  have "dropWhile (\<lambda>b. b = 0) (be_digits (n - j) (unat w)) = be_digits (n - j) (unat w)"
  proof (cases "n - j")
    case (Suc m)
    have "\<not> 8 * Suc j \<le> leading_zeros w" by (simp add: j_def)
    moreover have "8 * n - 8 * Suc j = 8 * m" and "8 * Suc j \<le> 8 * n" using Suc by simp_all
    ultimately have "256 ^ m \<le> unat w"
      unfolding leading_zeros_iff len using pow[of m] by simp
    with small Suc hd_be_digits_nonzero[of m "unat w"] show ?thesis by simp
  qed simp
  then have "dropWhile (\<lambda>b. b = 0) (to_be_bytes w) = be_digits (n - j) (unat w)"
    unfolding split by (subst dropWhile_append2) simp_all
  then show ?thesis unfolding j_def[symmetric] split by simp
qed

text \<open>The abstract specification of an encoded uint: its big-endian bytes, leading zeros removed.\<close>

definition strip_zeros :: "bytes \<Rightarrow> bytes" where
  "strip_zeros bs = dropWhile (\<lambda>b. b = 0) bs"

lemma encode_var_len_eq:
  "encode_var_len_u16 a = strip_zeros (to_be_bytes a)"
  "encode_var_len_u32 b = strip_zeros (to_be_bytes b)"
  "encode_var_len_u64 c = strip_zeros (to_be_bytes c)"
  using encode_drop_eq[of 2 a] encode_drop_eq[of 4 b] encode_drop_eq[of 8 c]
  by (simp_all add: encode_var_len_u16_def encode_var_len_u32_def encode_var_len_u64_def
      strip_zeros_def)

lemma length_to_be_bytes [simp]: "length (to_be_bytes (w :: 'a::len word)) = LENGTH('a) div 8"
  by (simp add: to_be_bytes_def)

lemma length_strip_zeros: "length (strip_zeros bs) \<le> length bs"
  by (simp add: strip_zeros_def length_dropWhile_le)

lemma encode_length_bounds:
  "length (encode_var_len_u16 a) \<le> 2"
  "length (encode_var_len_u32 b) \<le> 4"
  "length (encode_var_len_u64 c) \<le> 8"
  by (simp_all add: encode_var_len_u16_def encode_var_len_u32_def encode_var_len_u64_def)

lemma strip_zeros_split: "bs = replicate (length bs - length (strip_zeros bs)) 0 @ strip_zeros bs"
proof (induction bs)
  case (Cons b bs)
  show ?case
  proof (cases "b = 0")
    case True
    with Cons length_strip_zeros[of bs] show ?thesis
      by (simp add: strip_zeros_def Suc_diff_le)
  qed (simp add: strip_zeros_def)
qed (simp add: strip_zeros_def)

lemma be_val_strip_zeros [simp]: "be_val (strip_zeros bs) = be_val bs"
  using be_val_replicate0 strip_zeros_split by metis

section \<open>Decoding\<close>

lemma convert_to_fixed_size_slice_eq [run_simps]:
  "convert_to_fixed_size_slice n val =
     (if n < length val then Panic else Ret (replicate (n - length val) 0 @ val))"
  by (simp add: convert_to_fixed_size_slice_def)

lemma slice_into_array_exact [simp]: "length bs = n \<Longrightarrow> slice_into_array n n bs = Ret bs"
  by (simp add: slice_into_array_def)

lemma decode_var_len_eq [run_simps]:
  "decode_var_len_u16 bs = (if length bs \<le> 2 then Ret (word_of_nat (be_val bs)) else Panic)"
  "decode_var_len_u32 bs = (if length bs \<le> 4 then Ret (word_of_nat (be_val bs)) else Panic)"
  "decode_var_len_u64 bs = (if length bs \<le> 8 then Ret (word_of_nat (be_val bs)) else Panic)"
  by (simp_all add: decode_var_len_u16_def decode_var_len_u32_def decode_var_len_u64_def
      convert_to_fixed_size_slice_eq from_be_bytes_def)

lemma be_val_to_be_bytes:
  fixes w :: "'a::len word"
  assumes "LENGTH('a) = 8 * n"
  shows "be_val (to_be_bytes w) = unat w"
proof -
  have "unat w < 256 ^ n" using unsigned_less[of w] assms by (simp add: power_mult)
  with assms show ?thesis by (simp add: to_be_bytes_def be_val_digits)
qed

lemma strip_zeros_pad [simp]: "strip_zeros (replicate k 0 @ bs) = strip_zeros bs"
  unfolding strip_zeros_def by (subst dropWhile_append2) simp_all

lemma to_be_bytes_of_val:
  assumes "LENGTH('a::len) = 8 * n" and "length bs \<le> n"
  shows "to_be_bytes (word_of_nat (be_val bs) :: 'a word) = replicate (n - length bs) 0 @ bs"
proof -
  let ?p = "replicate (n - length bs) 0 @ bs"
  have len: "length ?p = n" using assms(2) by simp
  have "be_val bs < 256 ^ n" using be_val_less[of ?p] len by simp
  then have "unat (word_of_nat (be_val bs) :: 'a word) = be_val bs"
    using assms(1) by (simp add: unat_of_nat power_mult)
  then show ?thesis
    using be_digits_val[of ?p] len assms(1) by (simp add: to_be_bytes_def)
qed

lemma decode_encode_var_len [simp, run_simps]:
  "decode_var_len_u16 (encode_var_len_u16 a) = Ret a"
  "decode_var_len_u32 (encode_var_len_u32 b) = Ret b"
  "decode_var_len_u64 (encode_var_len_u64 c) = Ret c"
  using encode_length_bounds be_val_to_be_bytes[of 2 a] be_val_to_be_bytes[of 4 b]
    be_val_to_be_bytes[of 8 c]
  by (simp_all add: decode_var_len_eq encode_var_len_eq)

lemma encode_of_val:
  "length bs \<le> 2 \<Longrightarrow> encode_var_len_u16 (word_of_nat (be_val bs)) = strip_zeros bs"
  "length bs \<le> 4 \<Longrightarrow> encode_var_len_u32 (word_of_nat (be_val bs)) = strip_zeros bs"
  "length bs \<le> 8 \<Longrightarrow> encode_var_len_u64 (word_of_nat (be_val bs)) = strip_zeros bs"
  using to_be_bytes_of_val[where 'a = 16, of 2 bs] to_be_bytes_of_val[where 'a = 32, of 4 bs]
    to_be_bytes_of_val[where 'a = 64, of 8 bs]
  by (simp_all add: encode_var_len_eq)

lemma encode_length_of_val:
  assumes "unat b < 256 ^ k" and "k \<le> 4"
  shows "length (encode_var_len_u32 b) \<le> k"
proof -
  have "be_digits 4 (unat b) = replicate (4 - k) 0 @ be_digits k (unat b)"
    using drop_be_digits[of "4 - k" 4 "unat b"] assms by simp
  then have "encode_var_len_u32 b = strip_zeros (be_digits k (unat b))"
    by (simp add: encode_var_len_eq to_be_bytes_def)
  then show ?thesis using length_strip_zeros[of "be_digits k (unat b)"] by simp
qed

section \<open>The codec interface\<close>

text \<open>
  What the option component relies on: an encoder into at most \<open>width\<close> bytes and a decoder that
  inverts it, accepts leading zeros and panics on longer inputs.
\<close>

locale var_int_codec =
  fixes enc :: "'v \<Rightarrow> bytes" and dec :: "bytes \<Rightarrow> 'v run" and width :: nat
  assumes dec_enc: "dec (enc v) = Ret v"
    and enc_len: "length (enc v) \<le> width"
    and dec_fits: "length bs \<le> width \<Longrightarrow> \<exists>v. dec bs = Ret v \<and> enc v = strip_zeros bs"
    and dec_long: "width < length bs \<Longrightarrow> dec bs = Panic"
begin

lemma enc_inject: "enc v = enc w \<longleftrightarrow> v = w"
  by (metis dec_enc run.inject)

lemma dec_iff: "dec bs = Ret v \<longleftrightarrow> length bs \<le> width \<and> enc v = strip_zeros bs"
proof
  assume dec: "dec bs = Ret v"
  then have "length bs \<le> width" using dec_long by (cases "length bs \<le> width") auto
  with dec dec_fits[of bs] show "length bs \<le> width \<and> enc v = strip_zeros bs" by auto
next
  assume "length bs \<le> width \<and> enc v = strip_zeros bs"
  with dec_fits[of bs] obtain w where "dec bs = Ret w" and "enc w = enc v" by auto
  then show "dec bs = Ret v" by (simp add: enc_inject)
qed

lemma dec_panics_iff: "dec bs = Panic \<longleftrightarrow> width < length bs"
  using dec_fits[of bs] dec_long[of bs] by (cases "width < length bs") auto

end

interpretation u16_codec: var_int_codec encode_var_len_u16 decode_var_len_u16 2
  by unfold_locales
    (simp, rule encode_length_bounds, simp_all add: decode_var_len_eq encode_of_val)

interpretation u32_codec: var_int_codec encode_var_len_u32 decode_var_len_u32 4
  by unfold_locales
    (simp, rule encode_length_bounds, simp_all add: decode_var_len_eq encode_of_val)

interpretation u64_codec: var_int_codec encode_var_len_u64 decode_var_len_u64 8
  by unfold_locales
    (simp, rule encode_length_bounds, simp_all add: decode_var_len_eq encode_of_val)

text \<open>
  C21: the variable-length codec is exact at 16, 32 and 64 bits. \<^verbatim>\<open>decode_var_len_uN\<close> returns \<open>v\<close>
  on a byte string exactly when the string fits the width and, stripped of its leading zero
  bytes, is \<^verbatim>\<open>encode_var_len_uN(v)\<close>. So decoding inverts encoding, encoding yields the shortest
  representation, and the only inputs on which decoding panics are those longer than the width.
\<close>

theorem var_len_codec_exact:
  "(decode_var_len_u16 bs = Ret a \<longleftrightarrow> length bs \<le> 2 \<and> encode_var_len_u16 a = strip_zeros bs) \<and>
   (decode_var_len_u32 bs = Ret b \<longleftrightarrow> length bs \<le> 4 \<and> encode_var_len_u32 b = strip_zeros bs) \<and>
   (decode_var_len_u64 bs = Ret c \<longleftrightarrow> length bs \<le> 8 \<and> encode_var_len_u64 c = strip_zeros bs)"
  by (simp only: u16_codec.dec_iff u32_codec.dec_iff u64_codec.dec_iff simp_thms)

text \<open>The two-byte array conversion of \<^verbatim>\<open>decode_var_len_u8\<close> never succeeds.\<close>

lemma decode_var_len_u8_panics [simp, run_simps]: "decode_var_len_u8 bs = Panic"
  by (simp add: decode_var_len_u8_def convert_to_fixed_size_slice_eq slice_into_array_def)

end
