(* ===== verification/Coap_Option.thy ===== *)
theory Coap_Option
  imports Coap_Error Var_Int Utf8
begin

text \<open>
  CoAP options (\<^verbatim>\<open>libcoap/src/message/mod.rs\<close>, \<^verbatim>\<open>CoapOption\<close> and its methods, and the path and query
  string builders): the option value type, its number, its encoding to bytes and its parsing from
  bytes. The lemmas give the exact effect of both directions: length bounds on every successful
  encoding, the round trips, and precisely when parsing panics.
\<close>

section \<open>Options\<close>

datatype CoapMatch = ETag bytes | Empty

datatype CoapOption =
    IfMatch CoapMatch | IfNoneMatch | UriHost rstring | UriPort u16 | UriPath rstring |
    UriQuery rstring | LocationPath rstring | LocationQuery rstring | ProxyUri rstring |
    ProxyScheme rstring | ContentFormat u16 | Accept u16 | Size1 u32 | Size2 u32 | Block1 u32 |
    Block2 u32 | HopLimit u16 | NoResponse u8 | ETag bytes | MaxAge u32 | Observe u32 |
    Oscore bytes | Echo bytes | RTag bytes | QBlock1 u32 | QBlock2 u32 | Other u16 bytes

fun number :: "bindings \<Rightarrow> CoapOption \<Rightarrow> u16" where
  "number B (CoapOption.IfMatch _) = opt_num B CoapOptionType.IfMatch"
| "number B IfNoneMatch = opt_num B CoapOptionType.IfNoneMatch"
| "number B (CoapOption.UriHost _) = opt_num B CoapOptionType.UriHost"
| "number B (CoapOption.UriPort _) = opt_num B CoapOptionType.UriPort"
| "number B (CoapOption.UriPath _) = opt_num B CoapOptionType.UriPath"
| "number B (CoapOption.UriQuery _) = opt_num B CoapOptionType.UriQuery"
| "number B (CoapOption.LocationPath _) = opt_num B CoapOptionType.LocationPath"
| "number B (CoapOption.LocationQuery _) = opt_num B CoapOptionType.LocationQuery"
| "number B (CoapOption.ProxyUri _) = opt_num B CoapOptionType.ProxyUri"
| "number B (CoapOption.ProxyScheme _) = opt_num B CoapOptionType.ProxyScheme"
| "number B (CoapOption.ContentFormat _) = opt_num B CoapOptionType.ContentFormat"
| "number B (CoapOption.Accept _) = opt_num B CoapOptionType.Accept"
| "number B (CoapOption.Size1 _) = opt_num B CoapOptionType.Size1"
| "number B (CoapOption.Size2 _) = opt_num B CoapOptionType.Size2"
| "number B (CoapOption.Block1 _) = opt_num B CoapOptionType.Block1"
| "number B (CoapOption.Block2 _) = opt_num B CoapOptionType.Block2"
| "number B (CoapOption.HopLimit _) = opt_num B CoapOptionType.HopLimit"
| "number B (CoapOption.NoResponse _) = opt_num B CoapOptionType.NoResponse"
| "number B (CoapOption.ETag _) = opt_num B CoapOptionType.ETag"
| "number B (CoapOption.MaxAge _) = opt_num B CoapOptionType.MaxAge"
| "number B (CoapOption.Observe _) = opt_num B CoapOptionType.Observe"
| "number B (CoapOption.Oscore _) = opt_num B CoapOptionType.Oscore"
| "number B (CoapOption.Echo _) = opt_num B CoapOptionType.Echo"
| "number B (CoapOption.RTag _) = opt_num B CoapOptionType.RTag"
| "number B (CoapOption.QBlock1 _) = opt_num B CoapOptionType.QBlock1"
| "number B (CoapOption.QBlock2 _) = opt_num B CoapOptionType.QBlock2"
| "number B (CoapOption.Other num _) = num"

text \<open>The value bytes before the length check of \<^verbatim>\<open>into_value_bytes\<close>.\<close>

fun value_bytes :: "CoapOption \<Rightarrow> bytes" where
  "value_bytes (CoapOption.IfMatch val) = (case val of CoapMatch.ETag tag \<Rightarrow> tag | CoapMatch.Empty \<Rightarrow> [])"
| "value_bytes CoapOption.IfNoneMatch = []"
| "value_bytes (CoapOption.UriHost value) = value"
| "value_bytes (CoapOption.UriPort value) = encode_var_len_u16 value"
| "value_bytes (CoapOption.UriPath value) = value"
| "value_bytes (CoapOption.UriQuery value) = value"
| "value_bytes (CoapOption.LocationPath value) = value"
| "value_bytes (CoapOption.LocationQuery value) = value"
| "value_bytes (CoapOption.ProxyUri value) = value"
| "value_bytes (CoapOption.ProxyScheme value) = value"
| "value_bytes (CoapOption.ContentFormat value) = encode_var_len_u16 value"
| "value_bytes (CoapOption.Accept value) = encode_var_len_u16 value"
| "value_bytes (CoapOption.Size1 value) = encode_var_len_u32 value"
| "value_bytes (CoapOption.Size2 value) = encode_var_len_u32 value"
| "value_bytes (CoapOption.Block1 value) = encode_var_len_u32 value"
| "value_bytes (CoapOption.Block2 value) = encode_var_len_u32 value"
| "value_bytes (CoapOption.HopLimit value) = encode_var_len_u16 value"
| "value_bytes (CoapOption.NoResponse value) = encode_var_len_u8 value"
| "value_bytes (CoapOption.ETag value) = value"
| "value_bytes (CoapOption.MaxAge value) = encode_var_len_u32 value"
| "value_bytes (CoapOption.Observe value) = encode_var_len_u32 value"
| "value_bytes (CoapOption.Oscore value) = value"
| "value_bytes (CoapOption.Echo value) = value"
| "value_bytes (CoapOption.RTag value) = value"
| "value_bytes (CoapOption.QBlock1 value) = encode_var_len_u32 value"
| "value_bytes (CoapOption.QBlock2 value) = encode_var_len_u32 value"
| "value_bytes (CoapOption.Other _ data) = data"

definition into_value_bytes :: "bindings \<Rightarrow> CoapOption \<Rightarrow> OptionValueError + bytes" where
  "into_value_bytes B opt =
     (let num = number B opt; bytes = value_bytes opt in
      case option_type_from_u16 B num of
        Some opt_type \<Rightarrow>
          if length bytes < min_len opt_type then Inl TooShort
          else if length bytes > max_len opt_type then Inl TooLong
          else Inr bytes
      | None \<Rightarrow> Inr bytes)"

section \<open>Parsing\<close>

definition parse_string ::
    "(rstring \<Rightarrow> CoapOption) \<Rightarrow> bytes \<Rightarrow> (OptionValueError + CoapOption) run" where
  "parse_string C value = Ret (res_try (map_err StringConversion (from_utf8 value)) (\<lambda>s. Inr (C s)))"

text \<open>The value of a known option type, once its length has been checked.\<close>

fun parse_value :: "CoapOptionType \<Rightarrow> bytes \<Rightarrow> (OptionValueError + CoapOption) run" where
  "parse_value CoapOptionType.IfMatch value =
     Ret (Inr (CoapOption.IfMatch (if value = [] then CoapMatch.Empty else CoapMatch.ETag value)))"
| "parse_value CoapOptionType.UriHost value = parse_string CoapOption.UriHost value"
| "parse_value CoapOptionType.ETag value = Ret (Inr (CoapOption.ETag value))"
| "parse_value CoapOptionType.IfNoneMatch value = Ret (Inr CoapOption.IfNoneMatch)"
| "parse_value CoapOptionType.UriPort value = run_map (\<lambda>v. Inr (CoapOption.UriPort v)) (decode_var_len_u16 value)"
| "parse_value CoapOptionType.LocationPath value = parse_string CoapOption.LocationPath value"
| "parse_value CoapOptionType.UriPath value = parse_string CoapOption.UriPath value"
| "parse_value CoapOptionType.ContentFormat value = run_map (\<lambda>v. Inr (CoapOption.ContentFormat v)) (decode_var_len_u16 value)"
| "parse_value CoapOptionType.MaxAge value = run_map (\<lambda>v. Inr (CoapOption.MaxAge v)) (decode_var_len_u32 value)"
| "parse_value CoapOptionType.UriQuery value = parse_string CoapOption.UriQuery value"
| "parse_value CoapOptionType.Accept value = run_map (\<lambda>v. Inr (CoapOption.Accept v)) (decode_var_len_u16 value)"
| "parse_value CoapOptionType.LocationQuery value = parse_string CoapOption.LocationQuery value"
| "parse_value CoapOptionType.ProxyUri value = parse_string CoapOption.ProxyUri value"
| "parse_value CoapOptionType.ProxyScheme value = parse_string CoapOption.ProxyScheme value"
| "parse_value CoapOptionType.Size1 value = run_map (\<lambda>v. Inr (CoapOption.Size1 v)) (decode_var_len_u32 value)"
| "parse_value CoapOptionType.Size2 value = run_map (\<lambda>v. Inr (CoapOption.Size2 v)) (decode_var_len_u32 value)"
| "parse_value CoapOptionType.Block1 value = run_map (\<lambda>v. Inr (CoapOption.Block1 v)) (decode_var_len_u32 value)"
| "parse_value CoapOptionType.Block2 value = run_map (\<lambda>v. Inr (CoapOption.Block2 v)) (decode_var_len_u32 value)"
| "parse_value CoapOptionType.HopLimit value = run_map (\<lambda>v. Inr (CoapOption.HopLimit v)) (decode_var_len_u16 value)"
| "parse_value CoapOptionType.NoResponse value =
     run_map (\<lambda>v. Inr (CoapOption.NoResponse (ucast v))) (decode_var_len_u8 value)"
| "parse_value CoapOptionType.Observe value = run_map (\<lambda>v. Inr (CoapOption.Observe v)) (decode_var_len_u32 value)"
| "parse_value CoapOptionType.Oscore value = Ret (Inr (CoapOption.Oscore value))"
| "parse_value CoapOptionType.Echo value = Ret (Inr (CoapOption.Echo value))"
| "parse_value CoapOptionType.RTag value = Ret (Inr (CoapOption.RTag value))"
| "parse_value CoapOptionType.QBlock1 value = run_map (\<lambda>v. Inr (CoapOption.QBlock1 v)) (decode_var_len_u32 value)"
| "parse_value CoapOptionType.QBlock2 value = run_map (\<lambda>v. Inr (CoapOption.QBlock2 v)) (decode_var_len_u32 value)"

definition from_type_value :: "bindings \<Rightarrow> u16 \<Rightarrow> bytes \<Rightarrow> (OptionValueError + CoapOption) run" where
  "from_type_value B type value =
     (case option_type_try_from B type of
        Inr opt_type \<Rightarrow>
          if min_len opt_type > length value then Ret (Inl TooShort)
          else if max_len opt_type < length value then Ret (Inl TooLong)
          else parse_value opt_type value
      | Inl _ \<Rightarrow> Ret (Inr (CoapOption.Other type value)))"

text \<open>
  An entry of libcoap's option list is its number and value; the pointer and length of a raw
  option are read as the byte string they delimit.
\<close>

record optlist_entry =
  opt_number :: u16
  opt_data :: bytes

definition from_raw_opt :: "bindings \<Rightarrow> u16 \<Rightarrow> bytes \<Rightarrow> (OptionValueError + CoapOption) run" where
  "from_raw_opt B num opt = from_type_value B num opt"

definition from_optlist_entry :: "bindings \<Rightarrow> optlist_entry \<Rightarrow> (OptionValueError + CoapOption) run" where
  "from_optlist_entry B e = from_type_value B (opt_number e) (opt_data e)"

text \<open>\<^verbatim>\<open>coap_new_optlist\<close> allocates an entry, or returns a null pointer.\<close>

definition into_optlist_entry ::
    "bindings \<Rightarrow> (u16 \<Rightarrow> bytes \<Rightarrow> optlist_entry option) \<Rightarrow> CoapOption
       \<Rightarrow> OptionValueError + optlist_entry option" where
  "into_optlist_entry B coap_new_optlist opt =
     res_try (into_value_bytes B opt) (\<lambda>value. Inr (coap_new_optlist (number B opt) value))"

section \<open>Path and query strings\<close>

definition construct_path_string :: "rstring list \<Rightarrow> rstring" where
  "construct_path_string components = foldl (\<lambda>a v. a @ ascii ''/'' @ v) [] components"

definition construct_query_string :: "rstring list \<Rightarrow> rstring" where
  "construct_query_string components =
     (case components of
        [] \<Rightarrow> ascii ''?''
      | q # qs \<Rightarrow> foldl (\<lambda>out q. out @ ascii ''&'' @ q) (ascii ''?'' @ q) qs)"

section \<open>Encoding\<close>

text \<open>The invariant of option values: the strings they own are valid UTF-8.\<close>

fun wf_option :: "CoapOption \<Rightarrow> bool" where
  "wf_option (CoapOption.UriHost s) = utf8_valid s"
| "wf_option (CoapOption.UriPath s) = utf8_valid s"
| "wf_option (CoapOption.UriQuery s) = utf8_valid s"
| "wf_option (CoapOption.LocationPath s) = utf8_valid s"
| "wf_option (CoapOption.LocationQuery s) = utf8_valid s"
| "wf_option (CoapOption.ProxyUri s) = utf8_valid s"
| "wf_option (CoapOption.ProxyScheme s) = utf8_valid s"
| "wf_option _ = True"

text \<open>
  Options that parsing can return as they are: an option built as \<^verbatim>\<open>Other\<close> with the number of a
  known type is parsed as that type, and an empty entity tag in If-Match means the empty match.
\<close>

fun canonical_option :: "bindings \<Rightarrow> CoapOption \<Rightarrow> bool" where
  "canonical_option B (CoapOption.Other n _) = (option_type_from_u16 B n = None)"
| "canonical_option B (CoapOption.IfMatch (CoapMatch.ETag tag)) = (tag \<noteq> [])"
| "canonical_option B _ = True"

lemma into_value_bytes_Inr: "into_value_bytes B opt = Inr v \<Longrightarrow> v = value_bytes opt"
  by (auto simp: into_value_bytes_def Let_def split: option.splits if_splits)

lemma into_value_bytes_known:
  "option_type_from_u16 B (number B opt) = Some t \<Longrightarrow>
   into_value_bytes B opt = Inr v \<longleftrightarrow>
     v = value_bytes opt \<and> min_len t \<le> length v \<and> length v \<le> max_len t"
  by (auto simp: into_value_bytes_def Let_def)

lemma number_cases:
  "(\<exists>t. number B opt = opt_num B t) \<or> (\<exists>n d. opt = CoapOption.Other n d)"
  by (cases opt) auto

lemma option_type_try_from_num [simp]:
  "bindings_ok B \<Longrightarrow> option_type_try_from B (opt_num B t) = Inr t"
  by (simp add: option_type_try_from_def)

section \<open>Round trips\<close>

lemma parse_value_encoded:
  assumes "bindings_ok B" and "wf_option opt" and "canonical_option B opt"
    and "number B opt = opt_num B t" and "\<forall>x. opt \<noteq> CoapOption.NoResponse x"
  shows "parse_value t (value_bytes opt) = Ret (Inr opt)"
proof -
  have inj: "opt_num B u = opt_num B t \<longleftrightarrow> u = t" for u
    using assms(1) by (auto simp: bindings_ok_def dest: injD)
  show ?thesis
  proof (cases opt)
    case (IfMatch m)
    with assms inj show ?thesis by (cases m) auto
  next
    case (Other n d)
    with assms have False by simp
    then show ?thesis ..
  qed (use assms inj in \<open>auto simp: parse_string_def\<close>)
qed

lemma option_parse_encoded:
  assumes ok: "bindings_ok B" and wf: "wf_option opt" and can: "canonical_option B opt"
    and nr: "\<forall>x. opt \<noteq> CoapOption.NoResponse x" and enc: "into_value_bytes B opt = Inr v"
  shows "from_type_value B (number B opt) v = Ret (Inr opt)"
proof (cases "\<exists>n d. opt = CoapOption.Other n d")
  case True
  with can enc show ?thesis
    by (auto simp: from_type_value_def option_type_try_from_def into_value_bytes_def Let_def)
next
  case False
  with number_cases[of B opt] obtain t where t: "number B opt = opt_num B t" by auto
  with ok enc have "v = value_bytes opt" and "min_len t \<le> length v" and "length v \<le> max_len t"
    using into_value_bytes_known[of B opt t] by auto
  with parse_value_encoded[OF ok wf can t nr] ok t show ?thesis
    by (simp add: from_type_value_def not_less)
qed



lemma parse_value_Panic:
  "length v \<le> max_len t \<Longrightarrow> parse_value t v = Panic \<longleftrightarrow> t = CoapOptionType.NoResponse"
  by (cases t) (simp_all add: parse_string_def run_map_eq_Panic u16_codec.dec_panics_iff
      u32_codec.dec_panics_iff)


text \<open>
  A successful \<^verbatim>\<open>into_value_bytes\<close> respects the option's length bounds: for an option whose
  number is a known type, the result is within \<^verbatim>\<open>min_len\<close> and \<^verbatim>\<open>max_len\<close>; otherwise the error says
  on which side the value falls out.
\<close>

theorem into_value_bytes_bounds:
  assumes "option_type_from_u16 B (number B opt) = Some t"
  shows "into_value_bytes B opt =
    (if length (value_bytes opt) < min_len t then Inl TooShort
     else if max_len t < length (value_bytes opt) then Inl TooLong
     else Inr (value_bytes opt)) \<and>
    (\<forall>v. into_value_bytes B opt = Inr v \<longrightarrow> min_len t \<le> length v \<and> length v \<le> max_len t)"
  using assms by (auto simp: into_value_bytes_def Let_def split: if_splits)

text \<open>
  C6: option round trip. Parsing the bytes an option was encoded to gives the option back, for every
  option with valid strings other than No-Response (which always panics), an unknown option with the
  number of a known one, and an If-Match value with an empty ETag.
\<close>

theorem option_roundtrip:
  assumes "bindings_ok B" and "wf_option opt" and "canonical_option B opt"
    and "\<forall>x. opt \<noteq> CoapOption.NoResponse x" and "into_value_bytes B opt = Inr v"
  shows "from_type_value B (number B opt) v = Ret (Inr opt)"
  using assms by (rule option_parse_encoded)

theorem option_roundtrip_witness:
  "from_type_value iana 7 [0x16, 0x33] = Ret (Inr (CoapOption.UriPort 5683))"
proof -
  have "into_value_bytes iana (CoapOption.UriPort 5683) = Inr [0x16, 0x33]"
    using u16_codec.dec_iff[of "[0x16, 0x33]" 5683]
      into_value_bytes_known[of iana "CoapOption.UriPort 5683" CoapOptionType.UriPort "[0x16, 0x33]"]
    by (simp add: known_iana decode_var_len_eq be_val_def strip_zeros_def)
  then show ?thesis
    using option_roundtrip[of iana "CoapOption.UriPort 5683" "[0x16, 0x33]"]
    by (simp add: iana_num)
qed



lemma from_type_value_Panic:
  assumes "bindings_ok B"
  shows "from_type_value B num val = Panic \<longleftrightarrow>
    num = opt_num B CoapOptionType.NoResponse \<and> length val \<le> 1"
proof (cases "option_type_from_u16 B num")
  case None
  with assms show ?thesis
    by (auto simp: from_type_value_def option_type_try_from_def)
next
  case (Some t)
  with assms have "num = opt_num B t" by (simp add: option_type_from_u16_iff)
  with assms have num: "num = opt_num B CoapOptionType.NoResponse \<longleftrightarrow> t = CoapOptionType.NoResponse"
    by (auto simp: bindings_ok_def dest: injD)
  have "from_type_value B num val = Panic \<longleftrightarrow>
      min_len t \<le> length val \<and> length val \<le> max_len t \<and> parse_value t val = Panic"
    using Some by (simp add: from_type_value_def option_type_try_from_def not_less)
  also have "\<dots> \<longleftrightarrow> t = CoapOptionType.NoResponse \<and> length val \<le> 1"
  proof (cases "length val \<le> max_len t")
    case True
    then show ?thesis unfolding parse_value_Panic[OF True] by (cases "t = CoapOptionType.NoResponse") simp_all
  next
    case False
    then show ?thesis by (cases "t = CoapOptionType.NoResponse") simp_all
  qed
  finally show ?thesis unfolding num .
qed

text \<open>
  When parsing panics. \<^verbatim>\<open>from_type_value\<close> panics exactly on a No-Response option of at most
  one byte, that is on every well-formed No-Response option; on all other inputs it returns.
\<close>

theorem option_parse_panics_iff:
  assumes "bindings_ok B"
  shows "from_type_value B num val = Panic \<longleftrightarrow>
    num = opt_num B CoapOptionType.NoResponse \<and> length val \<le> 1"
  using assms by (rule from_type_value_Panic)

section \<open>Path and query strings, as concatenations\<close>

lemma construct_path_string_eq:
  "construct_path_string cs = concat (map (\<lambda>v. ascii ''/'' @ v) cs)"
  by (simp add: construct_path_string_def foldl_append_concat)

lemma construct_query_string_eq:
  "construct_query_string cs = ascii ''?'' @
     (case cs of [] \<Rightarrow> [] | q # qs \<Rightarrow> q @ concat (map (\<lambda>v. ascii ''&'' @ v) qs))"
  by (simp add: construct_query_string_def foldl_append_concat split: list.split)

lemma utf8_valid_concat: "\<forall>x \<in> set xs. utf8_valid x \<Longrightarrow> utf8_valid (concat xs)"
  by (induction xs) (auto intro: utf8_valid_append)

lemma utf8_valid_sep [simp]:
  "utf8_valid v \<Longrightarrow> utf8_valid (ascii ''/'' @ v)"
  "utf8_valid v \<Longrightarrow> utf8_valid (ascii ''&'' @ v)"
  "utf8_valid v \<Longrightarrow> utf8_valid (ascii ''?'' @ v)"
  "utf8_valid (ascii ''?'')"
  by (simp_all add: ascii_def utf8_valid_ascii_Cons)

lemma construct_strings_utf8:
  assumes "\<forall>c \<in> set cs. utf8_valid c"
  shows "utf8_valid (construct_path_string cs)" and "utf8_valid (construct_query_string cs)"
proof -
  show "utf8_valid (construct_path_string cs)"
    using assms by (auto simp: construct_path_string_eq intro!: utf8_valid_concat)
  show "utf8_valid (construct_query_string cs)"
    using assms unfolding construct_query_string_eq
    by (cases cs)
      (simp_all add: utf8_valid_append utf8_valid_concat )
qed

end
