(* ===== verification/Coap_Message.thy ===== *)
theory Coap_Message
  imports Coap_Option
begin

text \<open>
  Messages (\<^verbatim>\<open>libcoap/src/message/mod.rs\<close>, \<^verbatim>\<open>CoapMessage\<close> and \<^verbatim>\<open>CoapMessageCommon\<close>): the message
  record, its accessors, and its conversion from and to the PDUs of libcoap. The PDU functions of
  libcoap are the fields of the parameter record \<open>pdu_api\<close> over an arbitrary type of PDUs, and
  \<open>pdu_api_ok\<close> states what libcoap documents of them. The lemmas give the exact error behaviour of
  sending and the round trip through a PDU.
\<close>

section \<open>Messages\<close>

record CoapMessage =
  msg_type :: CoapMessageType
  msg_code :: CoapMessageCode
  msg_mid :: "int option"
  msg_options :: "CoapOption list"
  msg_token :: "bytes option"
  msg_data :: "bytes option"

definition message_new :: "CoapMessageType \<Rightarrow> CoapMessageCode \<Rightarrow> CoapMessage" where
  "message_new ty code =
     \<lparr>msg_type = ty, msg_code = code, msg_mid = None, msg_options = [], msg_token = None, msg_data = None\<rparr>"

definition add_option :: "CoapOption \<Rightarrow> CoapMessage \<Rightarrow> CoapMessage" where
  "add_option opt m = m\<lparr>msg_options := msg_options m @ [opt]\<rparr>"

definition clear_options :: "CoapMessage \<Rightarrow> CoapMessage" where
  "clear_options m = m\<lparr>msg_options := []\<rparr>"

definition set_type :: "CoapMessageType \<Rightarrow> CoapMessage \<Rightarrow> CoapMessage" where
  "set_type ty m = m\<lparr>msg_type := ty\<rparr>"

definition set_code :: "CoapMessageCode \<Rightarrow> CoapMessage \<Rightarrow> CoapMessage" where
  "set_code code m = m\<lparr>msg_code := code\<rparr>"

definition set_mid :: "int option \<Rightarrow> CoapMessage \<Rightarrow> CoapMessage" where
  "set_mid mid m = m\<lparr>msg_mid := mid\<rparr>"

definition set_data :: "bytes option \<Rightarrow> CoapMessage \<Rightarrow> CoapMessage" where
  "set_data data m = m\<lparr>msg_data := data\<rparr>"

definition set_token :: "bytes option \<Rightarrow> CoapMessage \<Rightarrow> CoapMessage" where
  "set_token token m = m\<lparr>msg_token := token\<rparr>"

section \<open>The PDU functions of libcoap\<close>

text \<open>
  Functions that modify a PDU return their status and the PDU as they left it; a pointer that may
  be null is an option. The option list passed to \<^verbatim>\<open>coap_add_optlist_pdu\<close> is null or a chain.
\<close>

type_synonym optlist = "optlist_entry list option"

record 'p pdu_api =
  coap_pdu_init :: "coap_pdu_type_t \<Rightarrow> coap_pdu_code_t \<Rightarrow> int \<Rightarrow> nat \<Rightarrow> 'p option"
  coap_pdu_set_type :: "'p \<Rightarrow> coap_pdu_type_t \<Rightarrow> 'p"
  coap_pdu_set_code :: "'p \<Rightarrow> coap_pdu_code_t \<Rightarrow> 'p"
  coap_add_token :: "'p \<Rightarrow> bytes \<Rightarrow> int \<times> 'p"
  coap_new_optlist :: "u16 \<Rightarrow> bytes \<Rightarrow> optlist_entry option"
  coap_add_optlist_pdu :: "'p \<Rightarrow> optlist \<Rightarrow> int \<times> 'p"
  coap_add_data_large_request :: "'p \<Rightarrow> bytes \<Rightarrow> 'p"
  coap_add_data :: "'p \<Rightarrow> bytes \<Rightarrow> int \<times> 'p"
  coap_pdu_get_type :: "'p \<Rightarrow> coap_pdu_type_t"
  coap_pdu_get_code :: "'p \<Rightarrow> coap_pdu_code_t"
  coap_pdu_get_mid :: "'p \<Rightarrow> int"
  coap_pdu_get_token :: "'p \<Rightarrow> bytes"
  coap_get_data :: "'p \<Rightarrow> bytes"
  coap_option_list :: "'p \<Rightarrow> optlist_entry list"

section \<open>Parsing a PDU\<close>

definition invalid_option :: "bindings \<Rightarrow> u16 \<Rightarrow> OptionValueError \<Rightarrow> MessageConversionError" where
  "invalid_option B num e = InvalidOptionValue (res_ok (option_type_try_from B num)) e"

text \<open>
  The iterator loop reads the options in the order of the PDU; the first that does not parse ends
  it. Type and code are converted last, the code with \<^verbatim>\<open>unwrap\<close>.
\<close>

definition read_option :: "bindings \<Rightarrow> optlist_entry \<Rightarrow> (MessageConversionError + CoapOption) run" where
  "read_option B e =
     run_map (map_err (invalid_option B (opt_number e))) (from_raw_opt B (opt_number e) (opt_data e))"

definition from_raw_pdu ::
    "bindings \<Rightarrow> 'p pdu_api \<Rightarrow> 'p \<Rightarrow> (MessageConversionError + CoapMessage) run" where
  "from_raw_pdu B api pdu =
     run_try (run_map_list (read_option B) (coap_option_list api pdu)) (\<lambda>options.
     let data = (case coap_get_data api pdu of [] \<Rightarrow> None | d \<Rightarrow> Some d);
         token = coap_pdu_get_token api pdu
     in run_bind (message_type_from B (coap_pdu_get_type api pdu)) (\<lambda>ty.
        run_bind (expect (res_ok (message_code_try_from B (coap_pdu_get_code api pdu)))) (\<lambda>code.
        Ret (Inr \<lparr>msg_type = ty, msg_code = code, msg_mid = Some (coap_pdu_get_mid api pdu),
                  msg_options = options, msg_token = Some token, msg_data = data\<rparr>))))"

section \<open>Building a PDU\<close>

text \<open>
  One iteration of the loop over the options. The variable \<^verbatim>\<open>optlist\<close> holds nothing, or a pointer to
  the head of the chain that may be null; \<^verbatim>\<open>coap_insert_optlist\<close> appends to the chain through a copy
  of that pointer, so a null head stays null.
\<close>

definition optlist_step ::
    "bindings \<Rightarrow> 'p pdu_api \<Rightarrow> optlist option \<Rightarrow> CoapOption \<Rightarrow> MessageConversionError + optlist option" where
  "optlist_step B api optlist opt =
     res_try (map_err (invalid_option B (number B opt)) (into_optlist_entry B (coap_new_optlist api) opt))
       (\<lambda>entry. case optlist of
          None \<Rightarrow> Inr (Some (map_option (\<lambda>e. [e]) entry))
        | Some chain \<Rightarrow>
            (case entry of
               None \<Rightarrow> Inl MessageUnknown
             | Some e \<Rightarrow> Inr (Some (map_option (\<lambda>es. es @ [e]) chain))))"

definition apply_data ::
    "'p pdu_api \<Rightarrow> CoapMessage \<Rightarrow> 'p \<Rightarrow> (MessageConversionError + unit) \<times> 'p" where
  "apply_data api m pdu =
     (case msg_data m of
        None \<Rightarrow> (Inr (), pdu)
      | Some data \<Rightarrow>
          (case msg_code m of
             CoapMessageCode.Empty \<Rightarrow> (Inl DataInEmptyMessage, pdu)
           | Request _ \<Rightarrow> (Inr (), coap_add_data_large_request api pdu data)
           | Response _ \<Rightarrow>
               (let (r, pdu) = coap_add_data api pdu data
                in (if r = 0 then Inl MessageUnknown else Inr (), pdu))))"

definition apply_options ::
    "bindings \<Rightarrow> 'p pdu_api \<Rightarrow> CoapMessage \<Rightarrow> 'p \<Rightarrow> (MessageConversionError + unit) \<times> 'p" where
  "apply_options B api m pdu =
     (case try_fold (optlist_step B api) None (msg_options m) of
        Inl e \<Rightarrow> (Inl e, pdu)
      | Inr None \<Rightarrow> (Inr (), pdu)
      | Inr (Some optlist) \<Rightarrow>
          (let (r, pdu) = coap_add_optlist_pdu api pdu optlist
           in (if r = 0 then Inl MessageUnknown else Inr (), pdu)))"

definition apply_to_raw_pdu ::
    "bindings \<Rightarrow> 'p pdu_api \<Rightarrow> CoapMessage \<Rightarrow> 'p \<Rightarrow> (MessageConversionError + unit) \<times> 'p" where
  "apply_to_raw_pdu B api m pdu =
     (let pdu = coap_pdu_set_type api pdu (to_raw_pdu_type (msg_type m));
          pdu = coap_pdu_set_code api pdu (to_raw_pdu_code (msg_code m))
      in case msg_token m of
           None \<Rightarrow> (Inl MissingToken, pdu)
         | Some token \<Rightarrow>
             (let (r, pdu) = coap_add_token api pdu token in
              if r = 0 then (Inl MessageUnknown, pdu)
              else (let (r, pdu) = apply_options B api m pdu in
                    case r of Inl e \<Rightarrow> (Inl e, pdu) | Inr _ \<Rightarrow> apply_data api m pdu)))"

text \<open>The result, and the PDU that was deleted because of an error.\<close>

definition into_raw_pdu ::
    "bindings \<Rightarrow> 'p pdu_api \<Rightarrow> nat \<Rightarrow> CoapMessage \<Rightarrow> (MessageConversionError + 'p) \<times> 'p option" where
  "into_raw_pdu B api max_pdu_size m =
     (case msg_mid m of
        None \<Rightarrow> (Inl MissingMessageId, None)
      | Some mid \<Rightarrow>
          (case coap_pdu_init api (to_raw_pdu_type (msg_type m)) (to_raw_pdu_code (msg_code m))
                  mid max_pdu_size of
             None \<Rightarrow> (Inl MessageUnknown, None)
           | Some pdu \<Rightarrow>
               (let (r, pdu) = apply_to_raw_pdu B api m pdu
                in case r of Inl e \<Rightarrow> (Inl e, Some pdu) | Inr _ \<Rightarrow> (Inr pdu, None))))"

section \<open>What libcoap documents\<close>

text \<open>
  The observable state of a PDU, and the documented effect of each function when it reports
  success: the option list is inserted in the order of the option numbers, options with the same
  number in their order in the list. \<open>fits\<close> says which data libcoap sends in a single PDU; other
  data of a request is split into blocks.
\<close>

definition pdu_state where
  "pdu_state api p =
     (coap_pdu_get_type api p, coap_pdu_get_code api p, coap_pdu_get_mid api p,
      coap_pdu_get_token api p, coap_option_list api p, coap_get_data api p)"

definition init_ok :: "'p pdu_api \<Rightarrow> bool" where
  "init_ok api \<longleftrightarrow> (\<forall>ty c mid n p.
     coap_pdu_init api ty c mid n = Some p \<longrightarrow> pdu_state api p = (ty, c, mid, [], [], []))"

definition header_ok :: "'p pdu_api \<Rightarrow> bool" where
  "header_ok api \<longleftrightarrow> (\<forall>p ty code t c i k os d. pdu_state api p = (t, c, i, k, os, d) \<longrightarrow>
     pdu_state api (coap_pdu_set_type api p ty) = (ty, c, i, k, os, d) \<and>
     pdu_state api (coap_pdu_set_code api p code) = (t, code, i, k, os, d))"

definition token_ok :: "'p pdu_api \<Rightarrow> bool" where
  "token_ok api \<longleftrightarrow> (\<forall>p tok r p' t c i.
     coap_add_token api p tok = (r, p') \<and> r \<noteq> 0 \<and> pdu_state api p = (t, c, i, [], [], []) \<longrightarrow>
     pdu_state api p' = (t, c, i, tok, [], []))"

definition optlist_ok :: "'p pdu_api \<Rightarrow> bool" where
  "optlist_ok api \<longleftrightarrow> (\<forall>p es r p' t c i k.
     coap_add_optlist_pdu api p (Some es) = (r, p') \<and> r \<noteq> 0 \<and>
     pdu_state api p = (t, c, i, k, [], []) \<longrightarrow>
     pdu_state api p' = (t, c, i, k, sort_key (\<lambda>e. unat (opt_number e)) es, []))"

definition data_ok :: "(bytes \<Rightarrow> bool) \<Rightarrow> 'p pdu_api \<Rightarrow> bool" where
  "data_ok fits api \<longleftrightarrow>
     (\<forall>p dat t c i k os. fits dat \<and> pdu_state api p = (t, c, i, k, os, []) \<longrightarrow>
        pdu_state api (coap_add_data_large_request api p dat) = (t, c, i, k, os, dat)) \<and>
     (\<forall>p dat r p' t c i k os.
        coap_add_data api p dat = (r, p') \<and> r \<noteq> 0 \<and> pdu_state api p = (t, c, i, k, os, []) \<longrightarrow>
        pdu_state api p' = (t, c, i, k, os, dat))"

definition pdu_api_ok :: "(bytes \<Rightarrow> bool) \<Rightarrow> 'p pdu_api \<Rightarrow> bool" where
  "pdu_api_ok fits api \<longleftrightarrow>
     init_ok api \<and> header_ok api \<and> token_ok api \<and> optlist_ok api \<and> data_ok fits api"

text \<open>\<^verbatim>\<open>coap_new_optlist\<close> returns an entry with the given number and value; memory is not exhausted.\<close>

definition alloc_ok :: "'p pdu_api \<Rightarrow> bool" where
  "alloc_ok api \<longleftrightarrow> (\<forall>num v. coap_new_optlist api num v = Some \<lparr>opt_number = num, opt_data = v\<rparr>)"

lemma pdu_init_law:
  "pdu_api_ok fits api \<Longrightarrow> coap_pdu_init api ty c mid n = Some p \<Longrightarrow>
   pdu_state api p = (ty, c, mid, [], [], [])"
  unfolding pdu_api_ok_def init_ok_def by blast

lemma pdu_header_law:
  assumes "pdu_api_ok fits api" and "pdu_state api q = (t, c, i, k, os, d)"
  shows "pdu_state api (coap_pdu_set_type api q ty) = (ty, c, i, k, os, d)"
    and "pdu_state api (coap_pdu_set_code api q code) = (t, code, i, k, os, d)"
  using assms unfolding pdu_api_ok_def header_ok_def by blast+

lemma pdu_token_law:
  "pdu_api_ok fits api \<Longrightarrow> coap_add_token api q tok = (r, q') \<Longrightarrow> r \<noteq> 0 \<Longrightarrow>
   pdu_state api q = (t, c, i, [], [], []) \<Longrightarrow> pdu_state api q' = (t, c, i, tok, [], [])"
  unfolding pdu_api_ok_def token_ok_def by blast

lemma pdu_optlist_law:
  "pdu_api_ok fits api \<Longrightarrow> coap_add_optlist_pdu api q (Some es) = (r, q') \<Longrightarrow> r \<noteq> 0 \<Longrightarrow>
   pdu_state api q = (t, c, i, k, [], []) \<Longrightarrow>
   pdu_state api q' = (t, c, i, k, sort_key (\<lambda>e. unat (opt_number e)) es, [])"
  unfolding pdu_api_ok_def optlist_ok_def by blast

lemma pdu_large_law:
  "pdu_api_ok fits api \<Longrightarrow> fits d \<Longrightarrow> pdu_state api q = (t, c, i, k, os, []) \<Longrightarrow>
   pdu_state api (coap_add_data_large_request api q d) = (t, c, i, k, os, d)"
  unfolding pdu_api_ok_def data_ok_def by blast

lemma pdu_data_law:
  "pdu_api_ok fits api \<Longrightarrow> coap_add_data api q d = (r, q') \<Longrightarrow> r \<noteq> 0 \<Longrightarrow>
   pdu_state api q = (t, c, i, k, os, []) \<Longrightarrow> pdu_state api q' = (t, c, i, k, os, d)"
  unfolding pdu_api_ok_def data_ok_def by blast

section \<open>Option lists\<close>

definition entry_of :: "bindings \<Rightarrow> CoapOption \<Rightarrow> optlist_entry" where
  "entry_of B opt = \<lparr>opt_number = number B opt, opt_data = value_bytes opt\<rparr>"

definition encodable :: "bindings \<Rightarrow> CoapOption \<Rightarrow> bool" where
  "encodable B opt \<longleftrightarrow> into_value_bytes B opt = Inr (value_bytes opt)"

lemma into_value_bytes_cases:
  obtains "encodable B opt" "into_value_bytes B opt = Inr (value_bytes opt)"
  | e where "\<not> encodable B opt" "into_value_bytes B opt = Inl e"
proof (cases "into_value_bytes B opt")
  case (Inl e)
  then show thesis using that(2) by (simp add: encodable_def)
next
  case (Inr v)
  then show thesis using that(1) into_value_bytes_Inr[OF Inr] by (simp add: encodable_def)
qed

lemma optlist_step_Some:
  assumes "alloc_ok api"
  shows "optlist_step B api (Some chain) opt = Inr ol \<longleftrightarrow>
    encodable B opt \<and> ol = Some (map_option (\<lambda>es. es @ [entry_of B opt]) chain)"
  using assms
  by (cases rule: into_value_bytes_cases[of B opt])
    (auto simp: optlist_step_def into_optlist_entry_def alloc_ok_def entry_of_def)

lemma optlist_step_None:
  assumes "alloc_ok api"
  shows "optlist_step B api None opt = Inr ol \<longleftrightarrow> encodable B opt \<and> ol = Some (Some [entry_of B opt])"
  using assms
  by (cases rule: into_value_bytes_cases[of B opt])
    (auto simp: optlist_step_def into_optlist_entry_def alloc_ok_def entry_of_def)

lemma optlist_loop_Some:
  assumes "alloc_ok api"
  shows "try_fold (optlist_step B api) (Some (Some es)) opts = Inr ol \<longleftrightarrow>
    (\<forall>opt \<in> set opts. encodable B opt) \<and> ol = Some (Some (es @ map (entry_of B) opts))"
  by (induction opts arbitrary: es) (auto simp: res_try_eq_Inr optlist_step_Some[OF assms])

lemma optlist_loop:
  assumes "alloc_ok api"
  shows "try_fold (optlist_step B api) None opts = Inr ol \<longleftrightarrow>
    (\<forall>opt \<in> set opts. encodable B opt) \<and>
    ol = (if opts = [] then None else Some (Some (map (entry_of B) opts)))"
  by (cases opts) (auto simp: res_try_eq_Inr optlist_step_None[OF assms] optlist_loop_Some[OF assms])

lemma insort_key_map: "insort_key f (g x) (map g xs) = map g (insort_key (\<lambda>x. f (g x)) x xs)"
  by (induction xs) simp_all

lemma sort_key_map: "sort_key f (map g xs) = map g (sort_key (\<lambda>x. f (g x)) xs)"
  by (induction xs) (simp_all add: insort_key_map)

text \<open>The options of a PDU are read back as they were written.\<close>

lemma read_entry:
  assumes "bindings_ok B" and "wf_option opt" and "canonical_option B opt"
    and "\<forall>x. opt \<noteq> CoapOption.NoResponse x" and "encodable B opt"
  shows "read_option B (entry_of B opt) = Ret (Inr opt)"
  using option_parse_encoded[OF assms(1-4)] assms(5)
  by (simp add: read_option_def entry_of_def from_raw_opt_def encodable_def)

definition sendable_option :: "bindings \<Rightarrow> CoapOption \<Rightarrow> bool" where
  "sendable_option B opt \<longleftrightarrow>
     wf_option opt \<and> canonical_option B opt \<and> (\<forall>x. opt \<noteq> CoapOption.NoResponse x)"

lemma read_entries:
  assumes "bindings_ok B" and "\<forall>opt \<in> set opts. sendable_option B opt \<and> encodable B opt"
  shows "run_map_list (read_option B) (map (entry_of B) opts) = Ret (Inr opts)"
  using assms read_entry[OF assms(1)]
  by (induction opts) (auto simp: sendable_option_def)

section \<open>Sending\<close>

lemma apply_options_Inr:
  assumes "alloc_ok api" and "apply_options B api m pdu = (Inr u, pdu')"
  shows "(\<forall>opt \<in> set (msg_options m). encodable B opt) \<and>
    (if msg_options m = [] then pdu' = pdu
     else \<exists>r. coap_add_optlist_pdu api pdu (Some (map (entry_of B) (msg_options m))) = (r, pdu') \<and> r \<noteq> 0)"
proof (cases "try_fold (optlist_step B api) None (msg_options m)")
  case (Inl e)
  with assms(2) show ?thesis by (simp add: apply_options_def)
next
  case (Inr ol)
  with optlist_loop[OF assms(1), of B "msg_options m" ol] assms(2) show ?thesis
    by (auto simp: apply_options_def split: if_splits prod.splits)
qed

text \<open>The observable state of the PDU a message was applied to.\<close>

lemma apply_options_state:
  assumes "pdu_api_ok fits api" and "alloc_ok api" and "apply_options B api m pdu = (Inr u, pdu')"
    and "pdu_state api pdu = (t, c, i, k, [], [])"
  shows "pdu_state api pdu' = (t, c, i, k, map (entry_of B)
    (sort_key (\<lambda>opt. unat (number B opt)) (msg_options m)), [])"
proof -
  have key: "sort_key (\<lambda>e. unat (opt_number e)) (map (entry_of B) (msg_options m)) =
      map (entry_of B) (sort_key (\<lambda>opt. unat (number B opt)) (msg_options m))"
    by (simp add: sort_key_map entry_of_def)
  show ?thesis
  proof (cases "msg_options m = []")
    case True
    with apply_options_Inr[OF assms(2,3)] assms(4) show ?thesis by simp
  next
    case False
    with apply_options_Inr[OF assms(2,3)] obtain r where
      r: "coap_add_optlist_pdu api pdu (Some (map (entry_of B) (msg_options m))) = (r, pdu')" "r \<noteq> 0"
      by auto
    have "pdu_state api pdu' =
        (t, c, i, k, sort_key (\<lambda>e. unat (opt_number e)) (map (entry_of B) (msg_options m)), [])"
      by (rule pdu_optlist_law[OF assms(1) r assms(4)])
    then show ?thesis unfolding key .
  qed
qed

definition data_fits :: "(bytes \<Rightarrow> bool) \<Rightarrow> CoapMessage \<Rightarrow> bool" where
  "data_fits fits m = (case (msg_code m, msg_data m) of (Request _, Some d) \<Rightarrow> fits d | _ \<Rightarrow> True)"

lemma apply_data_state:
  assumes "pdu_api_ok fits api" and "apply_data api m pdu = (Inr u, pdu')"
    and "pdu_state api pdu = (t, c, i, k, os, [])"
    and "data_fits fits m"
  shows "pdu_state api pdu' = (t, c, i, k, os, case msg_data m of None \<Rightarrow> [] | Some d \<Rightarrow> d)"
proof (cases "msg_data m")
  case None
  with assms show ?thesis by (simp add: apply_data_def)
next
  case (Some d)
  show ?thesis
  proof (cases "msg_code m")
    case Empty
    with Some assms(2) show ?thesis by (simp add: apply_data_def)
  next
    case (Request r)
    with Some assms(2) have "pdu' = coap_add_data_large_request api pdu d" by (simp add: apply_data_def)
    moreover have "fits d" using assms(4) Some Request by (simp add: data_fits_def)
    ultimately show ?thesis using pdu_large_law[OF assms(1) _ assms(3)] Some by simp
  next
    case (Response r)
    with Some assms(2) obtain s where "coap_add_data api pdu d = (s, pdu')" and "s \<noteq> 0"
      by (auto simp: apply_data_def split: prod.splits if_splits)
    then have "pdu_state api pdu' = (t, c, i, k, os, d)"
      using pdu_data_law[OF assms(1) _ _ assms(3)] by blast
    then show ?thesis using Some by simp
  qed
qed

lemma apply_to_raw_pdu_Inr:
  assumes "apply_to_raw_pdu B api m pdu = (Inr u, pdu')"
  obtains tok p1 p2 r v where "msg_token m = Some tok"
    and "coap_add_token api (coap_pdu_set_code api (coap_pdu_set_type api pdu
           (to_raw_pdu_type (msg_type m))) (to_raw_pdu_code (msg_code m))) tok = (r, p1)" and "r \<noteq> 0"
    and "apply_options B api m p1 = (Inr v, p2)" and "apply_data api m p2 = (Inr u, pdu')"
  using assms by (auto simp: apply_to_raw_pdu_def Let_def split: option.splits prod.splits if_splits sum.splits)

lemma into_raw_pdu_state:
  assumes ok: "pdu_api_ok fits api" and al: "alloc_ok api"
    and fit: "data_fits fits m"
    and res: "into_raw_pdu B api n m = (Inr p, del)"
  obtains mid tok where "msg_mid m = Some mid" and "msg_token m = Some tok" and "del = None"
    and "\<forall>opt \<in> set (msg_options m). encodable B opt"
    and "pdu_state api p = (to_raw_pdu_type (msg_type m), to_raw_pdu_code (msg_code m), mid, tok,
      map (entry_of B) (sort_key (\<lambda>opt. unat (number B opt)) (msg_options m)),
      case msg_data m of None \<Rightarrow> [] | Some d \<Rightarrow> d)"
proof -
  let ?t = "to_raw_pdu_type (msg_type m)" and ?c = "to_raw_pdu_code (msg_code m)"
  from res obtain mid p0 u where mid: "msg_mid m = Some mid"
    and init: "coap_pdu_init api ?t ?c mid n = Some p0"
    and app: "apply_to_raw_pdu B api m p0 = (Inr u, p)" and del: "del = None"
    by (auto simp: into_raw_pdu_def split: option.splits prod.splits sum.splits)
  from app obtain tok p1 p2 r v where tok: "msg_token m = Some tok"
    and add: "coap_add_token api (coap_pdu_set_code api (coap_pdu_set_type api p0 ?t) ?c) tok = (r, p1)"
    and r: "r \<noteq> 0" and opts: "apply_options B api m p1 = (Inr v, p2)"
    and dat: "apply_data api m p2 = (Inr u, p)"
    by (rule apply_to_raw_pdu_Inr)
  have "pdu_state api (coap_pdu_set_code api (coap_pdu_set_type api p0 ?t) ?c) = (?t, ?c, mid, [], [], [])"
    by (rule pdu_header_law(2)[OF ok pdu_header_law(1)[OF ok pdu_init_law[OF ok init]]])
  then have "pdu_state api p1 = (?t, ?c, mid, tok, [], [])"
    by (rule pdu_token_law[OF ok add r])
  from apply_data_state[OF ok dat apply_options_state[OF ok al opts this] fit]
  show thesis using that mid tok del apply_options_Inr[OF al opts] by blast
qed

section \<open>Properties\<close>

lemma message_reparse:
  assumes "bindings_ok B" and "pdu_api_ok fits api" and "alloc_ok api"
    and "\<forall>opt \<in> set (msg_options m). sendable_option B opt"
    and "data_fits fits m"
    and "into_raw_pdu B api n m = (Inr p, del)"
  shows "from_raw_pdu B api p =
    Ret (Inr (m\<lparr>msg_code := wire_code (msg_code m),
                msg_options := sort_key (\<lambda>opt. unat (number B opt)) (msg_options m),
                msg_data := (if msg_data m = Some [] then None else msg_data m)\<rparr>))"
proof -
  let ?opts = "sort_key (\<lambda>opt. unat (number B opt)) (msg_options m)"
  obtain mid tok where
    mid: "msg_mid m = Some mid" "msg_token m = Some tok" "\<forall>opt \<in> set (msg_options m). encodable B opt"
    and st: "pdu_state api p = (to_raw_pdu_type (msg_type m), to_raw_pdu_code (msg_code m), mid, tok,
      map (entry_of B) ?opts, case msg_data m of None \<Rightarrow> [] | Some d \<Rightarrow> d)"
    by (rule into_raw_pdu_state[OF assms(2,3,5,6)])
  have "run_map_list (read_option B) (map (entry_of B) ?opts) = Ret (Inr ?opts)"
    using assms(1,4) mid(3) by (intro read_entries) auto
  moreover have "(case case msg_data m of None \<Rightarrow> [] | Some d \<Rightarrow> d of [] \<Rightarrow> None | x # xs \<Rightarrow> Some (x # xs)) =
      (if msg_data m = Some [] then None else msg_data m)"
    by (cases "msg_data m") (simp_all split: list.split)
  ultimately show ?thesis
    using st mid assms(1) message_code_wire[OF assms(1), of "msg_code m"]
    by (simp add: from_raw_pdu_def pdu_state_def Let_def)
qed

text \<open>
  C4: message round trip. If none of the options of a message is No-Response, their strings are valid, an
  unknown option does not have the number of a known one, no If-Match value is an empty ETag, and the
  body of a request fits, then a PDU that \<^verbatim>\<open>into_raw_pdu\<close> made of the message is parsed without error or
  panic into the message with the same type, id and token, its options ordered by option number
  (stably), an empty body read as no body, and its code as it is on the wire, that is Delete as Fetch.
\<close>

theorem message_roundtrip:
  assumes "bindings_ok B" and "pdu_api_ok fits api" and "alloc_ok api"
    and "\<forall>opt \<in> set (msg_options m). sendable_option B opt"
    and "data_fits fits m"
    and "into_raw_pdu B api n m = (Inr p, del)"
  shows "from_raw_pdu B api p =
    Ret (Inr (m\<lparr>msg_code := wire_code (msg_code m),
                msg_options := sort_key (\<lambda>opt. unat (number B opt)) (msg_options m),
                msg_data := (if msg_data m = Some [] then None else msg_data m)\<rparr>))"
  using assms by (rule message_reparse)

text \<open>
  C31: errors of sending, and ownership of the PDU. A message without id is refused before a PDU is
  allocated; one without token, with an option that cannot be encoded, or with a body although its
  code is empty is refused after; and every PDU that was allocated is either returned or deleted,
  never both.
\<close>

theorem into_raw_pdu_errors:
  assumes "alloc_ok api" and "into_raw_pdu B api n m = (res, del)"
  shows "(msg_mid m = None \<longrightarrow> res = Inl MissingMessageId \<and> del = None) \<and>
    (\<forall>mid. msg_mid m = Some mid \<longrightarrow>
      (case coap_pdu_init api (to_raw_pdu_type (msg_type m)) (to_raw_pdu_code (msg_code m)) mid n of
         None \<Rightarrow> res = Inl MessageUnknown \<and> del = None
       | Some _ \<Rightarrow>
           ((\<exists>p. res = Inr p \<and> del = None) \<or> (\<exists>e p. res = Inl e \<and> del = Some p)) \<and>
           (msg_token m = None \<longrightarrow> res = Inl MissingToken) \<and>
           ((\<exists>opt \<in> set (msg_options m). \<not> encodable B opt) \<longrightarrow> (\<exists>e. res = Inl e)) \<and>
           (msg_code m = CoapMessageCode.Empty \<and> msg_data m \<noteq> None \<longrightarrow> (\<exists>e. res = Inl e))))"
proof (cases "msg_mid m")
  case None
  with assms(2) show ?thesis by (simp add: into_raw_pdu_def)
next
  case (Some mid)
  let ?init = "coap_pdu_init api (to_raw_pdu_type (msg_type m)) (to_raw_pdu_code (msg_code m)) mid n"
  show ?thesis
  proof (cases ?init)
    case None
    with Some assms(2) show ?thesis by (simp add: into_raw_pdu_def)
  next
    case (Some p0)
    obtain r p where app: "apply_to_raw_pdu B api m p0 = (r, p)" by fastforce
    with \<open>msg_mid m = Some mid\<close> Some assms(2)
    have res: "res = (case r of Inl e \<Rightarrow> Inl e | Inr _ \<Rightarrow> Inr p)"
      and del: "del = (case r of Inl _ \<Rightarrow> Some p | Inr _ \<Rightarrow> None)"
      by (auto simp: into_raw_pdu_def split: sum.splits)
    have tok: "r = Inl MissingToken" if "msg_token m = None"
      using that app by (simp add: apply_to_raw_pdu_def Let_def)
    have err: "\<exists>e. r = Inl e" if "(\<exists>opt \<in> set (msg_options m). \<not> encodable B opt) \<or>
        msg_code m = CoapMessageCode.Empty \<and> msg_data m \<noteq> None"
    proof (cases r)
      case (Inr u)
      with app have "apply_to_raw_pdu B api m p0 = (Inr u, p)" by simp
      then show ?thesis
      proof (rule apply_to_raw_pdu_Inr)
        fix p1 p2 v
        assume "apply_options B api m p1 = (Inr v, p2)" and "apply_data api m p2 = (Inr u, p)"
        with that apply_options_Inr[OF assms(1)] show ?thesis
          by (fastforce simp: apply_data_def split: option.splits)
      qed
    qed simp
    then have "(\<exists>opt \<in> set (msg_options m). \<not> encodable B opt) \<longrightarrow> (\<exists>e. res = Inl e)"
      and "msg_code m = CoapMessageCode.Empty \<and> msg_data m \<noteq> None \<longrightarrow> (\<exists>e. res = Inl e)"
      unfolding res by fastforce+
    moreover have "(\<exists>p. res = Inr p \<and> del = None) \<or> (\<exists>e p. res = Inl e \<and> del = Some p)"
      unfolding res del by (cases r) simp_all
    ultimately show ?thesis using tok res \<open>msg_mid m = Some mid\<close> Some by simp
  qed
qed

section \<open>A concrete PDU\<close>

text \<open>An instance of the PDU functions that keeps the PDU as a record, with which the assumptions hold.\<close>

record mem_pdu =
  p_type :: coap_pdu_type_t
  p_code :: coap_pdu_code_t
  p_mid :: int
  p_token :: bytes
  p_options :: "optlist_entry list"
  p_data :: bytes

definition mem_api :: "mem_pdu pdu_api" where
  "mem_api =
     \<lparr>coap_pdu_init = (\<lambda>ty c mid n. Some \<lparr>p_type = ty, p_code = c, p_mid = mid, p_token = [], p_options = [], p_data = []\<rparr>),
      coap_pdu_set_type = (\<lambda>p ty. p\<lparr>p_type := ty\<rparr>),
      coap_pdu_set_code = (\<lambda>p c. p\<lparr>p_code := c\<rparr>),
      coap_add_token = (\<lambda>p tok. if length tok \<le> 8 then (1, p\<lparr>p_token := tok, p_options := [], p_data := []\<rparr>) else (0, p)),
      coap_new_optlist = (\<lambda>num v. Some \<lparr>opt_number = num, opt_data = v\<rparr>),
      coap_add_optlist_pdu = (\<lambda>p es. case es of None \<Rightarrow> (1, p)
        | Some es \<Rightarrow> (1, p\<lparr>p_options := sort_key (\<lambda>e. unat (opt_number e)) es\<rparr>)),
      coap_add_data_large_request = (\<lambda>p dat. p\<lparr>p_data := dat\<rparr>),
      coap_add_data = (\<lambda>p dat. (1, p\<lparr>p_data := dat\<rparr>)),
      coap_pdu_get_type = p_type, coap_pdu_get_code = p_code, coap_pdu_get_mid = p_mid,
      coap_pdu_get_token = p_token, coap_get_data = p_data, coap_option_list = p_options\<rparr>"

lemma mem_api_ok [simp]: "pdu_api_ok (\<lambda>d. True) mem_api" "alloc_ok mem_api"
  by (auto simp: pdu_api_ok_def init_ok_def header_ok_def token_ok_def optlist_ok_def data_ok_def
      alloc_ok_def mem_api_def pdu_state_def split: if_splits)

definition sample_message :: CoapMessage where
  "sample_message = \<lparr>msg_type = Con, msg_code = Request Delete, msg_mid = Some 7,
     msg_options = [CoapOption.UriPath [98], CoapOption.UriHost [97]], msg_token = Some [1], msg_data = None\<rparr>"

lemma sample_encodable:
  "into_value_bytes iana (CoapOption.UriPath [98]) = Inr [98]"
  "into_value_bytes iana (CoapOption.UriHost [97]) = Inr [97]"
  by (simp_all add: into_value_bytes_def Let_def known_iana)

theorem message_roundtrip_witness:
  "from_raw_pdu iana mem_api (\<lparr>p_type = COAP_MESSAGE_CON, p_code = COAP_REQUEST_CODE_FETCH, p_mid = 7,
      p_token = [1], p_options = [\<lparr>opt_number = 3, opt_data = [97]\<rparr>, \<lparr>opt_number = 11, opt_data = [98]\<rparr>],
      p_data = []\<rparr>) =
   Ret (Inr (sample_message\<lparr>msg_code := Request Fetch,
      msg_options := [CoapOption.UriHost [97], CoapOption.UriPath [98]]\<rparr>))"
proof -
  have "fst (into_raw_pdu iana mem_api 1152 sample_message) = Inr (\<lparr>p_type = COAP_MESSAGE_CON,
      p_code = COAP_REQUEST_CODE_FETCH, p_mid = 7, p_token = [1],
      p_options = [\<lparr>opt_number = 3, opt_data = [97]\<rparr>, \<lparr>opt_number = 11, opt_data = [98]\<rparr>], p_data = []\<rparr>)"
    by (simp add: into_raw_pdu_def sample_message_def mem_api_def apply_to_raw_pdu_def
        apply_options_def apply_data_def optlist_step_def into_optlist_entry_def sample_encodable iana_num)
  then have "\<exists>del. into_raw_pdu iana mem_api 1152 sample_message = (Inr (\<lparr>p_type = COAP_MESSAGE_CON,
      p_code = COAP_REQUEST_CODE_FETCH, p_mid = 7, p_token = [1],
      p_options = [\<lparr>opt_number = 3, opt_data = [97]\<rparr>, \<lparr>opt_number = 11, opt_data = [98]\<rparr>], p_data = []\<rparr>), del)"
    by (metis prod.collapse)
  moreover have "\<forall>opt \<in> set (msg_options sample_message). sendable_option iana opt"
    by (simp add: sample_message_def sendable_option_def utf8_valid_ascii_Cons)
  moreover have "data_fits (\<lambda>d. True) sample_message" by (simp add: data_fits_def sample_message_def)
  ultimately show ?thesis
    using message_roundtrip[OF bindings_ok_iana mem_api_ok]
    by (fastforce simp: sample_message_def iana_num)
qed

theorem into_raw_pdu_errors_witness:
  "fst (into_raw_pdu iana mem_api 1152 (sample_message\<lparr>msg_token := None\<rparr>)) = Inl MissingToken"
  using into_raw_pdu_errors[OF mem_api_ok(2), of iana 1152 "sample_message\<lparr>msg_token := None\<rparr>"]
  by (simp add: sample_message_def mem_api_def prod_eq_iff)

section \<open>Panics while parsing\<close>

text \<open>
  C37: when parsing a PDU panics. \<^verbatim>\<open>from_raw_pdu\<close> panics exactly if it meets a No-Response option of at
  most one byte after options that all parse, or if all options parse and the code of the PDU is
  none that the crate names, such as a signalling code.
\<close>

theorem from_raw_pdu_panics_iff:
  assumes "bindings_ok B"
  shows "from_raw_pdu B api pdu = Panic \<longleftrightarrow>
    (\<exists>pre e post opts. coap_option_list api pdu = pre @ e # post \<and>
       run_map_list (read_option B) pre = Ret (Inr opts) \<and>
       opt_number e = opt_num B CoapOptionType.NoResponse \<and> length (opt_data e) \<le> 1) \<or>
    (\<exists>opts. run_map_list (read_option B) (coap_option_list api pdu) = Ret (Inr opts)) \<and>
      \<not> named_code (coap_pdu_get_code api pdu)"
proof -
  have opt: "read_option B e = Panic \<longleftrightarrow>
      opt_number e = opt_num B CoapOptionType.NoResponse \<and> length (opt_data e) \<le> 1" for e
    unfolding read_option_def run_map_eq_Panic from_raw_opt_def by (rule from_type_value_Panic[OF assms])
  obtain ty where ty: "message_type_from B (coap_pdu_get_type api pdu) = Ret ty"
    using message_type_total[OF assms] by blast
  have code: "expect (res_ok (message_code_try_from B (coap_pdu_get_code api pdu))) = Panic \<longleftrightarrow>
      \<not> named_code (coap_pdu_get_code api pdu)"
    using message_code_named[OF assms, of "coap_pdu_get_code api pdu"]
    by (cases "message_code_try_from B (coap_pdu_get_code api pdu)") auto
  have "from_raw_pdu B api pdu = Panic \<longleftrightarrow>
      run_map_list (read_option B) (coap_option_list api pdu) = Panic \<or>
      (\<exists>opts. run_map_list (read_option B) (coap_option_list api pdu) = Ret (Inr opts)) \<and>
      expect (res_ok (message_code_try_from B (coap_pdu_get_code api pdu))) = Panic"
    unfolding from_raw_pdu_def Let_def
    by (cases "run_map_list (read_option B) (coap_option_list api pdu)")
      (auto simp: ty run_try_def run_bind_def split: sum.splits run.splits)
  then show ?thesis unfolding run_map_list_Panic opt code .
qed

theorem from_raw_pdu_panics_iff_witness:
  "from_raw_pdu iana mem_api \<lparr>p_type = COAP_MESSAGE_CON, p_code = COAP_REQUEST_CODE_GET, p_mid = 1, p_token = [],
     p_options = [\<lparr>opt_number = 258, opt_data = [2]\<rparr>], p_data = []\<rparr> = Panic"
proof -
  have "opt_num iana CoapOptionType.NoResponse = 258" by (simp add: iana_def)
  then have "\<exists>pre e post opts. [\<lparr>opt_number = 258, opt_data = [2]\<rparr>] = pre @ e # post \<and>
      run_map_list (read_option iana) pre = Ret (Inr opts) \<and>
      opt_number e = opt_num iana CoapOptionType.NoResponse \<and> length (opt_data e) \<le> 1"
    by (intro exI[of _ "[]"] exI[of _ "\<lparr>opt_number = 258, opt_data = [2]\<rparr>"]) simp
  then show ?thesis
    by (subst from_raw_pdu_panics_iff) (simp_all add: mem_api_def)
qed

end
