(* ===== verification/Coap_Uri.thy ===== *)
theory Coap_Uri
  imports Coap_Option
begin

text \<open>
  URIs (\<^verbatim>\<open>libcoap/src/types.rs\<close>, \<^verbatim>\<open>CoapUriScheme\<close>, \<^verbatim>\<open>CoapProtocol\<close> and \<^verbatim>\<open>CoapUri\<close>, and the string
  comparison of \<^verbatim>\<open>libcoap-sys/src/lib.rs\<close>): a URI owns a pinned C string and a raw \<^verbatim>\<open>coap_uri_t\<close> whose
  components point into it. The parsers \<^verbatim>\<open>coap_split_uri\<close> and \<^verbatim>\<open>coap_split_proxy_uri\<close> and the
  conversion \<^verbatim>\<open>coap_uri_into_options\<close> belong to libcoap and are parameters. The lemmas show that
  every URI the crate builds has components inside its own string, what cloning and comparing do,
  and that the option buffer is large enough.
\<close>

section \<open>Schemes and protocols\<close>

datatype CoapUriScheme = Coap | Coaps | CoapTcp | CoapsTcp | Http | Https | CoapWs | CoapsWs

datatype CoapProtocol = NoneProto | Udp | Dtls | Tcp | Tls

datatype coap_uri_scheme_t =
    COAP_URI_SCHEME_COAP | COAP_URI_SCHEME_COAPS | COAP_URI_SCHEME_COAP_TCP |
    COAP_URI_SCHEME_COAPS_TCP | COAP_URI_SCHEME_HTTP | COAP_URI_SCHEME_HTTPS |
    COAP_URI_SCHEME_COAP_WS | COAP_URI_SCHEME_COAPS_WS | COAP_URI_SCHEME_OTHER nat

datatype coap_proto_t =
    COAP_PROTO_NONE | COAP_PROTO_UDP | COAP_PROTO_DTLS | COAP_PROTO_TCP | COAP_PROTO_TLS |
    COAP_PROTO_OTHER nat

text \<open>The numbers of the generated bindings, again a parameter.\<close>

record uri_bindings =
  scheme_num :: "coap_uri_scheme_t \<Rightarrow> nat"
  proto_num :: "coap_proto_t \<Rightarrow> nat"
  COAP_URI_SCHEME_SECURE_MASK :: nat

definition uri_schemes :: "CoapUriScheme list" where
  "uri_schemes = [Coap, Coaps, CoapTcp, CoapsTcp, Http, Https, CoapWs, CoapsWs]"

definition protocols :: "CoapProtocol list" where
  "protocols = [NoneProto, Udp, Dtls, Tcp, Tls]"

fun scheme_const :: "CoapUriScheme \<Rightarrow> coap_uri_scheme_t" where
  "scheme_const Coap = COAP_URI_SCHEME_COAP"
| "scheme_const Coaps = COAP_URI_SCHEME_COAPS"
| "scheme_const CoapTcp = COAP_URI_SCHEME_COAP_TCP"
| "scheme_const CoapsTcp = COAP_URI_SCHEME_COAPS_TCP"
| "scheme_const Http = COAP_URI_SCHEME_HTTP"
| "scheme_const Https = COAP_URI_SCHEME_HTTPS"
| "scheme_const CoapWs = COAP_URI_SCHEME_COAP_WS"
| "scheme_const CoapsWs = COAP_URI_SCHEME_COAPS_WS"

fun proto_const :: "CoapProtocol \<Rightarrow> coap_proto_t" where
  "proto_const NoneProto = COAP_PROTO_NONE"
| "proto_const Udp = COAP_PROTO_UDP"
| "proto_const Dtls = COAP_PROTO_DTLS"
| "proto_const Tcp = COAP_PROTO_TCP"
| "proto_const Tls = COAP_PROTO_TLS"

definition scheme_is_secure :: "uri_bindings \<Rightarrow> CoapUriScheme \<Rightarrow> bool" where
  "scheme_is_secure U s = (and (COAP_URI_SCHEME_SECURE_MASK U) (scheme_num U (scheme_const s)) > 0)"

definition from_raw_scheme :: "uri_bindings \<Rightarrow> coap_uri_scheme_t \<Rightarrow> CoapUriScheme run" where
  "from_raw_scheme U scheme =
     expect (from_primitive uri_schemes (\<lambda>s. scheme_num U (scheme_const s)) (scheme_num U scheme))"

definition scheme_from_str :: "rstring \<Rightarrow> UriParsingError + CoapUriScheme" where
  "scheme_from_str s =
     (if s = ascii ''coap'' then Inr Coap
      else if s = ascii ''coaps'' then Inr Coaps
      else if s = ascii ''coap+tcp'' then Inr CoapTcp
      else if s = ascii ''coaps+tcp'' then Inr CoapsTcp
      else if s = ascii ''http'' then Inr Http
      else if s = ascii ''https'' then Inr Https
      else if s = ascii ''coap+ws'' then Inr CoapWs
      else if s = ascii ''coaps+ws'' then Inr CoapsWs
      else Inl (NotACoapScheme s))"

fun scheme_fmt :: "CoapUriScheme \<Rightarrow> rstring" where
  "scheme_fmt Coap = ascii ''coap''"
| "scheme_fmt Coaps = ascii ''coaps''"
| "scheme_fmt CoapTcp = ascii ''coap+tcp''"
| "scheme_fmt CoapsTcp = ascii ''coaps+tcp''"
| "scheme_fmt Http = ascii ''http''"
| "scheme_fmt Https = ascii ''https''"
| "scheme_fmt CoapWs = ascii ''coap+ws''"
| "scheme_fmt CoapsWs = ascii ''coaps+ws''"

fun scheme_from_protocol :: "CoapProtocol \<Rightarrow> CoapUriScheme" where
  "scheme_from_protocol NoneProto = Coap"
| "scheme_from_protocol Udp = Coap"
| "scheme_from_protocol Dtls = Coaps"
| "scheme_from_protocol Tcp = CoapTcp"
| "scheme_from_protocol Tls = CoapsTcp"

fun protocol_is_secure :: "CoapProtocol \<Rightarrow> bool" where
  "protocol_is_secure NoneProto = False"
| "protocol_is_secure Udp = False"
| "protocol_is_secure Tcp = False"
| "protocol_is_secure Dtls = True"
| "protocol_is_secure Tls = True"

definition protocol_from_raw :: "uri_bindings \<Rightarrow> coap_proto_t \<Rightarrow> CoapProtocol run" where
  "protocol_from_raw U raw_proto =
     expect (from_primitive protocols (\<lambda>p. proto_num U (proto_const p)) (proto_num U raw_proto))"

fun protocol_fmt :: "CoapProtocol \<Rightarrow> rstring" where
  "protocol_fmt NoneProto = ascii ''none''"
| "protocol_fmt Udp = ascii ''udp''"
| "protocol_fmt Dtls = ascii ''dtls''"
| "protocol_fmt Tcp = ascii ''tcp''"
| "protocol_fmt Tls = ascii ''tls''"

section \<open>Raw URIs\<close>

text \<open>
  A pointer into a C string is null or a position in the buffer of that string, which is pinned
  and immutable, terminating null byte included.
\<close>

datatype cptr = NullPtr | At bytes nat

record coap_str_const_t =
  str_length :: nat
  str_s :: cptr

record coap_uri_t =
  raw_host :: coap_str_const_t
  raw_port :: u16
  raw_path :: coap_str_const_t
  raw_query :: coap_str_const_t
  raw_scheme :: coap_uri_scheme_t

record CoapUri =
  uri_is_proxy :: bool
  raw_uri :: coap_uri_t
  uri_str :: bytes

text \<open>\<^verbatim>\<open>std::slice::from_raw_parts\<close>, and \<^verbatim>\<open>CString::new\<close>.\<close>

definition read_slice :: "coap_str_const_t \<Rightarrow> bytes" where
  "read_slice c = (case str_s c of NullPtr \<Rightarrow> [] | At buf off \<Rightarrow> take (str_length c) (drop off buf))"

definition cstring_new :: "bytes \<Rightarrow> UriParsingError + bytes" where
  "cstring_new v =
     (if 0 \<in> set v then Inl (ContainsNullByte (length (takeWhile (\<lambda>b. b \<noteq> 0) v)) v) else Inr v)"

definition with_nul :: "bytes \<Rightarrow> bytes" where
  "with_nul s = s @ [0]"

section \<open>The URI string\<close>

text \<open>\<^verbatim>\<open>format!("{}", port)\<close>.\<close>

fun dec_string :: "nat \<Rightarrow> rstring" where
  "dec_string n = (if n < 10 then [of_nat (48 + n)] else dec_string (n div 10) @ [of_nat (48 + n mod 10)])"

text \<open>
  The loop that copies the parts into the zeroed buffer: \<^verbatim>\<open>split_at_mut\<close> panics when the rest of
  the buffer is too short.
\<close>

fun copy_parts :: "bytes list \<Rightarrow> bytes \<Rightarrow> bytes run" where
  "copy_parts [] rest = Ret rest"
| "copy_parts (part # parts) rest =
     (if length part \<le> length rest
      then run_map (\<lambda>tl. part @ tl) (copy_parts parts (drop (length part) rest))
      else Panic)"

definition construct_uri_string_from_parts ::
    "CoapUriScheme \<Rightarrow> bytes \<Rightarrow> u16 \<Rightarrow> bytes \<Rightarrow> bytes \<Rightarrow>
      (UriParsingError + bytes \<times> nat \<times> nat \<times> nat) run" where
  "construct_uri_string_from_parts sch host port path query =
     (let scheme = (if host \<noteq> [] then scheme_fmt sch @ ascii ''://'' else []);
          port = (if port \<noteq> 0 then ascii '':'' @ dec_string (unat port) else []);
          parts = [scheme, host, port, path, query];
          uri_str_len = sum_list (map length parts);
          host_pos = sum_list (map length (take 1 parts));
          path_pos = sum_list (map length (take 3 parts));
          query_pos = sum_list (map length (take 4 parts))
      in run_map
           (\<lambda>uri_str_copy. res_try (cstring_new uri_str_copy)
              (\<lambda>v. Inr (v, host_pos, path_pos, query_pos)))
           (copy_parts parts (replicate uri_str_len 0)))"

section \<open>Construction\<close>

definition null_str :: coap_str_const_t where
  "null_str = \<lparr>str_length = 0, str_s = NullPtr\<rparr>"

definition create_unparsed_uri :: "bytes \<Rightarrow> bool \<Rightarrow> CoapUri" where
  "create_unparsed_uri s is_proxy =
     \<lparr>uri_is_proxy = is_proxy,
      raw_uri = \<lparr>raw_host = null_str, raw_port = 0, raw_path = null_str, raw_query = null_str,
                 raw_scheme = COAP_URI_SCHEME_COAP\<rparr>,
      uri_str = s\<rparr>"

text \<open>
  A parser of libcoap gets a pointer to the string, its length and the structure to fill, and
  returns a status with the structure as it left it.
\<close>

type_synonym split_fn = "cptr \<Rightarrow> nat \<Rightarrow> coap_uri_t \<Rightarrow> int \<times> coap_uri_t"

definition create_parsed_uri :: "bytes \<Rightarrow> split_fn \<Rightarrow> bool \<Rightarrow> UriParsingError + CoapUri" where
  "create_parsed_uri s parsing_fn is_proxy =
     (let uri = create_unparsed_uri s is_proxy;
          (r, raw) = parsing_fn (At (with_nul (uri_str uri)) 0) (length (uri_str uri)) (raw_uri uri)
      in if r < 0 then Inl UriUnknown else Inr (uri\<lparr>raw_uri := raw\<rparr>))"

definition new_from_parts ::
    "split_fn \<Rightarrow> bool \<Rightarrow> CoapUriScheme \<Rightarrow> bytes \<Rightarrow> u16 \<Rightarrow> bytes option \<Rightarrow> bytes option \<Rightarrow>
      (UriParsingError + CoapUri) run" where
  "new_from_parts split is_proxy scheme host port path query =
     run_try (construct_uri_string_from_parts scheme host port
                (case path of Some p \<Rightarrow> p | None \<Rightarrow> ascii ''/'')
                (case query of Some q \<Rightarrow> q | None \<Rightarrow> []))
       (\<lambda>(s, _, _, _). Ret (create_parsed_uri s split is_proxy))"

definition uri_new where
  "uri_new coap_split_uri scheme host port path query =
     new_from_parts coap_split_uri False scheme host port path query"

definition uri_new_proxy where
  "uri_new_proxy coap_split_proxy_uri scheme host port path query =
     new_from_parts coap_split_proxy_uri True scheme host port path query"

definition uri_new_relative where
  "uri_new_relative coap_split_uri path query = uri_new coap_split_uri Coap [] 0 path query"

definition try_from_str :: "split_fn \<Rightarrow> rstring \<Rightarrow> UriParsingError + CoapUri" where
  "try_from_str coap_split_uri s =
     res_try (cstring_new s) (\<lambda>c. create_parsed_uri c coap_split_uri False)"

definition try_from_str_proxy :: "split_fn \<Rightarrow> rstring \<Rightarrow> UriParsingError + CoapUri" where
  "try_from_str_proxy coap_split_proxy_uri s =
     res_try (cstring_new s) (\<lambda>c. create_parsed_uri c coap_split_proxy_uri True)"

section \<open>Accessors\<close>

definition uri_host :: "CoapUri \<Rightarrow> bytes option" where
  "uri_host u = (let raw_str = raw_host (raw_uri u) in
     if str_length raw_str = 0 then None else Some (read_slice raw_str))"

definition uri_scheme :: "uri_bindings \<Rightarrow> CoapUri \<Rightarrow> CoapUriScheme option run" where
  "uri_scheme U u = (case uri_host u of
     None \<Rightarrow> Ret None
   | Some _ \<Rightarrow> run_map Some (from_raw_scheme U (raw_scheme (raw_uri u))))"

definition uri_port :: "CoapUri \<Rightarrow> u16 option" where
  "uri_port u = (if raw_port (raw_uri u) = 0 then None else Some (raw_port (raw_uri u)))"

definition uri_path :: "CoapUri \<Rightarrow> bytes option" where
  "uri_path u = (let raw_str = raw_path (raw_uri u) in
     if str_s raw_str = NullPtr then None else Some (read_slice raw_str))"

definition uri_query :: "CoapUri \<Rightarrow> bytes option" where
  "uri_query u = (let raw_str = raw_query (raw_uri u) in
     if str_s raw_str = NullPtr then None else Some (read_slice raw_str))"

section \<open>Copies and comparison\<close>

definition slice_or_empty :: "coap_str_const_t \<Rightarrow> bytes" where
  "slice_or_empty c = (if str_s c = NullPtr then [] else read_slice c)"

text \<open>\<^verbatim>\<open>as_bytes_with_nul()[pos..pos + 1].as_ptr()\<close> panics when the position is out of range.\<close>

definition ptr_into :: "bytes \<Rightarrow> nat \<Rightarrow> cptr run" where
  "ptr_into s pos = (if pos + 1 \<le> length (with_nul s) then Ret (At (with_nul s) pos) else Panic)"

definition from_raw_uri :: "uri_bindings \<Rightarrow> coap_uri_t option \<Rightarrow> bool \<Rightarrow> CoapUri run" where
  "from_raw_uri U raw_ptr is_proxy =
     run_bind (expect raw_ptr) (\<lambda>raw.
     run_bind (from_raw_scheme U (raw_scheme raw)) (\<lambda>scheme.
     run_bind (construct_uri_string_from_parts scheme (slice_or_empty (raw_host raw)) (raw_port raw)
                 (slice_or_empty (raw_path raw)) (slice_or_empty (raw_query raw))) (\<lambda>built.
     run_bind (expect (res_ok built)) (\<lambda>(uri_str_copy, host_pos, path_pos, query_pos).
     run_bind (expect (res_ok (cstring_new uri_str_copy))) (\<lambda>s.
     run_bind (ptr_into s host_pos) (\<lambda>hp.
     run_bind (ptr_into s path_pos) (\<lambda>pp.
     run_bind (ptr_into s query_pos) (\<lambda>qp.
     Ret ((create_unparsed_uri s is_proxy)
       \<lparr>raw_uri := \<lparr>raw_host = \<lparr>str_length = str_length (raw_host raw), str_s = hp\<rparr>,
                    raw_port = raw_port raw,
                    raw_path = \<lparr>str_length = str_length (raw_path raw), str_s = pp\<rparr>,
                    raw_query = \<lparr>str_length = str_length (raw_query raw), str_s = qp\<rparr>,
                    raw_scheme = raw_scheme raw\<rparr>\<rparr>)))))))))"

definition uri_clone :: "uri_bindings \<Rightarrow> CoapUri \<Rightarrow> CoapUri run" where
  "uri_clone U u = from_raw_uri U (Some (raw_uri u)) (uri_is_proxy u)"

definition coap_string_equal_internal :: "coap_str_const_t \<Rightarrow> coap_str_const_t \<Rightarrow> bool" where
  "coap_string_equal_internal s1 s2 \<longleftrightarrow>
     str_length s1 = str_length s2 \<and>
     (str_length s1 = 0 \<or>
      str_s s1 \<noteq> NullPtr \<and> str_s s2 \<noteq> NullPtr \<and> read_slice s1 = read_slice s2)"

definition uri_eq :: "CoapUri \<Rightarrow> CoapUri \<Rightarrow> bool" where
  "uri_eq u v \<longleftrightarrow>
     raw_port (raw_uri u) = raw_port (raw_uri v) \<and>
     raw_scheme (raw_uri u) = raw_scheme (raw_uri v) \<and>
     coap_string_equal_internal (raw_host (raw_uri u)) (raw_host (raw_uri v)) \<and>
     coap_string_equal_internal (raw_path (raw_uri u)) (raw_path (raw_uri v)) \<and>
     coap_string_equal_internal (raw_query (raw_uri u)) (raw_query (raw_uri v))"

section \<open>Conversion into options\<close>

text \<open>A byte cast to a character is compared with an ASCII separator.\<close>

definition is_byte :: "char \<Rightarrow> u8 \<Rightarrow> bool" where
  "is_byte ch c \<longleftrightarrow> c = of_char ch"

definition count_sep :: "(u8 \<Rightarrow> bool) \<Rightarrow> bytes \<Rightarrow> nat" where
  "count_sep p v = length (filter p v)"

definition buf_len :: "CoapUri \<Rightarrow> nat" where
  "buf_len u =
     (case uri_host u of Some v \<Rightarrow> length v + 5 | None \<Rightarrow> 0)
     + (case uri_port u of Some _ \<Rightarrow> 7 | None \<Rightarrow> 0)
     + (case uri_path u of Some v \<Rightarrow> length v | None \<Rightarrow> 0)
     + (case uri_path u of Some v \<Rightarrow> (count_sep (is_byte (CHR ''/'')) v + 1) * 5 | None \<Rightarrow> 0)
     + (case uri_query u of Some v \<Rightarrow> length v | None \<Rightarrow> 0)
     + (case uri_query u of
          Some v \<Rightarrow> (count_sep (\<lambda>c. is_byte (CHR ''?'') c \<or> is_byte (CHR ''&'') c) v + 1) * 5 | None \<Rightarrow> 0)"

text \<open>
  The loop over the option list. The configuration flag \<^verbatim>\<open>coap_uri_buf_unused\<close> (set for libcoap
  versions that ignore the buffer) and \<^verbatim>\<open>coap_uri_into_options\<close> are parameters; the latter gets the
  raw URI and the buffer length and returns a status and the list.
\<close>

fun opts_of_optlist :: "bindings \<Rightarrow> optlist_entry list \<Rightarrow> CoapOption list run" where
  "opts_of_optlist B [] = Ret []"
| "opts_of_optlist B (e # es) =
     run_bind (from_optlist_entry B e) (\<lambda>r.
     run_bind (expect (res_ok r)) (\<lambda>opt.
     run_map (\<lambda>out. opt # out) (opts_of_optlist B es)))"

definition uri_into_options ::
    "bindings \<Rightarrow> bool \<Rightarrow> (coap_uri_t \<Rightarrow> nat \<Rightarrow> int \<times> optlist_entry list) \<Rightarrow> CoapUri \<Rightarrow> CoapOption list run" where
  "uri_into_options B coap_uri_buf_unused coap_uri_into_options u =
     (let (r, optlist) =
            coap_uri_into_options (raw_uri u) (if coap_uri_buf_unused then 0 else buf_len u)
      in if r < 0 then Panic else opts_of_optlist B optlist)"

declare dec_string.simps [simp del]

section \<open>Scheme conversions\<close>

lemma set_uri_schemes [simp]: "set uri_schemes = UNIV"
proof -
  have "s \<in> set uri_schemes" for s by (cases s) (simp_all add: uri_schemes_def)
  then show ?thesis by auto
qed

definition uri_bindings_ok :: "uri_bindings \<Rightarrow> bool" where
  "uri_bindings_ok U \<longleftrightarrow> inj (scheme_num U) \<and> inj (proto_num U)"

lemma inj_scheme_const: "inj scheme_const"
  by (rule inj_if_distinct_map[OF set_uri_schemes]) (simp add: uri_schemes_def)

lemma from_raw_scheme_const:
  assumes "uri_bindings_ok U"
  shows "from_raw_scheme U (scheme_const s) = Ret s"
proof -
  have "inj (\<lambda>s. scheme_num U (scheme_const s))"
    using assms inj_scheme_const by (auto simp: uri_bindings_ok_def inj_def)
  then show ?thesis by (simp add: from_raw_scheme_def expect_eq_Ret from_primitive_eq_Some)
qed

lemma scheme_from_str_fmt [simp]: "scheme_from_str (scheme_fmt s) = Inr s"
  by (cases s) (simp_all add: scheme_from_str_def ascii_def)

lemma scheme_from_str_Inr: "scheme_from_str t = Inr s \<Longrightarrow> t = scheme_fmt s"
  by (auto simp: scheme_from_str_def split: if_splits)

lemma scheme_from_str_Inl: "scheme_from_str t = Inl e \<Longrightarrow> e = NotACoapScheme t"
  by (auto simp: scheme_from_str_def split: if_splits)

section \<open>The URI string, as a concatenation\<close>

lemma copy_parts_eq:
  "sum_list (map length parts) \<le> length rest \<Longrightarrow>
   copy_parts parts rest = Ret (concat parts @ drop (sum_list (map length parts)) rest)"
  by (induction parts arbitrary: rest) (simp_all add: add.commute)

definition uri_prefix :: "CoapUriScheme \<Rightarrow> bytes \<Rightarrow> bytes" where
  "uri_prefix sch host = (if host \<noteq> [] then scheme_fmt sch @ ascii ''://'' else [])"

definition port_suffix :: "u16 \<Rightarrow> bytes" where
  "port_suffix port = (if port \<noteq> 0 then ascii '':'' @ dec_string (unat port) else [])"

lemma construct_eq:
  "construct_uri_string_from_parts sch host port path query =
     Ret (let pre = uri_prefix sch host; mid = pre @ host @ port_suffix port in
       res_try (cstring_new (mid @ path @ query))
         (\<lambda>v. Inr (v, length pre, length mid, length (mid @ path))))"
  by (simp add: construct_uri_string_from_parts_def Let_def copy_parts_eq uri_prefix_def
      port_suffix_def ac_simps)

lemma cstring_new_eq [simp]:
  "0 \<notin> set v \<Longrightarrow> cstring_new v = Inr v"
  "0 \<in> set v \<Longrightarrow> cstring_new v = Inl (ContainsNullByte (length (takeWhile (\<lambda>b. b \<noteq> 0) v)) v)"
  by (simp_all add: cstring_new_def)

lemma scheme_fmt_no_nul: "0 \<notin> set (scheme_fmt s)"
  by (cases s) (simp_all add: ascii_def)

lemma digit_not_0: "d < 10 \<Longrightarrow> (of_nat (48 + d) :: u8) \<noteq> 0"
  by (simp add: word_of_nat_eq_0_iff nat_dvd_not_less del: of_nat_add)

lemma dec_string_no_nul: "0 \<notin> set (dec_string n)"
proof (induction n rule: dec_string.induct)
  case (1 n)
  then show ?case using digit_not_0[of "n mod 10"] digit_not_0[of n]
    by (subst dec_string.simps) (auto simp del: of_nat_add dec_string.simps)
qed

lemma uri_affixes_no_nul: "0 \<notin> set (uri_prefix sch host)" "0 \<notin> set (port_suffix port)"
  using scheme_fmt_no_nul[of sch] dec_string_no_nul[of "unat port"]
  by (auto simp: uri_prefix_def port_suffix_def ascii_def simp del: dec_string.simps)

section \<open>The invariant\<close>

text \<open>A component is absent, or a range inside the URI's own string.\<close>

definition str_in :: "bytes \<Rightarrow> coap_str_const_t \<Rightarrow> bool" where
  "str_in s c = (case str_s c of
     NullPtr \<Rightarrow> str_length c = 0
   | At buf off \<Rightarrow> buf = with_nul s \<and> off + str_length c \<le> length s)"

definition raw_wf :: "bytes \<Rightarrow> coap_uri_t \<Rightarrow> bool" where
  "raw_wf s raw \<longleftrightarrow> str_in s (raw_host raw) \<and> str_in s (raw_path raw) \<and> str_in s (raw_query raw) \<and>
     raw_scheme raw \<in> scheme_const ` set uri_schemes"

definition uri_wf :: "CoapUri \<Rightarrow> bool" where
  "uri_wf u \<longleftrightarrow> 0 \<notin> set (uri_str u) \<and> raw_wf (uri_str u) (raw_uri u)"

text \<open>
  What libcoap documents of its URI parsers: on success the components not present are null and
  the others lie in the given string, and the scheme is one it knows.
\<close>

definition split_ok :: "split_fn \<Rightarrow> bool" where
  "split_ok split \<longleftrightarrow>
     (\<forall>s raw r raw'. split (At (with_nul s) 0) (length s) raw = (r, raw') \<longrightarrow> 0 \<le> r \<longrightarrow> raw_wf s raw')"

lemma read_slice_in:
  assumes "str_in s c"
  shows "read_slice c = (case str_s c of NullPtr \<Rightarrow> [] | At buf off \<Rightarrow> take (str_length c) (drop off s))"
    and "length (read_slice c) = str_length c" and "set (read_slice c) \<subseteq> set s"
  using assms set_take_subset set_drop_subset
  by (fastforce simp: str_in_def read_slice_def with_nul_def split: cptr.splits)+

lemma slice_or_empty_eq [simp]: "str_in s c \<Longrightarrow> slice_or_empty c = read_slice c"
  by (auto simp: slice_or_empty_def read_slice_def)

lemma string_equal_iff:
  assumes "str_in s c" and "str_in t d"
  shows "coap_string_equal_internal c d \<longleftrightarrow> read_slice c = read_slice d"
proof
  assume "coap_string_equal_internal c d"
  then show "read_slice c = read_slice d"
    using read_slice_in(2)[OF assms(1)] read_slice_in(2)[OF assms(2)]
    by (auto simp: coap_string_equal_internal_def)
next
  assume eq: "read_slice c = read_slice d"
  moreover from eq have "str_length c = str_length d"
    using read_slice_in(2)[OF assms(1)] read_slice_in(2)[OF assms(2)] by simp
  ultimately show "coap_string_equal_internal c d"
    using assms by (auto simp: coap_string_equal_internal_def str_in_def)
qed

lemma create_parsed_uri_wf:
  assumes "split_ok split" and "0 \<notin> set s" and "create_parsed_uri s split p = Inr u"
  shows "uri_wf u \<and> uri_str u = s \<and> uri_is_proxy u = p"
proof -
  obtain r raw where res: "split (At (with_nul s) 0) (length s) (raw_uri (create_unparsed_uri s p)) = (r, raw)"
    by (meson surj_pair)
  with assms(3) have u: "u = (create_unparsed_uri s p)\<lparr>raw_uri := raw\<rparr>" and "0 \<le> r"
    by (auto simp: create_parsed_uri_def create_unparsed_uri_def split: if_splits)
  with assms(1) res have "raw_wf s raw" unfolding split_ok_def by blast
  with u assms(2) show ?thesis by (simp add: uri_wf_def create_unparsed_uri_def)
qed

lemma cstring_new_Inr: "cstring_new v = Inr c \<longleftrightarrow> c = v \<and> 0 \<notin> set v"
  by (auto simp: cstring_new_def)

text \<open>The string of a URI built from its parts.\<close>

definition uri_text :: "CoapUriScheme \<Rightarrow> bytes \<Rightarrow> u16 \<Rightarrow> bytes \<Rightarrow> bytes \<Rightarrow> bytes" where
  "uri_text sch host port path query = uri_prefix sch host @ host @ port_suffix port @ path @ query"

lemma new_from_parts_eq:
  "new_from_parts split p scheme host port path query =
    Ret (res_try (cstring_new (uri_text scheme host port
           (case path of Some p \<Rightarrow> p | None \<Rightarrow> ascii ''/'') (case query of Some q \<Rightarrow> q | None \<Rightarrow> [])))
         (\<lambda>s. create_parsed_uri s split p))"
  by (cases "cstring_new (uri_text scheme host port
           (case path of Some p \<Rightarrow> p | None \<Rightarrow> ascii ''/'') (case query of Some q \<Rightarrow> q | None \<Rightarrow> []))")
    (simp_all add: new_from_parts_def construct_eq Let_def uri_text_def)

lemma first_nul: "0 \<in> set v \<Longrightarrow> v ! length (takeWhile (\<lambda>b. b \<noteq> (0 :: u8)) v) = 0"
  by (induction v) auto

section \<open>Properties\<close>

text \<open>
  Scheme names. Parsing the printed name of a scheme gives the scheme; a string is accepted
  exactly when it is such a name, and otherwise the error carries that string.
\<close>

theorem scheme_names:
  "scheme_from_str (scheme_fmt s) = Inr s \<and>
   ((\<exists>s'. scheme_from_str t = Inr s' \<and> t = scheme_fmt s') \<or>
    scheme_from_str t = Inl (NotACoapScheme t) \<and> t \<notin> range scheme_fmt)"
proof (cases "scheme_from_str t")
  case (Inl e)
  then show ?thesis using scheme_from_str_Inl[OF Inl] scheme_from_str_fmt by fastforce
next
  case (Inr s')
  then show ?thesis using scheme_from_str_Inr[OF Inr] by simp
qed

text \<open>
  The URI string. The buffer that \<^verbatim>\<open>construct_uri_string_from_parts\<close> fills is never too short,
  the result is the concatenation of the parts, and the three positions it returns delimit
  exactly the host, the path and the query; it fails exactly when a part has a null byte.
\<close>

theorem construct_uri_string_exact:
  "if 0 \<in> set (host @ path @ query)
   then \<exists>pos. construct_uri_string_from_parts sch host port path query =
          Ret (Inl (ContainsNullByte pos (uri_text sch host port path query))) \<and>
          uri_text sch host port path query ! pos = 0
   else \<exists>s h p q. construct_uri_string_from_parts sch host port path query = Ret (Inr (s, h, p, q)) \<and>
      s = uri_text sch host port path query \<and>
      take (length host) (drop h s) = host \<and> take (length path) (drop p s) = path \<and> drop q s = query"
proof (cases "0 \<in> set (host @ path @ query)")
  case True
  then have "0 \<in> set (uri_text sch host port path query)" by (auto simp: uri_text_def)
  with True first_nul[OF this] show ?thesis by (auto simp: construct_eq Let_def uri_text_def)
next
  case False
  then have "0 \<notin> set (uri_text sch host port path query)"
    by (simp add: uri_text_def uri_affixes_no_nul)
  with False show ?thesis by (auto simp: construct_eq Let_def uri_text_def)
qed

text \<open>
  C29: every constructor establishes the URI invariant: a URI that \<^verbatim>\<open>new\<close>, \<^verbatim>\<open>new_proxy\<close>,
  \<^verbatim>\<open>new_relative\<close>, \<^verbatim>\<open>try_from_str\<close> or \<^verbatim>\<open>try_from_str_proxy\<close> returns has components inside its own
  null-free string and a known scheme, and carries the right proxy flag; none of them panics.
\<close>

theorem uri_constructors_wf:
  assumes "split_ok split"
  shows "(uri_new split sch host port path query = Ret (Inr u) \<longrightarrow> uri_wf u \<and> \<not> uri_is_proxy u) \<and>
    (uri_new_proxy split sch host port path query = Ret (Inr u) \<longrightarrow> uri_wf u \<and> uri_is_proxy u) \<and>
    (uri_new_relative split path query = Ret (Inr u) \<longrightarrow> uri_wf u \<and> \<not> uri_is_proxy u) \<and>
    (try_from_str split s = Inr u \<longrightarrow> uri_wf u \<and> uri_str u = s \<and> \<not> uri_is_proxy u) \<and>
    (try_from_str_proxy split s = Inr u \<longrightarrow> uri_wf u \<and> uri_str u = s \<and> uri_is_proxy u) \<and>
    uri_new split sch host port path query \<noteq> Panic \<and>
    uri_new_proxy split sch host port path query \<noteq> Panic"
  using create_parsed_uri_wf[OF assms]
  by (auto simp: uri_new_def uri_new_proxy_def uri_new_relative_def try_from_str_def
      try_from_str_proxy_def new_from_parts_eq res_try_eq_Inr cstring_new_Inr)

text \<open>A parser of relative URIs without query.\<close>

definition split_relative :: split_fn where
  "split_relative p len raw = (case p of
     NullPtr \<Rightarrow> (-1, raw)
   | At buf off \<Rightarrow> (0, raw\<lparr>raw_host := null_str, raw_port := 5683,
       raw_path := \<lparr>str_length = len - 1, str_s = At buf (if len = 0 then off else off + 1)\<rparr>,
       raw_query := null_str, raw_scheme := COAP_URI_SCHEME_COAP\<rparr>))"

lemma split_ok_relative: "split_ok split_relative"
proof -
  have "COAP_URI_SCHEME_COAP \<in> range scheme_const"
    by (metis rangeI scheme_const.simps(1))
  then show ?thesis
    by (auto simp: split_ok_def split_relative_def raw_wf_def str_in_def null_str_def split: if_splits)
qed

theorem uri_constructors_wf_witness:
  "\<exists>u. try_from_str split_relative (ascii ''/foo'') = Inr u \<and> uri_wf u \<and> uri_path u = Some (ascii ''foo'')"
proof -
  have "\<exists>u. try_from_str split_relative (ascii ''/foo'') = Inr u \<and> uri_path u = Some (ascii ''foo'')"
    by (simp add: try_from_str_def ascii_def create_parsed_uri_def split_relative_def uri_path_def
        create_unparsed_uri_def read_slice_def with_nul_def)
  then show ?thesis using uri_constructors_wf[OF split_ok_relative] by blast
qed

section \<open>Cloning and comparing\<close>

lemma ptr_into_eq: "pos \<le> length s \<Longrightarrow> ptr_into s pos = Ret (At (with_nul s) pos)"
  by (simp add: ptr_into_def with_nul_def)

text \<open>The URI that cloning builds from the parts of a valid one.\<close>

definition rebuilt_uri :: "CoapUriScheme \<Rightarrow> coap_uri_t \<Rightarrow> bool \<Rightarrow> CoapUri" where
  "rebuilt_uri sch raw p =
     (let host = read_slice (raw_host raw); path = read_slice (raw_path raw);
          query = read_slice (raw_query raw); pre = uri_prefix sch host;
          mid = pre @ host @ port_suffix (raw_port raw); t = mid @ path @ query
      in (create_unparsed_uri t p)\<lparr>raw_uri :=
          \<lparr>raw_host = \<lparr>str_length = length host, str_s = At (with_nul t) (length pre)\<rparr>,
           raw_port = raw_port raw,
           raw_path = \<lparr>str_length = length path, str_s = At (with_nul t) (length mid)\<rparr>,
           raw_query = \<lparr>str_length = length query, str_s = At (with_nul t) (length (mid @ path))\<rparr>,
           raw_scheme = raw_scheme raw\<rparr>\<rparr>)"

lemma slices_no_nul:
  assumes "raw_wf s raw" and "0 \<notin> set s"
  shows "0 \<notin> set (read_slice (raw_host raw))" "0 \<notin> set (read_slice (raw_path raw))"
    "0 \<notin> set (read_slice (raw_query raw))"
  using assms read_slice_in(3) unfolding raw_wf_def by blast+

lemma from_raw_uri_eq:
  assumes U: "uri_bindings_ok U" and wf: "raw_wf s raw" and nul: "0 \<notin> set s"
    and sch: "raw_scheme raw = scheme_const sch"
  shows "from_raw_uri U (Some raw) p = Ret (rebuilt_uri sch raw p)"
proof -
  have in_s: "str_in s (raw_host raw)" "str_in s (raw_path raw)" "str_in s (raw_query raw)"
    using wf by (simp_all add: raw_wf_def)
  have "0 \<notin> set (uri_prefix sch (read_slice (raw_host raw)) @ read_slice (raw_host raw) @
      port_suffix (raw_port raw) @ read_slice (raw_path raw) @ read_slice (raw_query raw))"
    using slices_no_nul[OF wf nul] by (simp add: uri_affixes_no_nul)
  with in_s U sch show ?thesis
    by (simp add: from_raw_uri_def from_raw_scheme_const construct_eq Let_def ptr_into_eq
        read_slice_in(2) rebuilt_uri_def)
qed

lemma rebuilt_uri_wf:
  assumes "raw_wf s raw" and "0 \<notin> set s" and "raw_scheme raw = scheme_const sch"
  shows "uri_wf (rebuilt_uri sch raw p)"
  using slices_no_nul[OF assms(1,2)] assms(3)
  by (auto simp: rebuilt_uri_def Let_def uri_wf_def raw_wf_def str_in_def create_unparsed_uri_def
      uri_affixes_no_nul)

lemma rebuilt_uri_fields:
  "raw_port (raw_uri (rebuilt_uri sch raw p)) = raw_port raw"
  "raw_scheme (raw_uri (rebuilt_uri sch raw p)) = raw_scheme raw"
  "uri_is_proxy (rebuilt_uri sch raw p) = p"
  "read_slice (raw_host (raw_uri (rebuilt_uri sch raw p))) = read_slice (raw_host raw)"
  "read_slice (raw_path (raw_uri (rebuilt_uri sch raw p))) = read_slice (raw_path raw)"
  "read_slice (raw_query (raw_uri (rebuilt_uri sch raw p))) = read_slice (raw_query raw)"
  "str_length (raw_host (raw_uri (rebuilt_uri sch raw p))) = length (read_slice (raw_host raw))"
  "str_s (raw_path (raw_uri (rebuilt_uri sch raw p))) \<noteq> NullPtr"
  "str_s (raw_query (raw_uri (rebuilt_uri sch raw p))) \<noteq> NullPtr"
  by (simp_all add: rebuilt_uri_def Let_def create_unparsed_uri_def read_slice_def with_nul_def)

lemma path_query_slices:
  "(case uri_path u of Some p \<Rightarrow> p | None \<Rightarrow> []) = read_slice (raw_path (raw_uri u))"
  "(case uri_query u of Some q \<Rightarrow> q | None \<Rightarrow> []) = read_slice (raw_query (raw_uri u))"
  by (simp_all add: uri_path_def uri_query_def Let_def read_slice_def)

text \<open>On valid URIs, comparison is equality of the ports, schemes and component bytes.\<close>

lemma uri_eq_iff:
  assumes "uri_wf u" and "uri_wf v"
  shows "uri_eq u v \<longleftrightarrow> raw_port (raw_uri u) = raw_port (raw_uri v) \<and>
    raw_scheme (raw_uri u) = raw_scheme (raw_uri v) \<and>
    read_slice (raw_host (raw_uri u)) = read_slice (raw_host (raw_uri v)) \<and>
    read_slice (raw_path (raw_uri u)) = read_slice (raw_path (raw_uri v)) \<and>
    read_slice (raw_query (raw_uri u)) = read_slice (raw_query (raw_uri v))"
  using assms unfolding uri_wf_def raw_wf_def uri_eq_def
  by (simp add: string_equal_iff[of "uri_str u" _ "uri_str v"])

text \<open>
  Cloning. Cloning a valid URI does not panic and yields a valid URI with the same proxy flag,
  scheme, host and port that compares equal to the original; path and query have the same bytes,
  but are present in the clone even where the original has none.
\<close>

theorem uri_clone_faithful:
  assumes "uri_bindings_ok U" and "uri_wf u"
  shows "\<exists>c. uri_clone U u = Ret c \<and> uri_wf c \<and> uri_eq u c \<and> uri_is_proxy c = uri_is_proxy u \<and>
    uri_host c = uri_host u \<and> uri_port c = uri_port u \<and> uri_scheme U c = uri_scheme U u \<and>
    uri_path c = Some (case uri_path u of Some p \<Rightarrow> p | None \<Rightarrow> []) \<and>
    uri_query c = Some (case uri_query u of Some q \<Rightarrow> q | None \<Rightarrow> [])"
proof -
  have wf: "raw_wf (uri_str u) (raw_uri u)" and nul: "0 \<notin> set (uri_str u)"
    using assms(2) by (simp_all add: uri_wf_def)
  then obtain sch where sch: "raw_scheme (raw_uri u) = scheme_const sch" by (auto simp: raw_wf_def)
  define c where "c = rebuilt_uri sch (raw_uri u) (uri_is_proxy u)"
  have clone: "uri_clone U u = Ret c" and "uri_wf c"
    using from_raw_uri_eq[OF assms(1) wf nul sch] rebuilt_uri_wf[OF wf nul sch]
    by (simp_all add: uri_clone_def c_def)
  note fields = rebuilt_uri_fields[of sch "raw_uri u" "uri_is_proxy u", folded c_def]
  have "uri_eq u c" using assms(2) \<open>uri_wf c\<close> fields by (simp add: uri_eq_iff)
  moreover have "length (read_slice (raw_host (raw_uri u))) = str_length (raw_host (raw_uri u))"
    using wf by (auto simp: raw_wf_def read_slice_in(2))
  then have host: "uri_host c = uri_host u" using fields by (simp add: uri_host_def)
  moreover have "uri_port c = uri_port u" and "uri_scheme U c = uri_scheme U u"
    unfolding uri_port_def uri_scheme_def host fields by (rule refl)+
  moreover have "uri_path c = Some (read_slice (raw_path (raw_uri u)))"
    and "uri_query c = Some (read_slice (raw_query (raw_uri u)))"
    using fields by (simp_all add: uri_path_def uri_query_def Let_def)
  ultimately show ?thesis using clone \<open>uri_wf c\<close> fields(3) unfolding path_query_slices by blast
qed

text \<open>The scheme and protocol numbers of libcoap's headers.\<close>

fun libcoap_scheme_num :: "coap_uri_scheme_t \<Rightarrow> nat" where
  "libcoap_scheme_num COAP_URI_SCHEME_COAP = 0"
| "libcoap_scheme_num COAP_URI_SCHEME_COAPS = 1"
| "libcoap_scheme_num COAP_URI_SCHEME_COAP_TCP = 2"
| "libcoap_scheme_num COAP_URI_SCHEME_COAPS_TCP = 3"
| "libcoap_scheme_num COAP_URI_SCHEME_HTTP = 4"
| "libcoap_scheme_num COAP_URI_SCHEME_HTTPS = 5"
| "libcoap_scheme_num COAP_URI_SCHEME_COAP_WS = 6"
| "libcoap_scheme_num COAP_URI_SCHEME_COAPS_WS = 7"
| "libcoap_scheme_num (COAP_URI_SCHEME_OTHER n) = 8 + n"

fun libcoap_proto_num :: "coap_proto_t \<Rightarrow> nat" where
  "libcoap_proto_num COAP_PROTO_NONE = 0"
| "libcoap_proto_num COAP_PROTO_UDP = 1"
| "libcoap_proto_num COAP_PROTO_DTLS = 2"
| "libcoap_proto_num COAP_PROTO_TCP = 3"
| "libcoap_proto_num COAP_PROTO_TLS = 4"
| "libcoap_proto_num (COAP_PROTO_OTHER n) = 5 + n"

definition libcoap_uri :: uri_bindings where
  "libcoap_uri = \<lparr>scheme_num = libcoap_scheme_num, proto_num = libcoap_proto_num,
                  COAP_URI_SCHEME_SECURE_MASK = 1\<rparr>"

lemma uri_bindings_ok_libcoap [simp]: "uri_bindings_ok libcoap_uri"
proof -
  have "inj libcoap_scheme_num" by (rule injI) (case_tac x; case_tac y; simp)
  moreover have "inj libcoap_proto_num" by (rule injI) (case_tac x; case_tac y; simp)
  ultimately show ?thesis by (simp add: uri_bindings_ok_def libcoap_uri_def)
qed

definition sample_uri :: CoapUri where
  "sample_uri =
     \<lparr>uri_is_proxy = False,
      raw_uri = \<lparr>raw_host = \<lparr>str_length = 1, str_s = At (with_nul (ascii ''coap://h/'')) 7\<rparr>, raw_port = 5683,
                 raw_path = null_str, raw_query = null_str, raw_scheme = COAP_URI_SCHEME_COAP\<rparr>,
      uri_str = ascii ''coap://h/''\<rparr>"

lemma sample_uri_wf: "uri_wf sample_uri"
  by (simp add: uri_wf_def sample_uri_def raw_wf_def str_in_def null_str_def ascii_def image_iff)
    (metis scheme_const.simps(1))

text \<open>
  Comparison of valid URIs is an equivalence relation, and decides equality of scheme, port and
  the bytes of host, path and query; neither the proxy flag nor the textual form matters.
\<close>

theorem uri_eq_equivalence:
  assumes "uri_wf u" and "uri_wf v" and "uri_wf w"
  shows "uri_eq u u \<and> (uri_eq u v \<longrightarrow> uri_eq v u) \<and> (uri_eq u v \<and> uri_eq v w \<longrightarrow> uri_eq u w) \<and>
    (uri_eq u v \<longrightarrow> uri_host u = uri_host v \<and> uri_port u = uri_port v)"
proof -
  have "uri_host u = uri_host v" if "uri_eq u v"
    using that assms(1,2) by (simp add: uri_eq_iff uri_host_def Let_def uri_wf_def raw_wf_def)
      (metis length_0_conv read_slice_in(2))
  with assms show ?thesis by (simp add: uri_eq_iff uri_port_def)
qed

text \<open>
  The protocol of a session and the scheme of a URI agree on security: a protocol is secure
  exactly when the scheme it is converted to is, provided the mask selects the secure schemes.
\<close>

definition secure_schemes :: "CoapUriScheme set" where
  "secure_schemes = {Coaps, CoapsTcp, Https, CoapsWs}"

definition mask_ok :: "uri_bindings \<Rightarrow> bool" where
  "mask_ok U \<longleftrightarrow> (\<forall>s. and (COAP_URI_SCHEME_SECURE_MASK U) (scheme_num U (scheme_const s)) \<noteq> 0
     \<longleftrightarrow> s \<in> secure_schemes)"

lemma protocol_scheme_security:
  "mask_ok U \<Longrightarrow> scheme_is_secure U (scheme_from_protocol p) = protocol_is_secure p"
  by (cases p) (simp_all add: scheme_is_secure_def mask_ok_def secure_schemes_def del: scheme_const.simps)

text \<open>The schemes are a finite type with an enumeration, so that the hypothesis on the mask can be evaluated.\<close>

instantiation CoapUriScheme :: enum
begin

definition enum_CoapUriScheme :: "CoapUriScheme list" where
  "enum_CoapUriScheme = uri_schemes"

definition enum_all_CoapUriScheme :: "(CoapUriScheme \<Rightarrow> bool) \<Rightarrow> bool" where
  "enum_all_CoapUriScheme P \<longleftrightarrow> list_all P uri_schemes"

definition enum_ex_CoapUriScheme :: "(CoapUriScheme \<Rightarrow> bool) \<Rightarrow> bool" where
  "enum_ex_CoapUriScheme P \<longleftrightarrow> list_ex P uri_schemes"

instance
proof
  show "distinct (enum_class.enum :: CoapUriScheme list)"
    by (simp add: enum_CoapUriScheme_def uri_schemes_def)
qed (simp_all add: enum_CoapUriScheme_def enum_all_CoapUriScheme_def enum_ex_CoapUriScheme_def list_all_iff list_ex_iff)

end

lemma mask_ok_libcoap: "mask_ok libcoap_uri"
proof -
  have "list_all (\<lambda>s. (and (COAP_URI_SCHEME_SECURE_MASK libcoap_uri) (scheme_num libcoap_uri (scheme_const s)) \<noteq> 0) =
      (s \<in> secure_schemes)) (enum_class.enum :: CoapUriScheme list)"
    by (simp add: enum_CoapUriScheme_def uri_schemes_def libcoap_uri_def secure_schemes_def)
  then show ?thesis by (simp add: mask_ok_def list_all_iff flip: UNIV_enum)
qed

lemma protocol_scheme_security_libcoap:
  "scheme_is_secure libcoap_uri (scheme_from_protocol p) = protocol_is_secure p"
  by (rule protocol_scheme_security[OF mask_ok_libcoap])

section \<open>The option buffer\<close>

text \<open>The segments of a path or query: the parts between separators.\<close>

fun segments :: "(u8 \<Rightarrow> bool) \<Rightarrow> bytes \<Rightarrow> bytes list" where
  "segments sep [] = [[]]"
| "segments sep (c # cs) =
     (if sep c then [] # segments sep cs
      else (case segments sep cs of s # ss \<Rightarrow> (c # s) # ss | [] \<Rightarrow> [[c]]))"

definition encoded_size :: "bytes list \<Rightarrow> nat" where
  "encoded_size segs = sum_list (map (\<lambda>s. length s + 5) segs)"

lemma encoded_size_segments: "encoded_size (segments sep v) \<le> length v + (count_sep sep v + 1) * 5"
proof (induction v)
  case Nil
  then show ?case by (simp add: encoded_size_def count_sep_def)
next
  case (Cons c v)
  then show ?case
    by (cases "segments sep v") (simp_all add: encoded_size_def count_sep_def)
qed

lemma count_sep_mono: "(\<And>c. p c \<Longrightarrow> q c) \<Longrightarrow> count_sep p v \<le> count_sep q v"
  by (induction v) (auto simp: count_sep_def)

text \<open>
  The temporary buffer of \<^verbatim>\<open>into_options\<close> is large enough: it holds the host, a two byte port,
  each path segment and each query segment, every one with an option header of five bytes.
\<close>

theorem buf_len_sufficient:
  "(case uri_host u of Some v \<Rightarrow> length v + 5 | None \<Rightarrow> 0)
   + (case uri_port u of Some p \<Rightarrow> length (encode_var_len_u16 p) + 5 | None \<Rightarrow> 0)
   + (case uri_path u of Some v \<Rightarrow> encoded_size (segments (is_byte (CHR ''/'')) v) | None \<Rightarrow> 0)
   + (case uri_query u of Some v \<Rightarrow> encoded_size (segments (is_byte (CHR ''&'')) v) | None \<Rightarrow> 0)
   \<le> buf_len u"
proof -
  let ?q = "\<lambda>c. is_byte (CHR ''?'') c \<or> is_byte (CHR ''&'') c"
  have "(case uri_port u of Some p \<Rightarrow> length (encode_var_len_u16 p) + 5 | None \<Rightarrow> 0)
      \<le> (case uri_port u of Some _ \<Rightarrow> 7 | None \<Rightarrow> 0)"
    using u16_codec.enc_len by (simp split: option.split)
  moreover have "(case uri_path u of Some v \<Rightarrow> encoded_size (segments (is_byte (CHR ''/'')) v) | None \<Rightarrow> 0)
      \<le> (case uri_path u of Some v \<Rightarrow> length v | None \<Rightarrow> 0)
        + (case uri_path u of Some v \<Rightarrow> (count_sep (is_byte (CHR ''/'')) v + 1) * 5 | None \<Rightarrow> 0)"
    using encoded_size_segments[of "is_byte (CHR ''/'')"] by (simp split: option.split)
  moreover have "encoded_size (segments (is_byte (CHR ''&'')) v) \<le> length v + (count_sep ?q v + 1) * 5" for v
    using encoded_size_segments[of "is_byte (CHR ''&'')" v] count_sep_mono[of "is_byte (CHR ''&'')" ?q v]
    by simp
  then have "(case uri_query u of Some v \<Rightarrow> encoded_size (segments (is_byte (CHR ''&'')) v) | None \<Rightarrow> 0)
      \<le> (case uri_query u of Some v \<Rightarrow> length v | None \<Rightarrow> 0)
        + (case uri_query u of Some v \<Rightarrow> (count_sep ?q v + 1) * 5 | None \<Rightarrow> 0)"
    by (simp split: option.split)
  ultimately show ?thesis unfolding buf_len_def by linarith
qed

section \<open>Options of a URI\<close>

lemma opts_of_optlist_Ret:
  "opts_of_optlist B es = Ret opts \<longleftrightarrow>
     list_all2 (\<lambda>e opt. from_optlist_entry B e = Ret (Inr opt)) es opts"
proof (induction es arbitrary: opts)
  case (Cons e es)
  have "expect (res_ok r) = Ret opt \<longleftrightarrow> r = Inr opt" for r :: "OptionValueError + CoapOption" and opt
    by (cases r) auto
  with Cons show ?case
    by (cases opts) (auto simp: run_bind_eq_Ret run_map_eq_Ret)
qed auto

text \<open>
  \<^verbatim>\<open>into_options\<close> returns exactly when libcoap converts the URI and every option it made parses,
  with those options in order; a URI whose decoded path, query or host is not UTF-8 makes it panic.
\<close>

theorem uri_into_options_exact:
  "uri_into_options B unused conv u = Ret opts \<longleftrightarrow>
     (\<exists>r es. conv (raw_uri u) (if unused then 0 else buf_len u) = (r, es) \<and> 0 \<le> r \<and>
        list_all2 (\<lambda>e opt. from_type_value B (opt_number e) (opt_data e) = Ret (Inr opt)) es opts)"
  by (cases "conv (raw_uri u) (if unused then 0 else buf_len u)")
    (auto simp: uri_into_options_def Let_def opts_of_optlist_Ret from_optlist_entry_def not_less)

end
