(* ===== verification/Request.thy ===== *)
theory Request
  imports Coap_Message Coap_Uri
begin

text \<open>
  Requests (\<^verbatim>\<open>libcoap/src/message/request.rs\<close>, \<^verbatim>\<open>CoapRequest\<close>): construction, setters, parsing from a
  message and conversion into one. The parsing loop is shown equal to a declarative reading of the
  option list, and converting a request into a message and parsing it again returns its fields.
\<close>

section \<open>Requests\<close>

record CoapRequest =
  req_pdu :: CoapMessage
  req_uri :: CoapUri
  req_accept :: "u16 option"
  req_etag :: "bytes list option"
  req_if_match :: "CoapMatch list option"
  req_content_format :: "u16 option"
  req_if_none_match :: bool
  req_hop_limit :: "u16 option"
  req_no_response :: "u8 option"
  req_observe :: "u32 option"

definition request_new ::
    "CoapMessageType \<Rightarrow> CoapRequestCode \<Rightarrow> CoapUri \<Rightarrow> MessageTypeError + CoapRequest" where
  "request_new ty code uri =
     (if ty = Con \<or> ty = Non then
        Inr \<lparr>req_pdu = message_new ty (Request code), req_uri = uri, req_accept = None, req_etag = None,
             req_if_match = None, req_content_format = None, req_if_none_match = False,
             req_hop_limit = None, req_no_response = None, req_observe = None\<rparr>
      else Inl (InvalidForMessageCode ty))"

definition set_accept :: "u16 option \<Rightarrow> CoapRequest \<Rightarrow> CoapRequest" where
  "set_accept v r = r\<lparr>req_accept := v\<rparr>"

definition set_etag :: "bytes list option \<Rightarrow> CoapRequest \<Rightarrow> CoapRequest" where
  "set_etag v r = r\<lparr>req_etag := v\<rparr>"

definition set_if_match :: "CoapMatch list option \<Rightarrow> CoapRequest \<Rightarrow> CoapRequest" where
  "set_if_match v r = r\<lparr>req_if_match := v\<rparr>"

definition set_content_format :: "u16 option \<Rightarrow> CoapRequest \<Rightarrow> CoapRequest" where
  "set_content_format v r = r\<lparr>req_content_format := v\<rparr>"

definition set_if_none_match :: "bool \<Rightarrow> CoapRequest \<Rightarrow> CoapRequest" where
  "set_if_none_match v r = r\<lparr>req_if_none_match := v\<rparr>"

definition set_hop_limit :: "u16 option \<Rightarrow> CoapRequest \<Rightarrow> CoapRequest" where
  "set_hop_limit v r = r\<lparr>req_hop_limit := v\<rparr>"

definition set_no_response :: "u8 option \<Rightarrow> CoapRequest \<Rightarrow> CoapRequest" where
  "set_no_response v r = r\<lparr>req_no_response := v\<rparr>"

definition set_observe :: "u32 option \<Rightarrow> CoapRequest \<Rightarrow> CoapRequest" where
  "set_observe v r = r\<lparr>req_observe := v\<rparr>"

text \<open>\<^verbatim>\<open>CoapMessageCommon::set_code\<close> for requests.\<close>

definition request_set_code :: "CoapMessageCode \<Rightarrow> CoapRequest \<Rightarrow> CoapRequest run" where
  "request_set_code code r =
     (case code of
        Request req \<Rightarrow> Ret (r\<lparr>req_pdu := set_code (Request req) (req_pdu r)\<rparr>)
      | Response _ \<Rightarrow> Panic
      | CoapMessageCode.Empty \<Rightarrow> Panic)"

section \<open>Parsing a message\<close>

text \<open>The local variables of the loop.\<close>

record req_vars =
  rq_host :: "bytes option"
  rq_port :: "u16 option"
  rq_path :: "rstring list option"
  rq_query :: "rstring list option"
  rq_proxy_scheme :: "CoapUriScheme option"
  rq_proxy_uri :: "rstring option"
  rq_content_format :: "u16 option"
  rq_etag :: "bytes list option"
  rq_if_match :: "CoapMatch list option"
  rq_if_none_match :: bool
  rq_accept :: "u16 option"
  rq_hop_limit :: "u16 option"
  rq_no_response :: "u8 option"
  rq_observe :: "u32 option"
  rq_additional_opts :: "CoapOption list"

definition req_vars_init :: req_vars where
  "req_vars_init =
     \<lparr>rq_host = None, rq_port = None, rq_path = None, rq_query = None, rq_proxy_scheme = None,
      rq_proxy_uri = None, rq_content_format = None, rq_etag = None, rq_if_match = None,
      rq_if_none_match = False, rq_accept = None, rq_hop_limit = None, rq_no_response = None,
      rq_observe = None, rq_additional_opts = []\<rparr>"

text \<open>A repeatable option is pushed on a vector made on demand, another is refused when repeated.\<close>

definition push_opt :: "'a \<Rightarrow> 'a list option \<Rightarrow> 'a list option" where
  "push_opt x xs = Some (case xs of None \<Rightarrow> [x] | Some l \<Rightarrow> l @ [x])"

definition unless_repeated :: "bool \<Rightarrow> CoapOptionType \<Rightarrow> 's \<Rightarrow> MessageConversionError + 's" where
  "unless_repeated seen t s = (if seen then Inl (NonRepeatableOptionRepeated t) else Inr s)"

fun request_option :: "req_vars \<Rightarrow> CoapOption \<Rightarrow> MessageConversionError + req_vars" where
  "request_option s (CoapOption.IfMatch v) = Inr (s\<lparr>rq_if_match := push_opt v (rq_if_match s)\<rparr>)"
| "request_option s CoapOption.IfNoneMatch =
     unless_repeated (rq_if_none_match s) CoapOptionType.IfNoneMatch (s\<lparr>rq_if_none_match := True\<rparr>)"
| "request_option s (CoapOption.UriHost v) =
     unless_repeated (rq_host s \<noteq> None) CoapOptionType.UriHost (s\<lparr>rq_host := Some v\<rparr>)"
| "request_option s (CoapOption.UriPort v) =
     unless_repeated (rq_port s \<noteq> None) CoapOptionType.UriPort (s\<lparr>rq_port := Some v\<rparr>)"
| "request_option s (CoapOption.UriPath v) = Inr (s\<lparr>rq_path := push_opt v (rq_path s)\<rparr>)"
| "request_option s (CoapOption.UriQuery v) = Inr (s\<lparr>rq_query := push_opt v (rq_query s)\<rparr>)"
| "request_option s (CoapOption.LocationPath _) = Inl (InvalidOptionForMessageType CoapOptionType.LocationPath)"
| "request_option s (CoapOption.LocationQuery _) = Inl (InvalidOptionForMessageType CoapOptionType.LocationQuery)"
| "request_option s (CoapOption.ProxyUri v) =
     unless_repeated (rq_proxy_uri s \<noteq> None) CoapOptionType.ProxyUri (s\<lparr>rq_proxy_uri := Some v\<rparr>)"
| "request_option s (CoapOption.ProxyScheme v) =
     res_try (unless_repeated (rq_proxy_scheme s \<noteq> None) CoapOptionType.ProxyScheme s) (\<lambda>s.
     res_try (map_err conversion_error_from_uri (scheme_from_str v)) (\<lambda>sch.
     Inr (s\<lparr>rq_proxy_scheme := Some sch\<rparr>)))"
| "request_option s (CoapOption.ContentFormat v) =
     unless_repeated (rq_content_format s \<noteq> None) CoapOptionType.ContentFormat (s\<lparr>rq_content_format := Some v\<rparr>)"
| "request_option s (CoapOption.Accept v) =
     unless_repeated (rq_accept s \<noteq> None) CoapOptionType.Accept (s\<lparr>rq_accept := Some v\<rparr>)"
| "request_option s (CoapOption.Size1 _) = Inr s"
| "request_option s (CoapOption.Size2 _) = Inl (InvalidOptionForMessageType CoapOptionType.Size2)"
| "request_option s (CoapOption.Block1 _) = Inr s"
| "request_option s (CoapOption.Block2 _) = Inl (InvalidOptionForMessageType CoapOptionType.Block2)"
| "request_option s (CoapOption.QBlock1 _) = Inr s"
| "request_option s (CoapOption.QBlock2 _) = Inr s"
| "request_option s (CoapOption.HopLimit v) =
     unless_repeated (rq_hop_limit s \<noteq> None) CoapOptionType.HopLimit (s\<lparr>rq_hop_limit := Some v\<rparr>)"
| "request_option s (CoapOption.NoResponse v) =
     unless_repeated (rq_no_response s \<noteq> None) CoapOptionType.NoResponse (s\<lparr>rq_no_response := Some v\<rparr>)"
| "request_option s (CoapOption.ETag v) = Inr (s\<lparr>rq_etag := push_opt v (rq_etag s)\<rparr>)"
| "request_option s (CoapOption.MaxAge _) = Inl (InvalidOptionForMessageType CoapOptionType.MaxAge)"
| "request_option s (CoapOption.Observe v) =
     unless_repeated (rq_observe s \<noteq> None) CoapOptionType.MaxAge (s\<lparr>rq_observe := Some v\<rparr>)"
| "request_option s (CoapOption.Echo _) = Inr s"
| "request_option s (CoapOption.RTag _) = Inr s"
| "request_option s (CoapOption.Oscore _) = Inr s"
| "request_option s (CoapOption.Other n v) =
     Inr (s\<lparr>rq_additional_opts := rq_additional_opts s @ [CoapOption.Other n v]\<rparr>)"

text \<open>The URI of the request; the parsers of libcoap are parameters.\<close>

definition request_uri ::
    "split_fn \<Rightarrow> split_fn \<Rightarrow> CoapProtocol \<Rightarrow> req_vars \<Rightarrow> (UriParsingError + CoapUri) run" where
  "request_uri coap_split_uri coap_split_proxy_uri session_proto s =
     (case rq_proxy_uri s of
        Some v \<Rightarrow> Ret (try_from_str_proxy coap_split_proxy_uri v)
      | None \<Rightarrow>
          (let path_str = map_option construct_path_string (rq_path s);
               query_str = map_option construct_query_string (rq_query s);
               host = (case rq_host s of Some h \<Rightarrow> h | None \<Rightarrow> []);
               port = (case rq_port s of Some p \<Rightarrow> p | None \<Rightarrow> 0)
           in case rq_proxy_scheme s of
                Some scheme \<Rightarrow> uri_new_proxy coap_split_proxy_uri scheme host port path_str query_str
              | None \<Rightarrow> uri_new coap_split_uri (scheme_from_protocol session_proto) host port path_str query_str))"

definition request_of_vars :: "CoapMessage \<Rightarrow> req_vars \<Rightarrow> CoapUri \<Rightarrow> CoapRequest" where
  "request_of_vars pdu s uri =
     \<lparr>req_pdu = pdu, req_uri = uri, req_accept = rq_accept s, req_etag = rq_etag s,
      req_if_match = rq_if_match s, req_content_format = rq_content_format s,
      req_if_none_match = rq_if_none_match s, req_hop_limit = rq_hop_limit s,
      req_no_response = rq_no_response s, req_observe = rq_observe s\<rparr>"

definition request_from_message ::
    "split_fn \<Rightarrow> split_fn \<Rightarrow> CoapProtocol \<Rightarrow> CoapMessage \<Rightarrow> (MessageConversionError + CoapRequest) run" where
  "request_from_message coap_split_uri coap_split_proxy_uri session_proto pdu =
     run_try (Ret (try_fold request_option req_vars_init (msg_options pdu))) (\<lambda>s.
     let pdu = foldl (\<lambda>m opt. add_option opt m) (clear_options pdu) (rq_additional_opts s)
     in if rq_proxy_scheme s \<noteq> None \<and> rq_proxy_uri s \<noteq> None
        then Ret (Inl (InvalidOptionCombination CoapOptionType.ProxyScheme CoapOptionType.ProxyUri))
        else run_try
               (run_map (map_err (\<lambda>e. InvalidOptionValue None (UriParsing e)))
                  (request_uri coap_split_uri coap_split_proxy_uri session_proto s))
               (\<lambda>uri. Ret (Inr (request_of_vars pdu s uri))))"

section \<open>Conversion into a message\<close>

definition add_opt :: "('a \<Rightarrow> CoapOption) \<Rightarrow> 'a option \<Rightarrow> CoapMessage \<Rightarrow> CoapMessage" where
  "add_opt C v m = (case v of Some x \<Rightarrow> add_option (C x) m | None \<Rightarrow> m)"

definition add_all :: "CoapOption list \<Rightarrow> CoapMessage \<Rightarrow> CoapMessage" where
  "add_all opts m = foldl (\<lambda>m opt. add_option opt m) m opts"

definition add_each :: "('a \<Rightarrow> CoapOption) \<Rightarrow> 'a list option \<Rightarrow> CoapMessage \<Rightarrow> CoapMessage" where
  "add_each C vs m = (case vs of Some xs \<Rightarrow> foldl (\<lambda>m x. add_option (C x) m) m xs | None \<Rightarrow> m)"

definition request_into_message ::
    "uri_bindings \<Rightarrow> bindings \<Rightarrow> bool \<Rightarrow> (coap_uri_t \<Rightarrow> nat \<Rightarrow> int \<times> optlist_entry list) \<Rightarrow>
     CoapRequest \<Rightarrow> CoapMessage run" where
  "request_into_message U B coap_uri_buf_unused coap_uri_into_options r =
     run_bind (if uri_is_proxy (req_uri r)
               then run_bind (uri_scheme U (req_uri r)) (\<lambda>scheme.
                    run_map (\<lambda>sch. add_option (CoapOption.ProxyScheme (scheme_fmt sch)) (req_pdu r))
                      (expect scheme))
               else Ret (req_pdu r)) (\<lambda>m.
     run_bind (uri_into_options B coap_uri_buf_unused coap_uri_into_options (req_uri r)) (\<lambda>opts.
     let m = add_all opts m;
         m = add_opt CoapOption.Accept (req_accept r) m;
         m = add_each CoapOption.ETag (req_etag r) m;
         m = add_each CoapOption.IfMatch (req_if_match r) m;
         m = add_opt CoapOption.ContentFormat (req_content_format r) m;
         m = (if req_if_none_match r then add_option CoapOption.IfNoneMatch m else m);
         m = add_opt CoapOption.HopLimit (req_hop_limit r) m;
         m = add_opt CoapOption.NoResponse (req_no_response r) m;
         m = add_opt CoapOption.Observe (req_observe r) m
     in Ret m))"

section \<open>A declarative reading of the options\<close>

definition occ :: "(CoapOption \<Rightarrow> 'v option) \<Rightarrow> CoapOption list \<Rightarrow> 'v list" where
  "occ sel opts = List.map_filter sel opts"

definition first :: "'v list \<Rightarrow> 'v option" where
  "first xs = (case xs of [] \<Rightarrow> None | x # _ \<Rightarrow> Some x)"

definition many :: "'v list \<Rightarrow> 'v list option" where
  "many xs = (if xs = [] then None else Some xs)"

lemma occ_simps [simp]:
  "occ sel [] = []"
  "occ sel (xs @ ys) = occ sel xs @ occ sel ys"
  "occ sel (x # xs) = (case sel x of None \<Rightarrow> occ sel xs | Some v \<Rightarrow> v # occ sel xs)"
  by (simp_all add: occ_def map_filter_def split: option.split)

lemma occ_eq_Nil: "occ sel xs = [] \<longleftrightarrow> (\<forall>x \<in> set xs. sel x = None)"
  by (induction xs) (auto split: option.split)

lemma first_eq_None [simp]: "first xs = None \<longleftrightarrow> xs = []"
  by (simp add: first_def split: list.split)

lemma first_simps [simp]: "first [] = None" "first (x # xs) = Some x" "first ([] @ xs) = first xs"
  by (simp_all add: first_def)

lemma many_simps [simp]: "many [] = None" "many (x # xs) = Some (x # xs)" "many (xs @ [x]) = Some (xs @ [x])"
  by (simp_all add: many_def)

lemma push_many [simp]: "push_opt x (many xs) = Some (xs @ [x])"
  by (simp add: push_opt_def many_def)

definition sel_if_match where "sel_if_match opt = (case opt of CoapOption.IfMatch v \<Rightarrow> Some v | _ \<Rightarrow> None)"
definition sel_if_none_match where "sel_if_none_match opt = (case opt of CoapOption.IfNoneMatch \<Rightarrow> Some () | _ \<Rightarrow> None)"
definition sel_host where "sel_host opt = (case opt of CoapOption.UriHost v \<Rightarrow> Some v | _ \<Rightarrow> None)"
definition sel_port where "sel_port opt = (case opt of CoapOption.UriPort v \<Rightarrow> Some v | _ \<Rightarrow> None)"
definition sel_path where "sel_path opt = (case opt of CoapOption.UriPath v \<Rightarrow> Some v | _ \<Rightarrow> None)"
definition sel_query where "sel_query opt = (case opt of CoapOption.UriQuery v \<Rightarrow> Some v | _ \<Rightarrow> None)"
definition sel_proxy_uri where "sel_proxy_uri opt = (case opt of CoapOption.ProxyUri v \<Rightarrow> Some v | _ \<Rightarrow> None)"
definition sel_proxy_scheme where
  "sel_proxy_scheme opt = (case opt of CoapOption.ProxyScheme v \<Rightarrow> res_ok (scheme_from_str v) | _ \<Rightarrow> None)"
definition sel_content_format where
  "sel_content_format opt = (case opt of CoapOption.ContentFormat v \<Rightarrow> Some v | _ \<Rightarrow> None)"
definition sel_accept where "sel_accept opt = (case opt of CoapOption.Accept v \<Rightarrow> Some v | _ \<Rightarrow> None)"
definition sel_hop_limit where "sel_hop_limit opt = (case opt of CoapOption.HopLimit v \<Rightarrow> Some v | _ \<Rightarrow> None)"
definition sel_no_response where "sel_no_response opt = (case opt of CoapOption.NoResponse v \<Rightarrow> Some v | _ \<Rightarrow> None)"
definition sel_etag where "sel_etag opt = (case opt of CoapOption.ETag v \<Rightarrow> Some v | _ \<Rightarrow> None)"
definition sel_observe where "sel_observe opt = (case opt of CoapOption.Observe v \<Rightarrow> Some v | _ \<Rightarrow> None)"
definition sel_other where "sel_other opt = (case opt of CoapOption.Other n v \<Rightarrow> Some (CoapOption.Other n v) | _ \<Rightarrow> None)"

lemmas sel_defs = sel_if_match_def sel_if_none_match_def sel_host_def sel_port_def sel_path_def
  sel_query_def sel_proxy_uri_def sel_proxy_scheme_def sel_content_format_def sel_accept_def
  sel_hop_limit_def sel_no_response_def sel_etag_def sel_observe_def sel_other_def

text \<open>The values the loop collects from a list of options.\<close>

definition request_vars :: "CoapOption list \<Rightarrow> req_vars" where
  "request_vars opts =
     \<lparr>rq_host = first (occ sel_host opts), rq_port = first (occ sel_port opts),
      rq_path = many (occ sel_path opts), rq_query = many (occ sel_query opts),
      rq_proxy_scheme = first (occ sel_proxy_scheme opts), rq_proxy_uri = first (occ sel_proxy_uri opts),
      rq_content_format = first (occ sel_content_format opts), rq_etag = many (occ sel_etag opts),
      rq_if_match = many (occ sel_if_match opts), rq_if_none_match = (occ sel_if_none_match opts \<noteq> []),
      rq_accept = first (occ sel_accept opts), rq_hop_limit = first (occ sel_hop_limit opts),
      rq_no_response = first (occ sel_no_response opts), rq_observe = first (occ sel_observe opts),
      rq_additional_opts = occ sel_other opts\<rparr>"

text \<open>The options a request may not carry at all, or not twice.\<close>

fun request_forbidden :: "CoapOption \<Rightarrow> bool" where
  "request_forbidden (CoapOption.LocationPath _) = True"
| "request_forbidden (CoapOption.LocationQuery _) = True"
| "request_forbidden (CoapOption.Size2 _) = True"
| "request_forbidden (CoapOption.Block2 _) = True"
| "request_forbidden (CoapOption.MaxAge _) = True"
| "request_forbidden (CoapOption.ProxyScheme s) = (res_ok (scheme_from_str s) = None)"
| "request_forbidden _ = False"

definition request_unrepeated :: "CoapOption list \<Rightarrow> bool" where
  "request_unrepeated opts \<longleftrightarrow>
     length (occ sel_if_none_match opts) \<le> 1 \<and> length (occ sel_host opts) \<le> 1 \<and>
     length (occ sel_port opts) \<le> 1 \<and> length (occ sel_proxy_uri opts) \<le> 1 \<and>
     length (occ sel_proxy_scheme opts) \<le> 1 \<and> length (occ sel_content_format opts) \<le> 1 \<and>
     length (occ sel_accept opts) \<le> 1 \<and> length (occ sel_hop_limit opts) \<le> 1 \<and>
     length (occ sel_no_response opts) \<le> 1 \<and> length (occ sel_observe opts) \<le> 1"

definition request_ok :: "CoapOption list \<Rightarrow> bool" where
  "request_ok opts \<longleftrightarrow> (\<forall>opt \<in> set opts. \<not> request_forbidden opt) \<and> request_unrepeated opts"

lemma unless_repeated_eq [simp]:
  "unless_repeated seen t s = Inr s' \<longleftrightarrow> \<not> seen \<and> s' = s"
  by (auto simp: unless_repeated_def)

lemma request_ok_snoc: "request_ok (opts @ [opt]) \<Longrightarrow> request_ok opts"
  by (auto simp: request_ok_def request_unrepeated_def)

text \<open>One iteration, on the values collected so far.\<close>

lemma request_option_vars:
  assumes "request_ok opts"
  shows "request_option (request_vars opts) opt = Inr s \<longleftrightarrow>
     request_ok (opts @ [opt]) \<and> s = request_vars (opts @ [opt])"
proof (cases opt)
  case (ProxyScheme v)
  with assms show ?thesis
    by (cases "scheme_from_str v")
      (auto simp: request_vars_def request_ok_def request_unrepeated_def sel_defs res_try_eq_Inr)
qed (use assms in \<open>auto simp: request_vars_def request_ok_def request_unrepeated_def sel_defs\<close>)

interpretation request_options: option_loop request_option req_vars_init request_ok request_vars
proof
  show "request_ok []" by (simp add: request_ok_def request_unrepeated_def)
  show "req_vars_init = request_vars []" by (simp add: req_vars_init_def request_vars_def)
qed (fact request_ok_snoc request_option_vars)+

section \<open>Options of the message of a request\<close>

lemma add_option_options [simp]: "msg_options (add_option opt m) = msg_options m @ [opt]"
  "clear_options (add_option opt m) = clear_options m"
  by (simp_all add: add_option_def clear_options_def)

lemma foldl_add_options:
  "msg_options (foldl (\<lambda>m x. add_option (C x) m) m xs) = msg_options m @ map C xs"
  "clear_options (foldl (\<lambda>m x. add_option (C x) m) m xs) = clear_options m"
  by (induction xs arbitrary: m) simp_all

lemma add_all_options [simp]:
  "msg_options (add_all opts m) = msg_options m @ opts" "clear_options (add_all opts m) = clear_options m"
  using foldl_add_options[of "\<lambda>x. x" m opts] by (simp_all add: add_all_def)

lemma add_opt_options [simp]:
  "msg_options (add_opt C v m) = msg_options m @ (case v of Some x \<Rightarrow> [C x] | None \<Rightarrow> [])"
  "clear_options (add_opt C v m) = clear_options m"
  by (simp_all add: add_opt_def split: option.split)

lemma add_each_options [simp]:
  "msg_options (add_each C vs m) = msg_options m @ (case vs of Some xs \<Rightarrow> map C xs | None \<Rightarrow> [])"
  "clear_options (add_each C vs m) = clear_options m"
  by (simp_all add: add_each_def foldl_add_options split: option.split)

lemma add_all_clear: "add_all (msg_options m) (clear_options m) = m"
proof -
  have "add_all opts m' = m'\<lparr>msg_options := msg_options m' @ opts\<rparr>" for opts m'
    by (induction opts arbitrary: m') (simp_all add: add_all_def add_option_def)
  then show ?thesis by (simp add: clear_options_def)
qed

text \<open>
  C24: the option loop of \<^verbatim>\<open>CoapRequest::from_message\<close>. It ends normally exactly when no option is
  forbidden in a request, every Proxy-Scheme names a scheme and no non-repeatable option is
  repeated; the variables then hold the value of each single option, the values of each repeatable
  option in order, and the unknown options in order.
\<close>

theorem request_loop_exact:
  "try_fold request_option req_vars_init opts = Inr s \<longleftrightarrow> request_ok opts \<and> s = request_vars opts"
  by (rule request_options.loop_reads)

text \<open>The options that \<^verbatim>\<open>coap_uri_into_options\<close> makes from a URI.\<close>

fun uri_option :: "CoapOption \<Rightarrow> bool" where
  "uri_option (CoapOption.UriHost _) = True"
| "uri_option (CoapOption.UriPort _) = True"
| "uri_option (CoapOption.UriPath _) = True"
| "uri_option (CoapOption.UriQuery _) = True"
| "uri_option _ = False"

definition uri_options_ok :: "CoapOption list \<Rightarrow> bool" where
  "uri_options_ok opts \<longleftrightarrow> (\<forall>opt \<in> set opts. uri_option opt) \<and>
     length (occ sel_host opts) \<le> 1 \<and> length (occ sel_port opts) \<le> 1"

text \<open>
  A request as the setters and parsing produce it: its message carries only options unknown to the
  crate, and a vector of entity tags or match expressions is not empty.
\<close>

definition wf_request :: "CoapRequest \<Rightarrow> bool" where
  "wf_request r \<longleftrightarrow> (\<forall>opt \<in> set (msg_options (req_pdu r)). \<exists>n v. opt = CoapOption.Other n v) \<and>
     req_etag r \<noteq> Some [] \<and> req_if_match r \<noteq> Some []"

lemma occ_others:
  "(\<And>opt. P opt \<Longrightarrow> sel opt = None) \<Longrightarrow> (\<forall>opt \<in> set xs. P opt) \<Longrightarrow> occ sel xs = []"
  by (auto simp: occ_eq_Nil)

lemma occ_other_all: "(\<forall>opt \<in> set xs. \<exists>n v. opt = CoapOption.Other n v) \<Longrightarrow> occ sel_other xs = xs"
  by (induction xs) (auto simp: sel_other_def)

lemma occ_map: "occ sel (map C xs) = List.map_filter (\<lambda>x. sel (C x)) xs"
  by (induction xs) (auto simp: map_filter_def split: option.split)

definition own_options :: "CoapRequest \<Rightarrow> CoapOption list" where
  "own_options r =
     (case req_accept r of Some x \<Rightarrow> [CoapOption.Accept x] | None \<Rightarrow> []) @
     (case req_etag r of Some xs \<Rightarrow> map CoapOption.ETag xs | None \<Rightarrow> []) @
     (case req_if_match r of Some xs \<Rightarrow> map CoapOption.IfMatch xs | None \<Rightarrow> []) @
     (case req_content_format r of Some x \<Rightarrow> [CoapOption.ContentFormat x] | None \<Rightarrow> []) @
     (if req_if_none_match r then [CoapOption.IfNoneMatch] else []) @
     (case req_hop_limit r of Some x \<Rightarrow> [CoapOption.HopLimit x] | None \<Rightarrow> []) @
     (case req_no_response r of Some x \<Rightarrow> [CoapOption.NoResponse x] | None \<Rightarrow> []) @
     (case req_observe r of Some x \<Rightarrow> [CoapOption.Observe x] | None \<Rightarrow> [])"

lemma request_into_message_options:
  assumes "request_into_message U B unused conv r = Ret m"
  obtains ps opts where "uri_into_options B unused conv (req_uri r) = Ret opts"
    and "msg_options m = msg_options (req_pdu r) @ ps @ opts @ own_options r"
    and "clear_options m = clear_options (req_pdu r)"
    and "ps = [] \<and> \<not> uri_is_proxy (req_uri r) \<or>
      uri_is_proxy (req_uri r) \<and> (\<exists>sch. ps = [CoapOption.ProxyScheme (scheme_fmt sch)] \<and> uri_scheme U (req_uri r) = Ret (Some sch))"
  using assms
  by (cases "uri_is_proxy (req_uri r)")
    (auto simp: request_into_message_def Let_def run_bind_eq_Ret run_map_eq_Ret expect_eq_Ret own_options_def)

lemma occ_own_lists [simp]:
  "List.map_filter (\<lambda>x. None) xs = []" "List.map_filter (\<lambda>x. Some x) xs = xs"
  by (simp_all add: map_filter_def)

text \<open>What each selector finds in the options of the three sources.\<close>

lemma occ_own_options:
  "occ sel_host (own_options r) = []" "occ sel_port (own_options r) = []"
  "occ sel_path (own_options r) = []" "occ sel_query (own_options r) = []"
  "occ sel_proxy_scheme (own_options r) = []" "occ sel_proxy_uri (own_options r) = []"
  "occ sel_other (own_options r) = []"
  "occ sel_accept (own_options r) = (case req_accept r of Some x \<Rightarrow> [x] | None \<Rightarrow> [])"
  "occ sel_etag (own_options r) = (case req_etag r of Some xs \<Rightarrow> xs | None \<Rightarrow> [])"
  "occ sel_if_match (own_options r) = (case req_if_match r of Some xs \<Rightarrow> xs | None \<Rightarrow> [])"
  "occ sel_content_format (own_options r) = (case req_content_format r of Some x \<Rightarrow> [x] | None \<Rightarrow> [])"
  "occ sel_if_none_match (own_options r) = (if req_if_none_match r then [()] else [])"
  "occ sel_hop_limit (own_options r) = (case req_hop_limit r of Some x \<Rightarrow> [x] | None \<Rightarrow> [])"
  "occ sel_no_response (own_options r) = (case req_no_response r of Some x \<Rightarrow> [x] | None \<Rightarrow> [])"
  "occ sel_observe (own_options r) = (case req_observe r of Some x \<Rightarrow> [x] | None \<Rightarrow> [])"
  by (simp_all add: own_options_def sel_defs occ_map split: option.split)

lemma sel_uri_option:
  "uri_option opt \<Longrightarrow> sel_proxy_scheme opt = None \<and> sel_proxy_uri opt = None \<and> sel_other opt = None \<and>
     sel_accept opt = None \<and> sel_etag opt = None \<and> sel_if_match opt = None \<and> sel_content_format opt = None \<and>
     sel_if_none_match opt = None \<and> sel_hop_limit opt = None \<and> sel_no_response opt = None \<and> sel_observe opt = None"
  by (cases opt rule: uri_option.cases) (simp_all add: sel_defs)

lemma occ_uri_options:
  assumes "\<forall>opt \<in> set opts. uri_option opt"
  shows "occ sel_proxy_scheme opts = []" "occ sel_proxy_uri opts = []" "occ sel_other opts = []"
    "occ sel_accept opts = []" "occ sel_etag opts = []" "occ sel_if_match opts = []"
    "occ sel_content_format opts = []" "occ sel_if_none_match opts = []" "occ sel_hop_limit opts = []"
    "occ sel_no_response opts = []" "occ sel_observe opts = []"
  using assms sel_uri_option by (auto simp: occ_eq_Nil)

lemma occ_base_options:
  assumes "\<forall>opt \<in> set opts. \<exists>n v. opt = CoapOption.Other n v"
  shows "occ sel_proxy_scheme opts = []" "occ sel_proxy_uri opts = []" "occ sel_host opts = []"
    "occ sel_port opts = []" "occ sel_path opts = []" "occ sel_query opts = []"
    "occ sel_accept opts = []" "occ sel_etag opts = []" "occ sel_if_match opts = []"
    "occ sel_content_format opts = []" "occ sel_if_none_match opts = []" "occ sel_hop_limit opts = []"
    "occ sel_no_response opts = []" "occ sel_observe opts = []"
  using assms by (fastforce simp: occ_eq_Nil sel_defs)+

lemma first_many_option [simp]:
  "first (case v of None \<Rightarrow> [] | Some x \<Rightarrow> [x]) = v"
  "xs \<noteq> Some [] \<Longrightarrow> many (case xs of None \<Rightarrow> [] | Some l \<Rightarrow> l) = xs"
  "length (case v of None \<Rightarrow> [] | Some x \<Rightarrow> [x]) \<le> Suc 0"
  by (auto simp: many_def split: option.splits)

lemma not_forbidden_sources:
  "uri_option opt \<Longrightarrow> \<not> request_forbidden opt"
  "opt \<in> set (own_options r) \<Longrightarrow> \<not> request_forbidden opt"
  by (cases opt rule: uri_option.cases; simp)
    (auto simp: own_options_def split: option.splits if_splits)

lemma request_message_vars:
  assumes wf: "wf_request r" and uri: "uri_options_ok opts"
    and m: "msg_options m = msg_options (req_pdu r) @ ps @ opts @ own_options r"
    and ps: "ps = [] \<or> (\<exists>sch. ps = [CoapOption.ProxyScheme (scheme_fmt sch)])"
  shows "request_ok (msg_options m)"
    and "\<And>pdu u. request_of_vars pdu (request_vars (msg_options m)) u = r\<lparr>req_pdu := pdu, req_uri := u\<rparr>"
    and "rq_additional_opts (request_vars (msg_options m)) = msg_options (req_pdu r)"
    and "rq_proxy_uri (request_vars (msg_options m)) = None"
proof -
  have base: "\<forall>opt \<in> set (msg_options (req_pdu r)). \<exists>n v. opt = CoapOption.Other n v"
    and etag: "req_etag r \<noteq> Some []" "req_if_match r \<noteq> Some []"
    using wf by (simp_all add: wf_request_def)
  have opts: "\<forall>opt \<in> set opts. uri_option opt" "length (occ sel_host opts) \<le> 1" "length (occ sel_port opts) \<le> 1"
    using uri by (simp_all add: uri_options_ok_def)
  have ps_occ: "occ sel_host ps = []" "occ sel_port ps = []" "occ sel_other ps = []"
      "occ sel_accept ps = []" "occ sel_etag ps = []" "occ sel_if_match ps = []"
      "occ sel_content_format ps = []" "occ sel_if_none_match ps = []" "occ sel_hop_limit ps = []"
      "occ sel_no_response ps = []" "occ sel_observe ps = []" "occ sel_proxy_uri ps = []"
      "length (occ sel_proxy_scheme ps) \<le> Suc 0"
    using ps by (auto simp: sel_defs)
  note occs = occ_base_options[OF base] occ_uri_options[OF opts(1)] occ_own_options ps_occ
    occ_other_all[OF base]
  have "\<not> request_forbidden opt" if "opt \<in> set (msg_options m)" for opt
    using that base opts(1) ps not_forbidden_sources unfolding m by auto
  then show "request_ok (msg_options m)"
    using opts by (simp add: request_ok_def request_unrepeated_def m occs)
  show "\<And>pdu u. request_of_vars pdu (request_vars (msg_options m)) u = r\<lparr>req_pdu := pdu, req_uri := u\<rparr>"
    using etag by (simp add: request_of_vars_def request_vars_def m occs)
  show "rq_additional_opts (request_vars (msg_options m)) = msg_options (req_pdu r)"
    and "rq_proxy_uri (request_vars (msg_options m)) = None"
    by (simp_all add: request_vars_def m occs)
qed

lemma request_reparse:
  assumes "wf_request r" and "request_into_message U B unused conv r = Ret m"
    and "\<And>opts. uri_into_options B unused conv (req_uri r) = Ret opts \<Longrightarrow> uri_options_ok opts"
  shows "request_from_message split splitp proto m =
    run_try (run_map (map_err (\<lambda>e. InvalidOptionValue None (UriParsing e)))
               (request_uri split splitp proto (request_vars (msg_options m))))
      (\<lambda>uri. Ret (Inr (r\<lparr>req_uri := uri\<rparr>)))"
proof -
  obtain ps opts where opts: "uri_into_options B unused conv (req_uri r) = Ret opts"
    and m: "msg_options m = msg_options (req_pdu r) @ ps @ opts @ own_options r"
    and clear: "clear_options m = clear_options (req_pdu r)"
    and ps: "ps = [] \<and> \<not> uri_is_proxy (req_uri r) \<or>
      uri_is_proxy (req_uri r) \<and> (\<exists>sch. ps = [CoapOption.ProxyScheme (scheme_fmt sch)] \<and> uri_scheme U (req_uri r) = Ret (Some sch))"
    by (rule request_into_message_options[OF assms(2)])
  have "ps = [] \<or> (\<exists>sch. ps = [CoapOption.ProxyScheme (scheme_fmt sch)])" using ps by auto
  note vars = request_message_vars[OF assms(1) assms(3)[OF opts] m this]
  have "try_fold request_option req_vars_init (msg_options m) = Inr (request_vars (msg_options m))"
    using vars(1) by (simp add: request_options.loop_reads)
  moreover have "foldl (\<lambda>m opt. add_option opt m) (clear_options m) (msg_options (req_pdu r)) = req_pdu r"
    unfolding clear add_all_def[symmetric] by (rule add_all_clear)
  ultimately show ?thesis
    using vars by (simp add: request_from_message_def Let_def)
qed

text \<open>
  C5: request round trip, up to the URI. The request carries only unknown options besides its fields, no
  empty list of ETags or If-Match values, and libcoap turns its URI into Uri-Host, Uri-Port, Uri-Path
  and Uri-Query options with at most one host and one port. Then parsing the message it was converted
  into fails only if the URI that is built from these options is rejected, and otherwise returns the
  request with every other field and every additional option unchanged and that URI in place of its
  own. (That it equals its own URI is shown in \<open>Request_Uri\<close>.)
\<close>

theorem request_roundtrip:
  assumes "wf_request r" and "request_into_message U B unused conv r = Ret m"
    and "\<And>opts. uri_into_options B unused conv (req_uri r) = Ret opts \<Longrightarrow> uri_options_ok opts"
  shows "request_from_message split splitp proto m =
    run_try (run_map (map_err (\<lambda>e. InvalidOptionValue None (UriParsing e)))
               (request_uri split splitp proto (request_vars (msg_options m))))
      (\<lambda>uri. Ret (Inr (r\<lparr>req_uri := uri\<rparr>)))"
  using assms by (rule request_reparse)

definition sample_request :: CoapRequest where
  "sample_request =
     \<lparr>req_pdu = message_new Con (Request Get), req_uri = sample_uri, req_accept = Some 50,
      req_etag = Some [[1]], req_if_match = None, req_content_format = None,
      req_if_none_match = True, req_hop_limit = None, req_no_response = None, req_observe = Some 0\<rparr>"

definition sample_conv :: "coap_uri_t \<Rightarrow> nat \<Rightarrow> int \<times> optlist_entry list" where
  "sample_conv raw n = (1, [\<lparr>opt_number = 3, opt_data = [104]\<rparr>, \<lparr>opt_number = 11, opt_data = [97]\<rparr>])"

lemma sample_options_parse:
  "from_type_value iana 3 [104] = Ret (Inr (CoapOption.UriHost [104]))"
  "from_type_value iana 11 [97] = Ret (Inr (CoapOption.UriPath [97]))"
  using option_parse_encoded[OF bindings_ok_iana, of "CoapOption.UriHost [104]" "[104]"]
    option_parse_encoded[OF bindings_ok_iana, of "CoapOption.UriPath [97]" "[97]"]
  by (simp_all add: iana_num utf8_valid_ascii_Cons into_value_bytes_def Let_def
      known_iana[of CoapOptionType.UriHost, unfolded iana_num, simplified]
      known_iana[of CoapOptionType.UriPath, unfolded iana_num, simplified])

lemma sample_options:
  "uri_into_options iana False sample_conv sample_uri = Ret [CoapOption.UriHost [104], CoapOption.UriPath [97]]"
  using sample_options_parse by (simp add: uri_into_options_def sample_conv_def from_optlist_entry_def)

theorem request_roundtrip_witness:
  "\<exists>m u. request_into_message libcoap_uri iana False sample_conv sample_request = Ret m \<and>
     request_from_message split_relative split_relative Udp m = Ret (Inr (sample_request\<lparr>req_uri := u\<rparr>))"
proof -
  have wf: "wf_request sample_request"
    by (simp add: wf_request_def sample_request_def message_new_def)
  have uri: "uri_options_ok opts"
    if "uri_into_options iana False sample_conv (req_uri sample_request) = Ret opts" for opts
    using that sample_options by (auto simp: sample_request_def uri_options_ok_def sel_defs)
  have proxy: "\<not> uri_is_proxy sample_uri" by (simp add: sample_uri_def)
  then obtain m where m: "request_into_message libcoap_uri iana False sample_conv sample_request = Ret m"
    by (simp add: request_into_message_def sample_request_def sample_options Let_def)
  from m obtain ps opts where "uri_into_options iana False sample_conv (req_uri sample_request) = Ret opts"
    and "msg_options m = msg_options (req_pdu sample_request) @ ps @ opts @ own_options sample_request"
    and "ps = [] \<and> \<not> uri_is_proxy (req_uri sample_request) \<or>
      uri_is_proxy (req_uri sample_request) \<and> (\<exists>sch. ps = [CoapOption.ProxyScheme (scheme_fmt sch)] \<and>
        uri_scheme libcoap_uri (req_uri sample_request) = Ret (Some sch))"
    by (rule request_into_message_options)
  then have "msg_options m = [CoapOption.UriHost [104], CoapOption.UriPath [97]] @ own_options sample_request"
    using proxy sample_options by (simp add: sample_request_def message_new_def)
  then have "\<exists>u. request_uri split_relative split_relative Udp (request_vars (msg_options m)) = Ret (Inr u)"
    by (simp add: request_vars_def occ_own_options request_uri_def uri_new_def new_from_parts_eq
        cstring_new_def uri_text_def uri_prefix_def port_suffix_def ascii_def construct_path_string_def
        create_parsed_uri_def split_relative_def sel_defs Let_def)
  with request_roundtrip[OF wf m uri] m show ?thesis by auto
qed

text \<open>
  The code and type of a request. \<^verbatim>\<open>CoapRequest::new\<close> accepts exactly confirmable and
  non-confirmable messages and then has a request code; \<^verbatim>\<open>set_code\<close> keeps it so, changing nothing
  but the code, and panics on every other code.
\<close>

theorem request_code_kept:
  "(case request_new ty code uri of
      Inl e \<Rightarrow> (ty = Ack \<or> ty = Rst) \<and> e = InvalidForMessageCode ty
    | Inr r \<Rightarrow> (ty = Con \<or> ty = Non) \<and> msg_code (req_pdu r) = Request code \<and> wf_request r) \<and>
   (case request_set_code c r of
      Panic \<Rightarrow> \<forall>req. c \<noteq> Request req
    | Ret r' \<Rightarrow> (\<exists>req. c = Request req \<and> msg_code (req_pdu r') = Request req) \<and>
        r'\<lparr>req_pdu := (req_pdu r')\<lparr>msg_code := msg_code (req_pdu r)\<rparr>\<rparr> = r)"
  by (cases ty; cases c)
    (auto simp: request_new_def request_set_code_def message_new_def wf_request_def set_code_def)

end
