(* ===== verification/Response.thy ===== *)
theory Response
  imports Request
begin

text \<open>
  Responses (\<^verbatim>\<open>libcoap/src/message/response.rs\<close>, \<^verbatim>\<open>CoapResponse\<close>): construction, setters, parsing from
  a message and conversion into one. The parsing loop is shown equal to a declarative reading of
  the option list, and the lemmas say exactly which fields survive a conversion into a message.
\<close>

section \<open>Responses\<close>

record CoapResponse =
  rsp_pdu :: CoapMessage
  rsp_content_format :: "u16 option"
  rsp_max_age :: "u32 option"
  rsp_etag :: "bytes option"
  rsp_echo :: "bytes option"
  rsp_location :: "CoapUri option"
  rsp_observe :: "u32 option"

definition response_new :: "CoapMessageType \<Rightarrow> CoapResponseCode \<Rightarrow> MessageTypeError + CoapResponse" where
  "response_new ty code =
     (if ty = Con \<or> ty = Non \<or> ty = Ack then
        Inr \<lparr>rsp_pdu = message_new ty (Response code), rsp_content_format = None, rsp_max_age = None,
             rsp_etag = None, rsp_echo = None, rsp_location = None, rsp_observe = None\<rparr>
      else Inl (InvalidForMessageCode ty))"

definition set_max_age :: "u32 option \<Rightarrow> CoapResponse \<Rightarrow> CoapResponse" where
  "set_max_age v r = r\<lparr>rsp_max_age := v\<rparr>"

definition response_set_content_format :: "u16 option \<Rightarrow> CoapResponse \<Rightarrow> CoapResponse" where
  "response_set_content_format v r = r\<lparr>rsp_content_format := v\<rparr>"

definition response_set_etag :: "bytes option \<Rightarrow> CoapResponse \<Rightarrow> CoapResponse" where
  "response_set_etag v r = r\<lparr>rsp_etag := v\<rparr>"

definition set_echo :: "bytes option \<Rightarrow> CoapResponse \<Rightarrow> CoapResponse" where
  "set_echo v r = r\<lparr>rsp_echo := v\<rparr>"

definition response_set_observe :: "u32 option \<Rightarrow> CoapResponse \<Rightarrow> CoapResponse" where
  "response_set_observe v r = r\<lparr>rsp_observe := v\<rparr>"

definition set_location :: "CoapUri option \<Rightarrow> CoapResponse \<Rightarrow> (OptionValueError + unit) \<times> CoapResponse" where
  "set_location uri r =
     (Inr (), case uri of Some uri \<Rightarrow> r\<lparr>rsp_location := Some uri\<rparr> | None \<Rightarrow> r)"

definition response_set_code :: "CoapMessageCode \<Rightarrow> CoapResponse \<Rightarrow> CoapResponse run" where
  "response_set_code code r =
     (case code of
        Response rsp \<Rightarrow> Ret (r\<lparr>rsp_pdu := set_code (Response rsp) (rsp_pdu r)\<rparr>)
      | Request _ \<Rightarrow> Panic
      | CoapMessageCode.Empty \<Rightarrow> Panic)"

section \<open>Conversion into a message\<close>

definition response_into_message ::
    "bindings \<Rightarrow> bool \<Rightarrow> (coap_uri_t \<Rightarrow> nat \<Rightarrow> int \<times> optlist_entry list) \<Rightarrow> CoapResponse \<Rightarrow> CoapMessage run" where
  "response_into_message B coap_uri_buf_unused coap_uri_into_options r =
     run_bind (case rsp_location r of
                 Some loc \<Rightarrow> run_map (\<lambda>opts. add_all opts (rsp_pdu r))
                              (uri_into_options B coap_uri_buf_unused coap_uri_into_options loc)
               | None \<Rightarrow> Ret (rsp_pdu r)) (\<lambda>m.
     let m = add_opt CoapOption.MaxAge (rsp_max_age r) m;
         m = add_opt CoapOption.ContentFormat (rsp_content_format r) m;
         m = add_opt CoapOption.ETag (rsp_etag r) m;
         m = add_opt CoapOption.Observe (rsp_observe r) m
     in Ret m)"

section \<open>Parsing a message\<close>

record rsp_vars =
  rs_location_path :: "rstring list option"
  rs_location_query :: "rstring list option"
  rs_max_age :: "u32 option"
  rs_etag :: "bytes option"
  rs_echo :: "bytes option"
  rs_observe :: "u32 option"
  rs_content_format :: "u16 option"
  rs_additional_opts :: "CoapOption list"

definition rsp_vars_init :: rsp_vars where
  "rsp_vars_init =
     \<lparr>rs_location_path = None, rs_location_query = None, rs_max_age = None, rs_etag = None,
      rs_echo = None, rs_observe = None, rs_content_format = None, rs_additional_opts = []\<rparr>"

fun response_option :: "rsp_vars \<Rightarrow> CoapOption \<Rightarrow> MessageConversionError + rsp_vars" where
  "response_option s (CoapOption.LocationPath v) = Inr (s\<lparr>rs_location_path := push_opt v (rs_location_path s)\<rparr>)"
| "response_option s (CoapOption.LocationQuery v) = Inr (s\<lparr>rs_location_query := push_opt v (rs_location_query s)\<rparr>)"
| "response_option s (CoapOption.ETag v) =
     unless_repeated (rs_etag s \<noteq> None) CoapOptionType.ETag (s\<lparr>rs_etag := Some v\<rparr>)"
| "response_option s (CoapOption.MaxAge v) =
     unless_repeated (rs_max_age s \<noteq> None) CoapOptionType.MaxAge (s\<lparr>rs_max_age := Some v\<rparr>)"
| "response_option s (CoapOption.Observe v) =
     unless_repeated (rs_observe s \<noteq> None) CoapOptionType.Observe (s\<lparr>rs_observe := Some v\<rparr>)"
| "response_option s (CoapOption.IfMatch _) = Inl (InvalidOptionForMessageType CoapOptionType.IfMatch)"
| "response_option s CoapOption.IfNoneMatch = Inl (InvalidOptionForMessageType CoapOptionType.IfNoneMatch)"
| "response_option s (CoapOption.UriHost _) = Inl (InvalidOptionForMessageType CoapOptionType.UriHost)"
| "response_option s (CoapOption.UriPort _) = Inl (InvalidOptionForMessageType CoapOptionType.UriPort)"
| "response_option s (CoapOption.UriPath _) = Inl (InvalidOptionForMessageType CoapOptionType.UriPath)"
| "response_option s (CoapOption.UriQuery _) = Inl (InvalidOptionForMessageType CoapOptionType.UriQuery)"
| "response_option s (CoapOption.ProxyUri _) = Inl (InvalidOptionForMessageType CoapOptionType.ProxyUri)"
| "response_option s (CoapOption.ProxyScheme _) = Inl (InvalidOptionForMessageType CoapOptionType.ProxyScheme)"
| "response_option s (CoapOption.ContentFormat v) =
     unless_repeated (rs_content_format s \<noteq> None) CoapOptionType.ContentFormat (s\<lparr>rs_content_format := Some v\<rparr>)"
| "response_option s (CoapOption.Accept _) = Inl (InvalidOptionForMessageType CoapOptionType.Accept)"
| "response_option s (CoapOption.Size1 _) = Inl (InvalidOptionForMessageType CoapOptionType.Size1)"
| "response_option s (CoapOption.Size2 _) = Inr s"
| "response_option s (CoapOption.Block1 _) = Inl (InvalidOptionForMessageType CoapOptionType.Block1)"
| "response_option s (CoapOption.Block2 _) = Inr s"
| "response_option s (CoapOption.QBlock1 _) = Inr s"
| "response_option s (CoapOption.QBlock2 _) = Inr s"
| "response_option s (CoapOption.HopLimit _) = Inl (InvalidOptionForMessageType CoapOptionType.HopLimit)"
| "response_option s (CoapOption.NoResponse _) = Inl (InvalidOptionForMessageType CoapOptionType.NoResponse)"
| "response_option s (CoapOption.Echo v) =
     unless_repeated (rs_echo s \<noteq> None) CoapOptionType.Echo (s\<lparr>rs_echo := Some v\<rparr>)"
| "response_option s (CoapOption.RTag _) = Inr s"
| "response_option s (CoapOption.Oscore _) = Inr s"
| "response_option s (CoapOption.Other n v) =
     Inr (s\<lparr>rs_additional_opts := rs_additional_opts s @ [CoapOption.Other n v]\<rparr>)"

text \<open>The location, from the path and query that were collected.\<close>

definition response_location ::
    "split_fn \<Rightarrow> rsp_vars \<Rightarrow> (UriParsingError + CoapUri option) run" where
  "response_location coap_split_uri s =
     (if rs_location_path s \<noteq> None \<or> rs_location_query s \<noteq> None
      then run_try (uri_new_relative coap_split_uri
                      (map_option construct_path_string (rs_location_path s))
                      (map_option construct_query_string (rs_location_query s)))
             (\<lambda>u. Ret (Inr (Some u)))
      else Ret (Inr None))"

definition response_from_message ::
    "split_fn \<Rightarrow> CoapMessage \<Rightarrow> (MessageConversionError + CoapResponse) run" where
  "response_from_message coap_split_uri pdu =
     run_try (Ret (try_fold response_option rsp_vars_init (msg_options pdu))) (\<lambda>s.
     run_try (run_map (map_err conversion_error_from_uri) (response_location coap_split_uri s)) (\<lambda>location.
     Ret (Inr \<lparr>rsp_pdu = pdu, rsp_content_format = rs_content_format s, rsp_max_age = rs_max_age s,
               rsp_etag = rs_etag s, rsp_echo = rs_echo s, rsp_location = location,
               rsp_observe = rs_observe s\<rparr>)))"

section \<open>A declarative reading of the options\<close>

definition sel_location_path where
  "sel_location_path opt = (case opt of CoapOption.LocationPath v \<Rightarrow> Some v | _ \<Rightarrow> None)"
definition sel_location_query where
  "sel_location_query opt = (case opt of CoapOption.LocationQuery v \<Rightarrow> Some v | _ \<Rightarrow> None)"
definition sel_max_age where "sel_max_age opt = (case opt of CoapOption.MaxAge v \<Rightarrow> Some v | _ \<Rightarrow> None)"
definition sel_echo where "sel_echo opt = (case opt of CoapOption.Echo v \<Rightarrow> Some v | _ \<Rightarrow> None)"

lemmas rsp_sel_defs = sel_location_path_def sel_location_query_def sel_max_age_def sel_echo_def
  sel_etag_def sel_observe_def sel_content_format_def sel_other_def

definition response_vars :: "CoapOption list \<Rightarrow> rsp_vars" where
  "response_vars opts =
     \<lparr>rs_location_path = many (occ sel_location_path opts), rs_location_query = many (occ sel_location_query opts),
      rs_max_age = first (occ sel_max_age opts), rs_etag = first (occ sel_etag opts),
      rs_echo = first (occ sel_echo opts), rs_observe = first (occ sel_observe opts),
      rs_content_format = first (occ sel_content_format opts), rs_additional_opts = occ sel_other opts\<rparr>"

fun response_allowed :: "CoapOption \<Rightarrow> bool" where
  "response_allowed (CoapOption.IfMatch _) = False"
| "response_allowed CoapOption.IfNoneMatch = False"
| "response_allowed (CoapOption.UriHost _) = False"
| "response_allowed (CoapOption.UriPort _) = False"
| "response_allowed (CoapOption.UriPath _) = False"
| "response_allowed (CoapOption.UriQuery _) = False"
| "response_allowed (CoapOption.ProxyUri _) = False"
| "response_allowed (CoapOption.ProxyScheme _) = False"
| "response_allowed (CoapOption.Accept _) = False"
| "response_allowed (CoapOption.Size1 _) = False"
| "response_allowed (CoapOption.Block1 _) = False"
| "response_allowed (CoapOption.HopLimit _) = False"
| "response_allowed (CoapOption.NoResponse _) = False"
| "response_allowed _ = True"

definition response_ok :: "CoapOption list \<Rightarrow> bool" where
  "response_ok opts \<longleftrightarrow>
     (\<forall>opt \<in> set opts. response_allowed opt) \<and>
     length (occ sel_max_age opts) \<le> 1 \<and> length (occ sel_etag opts) \<le> 1 \<and>
     length (occ sel_echo opts) \<le> 1 \<and> length (occ sel_observe opts) \<le> 1 \<and>
     length (occ sel_content_format opts) \<le> 1"

lemma response_ok_snoc: "response_ok (opts @ [opt]) \<Longrightarrow> response_ok opts"
  by (auto simp: response_ok_def)

lemma response_option_vars:
  assumes "response_ok opts"
  shows "response_option (response_vars opts) opt = Inr s \<longleftrightarrow>
     response_ok (opts @ [opt]) \<and> s = response_vars (opts @ [opt])"
  using assms by (cases opt) (auto simp: response_vars_def response_ok_def rsp_sel_defs)

interpretation response_options: option_loop response_option rsp_vars_init response_ok response_vars
proof
  show "response_ok []" by (simp add: response_ok_def)
  show "rsp_vars_init = response_vars []" by (simp add: rsp_vars_init_def response_vars_def)
qed (fact response_ok_snoc response_option_vars)+

text \<open>
  C26: the option loop of \<^verbatim>\<open>CoapResponse::from_message\<close>. It ends normally exactly when every option is
  allowed in a response and no non-repeatable one is repeated, with the value of each single
  option, and the path and query segments of the location in order.
\<close>

theorem response_loop_exact:
  "try_fold response_option rsp_vars_init opts = Inr s \<longleftrightarrow> response_ok opts \<and> s = response_vars opts"
  by (rule response_options.loop_reads)

section \<open>Options of the message of a response\<close>

definition rsp_own_options :: "CoapResponse \<Rightarrow> CoapOption list" where
  "rsp_own_options r =
     (case rsp_max_age r of Some x \<Rightarrow> [CoapOption.MaxAge x] | None \<Rightarrow> []) @
     (case rsp_content_format r of Some x \<Rightarrow> [CoapOption.ContentFormat x] | None \<Rightarrow> []) @
     (case rsp_etag r of Some x \<Rightarrow> [CoapOption.ETag x] | None \<Rightarrow> []) @
     (case rsp_observe r of Some x \<Rightarrow> [CoapOption.Observe x] | None \<Rightarrow> [])"

lemma response_into_message_options:
  assumes "response_into_message B unused conv r = Ret m"
  obtains opts where "msg_options m = msg_options (rsp_pdu r) @ opts @ rsp_own_options r"
    and "clear_options m = clear_options (rsp_pdu r)"
    and "case rsp_location r of None \<Rightarrow> opts = [] | Some loc \<Rightarrow> uri_into_options B unused conv loc = Ret opts"
  using assms
  by (cases "rsp_location r")
    (auto simp: response_into_message_def Let_def run_bind_eq_Ret run_map_eq_Ret rsp_own_options_def)

lemma occ_rsp_own:
  "occ sel_location_path (rsp_own_options r) = []" "occ sel_location_query (rsp_own_options r) = []"
  "occ sel_echo (rsp_own_options r) = []" "occ sel_other (rsp_own_options r) = []"
  "occ sel_max_age (rsp_own_options r) = (case rsp_max_age r of Some x \<Rightarrow> [x] | None \<Rightarrow> [])"
  "occ sel_content_format (rsp_own_options r) = (case rsp_content_format r of Some x \<Rightarrow> [x] | None \<Rightarrow> [])"
  "occ sel_etag (rsp_own_options r) = (case rsp_etag r of Some x \<Rightarrow> [x] | None \<Rightarrow> [])"
  "occ sel_observe (rsp_own_options r) = (case rsp_observe r of Some x \<Rightarrow> [x] | None \<Rightarrow> [])"
  by (simp_all add: rsp_own_options_def rsp_sel_defs split: option.split)

lemma occ_rsp_base:
  assumes "\<forall>opt \<in> set opts. \<exists>n v. opt = CoapOption.Other n v"
  shows "occ sel_location_path opts = []" "occ sel_location_query opts = []" "occ sel_echo opts = []"
    "occ sel_max_age opts = []" "occ sel_content_format opts = []" "occ sel_etag opts = []"
    "occ sel_observe opts = []"
  using assms by (fastforce simp: occ_eq_Nil rsp_sel_defs)+

lemma occ_twice:
  "v = first (occ sel xs) \<Longrightarrow> occ sel zs = (case v of Some x \<Rightarrow> [x] | None \<Rightarrow> []) \<Longrightarrow> v \<noteq> None \<Longrightarrow>
   \<not> length (occ sel (xs @ ys @ zs)) \<le> 1"
  by (cases "occ sel xs") auto

lemma rsp_own_allowed: "opt \<in> set (rsp_own_options r) \<Longrightarrow> response_allowed opt"
  by (auto simp: rsp_own_options_def split: option.splits)

definition wf_response :: "CoapResponse \<Rightarrow> bool" where
  "wf_response r \<longleftrightarrow> (\<forall>opt \<in> set (msg_options (rsp_pdu r)). \<exists>n v. opt = CoapOption.Other n v)"

lemma response_loop_error:
  assumes "\<forall>opt \<in> set base. \<exists>n v. opt = CoapOption.Other n v" and "uri_option opt"
  shows "\<exists>t. try_fold response_option rsp_vars_init (base @ opt # rest) = Inl (InvalidOptionForMessageType t)"
proof -
  have "\<forall>opt \<in> set base. response_allowed opt" using assms(1) by auto
  then have "response_ok base" by (simp add: response_ok_def occ_rsp_base[OF assms(1)])
  then have "try_fold response_option rsp_vars_init base = Inr (response_vars base)"
    by (simp add: response_options.loop_reads)
  moreover have "\<exists>t. response_option (response_vars base) opt = Inl (InvalidOptionForMessageType t)"
    using assms(2) by (cases opt rule: uri_option.cases) auto
  ultimately show ?thesis by (auto simp: try_fold_append)
qed

lemma response_reparse:
  assumes "wf_response r" and "rsp_location r = None" and "response_into_message B unused conv r = Ret m"
  shows "response_from_message split m = Ret (Inr (r\<lparr>rsp_pdu := m, rsp_echo := None\<rparr>)) \<and>
    clear_options m = clear_options (rsp_pdu r) \<and>
    msg_options m = msg_options (rsp_pdu r) @ rsp_own_options r"
proof -
  have base: "\<forall>opt \<in> set (msg_options (rsp_pdu r)). \<exists>n v. opt = CoapOption.Other n v"
    using assms(1) by (simp add: wf_response_def)
  obtain opts where "msg_options m = msg_options (rsp_pdu r) @ opts @ rsp_own_options r"
    and clear: "clear_options m = clear_options (rsp_pdu r)"
    and "case rsp_location r of None \<Rightarrow> opts = [] | Some loc \<Rightarrow> uri_into_options B unused conv loc = Ret opts"
    by (rule response_into_message_options[OF assms(3)])
  with assms(2) have m: "msg_options m = msg_options (rsp_pdu r) @ rsp_own_options r" by simp
  have "\<forall>opt \<in> set (msg_options m). response_allowed opt"
    using base rsp_own_allowed unfolding m by auto
  then have "response_ok (msg_options m)"
    by (simp add: response_ok_def m occ_rsp_own occ_rsp_base[OF base])
  then have "try_fold response_option rsp_vars_init (msg_options m) = Inr (response_vars (msg_options m))"
    by (simp add: response_options.loop_reads)
  then show ?thesis
    using clear m assms(2)
    by (simp add: response_from_message_def response_location_def response_vars_def occ_rsp_own
        occ_rsp_base[OF base])
qed

text \<open>
  C25: response round trip without location, for a response whose message carries only unknown options
  besides its fields (so not for one that was parsed and is converted again). Parsing the message that
  it was converted into succeeds; Max-Age, Content-Format, ETag and Observe are read back as they were
  set and the location stays absent, but a value set for Echo is lost, and the parsed response keeps
  the whole message, options included.
\<close>

theorem response_roundtrip:
  assumes "wf_response r" and "rsp_location r = None" and "response_into_message B unused conv r = Ret m"
  shows "response_from_message split m = Ret (Inr (r\<lparr>rsp_pdu := m, rsp_echo := None\<rparr>)) \<and>
    clear_options m = clear_options (rsp_pdu r) \<and>
    msg_options m = msg_options (rsp_pdu r) @ rsp_own_options r"
  using assms by (rule response_reparse)

definition sample_response :: CoapResponse where
  "sample_response = \<lparr>rsp_pdu = message_new Ack (Response Content), rsp_content_format = Some 0,
     rsp_max_age = Some 60, rsp_etag = None, rsp_echo = Some [1], rsp_location = None, rsp_observe = None\<rparr>"

lemma sample_response_message:
  "response_into_message iana False sample_conv sample_response =
     Ret ((message_new Ack (Response Content))\<lparr>msg_options := [CoapOption.MaxAge 60, CoapOption.ContentFormat 0]\<rparr>)"
  by (simp add: response_into_message_def sample_response_def Let_def add_opt_def add_option_def message_new_def)

lemma sample_response_wf: "wf_response sample_response"
  by (simp add: wf_response_def sample_response_def message_new_def)

theorem response_roundtrip_witness:
  "response_from_message split_relative
     ((message_new Ack (Response Content))\<lparr>msg_options := [CoapOption.MaxAge 60, CoapOption.ContentFormat 0]\<rparr>) =
   Ret (Inr (sample_response\<lparr>rsp_pdu := (message_new Ack (Response Content))
     \<lparr>msg_options := [CoapOption.MaxAge 60, CoapOption.ContentFormat 0]\<rparr>, rsp_echo := None\<rparr>))"
  by (rule response_roundtrip[OF sample_response_wf _ sample_response_message, THEN conjunct1])
    (simp add: sample_response_def)

text \<open>
  A location does not survive. The message of a response whose location has a host, port, path
  or query carries Uri options, which \<^verbatim>\<open>from_message\<close> rejects as not allowed in a response.
\<close>

theorem response_location_rejected:
  assumes "wf_response r" and "rsp_location r = Some loc" and "response_into_message B unused conv r = Ret m"
    and "uri_into_options B unused conv loc = Ret opts" and "opts \<noteq> []" and "uri_options_ok opts"
  shows "\<exists>t. response_from_message split m = Ret (Inl (InvalidOptionForMessageType t))"
proof -
  obtain opts' where "msg_options m = msg_options (rsp_pdu r) @ opts' @ rsp_own_options r"
    and "case rsp_location r of None \<Rightarrow> opts' = [] | Some loc \<Rightarrow> uri_into_options B unused conv loc = Ret opts'"
    by (rule response_into_message_options[OF assms(3)])
  with assms(2,4) have m: "msg_options m = msg_options (rsp_pdu r) @ opts @ rsp_own_options r" by simp
  obtain opt rest where "opts = opt # rest" using assms(5) by (cases opts) auto
  with assms(6) m have "msg_options m = msg_options (rsp_pdu r) @ opt # rest @ rsp_own_options r" and "uri_option opt"
    by (simp_all add: uri_options_ok_def)
  with response_loop_error[of "msg_options (rsp_pdu r)" opt "rest @ rsp_own_options r"] assms(1) show ?thesis
    by (auto simp: response_from_message_def wf_response_def)
qed

text \<open>
  A parsed response cannot be sent on. Converting a response that was parsed from a message into
  a message repeats the options it was parsed from, so if it has a Max-Age, Content-Format, ETag or
  Observe value the receiver rejects it.
\<close>

theorem response_resend_rejected:
  assumes "response_from_message split m = Ret (Inr r)" and "rsp_own_options r \<noteq> []"
    and "response_into_message B unused conv r = Ret m'"
  shows "\<exists>e. response_from_message split' m' = Ret (Inl e)"
proof -
  from assms(1) have ok: "response_ok (msg_options m)" and pdu: "rsp_pdu r = m"
    and fields: "rsp_max_age r = first (occ sel_max_age (msg_options m))"
      "rsp_content_format r = first (occ sel_content_format (msg_options m))"
      "rsp_etag r = first (occ sel_etag (msg_options m))" "rsp_observe r = first (occ sel_observe (msg_options m))"
    by (auto simp: response_from_message_def run_try_eq_Inr response_options.loop_reads response_vars_def)
  obtain opts where m': "msg_options m' = msg_options (rsp_pdu r) @ opts @ rsp_own_options r"
    by (rule response_into_message_options[OF assms(3)])
  from assms(2) have "rsp_max_age r \<noteq> None \<or> rsp_content_format r \<noteq> None \<or> rsp_etag r \<noteq> None \<or> rsp_observe r \<noteq> None"
    by (auto simp: rsp_own_options_def)
  then have "\<not> response_ok (msg_options m')"
    using occ_twice[OF fields(1) occ_rsp_own(5)] occ_twice[OF fields(2) occ_rsp_own(6)]
      occ_twice[OF fields(3) occ_rsp_own(7)] occ_twice[OF fields(4) occ_rsp_own(8)]
    unfolding m' pdu response_ok_def by blast
  then have "\<exists>e. try_fold response_option rsp_vars_init (msg_options m') = Inl e"
    using response_options.loop_reads[of "msg_options m'"] by (cases "try_fold response_option rsp_vars_init (msg_options m')") auto
  then show ?thesis by (auto simp: response_from_message_def)
qed

end
