(* ===== verification/Coap_Address.thy ===== *)
theory Coap_Address
  imports Var_Int
begin

text \<open>
  Network addresses (\<^verbatim>\<open>libcoap/src/types.rs\<close>, \<^verbatim>\<open>CoapAddress\<close>): the conversion of a socket address into
  libcoap's \<^verbatim>\<open>coap_address_t\<close> and back, in both byte orders. The platform (byte order, address family
  numbers, structure sizes) is a parameter.
\<close>

section \<open>The platform\<close>

record platform =
  little_endian :: bool
  AF_INET :: u16
  AF_INET6 :: u16
  sizeof_sockaddr_in :: nat
  sizeof_sockaddr_in6 :: nat

definition platform_ok :: "platform \<Rightarrow> bool" where
  "platform_ok A \<longleftrightarrow> AF_INET A \<noteq> AF_INET6 A"

text \<open>
  \<^verbatim>\<open>from_ne_bytes\<close>/\<^verbatim>\<open>to_ne_bytes\<close> and \<^verbatim>\<open>to_be\<close>/\<^verbatim>\<open>from_be\<close>: the number whose representation in the
  byte order of the platform is the big-endian representation of the argument.
\<close>

definition from_ne_bytes :: "platform \<Rightarrow> bytes \<Rightarrow> 'a::len word" where
  "from_ne_bytes A bs = from_be_bytes (if little_endian A then rev bs else bs)"

definition to_ne_bytes :: "platform \<Rightarrow> 'a::len word \<Rightarrow> bytes" where
  "to_ne_bytes A w = (if little_endian A then rev (to_be_bytes w) else to_be_bytes w)"

definition to_be :: "platform \<Rightarrow> 'a::len word \<Rightarrow> 'a word" where
  "to_be A w = from_ne_bytes A (to_be_bytes w)"

definition from_be :: "platform \<Rightarrow> 'a::len word \<Rightarrow> 'a word" where
  "from_be A w = from_be_bytes (to_ne_bytes A w)"

section \<open>Addresses\<close>

datatype SocketAddr =
    V4 (ip4: bytes) (port4: u16)
  | V6 (ip6: bytes) (port6: u16) (flowinfo: u32) (scope_id: u32)

text \<open>An IPv4 address is four octets, an IPv6 address sixteen.\<close>

fun wf_addr :: "SocketAddr \<Rightarrow> bool" where
  "wf_addr (V4 ip p) = (length ip = 4)"
| "wf_addr (V6 ip p f s) = (length ip = 16)"

record sockaddr_in =
  sin_port :: u16
  sin_addr :: u32

record sockaddr_in6 =
  sin6_port :: u16
  sin6_addr :: bytes
  sin6_flowinfo :: u32
  sin6_scope_id :: u32

text \<open>
  The address union with its views. The family is the common first field of the views; the view
  that was not written is zeroed memory as far as safe code is concerned and is never read,
  because the family decides which view is read.
\<close>

record coap_address_t =
  size :: nat
  sa_family :: u16
  sin :: sockaddr_in
  sin6 :: sockaddr_in6

definition zero_sin :: sockaddr_in where
  "zero_sin = \<lparr>sin_port = 0, sin_addr = 0\<rparr>"

definition zero_sin6 :: sockaddr_in6 where
  "zero_sin6 = \<lparr>sin6_port = 0, sin6_addr = replicate 16 0, sin6_flowinfo = 0, sin6_scope_id = 0\<rparr>"

definition to_socket_addrs :: "platform \<Rightarrow> coap_address_t \<Rightarrow> SocketAddr run" where
  "to_socket_addrs A raw =
     (if sa_family raw = AF_INET A then
        Ret (V4 (to_ne_bytes A (sin_addr (sin raw))) (from_be A (sin_port (sin raw))))
      else if sa_family raw = AF_INET6 A then
        Ret (V6 (sin6_addr (sin6 raw)) (from_be A (sin6_port (sin6 raw)))
               (sin6_flowinfo (sin6 raw)) (sin6_scope_id (sin6 raw)))
      else Panic)"

fun address_from_socket_addr :: "platform \<Rightarrow> SocketAddr \<Rightarrow> coap_address_t" where
  "address_from_socket_addr A (V4 ip port) =
     \<lparr>size = sizeof_sockaddr_in A, sa_family = AF_INET A,
      sin = \<lparr>sin_port = to_be A port, sin_addr = from_ne_bytes A ip\<rparr>, sin6 = zero_sin6\<rparr>"
| "address_from_socket_addr A (V6 ip port flow scope) =
     \<lparr>size = sizeof_sockaddr_in6 A, sa_family = AF_INET6 A, sin = zero_sin,
      sin6 = \<lparr>sin6_port = to_be A port, sin6_addr = ip, sin6_flowinfo = flow, sin6_scope_id = scope\<rparr>\<rparr>"

text \<open>\<^verbatim>\<open>From<coap_address_t>\<close> and \<^verbatim>\<open>From<&coap_address_t>\<close> (a bitwise copy), and the accessors.\<close>

definition address_from_raw :: "coap_address_t \<Rightarrow> coap_address_t" where
  "address_from_raw raw_addr = raw_addr"

section \<open>Byte order\<close>

lemma to_from_be_bytes:
  assumes "8 * length bs = LENGTH('a::len)"
  shows "to_be_bytes (from_be_bytes bs :: 'a word) = bs"
proof -
  have "(256::nat) ^ length bs = 2 ^ LENGTH('a)"
    by (simp add: assms[symmetric] power_mult)
  then have "unat (word_of_nat (be_val bs) :: 'a word) = be_val bs"
    using be_val_less[of bs] by (simp add: unat_of_nat)
  moreover have "LENGTH('a) div 8 = length bs" using assms by simp
  ultimately show ?thesis by (simp add: to_be_bytes_def from_be_bytes_def be_digits_val)
qed

lemma from_to_be_bytes:
  fixes w :: "'a::len word"
  assumes "8 * (LENGTH('a) div 8) = LENGTH('a)"
  shows "from_be_bytes (to_be_bytes w) = w"
proof -
  have "(256::nat) ^ (LENGTH('a) div 8) = 2 ^ (8 * (LENGTH('a) div 8))"
    by (simp add: power_mult)
  also have "\<dots> = 2 ^ LENGTH('a)" using assms by (rule arg_cong)
  finally have "unat w mod 256 ^ (LENGTH('a) div 8) = unat w" by simp
  then show ?thesis by (simp add: to_be_bytes_def from_be_bytes_def be_val_digits)
qed

text \<open>The round trips hold in both byte orders.\<close>

lemma from_be_to_be:
  fixes w :: "'a::len word"
  assumes "8 * (LENGTH('a) div 8) = LENGTH('a)"
  shows "from_be A (to_be A w) = w"
  using assms
  by (simp add: from_be_def to_be_def from_ne_bytes_def to_ne_bytes_def to_from_be_bytes from_to_be_bytes)

lemma to_be_from_be:
  fixes w :: "'a::len word"
  assumes "8 * (LENGTH('a) div 8) = LENGTH('a)"
  shows "to_be A (from_be A w) = w"
  using assms
  by (simp add: from_be_def to_be_def from_ne_bytes_def to_ne_bytes_def to_from_be_bytes from_to_be_bytes)

lemma ne_bytes_inverse:
  shows "8 * length bs = LENGTH('a::len) \<Longrightarrow> to_ne_bytes A (from_ne_bytes A bs :: 'a word) = bs"
    and "8 * (LENGTH('a) div 8) = LENGTH('a) \<Longrightarrow> from_ne_bytes A (to_ne_bytes A w) = (w :: 'a word)"
  by (simp_all add: from_ne_bytes_def to_ne_bytes_def to_from_be_bytes from_to_be_bytes)

lemma length_to_ne_bytes: "length (to_ne_bytes A (w :: 'a::len word)) = LENGTH('a) div 8"
  by (simp add: to_ne_bytes_def)

section \<open>Properties\<close>

text \<open>The invariant of \<^verbatim>\<open>CoapAddress\<close>: a family it knows, and the structure size of that family.\<close>

definition wf_raw_addr :: "platform \<Rightarrow> coap_address_t \<Rightarrow> bool" where
  "wf_raw_addr A raw \<longleftrightarrow>
     sa_family raw = AF_INET A \<and> size raw = sizeof_sockaddr_in A \<and> sin6 raw = zero_sin6 \<or>
     sa_family raw = AF_INET6 A \<and> size raw = sizeof_sockaddr_in6 A \<and> sin raw = zero_sin \<and>
       length (sin6_addr (sin6 raw)) = 16"

text \<open>
  C36: address conversion. Converting a socket address to \<^verbatim>\<open>coap_address_t\<close> establishes the address
  invariant; converting back returns the same address, port, flow label and scope and does not
  panic; and every \<^verbatim>\<open>coap_address_t\<close> satisfying the invariant is the image of the address it is
  read as. All of this in either byte order.
\<close>

theorem address_roundtrip:
  assumes "platform_ok A" and "wf_addr addr" and "wf_raw_addr A raw"
  shows "wf_raw_addr A (address_from_socket_addr A addr) \<and>
    to_socket_addrs A (address_from_socket_addr A addr) = Ret addr \<and>
    (\<exists>a. wf_addr a \<and> to_socket_addrs A raw = Ret a \<and> address_from_socket_addr A a = raw)"
proof -
  have "wf_raw_addr A (address_from_socket_addr A addr)"
    using assms(2) by (cases addr) (simp_all add: wf_raw_addr_def)
  moreover have "to_socket_addrs A (address_from_socket_addr A addr) = Ret addr"
    using assms(1,2)
    by (cases addr) (simp_all add: to_socket_addrs_def platform_ok_def from_be_to_be ne_bytes_inverse)
  moreover have "\<exists>a. wf_addr a \<and> to_socket_addrs A raw = Ret a \<and> address_from_socket_addr A a = raw"
    using assms(1,3)
    by (auto simp: wf_raw_addr_def to_socket_addrs_def platform_ok_def to_be_from_be ne_bytes_inverse
        length_to_ne_bytes)
  ultimately show ?thesis by blast
qed

definition linux :: platform where
  "linux = \<lparr>little_endian = True, AF_INET = 2, AF_INET6 = 10, sizeof_sockaddr_in = 16,
            sizeof_sockaddr_in6 = 28\<rparr>"

theorem address_roundtrip_witness:
  "to_socket_addrs linux (address_from_socket_addr linux (V4 [127, 0, 0, 1] 5683)) =
     Ret (V4 [127, 0, 0, 1] 5683)"
proof -
  have "platform_ok linux" by (simp add: platform_ok_def linux_def)
  moreover have "wf_addr (V4 [127, 0, 0, 1] 5683)" by simp
  moreover have "wf_raw_addr linux (address_from_socket_addr linux (V4 [127, 0, 0, 1] 5683))"
    by (simp add: wf_raw_addr_def)
  ultimately show ?thesis by (rule address_roundtrip[THEN conjunct2, THEN conjunct1])
qed

end
