(* ===== verification/Session.thy ===== *)
theory Session
  imports Response Coap_Address
begin

text \<open>
  Sessions (\<^verbatim>\<open>libcoap/src/session/mod.rs\<close>): the inner session state shared by client and server
  sessions, sending of messages and requests, and the matching of received responses to pending
  requests by token. The map from tokens to response queues is described by the interface
  \<open>mailbox\<close>, whose laws are proved for the session's operations and from which the matching
  properties follow. The functions of libcoap on a raw session are the fields of the parameter
  record \<open>session_api\<close>.
\<close>

section \<open>Session state\<close>

datatype CoapSessionState = StateNone | Connecting | Handshake | Csm | Established

datatype coap_session_state_t =
    COAP_SESSION_STATE_NONE | COAP_SESSION_STATE_CONNECTING | COAP_SESSION_STATE_HANDSHAKE |
    COAP_SESSION_STATE_CSM | COAP_SESSION_STATE_ESTABLISHED | COAP_SESSION_STATE_OTHER nat

fun session_state_from :: "coap_session_state_t \<Rightarrow> CoapSessionState run" where
  "session_state_from COAP_SESSION_STATE_NONE = Ret StateNone"
| "session_state_from COAP_SESSION_STATE_CONNECTING = Ret Connecting"
| "session_state_from COAP_SESSION_STATE_HANDSHAKE = Ret Handshake"
| "session_state_from COAP_SESSION_STATE_CSM = Ret Csm"
| "session_state_from COAP_SESSION_STATE_ESTABLISHED = Ret Established"
| "session_state_from (COAP_SESSION_STATE_OTHER _) = Panic"

text \<open>
  The state of a raw session is of an arbitrary type; the application data is a reference counted
  value with a type tag, as \<^verbatim>\<open>dyn Any\<close> has.
\<close>

record ('s, 'ty, 'v) CoapSessionInner =
  raw_session :: 's
  app_data :: "('ty \<times> 'v) option"
  received_responses :: "bytes \<rightharpoonup> CoapResponse list"

definition session_inner_new :: "'s \<Rightarrow> ('s, 'ty, 'v) CoapSessionInner" where
  "session_inner_new raw = \<lparr>raw_session = raw, app_data = None, received_responses = Map.empty\<rparr>"

definition get_app_data ::
    "'ty \<Rightarrow> ('s, 'ty, 'v) CoapSessionInner \<Rightarrow> SessionGetAppDataError + 'v option" where
  "get_app_data ty s =
     (case app_data s of
        None \<Rightarrow> Inr None
      | Some (ty', v) \<Rightarrow> if ty' = ty then Inr (Some v) else Inl WrongType)"

definition set_app_data ::
    "('ty \<times> 'v) option \<Rightarrow> ('s, 'ty, 'v) CoapSessionInner \<Rightarrow> ('s, 'ty, 'v) CoapSessionInner" where
  "set_app_data v s = s\<lparr>app_data := v\<rparr>"

definition clear_app_data ::
    "('s, 'ty, 'v) CoapSessionInner \<Rightarrow> ('s, 'ty, 'v) CoapSessionInner" where
  "clear_app_data s = s\<lparr>app_data := None\<rparr>"

section \<open>Response queues\<close>

definition add_response ::
    "CoapResponse \<Rightarrow> ('s, 'ty, 'v) CoapSessionInner \<Rightarrow> ('s, 'ty, 'v) CoapSessionInner" where
  "add_response rsp s =
     (case msg_token (rsp_pdu rsp) of
        None \<Rightarrow> s
      | Some token \<Rightarrow>
          (case received_responses s token of
             None \<Rightarrow> s
           | Some q \<Rightarrow> s\<lparr>received_responses := (received_responses s)(token \<mapsto> q @ [rsp])\<rparr>))"

definition is_waiting_for_token :: "bytes \<Rightarrow> ('s, 'ty, 'v) CoapSessionInner \<Rightarrow> bool" where
  "is_waiting_for_token token s \<longleftrightarrow> received_responses s token \<noteq> None"

record CoapRequestHandle =
  handle_mid :: int
  handle_token :: bytes

text \<open>The insertion of the new queue happens before the \<^verbatim>\<open>expect\<close> on the old one.\<close>

definition poll_handle ::
    "CoapRequestHandle \<Rightarrow> ('s, 'ty, 'v) CoapSessionInner \<Rightarrow>
      CoapResponse list run \<times> ('s, 'ty, 'v) CoapSessionInner" where
  "poll_handle h s =
     (expect (received_responses s (handle_token h)),
      s\<lparr>received_responses := (received_responses s)(handle_token h \<mapsto> [])\<rparr>)"

definition remove_handle ::
    "CoapRequestHandle \<Rightarrow> ('s, 'ty, 'v) CoapSessionInner \<Rightarrow> ('s, 'ty, 'v) CoapSessionInner" where
  "remove_handle h s = s\<lparr>received_responses := (received_responses s)(handle_token h := None)\<rparr>"

section \<open>Sending\<close>

record ('s, 'p) session_api =
  pdu_functions :: "'p pdu_api"
  COAP_TOKEN_DEFAULT_MAX :: nat
  coap_session_new_token :: "'s \<Rightarrow> nat \<Rightarrow> bytes \<Rightarrow> nat \<times> bytes \<times> 's"
  coap_new_message_id :: "'s \<Rightarrow> u16 \<times> 's"
  coap_session_max_pdu_size :: "'s \<Rightarrow> nat"
  coap_send :: "'s \<Rightarrow> 'p \<Rightarrow> int \<times> 's"

text \<open>
  The parameters of the conversion of a request: the bindings and the functions of libcoap that
  handle URIs.
\<close>

record uri_env =
  env_bindings :: bindings
  env_uri_bindings :: uri_bindings
  env_buf_unused :: bool
  env_uri_into_options :: "coap_uri_t \<Rightarrow> nat \<Rightarrow> int \<times> optlist_entry list"
  env_split_uri :: split_fn

definition next_message_id ::
    "('s, 'p) session_api \<Rightarrow> ('s, 'ty, 'v) CoapSessionInner \<Rightarrow> int \<times> ('s, 'ty, 'v) CoapSessionInner" where
  "next_message_id api s =
     (let (mid, raw) = coap_new_message_id api (raw_session s) in (int (unat mid), s\<lparr>raw_session := raw\<rparr>))"

definition send ::
    "bindings \<Rightarrow> ('s, 'p) session_api \<Rightarrow> CoapMessage \<Rightarrow> ('s, 'ty, 'v) CoapSessionInner \<Rightarrow>
      (MessageConversionError + int) \<times> ('s, 'ty, 'v) CoapSessionInner" where
  "send B api m s =
     (case fst (into_raw_pdu B (pdu_functions api) (coap_session_max_pdu_size api (raw_session s)) m) of
        Inl e \<Rightarrow> (Inl e, s)
      | Inr raw_pdu \<Rightarrow>
          (let (mid, raw) = coap_send api (raw_session s) raw_pdu in (Inr mid, s\<lparr>raw_session := raw\<rparr>)))"

text \<open>The token of a request: its own, or a fresh one cut to the length libcoap reports.\<close>

definition request_token ::
    "('s, 'p) session_api \<Rightarrow> CoapRequest \<Rightarrow> ('s, 'ty, 'v) CoapSessionInner \<Rightarrow>
      (bytes \<times> ('s, 'ty, 'v) CoapSessionInner) run" where
  "request_token api req s =
     (case msg_token (req_pdu req) of
        Some token \<Rightarrow> Ret (token, s)
      | None \<Rightarrow>
          (let token_len = COAP_TOKEN_DEFAULT_MAX api;
               (token_len, token_tmp, raw) =
                 coap_session_new_token api (raw_session s) token_len (replicate token_len 0)
           in if token_len \<le> length token_tmp then Ret (take token_len token_tmp, s\<lparr>raw_session := raw\<rparr>)
              else Panic))"

text \<open>The message id of a request: its own, or the next one of the session.\<close>

definition ensure_mid ::
    "('s, 'p) session_api \<Rightarrow> CoapRequest \<Rightarrow> ('s, 'ty, 'v) CoapSessionInner \<Rightarrow>
      CoapRequest \<times> ('s, 'ty, 'v) CoapSessionInner" where
  "ensure_mid api req s =
     (case msg_mid (req_pdu req) of
        Some _ \<Rightarrow> (req, s)
      | None \<Rightarrow> (let (mid, s) = next_message_id api s
                  in (req\<lparr>req_pdu := set_mid (Some mid) (req_pdu req)\<rparr>, s)))"

definition send_request ::
    "uri_env \<Rightarrow> ('s, 'p) session_api \<Rightarrow> CoapRequest \<Rightarrow> ('s, 'ty, 'v) CoapSessionInner \<Rightarrow>
      ((MessageConversionError + CoapRequestHandle) \<times> ('s, 'ty, 'v) CoapSessionInner) run" where
  "send_request env api req s =
     run_bind (request_token api req s) (\<lambda>(token, s).
     let req = req\<lparr>req_pdu := set_token (Some token) (req_pdu req)\<rparr>;
         (req, s) = ensure_mid api req s;
         s = s\<lparr>received_responses := (received_responses s)(token \<mapsto> [])\<rparr>
     in run_bind (request_into_message (env_uri_bindings env) (env_bindings env) (env_buf_unused env)
                    (env_uri_into_options env) req) (\<lambda>m.
        let (r, s) = send (env_bindings env) api m s
        in Ret (case r of Inl e \<Rightarrow> Inl e | Inr mid \<Rightarrow> Inr \<lparr>handle_mid = mid, handle_token = token\<rparr>, s)))"

section \<open>Receiving\<close>

datatype coap_response_t = COAP_RESPONSE_FAIL | COAP_RESPONSE_OK

definition session_response_handler ::
    "uri_env \<Rightarrow> 'p pdu_api \<Rightarrow> 'p \<Rightarrow> ('s, 'ty, 'v) CoapSessionInner \<Rightarrow>
      (coap_response_t \<times> ('s, 'ty, 'v) CoapSessionInner) run" where
  "session_response_handler env api received s =
     (let token = coap_pdu_get_token api received in
      if \<not> is_waiting_for_token token s then Ret (COAP_RESPONSE_FAIL, s)
      else run_bind (run_try (from_raw_pdu (env_bindings env) api received)
                       (response_from_message (env_split_uri env)))
             (\<lambda>r. case r of
                Inr message \<Rightarrow> Ret (COAP_RESPONSE_OK, add_response message s)
              | Inl _ \<Rightarrow> Ret (COAP_RESPONSE_FAIL, s)))"

section \<open>The mailbox interface\<close>

text \<open>
  A mailbox keeps a queue for every registered key. Its client delivers items to keys and collects
  them in order.
\<close>

locale mailbox =
  fixes pending :: "'m \<Rightarrow> 'k \<Rightarrow> 'i list option"
    and register :: "'k \<Rightarrow> 'm \<Rightarrow> 'm"
    and deliver :: "'i \<Rightarrow> 'm \<Rightarrow> 'm"
    and collect :: "'k \<Rightarrow> 'm \<Rightarrow> 'i list run \<times> 'm"
    and forget :: "'k \<Rightarrow> 'm \<Rightarrow> 'm"
    and key_of :: "'i \<Rightarrow> 'k option"
  assumes pending_register: "pending (register k m) k' = (if k' = k then Some [] else pending m k')"
    and pending_deliver: "pending (deliver i m) k =
      (if key_of i = Some k then map_option (\<lambda>q. q @ [i]) (pending m k) else pending m k)"
    and collect_result: "fst (collect k m) = expect (pending m k)"
    and pending_collect: "pending (snd (collect k m)) k' = (if k' = k then Some [] else pending m k')"
    and pending_forget: "pending (forget k m) k' = (if k' = k then None else pending m k')"
begin

lemma pending_deliver_fold:
  "pending (fold deliver is m) k =
     map_option (\<lambda>q. q @ filter (\<lambda>i. key_of i = Some k) is) (pending m k)"
  by (induction "is" arbitrary: m) (simp_all add: pending_deliver option.map_comp comp_def option.map_ident)

text \<open>Items are collected in the order of delivery, each exactly once, whatever else is delivered.\<close>

lemma collect_in_order:
  assumes "pending m k = Some q"
  shows "fst (collect k (fold deliver is m)) = Ret (q @ filter (\<lambda>i. key_of i = Some k) is)"
    and "fst (collect k (snd (collect k (fold deliver is m)))) = Ret []"
  using assms by (simp_all add: collect_result pending_deliver_fold pending_collect)

lemma collect_others:
  "k' \<noteq> k \<Longrightarrow> fst (collect k' (snd (collect k m))) = fst (collect k' m)"
  by (simp add: collect_result pending_collect)

lemma unregistered_dropped:
  assumes "pending m k = None"
  shows "pending (fold deliver is m) k = None" and "fst (collect k (fold deliver is m)) = Panic"
  using assms by (simp_all add: collect_result pending_deliver_fold)

lemma forgotten_dropped: "fst (collect k (fold deliver is (forget k m))) = Panic"
  by (simp add: collect_result pending_deliver_fold pending_forget)

end

text \<open>The response queues of a session are a mailbox.\<close>

definition register_token ::
    "bytes \<Rightarrow> ('s, 'ty, 'v) CoapSessionInner \<Rightarrow> ('s, 'ty, 'v) CoapSessionInner" where
  "register_token token s = s\<lparr>received_responses := (received_responses s)(token \<mapsto> [])\<rparr>"

interpretation responses: mailbox
  "received_responses :: ('s, 'ty, 'v) CoapSessionInner \<Rightarrow> bytes \<Rightarrow> CoapResponse list option"
  register_token add_response
  "\<lambda>token. poll_handle \<lparr>handle_mid = 0, handle_token = token\<rparr>"
  "\<lambda>token. remove_handle \<lparr>handle_mid = 0, handle_token = token\<rparr>"
  "\<lambda>rsp. msg_token (rsp_pdu rsp)"
  by unfold_locales
    (auto simp: register_token_def add_response_def poll_handle_def remove_handle_def split: option.split)

section \<open>Lemmas\<close>

text \<open>Only the token of a handle matters.\<close>

lemma handle_token_only:
  "poll_handle h = poll_handle \<lparr>handle_mid = 0, handle_token = handle_token h\<rparr>"
  "remove_handle h = remove_handle \<lparr>handle_mid = 0, handle_token = handle_token h\<rparr>"
  by (simp_all add: fun_eq_iff poll_handle_def remove_handle_def)

lemma send_queues [simp]: "received_responses (snd (send B api m s)) = received_responses s"
  by (simp add: send_def split: sum.split prod.split)

lemma request_token_queues:
  "request_token api req s = Ret (token, s') \<Longrightarrow> received_responses s' = received_responses s"
  by (auto simp: request_token_def Let_def split: option.splits prod.splits if_splits)

lemma ensure_mid_queues [simp]: "received_responses (snd (ensure_mid api req s)) = received_responses s"
  by (simp add: ensure_mid_def next_message_id_def split: option.split prod.split)

text \<open>
  What \<^verbatim>\<open>send_request\<close> leaves behind: an empty queue for the token of the request, which is the
  token of the handle, and all other queues as they were.
\<close>

text \<open>\<^verbatim>\<open>send_request\<close> after the token was chosen: the message ID, the registered token and the sent message.\<close>

lemma send_request_body:
  assumes "request_token api req s = Ret (token, s1)"
    and "rs = ensure_mid api (req\<lparr>req_pdu := set_token (Some token) (req_pdu req)\<rparr>) s1"
    and "s2 = snd rs\<lparr>received_responses := (received_responses (snd rs))(token \<mapsto> [])\<rparr>"
  shows "send_request env api req s =
      run_bind (request_into_message (env_uri_bindings env) (env_bindings env) (env_buf_unused env)
                  (env_uri_into_options env) (fst rs))
        (\<lambda>m. Ret (case fst (send (env_bindings env) api m s2) of Inl e \<Rightarrow> Inl e
                  | Inr mid \<Rightarrow> Inr \<lparr>handle_mid = mid, handle_token = token\<rparr>, snd (send (env_bindings env) api m s2)))"
  by (cases rs) (simp add: send_request_def assms(1) Let_def assms(2)[symmetric] assms(3) case_prod_beta
      del: ensure_mid_queues cong del: sum.case_cong_weak)

lemma send_request_queues:
  assumes "send_request env api req s = Ret (r, s')"
  obtains token where "received_responses s' = (received_responses s)(token \<mapsto> [])"
    and "\<And>h. r = Inr h \<Longrightarrow> handle_token h = token"
    and "\<And>t. msg_token (req_pdu req) = Some t \<Longrightarrow> token = t"
proof -
  from assms obtain token s1 where tok: "request_token api req s = Ret (token, s1)"
    by (auto simp: send_request_def run_bind_eq_Ret)
  define rs where "rs = ensure_mid api (req\<lparr>req_pdu := set_token (Some token) (req_pdu req)\<rparr>) s1"
  define s2 where "s2 = snd rs\<lparr>received_responses := (received_responses (snd rs))(token \<mapsto> [])\<rparr>"
  have q: "received_responses s2 = (received_responses s)(token \<mapsto> [])"
    using request_token_queues[OF tok] by (simp add: s2_def rs_def)
  from assms send_request_body[OF tok rs_def s2_def, of env] obtain m where "s' = snd (send (env_bindings env) api m s2)"
    and "r = (case fst (send (env_bindings env) api m s2)
        of Inl e \<Rightarrow> Inl e | Inr mid \<Rightarrow> Inr \<lparr>handle_mid = mid, handle_token = token\<rparr>)"
    by (auto simp: run_bind_eq_Ret)
  moreover have "\<And>t. msg_token (req_pdu req) = Some t \<Longrightarrow> token = t"
    using tok by (simp add: request_token_def)
  ultimately show thesis using that[of token] q by (auto split: sum.splits)
qed

section \<open>Properties\<close>

text \<open>
  Sending a request. \<^verbatim>\<open>send_request\<close> registers exactly one token, with an empty queue: the token
  of the request if it has one, otherwise a fresh one, and in either case the token of the returned
  handle; every other queue is as before. The token stays registered also when sending fails.
\<close>

theorem send_request_registers:
  assumes "send_request env api req s = Ret (r, s')"
  shows "\<exists>token. received_responses s' = (received_responses s)(token \<mapsto> []) \<and>
    is_waiting_for_token token s' \<and> (\<forall>h. r = Inr h \<longrightarrow> handle_token h = token) \<and>
    (\<forall>t. msg_token (req_pdu req) = Some t \<longrightarrow> token = t)"
proof -
  obtain token where "received_responses s' = (received_responses s)(token \<mapsto> [])"
    and "\<And>h. r = Inr h \<Longrightarrow> handle_token h = token"
    and "\<And>t. msg_token (req_pdu req) = Some t \<Longrightarrow> token = t"
    by (rule send_request_queues[OF assms]) blast
  then show ?thesis unfolding is_waiting_for_token_def by (intro exI[of _ token]) simp
qed

text \<open>
  C1: matching responses to requests. After a request was sent, whatever responses arrive, polling
  its handle returns exactly those with its token, in the order of arrival; polling again returns
  nothing; and the queues of other requests are not affected by polling.
\<close>

theorem responses_in_order:
  assumes "send_request env api req s = Ret (Inr h, s')"
  shows "fst (poll_handle h (fold add_response rsps s')) =
      Ret (filter (\<lambda>rsp. msg_token (rsp_pdu rsp) = Some (handle_token h)) rsps) \<and>
    fst (poll_handle h (snd (poll_handle h (fold add_response rsps s')))) = Ret [] \<and>
    (handle_token h' \<noteq> handle_token h \<longrightarrow>
       fst (poll_handle h' (snd (poll_handle h s'))) = fst (poll_handle h' s'))"
proof -
  have "received_responses s' (handle_token h) = Some []"
    by (rule send_request_queues[OF assms]) simp
  note order = responses.collect_in_order[OF this, of rsps]
  then have "fst (poll_handle h (fold add_response rsps s')) =
      Ret (filter (\<lambda>rsp. msg_token (rsp_pdu rsp) = Some (handle_token h)) rsps)"
    and "fst (poll_handle h (snd (poll_handle h (fold add_response rsps s')))) = Ret []"
    unfolding handle_token_only[of h] by simp_all
  moreover have "handle_token h' \<noteq> handle_token h \<longrightarrow>
      fst (poll_handle h' (snd (poll_handle h s'))) = fst (poll_handle h' s')"
    unfolding handle_token_only[of h] handle_token_only[of h'] using responses.collect_others by blast
  ultimately show ?thesis by blast
qed

text \<open>
  Removed handles. After \<^verbatim>\<open>remove_handle\<close> no later response is kept for the token, and polling
  the handle panics; a response whose token is not registered changes nothing.
\<close>

theorem removed_handle_dropped:
  "\<not> is_waiting_for_token (handle_token h) (fold add_response rsps (remove_handle h s)) \<and>
   fst (poll_handle h (fold add_response rsps (remove_handle h s))) = Panic"
  unfolding handle_token_only[of h] is_waiting_for_token_def
  using responses.forgotten_dropped[of "handle_token h" rsps s]
    responses.unregistered_dropped(1)[of "remove_handle \<lparr>handle_mid = 0, handle_token = handle_token h\<rparr> s"
      "handle_token h" rsps] responses.pending_forget[of "handle_token h" s "handle_token h"]
  by simp

lemma from_raw_pdu_token:
  "from_raw_pdu B api p = Ret (Inr m) \<Longrightarrow> msg_token m = Some (coap_pdu_get_token api p)"
  by (auto simp: from_raw_pdu_def Let_def run_try_eq_Inr run_bind_eq_Ret)

lemma response_from_message_pdu:
  "response_from_message split m = Ret (Inr r) \<Longrightarrow> rsp_pdu r = m"
  by (auto simp: response_from_message_def run_try_eq_Inr)

text \<open>
  C38: the response handler. A PDU whose token is not waited for is refused and changes nothing. A PDU
  that parses to a response is acknowledged and appended to the queue of its token, and to no other
  queue. Any other PDU that does not make parsing panic is refused and changes nothing.
\<close>

theorem response_handler_exact:
  "session_response_handler env api received s =
     (let token = coap_pdu_get_token api received in
      case received_responses s token of
        None \<Rightarrow> Ret (COAP_RESPONSE_FAIL, s)
      | Some q \<Rightarrow>
          (case run_try (from_raw_pdu (env_bindings env) api received) (response_from_message (env_split_uri env)) of
             Panic \<Rightarrow> Panic
           | Ret (Inl _) \<Rightarrow> Ret (COAP_RESPONSE_FAIL, s)
           | Ret (Inr rsp) \<Rightarrow>
               Ret (COAP_RESPONSE_OK, s\<lparr>received_responses := (received_responses s)(token \<mapsto> q @ [rsp])\<rparr>)))"
proof (cases "received_responses s (coap_pdu_get_token api received)")
  case None
  then show ?thesis by (simp add: session_response_handler_def is_waiting_for_token_def Let_def)
next
  case (Some q)
  let ?parsed = "run_try (from_raw_pdu (env_bindings env) api received) (response_from_message (env_split_uri env))"
  have tok: "msg_token (rsp_pdu rsp) = Some (coap_pdu_get_token api received)" if "?parsed = Ret (Inr rsp)" for rsp
    using that by (auto simp: run_try_eq_Inr dest!: response_from_message_pdu from_raw_pdu_token)
  show ?thesis
  proof (cases ?parsed)
    case (Ret r)
    with Some tok show ?thesis
      by (cases r) (simp_all add: session_response_handler_def is_waiting_for_token_def Let_def add_response_def)
  next
    case Panic
    with Some show ?thesis by (simp add: session_response_handler_def is_waiting_for_token_def Let_def)
  qed
qed

section \<open>A concrete session\<close>

definition sample_env :: uri_env where
  "sample_env = \<lparr>env_bindings = iana, env_uri_bindings = libcoap_uri, env_buf_unused = False,
     env_uri_into_options = (\<lambda>raw n. (1, [])), env_split_uri = split_relative\<rparr>"

text \<open>A raw session that counts the tokens and message ids it gave out.\<close>

definition sample_session_api :: "(nat, mem_pdu) session_api" where
  "sample_session_api =
     \<lparr>pdu_functions = mem_api, COAP_TOKEN_DEFAULT_MAX = 8,
      coap_session_new_token = (\<lambda>n len buf. (2, of_nat n # 7 # drop 2 buf, n + 1)),
      coap_new_message_id = (\<lambda>n. (of_nat n, n + 1)),
      coap_session_max_pdu_size = (\<lambda>n. 1152),
      coap_send = (\<lambda>n p. (p_mid p, n))\<rparr>"

definition plain_request :: CoapRequest where
  "plain_request =
     \<lparr>req_pdu = message_new Con (Request Get), req_uri = sample_uri, req_accept = None, req_etag = None,
      req_if_match = None, req_content_format = None, req_if_none_match = False, req_hop_limit = None,
      req_no_response = None, req_observe = None\<rparr>"

definition sample_session :: "(nat, unit, unit) CoapSessionInner" where
  "sample_session = session_inner_new 1"

lemma sample_send:
  "\<exists>s'. send_request sample_env sample_session_api plain_request sample_session =
     Ret (Inr \<lparr>handle_mid = 2, handle_token = [1, 7]\<rparr>, s')"
proof -
  have proxy: "uri_is_proxy sample_uri = False" by (simp add: sample_uri_def)
  show ?thesis
    by (simp add: send_request_def request_token_def ensure_mid_def next_message_id_def plain_request_def
        sample_env_def sample_session_api_def sample_session_def session_inner_new_def message_new_def
        set_token_def set_mid_def Let_def request_into_message_def proxy uri_into_options_def add_all_def
        add_opt_def add_each_def send_def into_raw_pdu_def mem_api_def apply_to_raw_pdu_def
        apply_options_def apply_data_def)
qed

theorem responses_in_order_witness:
  "\<exists>s' h. send_request sample_env sample_session_api plain_request sample_session = Ret (Inr h, s') \<and>
     fst (poll_handle h (fold add_response [sample_response\<lparr>rsp_pdu := (rsp_pdu sample_response)
       \<lparr>msg_token := Some [1, 7]\<rparr>\<rparr>, sample_response] s')) =
     Ret [sample_response\<lparr>rsp_pdu := (rsp_pdu sample_response)\<lparr>msg_token := Some [1, 7]\<rparr>\<rparr>]"
proof -
  obtain s' where sent: "send_request sample_env sample_session_api plain_request sample_session =
     Ret (Inr \<lparr>handle_mid = 2, handle_token = [1, 7]\<rparr>, s')"
    using sample_send by blast
  have none: "msg_token (rsp_pdu sample_response) = None"
    by (simp add: sample_response_def message_new_def)
  show ?thesis
    by (intro exI[of _ s'] exI[of _ "\<lparr>handle_mid = 2, handle_token = [1, 7]\<rparr>"] conjI sent
        trans[OF responses_in_order[OF sent, THEN conjunct1]]) (simp add: none)
qed

end
