(* ===== verification/Exchange.thy ===== *)
theory Exchange
  imports Session
begin

text \<open>
  A whole exchange: a client sends a request (\<^verbatim>\<open>send_request\<close> of \<^verbatim>\<open>session/mod.rs\<close>), the server parses the
  PDU (\<^verbatim>\<open>prepare_resource_handler_data\<close> of \<^verbatim>\<open>resource.rs\<close>), its handler sends a response, and the client
  receives it (\<^verbatim>\<open>session_response_handler\<close>) and polls the handle. The theory composes the conversions of
  requests, responses and messages with the response queues. Both ends have the same bindings; a PDU
  is transported as it was given to \<^verbatim>\<open>coap_send\<close>.
\<close>

section \<open>Options in the order of a PDU\<close>

abbreviation sorted_options :: "bindings \<Rightarrow> CoapOption list \<Rightarrow> CoapOption list" where
  "sorted_options B \<equiv> sort_key (\<lambda>opt. unat (number B opt))"

lemma occ_filter: "(\<And>opt v. sel opt = Some v \<Longrightarrow> P opt) \<Longrightarrow> occ sel (filter P opts) = occ sel opts"
  by (induction opts) (auto split: option.split)

text \<open>The sort is stable, so what a selector of one option type finds does not depend on it.\<close>

lemma occ_sorted:
  assumes "\<And>opt v. sel opt = Some v \<Longrightarrow> number B opt = k"
  shows "occ sel (sorted_options B opts) = occ sel opts"
proof -
  let ?P = "\<lambda>opt. unat (number B opt) = unat k"
  have "occ sel (sorted_options B opts) = occ sel (filter ?P (sorted_options B opts))"
    by (rule occ_filter[symmetric]) (simp add: assms)
  also have "filter ?P (sorted_options B opts) = filter ?P opts"
    by (rule sort_key_stable)
  also have "occ sel (filter ?P opts) = occ sel opts"
    by (rule occ_filter) (simp add: assms)
  finally show ?thesis .
qed

lemma occ_sorted_all [simp]:
  "occ sel_host (sorted_options B opts) = occ sel_host opts"
  "occ sel_port (sorted_options B opts) = occ sel_port opts"
  "occ sel_path (sorted_options B opts) = occ sel_path opts"
  "occ sel_query (sorted_options B opts) = occ sel_query opts"
  "occ sel_proxy_scheme (sorted_options B opts) = occ sel_proxy_scheme opts"
  "occ sel_proxy_uri (sorted_options B opts) = occ sel_proxy_uri opts"
  "occ sel_content_format (sorted_options B opts) = occ sel_content_format opts"
  "occ sel_etag (sorted_options B opts) = occ sel_etag opts"
  "occ sel_if_match (sorted_options B opts) = occ sel_if_match opts"
  "occ sel_if_none_match (sorted_options B opts) = occ sel_if_none_match opts"
  "occ sel_accept (sorted_options B opts) = occ sel_accept opts"
  "occ sel_hop_limit (sorted_options B opts) = occ sel_hop_limit opts"
  "occ sel_no_response (sorted_options B opts) = occ sel_no_response opts"
  "occ sel_observe (sorted_options B opts) = occ sel_observe opts"
  "occ sel_location_path (sorted_options B opts) = occ sel_location_path opts"
  "occ sel_location_query (sorted_options B opts) = occ sel_location_query opts"
  "occ sel_max_age (sorted_options B opts) = occ sel_max_age opts"
  "occ sel_echo (sorted_options B opts) = occ sel_echo opts"
  by (rule occ_sorted, auto simp: sel_defs rsp_sel_defs split: CoapOption.splits)+

lemma occ_other_sorted: "occ sel_other (sorted_options B opts) = sorted_options B (occ sel_other opts)"
proof -
  have "occ sel_other opts = filter (\<lambda>opt. sel_other opt \<noteq> None) opts" for opts
    by (induction opts) (auto simp: sel_other_def split: CoapOption.splits)
  then show ?thesis by (simp add: filter_sort)
qed

text \<open>The messages a receiver sees: options in the order of the PDU, an empty body as none.\<close>

definition received :: "bindings \<Rightarrow> CoapMessage \<Rightarrow> CoapMessage" where
  "received B m = m\<lparr>msg_code := wire_code (msg_code m), msg_options := sorted_options B (msg_options m),
     msg_data := (if msg_data m = Some [] then None else msg_data m)\<rparr>"

lemma request_vars_sorted:
  "request_vars (sorted_options B opts) =
     (request_vars opts)\<lparr>rq_additional_opts := sorted_options B (rq_additional_opts (request_vars opts))\<rparr>"
  by (simp add: request_vars_def occ_other_sorted)

lemma request_ok_sorted [simp]: "request_ok (sorted_options B opts) = request_ok opts"
  by (simp add: request_ok_def request_unrepeated_def)

lemma response_ok_sorted [simp]: "response_ok (sorted_options B opts) = response_ok opts"
  by (simp add: response_ok_def)

section \<open>Requests\<close>

lemma request_uri_additional [simp]:
  "request_uri split splitp proto (v\<lparr>rq_additional_opts := x\<rparr>) = request_uri split splitp proto v"
  by (simp add: request_uri_def Let_def split: option.split)

lemma request_of_vars_additional [simp]:
  "request_of_vars pdu (v\<lparr>rq_additional_opts := x\<rparr>) u = request_of_vars pdu v u"
  by (simp add: request_of_vars_def)

lemma add_all_eq: "add_all opts m = m\<lparr>msg_options := msg_options m @ opts\<rparr>"
  by (induction opts arbitrary: m) (simp_all add: add_all_def add_option_def)

lemma received_base:
  assumes "clear_options m = clear_options m'"
  shows "add_all (sorted_options B (msg_options m')) (clear_options (received B m)) = received B m'"
proof -
  have "m\<lparr>msg_options := []\<rparr> = m'\<lparr>msg_options := []\<rparr>" using assms by (simp add: clear_options_def)
  then have "msg_type m = msg_type m' \<and> msg_code m = msg_code m' \<and> msg_mid m = msg_mid m' \<and>
      msg_token m = msg_token m' \<and> msg_data m = msg_data m'"
    by (metis CoapMessage.select_convs CoapMessage.surjective CoapMessage.update_convs(4))
  then show ?thesis by (simp add: add_all_eq clear_options_def received_def)
qed

text \<open>The server reads the request the client converted, with its URI parsed again from the options.\<close>

lemma request_received:
  assumes "wf_request r" and "request_into_message U B unused conv r = Ret m"
    and "\<And>opts. uri_into_options B unused conv (req_uri r) = Ret opts \<Longrightarrow> uri_options_ok opts"
  shows "request_from_message split splitp proto (received B m) =
    run_try (run_map (map_err (\<lambda>e. InvalidOptionValue None (UriParsing e)))
               (request_uri split splitp proto (request_vars (msg_options m))))
      (\<lambda>uri. Ret (Inr (r\<lparr>req_pdu := received B (req_pdu r), req_uri := uri\<rparr>)))"
proof -
  obtain ps opts where opts: "uri_into_options B unused conv (req_uri r) = Ret opts"
    and m: "msg_options m = msg_options (req_pdu r) @ ps @ opts @ own_options r"
    and clear: "clear_options m = clear_options (req_pdu r)"
    and ps: "ps = [] \<and> \<not> uri_is_proxy (req_uri r) \<or>
      uri_is_proxy (req_uri r) \<and> (\<exists>sch. ps = [CoapOption.ProxyScheme (scheme_fmt sch)] \<and> uri_scheme U (req_uri r) = Ret (Some sch))"
    by (rule request_into_message_options[OF assms(2)])
  have "ps = [] \<or> (\<exists>sch. ps = [CoapOption.ProxyScheme (scheme_fmt sch)])" using ps by auto
  note vars = request_message_vars[OF assms(1) assms(3)[OF opts] m this]
  have "try_fold request_option req_vars_init (msg_options (received B m)) = Inr (request_vars (msg_options (received B m)))"
    using vars(1) by (simp add: request_options.loop_reads received_def)
  moreover have "request_vars (msg_options (received B m)) =
      (request_vars (msg_options m))\<lparr>rq_additional_opts := sorted_options B (msg_options (req_pdu r))\<rparr>"
    by (simp add: received_def request_vars_sorted vars(3))
  ultimately show ?thesis
    using vars received_base[OF clear, of B]
    by (simp add: request_from_message_def Let_def add_all_def)
qed

text \<open>What \<^verbatim>\<open>send_request\<close> gives to \<^verbatim>\<open>coap_send\<close>: the PDU of the request with the token of the handle.\<close>

lemma send_request_sent:
  assumes "send_request env api req s = Ret (Inr h, s')"
  obtains mid m p del raw where
    "request_into_message (env_uri_bindings env) (env_bindings env) (env_buf_unused env) (env_uri_into_options env)
       (req\<lparr>req_pdu := (req_pdu req)\<lparr>msg_token := Some (handle_token h), msg_mid := Some mid\<rparr>\<rparr>) = Ret m"
    and "into_raw_pdu (env_bindings env) (pdu_functions api) (coap_session_max_pdu_size api raw) m = (Inr p, del)"
    and "coap_send api raw p = (handle_mid h, raw_session s')"
proof -
  from assms obtain token s1 where tok: "request_token api req s = Ret (token, s1)"
    by (auto simp: send_request_def run_bind_eq_Ret)
  define rs where "rs = ensure_mid api (req\<lparr>req_pdu := set_token (Some token) (req_pdu req)\<rparr>) s1"
  define s2 where "s2 = snd rs\<lparr>received_responses := (received_responses (snd rs))(token \<mapsto> [])\<rparr>"
  obtain mid where rs: "fst rs = req\<lparr>req_pdu := (req_pdu req)\<lparr>msg_token := Some token, msg_mid := Some mid\<rparr>\<rparr>"
  proof (cases "msg_mid (req_pdu req)")
    case None
    then show thesis
      using that by (auto simp: rs_def ensure_mid_def set_token_def set_mid_def case_prod_beta)
  next
    case (Some mid)
    then have "(req_pdu req)\<lparr>msg_token := Some token, msg_mid := Some mid\<rparr> = (req_pdu req)\<lparr>msg_token := Some token\<rparr>"
      by simp
    with Some show thesis using that[of mid] by (simp add: rs_def ensure_mid_def set_token_def)
  qed
  from assms send_request_body[OF tok rs_def s2_def, of env] obtain m where m: "request_into_message
      (env_uri_bindings env) (env_bindings env) (env_buf_unused env) (env_uri_into_options env) (fst rs) = Ret m"
    and s': "s' = snd (send (env_bindings env) api m s2)"
    and r: "Inr h = (case fst (send (env_bindings env) api m s2)
        of Inl e \<Rightarrow> Inl e | Inr mid \<Rightarrow> Inr \<lparr>handle_mid = mid, handle_token = token\<rparr>)"
    by (auto simp: run_bind_eq_Ret)
  from r have h: "handle_token h = token" and snd: "send (env_bindings env) api m s2 = (Inr (handle_mid h), s')"
    by (auto simp: s' prod_eq_iff split: sum.splits)
  let ?n = "coap_session_max_pdu_size api (raw_session s2)"
  from snd obtain p where "fst (into_raw_pdu (env_bindings env) (pdu_functions api) ?n m) = Inr p"
    and "coap_send api (raw_session s2) p = (handle_mid h, raw_session s')"
    by (auto simp: send_def split: sum.splits prod.splits)
  with m rs h that[of mid m "raw_session s2" p "snd (into_raw_pdu (env_bindings env) (pdu_functions api) ?n m)"]
  show thesis by (metis prod.collapse)
qed

section \<open>Responses\<close>

text \<open>The client reads the response the server converted, except Echo.\<close>

lemma response_received:
  assumes "wf_response r" and "rsp_location r = None" and "response_into_message B unused conv r = Ret m"
  shows "response_from_message split (received B m) = Ret (Inr (r\<lparr>rsp_pdu := received B m, rsp_echo := None\<rparr>))"
proof -
  have base: "\<forall>opt \<in> set (msg_options (rsp_pdu r)). \<exists>n v. opt = CoapOption.Other n v"
    using assms(1) by (simp add: wf_response_def)
  have m: "msg_options m = msg_options (rsp_pdu r) @ rsp_own_options r"
    and parsed: "response_from_message split m = Ret (Inr (r\<lparr>rsp_pdu := m, rsp_echo := None\<rparr>))"
    using response_reparse[OF assms] by blast+
  have "response_ok (msg_options m)"
    using parsed by (auto simp: response_from_message_def run_try_eq_Inr response_options.loop_reads)
  then have "try_fold response_option rsp_vars_init (msg_options (received B m)) =
      Inr (response_vars (msg_options (received B m)))"
    by (simp add: response_options.loop_reads received_def)
  moreover have "msg_options (received B m) = sorted_options B (msg_options (rsp_pdu r) @ rsp_own_options r)"
    by (simp add: received_def m)
  ultimately show ?thesis
    using assms(2)
    by (simp add: response_from_message_def response_location_def response_vars_def occ_rsp_own occ_rsp_base[OF base])
qed

section \<open>Sendable requests and responses\<close>

definition sendable_request :: "uri_env \<Rightarrow> (bytes \<Rightarrow> bool) \<Rightarrow> CoapRequest \<Rightarrow> bool" where
  "sendable_request env fits r \<longleftrightarrow> wf_request r \<and> data_fits fits (req_pdu r) \<and>
     (\<forall>opt \<in> set (msg_options (req_pdu r) @ own_options r). sendable_option (env_bindings env) opt) \<and>
     (\<forall>opts. uri_into_options (env_bindings env) (env_buf_unused env) (env_uri_into_options env) (req_uri r) = Ret opts \<longrightarrow>
        uri_options_ok opts \<and> (\<forall>opt \<in> set opts. sendable_option (env_bindings env) opt))"

definition sendable_response :: "uri_env \<Rightarrow> CoapResponse \<Rightarrow> bool" where
  "sendable_response env r \<longleftrightarrow> wf_response r \<and> rsp_location r = None \<and> (\<exists>c. msg_code (rsp_pdu r) = Response c) \<and>
     (\<forall>opt \<in> set (msg_options (rsp_pdu r) @ rsp_own_options r). sendable_option (env_bindings env) opt)"

lemma scheme_sendable: "sendable_option B (CoapOption.ProxyScheme (scheme_fmt sch))"
  by (cases sch) (simp_all add: sendable_option_def ascii_def utf8_valid_ascii_Cons)

lemma data_fits_cleared: "clear_options m = clear_options m' \<Longrightarrow> data_fits fits m = data_fits fits m'"
  by (metis (no_types, lifting) clear_options_def data_fits_def CoapMessage.select_convs(2,6) CoapMessage.surjective
      CoapMessage.update_convs(4))

lemma own_options_pdu [simp]: "own_options (r\<lparr>req_pdu := pdu\<rparr>) = own_options r"
  by (simp add: own_options_def)

lemma sendable_request_message:
  assumes "sendable_request env fits r"
    and "request_into_message U (env_bindings env) (env_buf_unused env) (env_uri_into_options env) r = Ret m"
  shows "\<forall>opt \<in> set (msg_options m). sendable_option (env_bindings env) opt" and "data_fits fits m"
proof -
  obtain ps opts where "uri_into_options (env_bindings env) (env_buf_unused env) (env_uri_into_options env) (req_uri r) = Ret opts"
    and m: "msg_options m = msg_options (req_pdu r) @ ps @ opts @ own_options r"
    and clear: "clear_options m = clear_options (req_pdu r)"
    and ps: "ps = [] \<and> \<not> uri_is_proxy (req_uri r) \<or>
      uri_is_proxy (req_uri r) \<and> (\<exists>sch. ps = [CoapOption.ProxyScheme (scheme_fmt sch)] \<and> uri_scheme U (req_uri r) = Ret (Some sch))"
    by (rule request_into_message_options[OF assms(2)])
  then show "\<forall>opt \<in> set (msg_options m). sendable_option (env_bindings env) opt"
    using assms(1) scheme_sendable by (auto simp: sendable_request_def)
  show "data_fits fits m" using assms(1) data_fits_cleared[OF clear] by (simp add: sendable_request_def)
qed

lemma sendable_request_pdu:
  assumes "sendable_request env fits r"
  shows "sendable_request env fits (r\<lparr>req_pdu := (req_pdu r)\<lparr>msg_token := t, msg_mid := i\<rparr>\<rparr>)"
  using assms by (simp add: sendable_request_def wf_request_def data_fits_def)

lemma sendable_response_message:
  assumes "sendable_response env r"
    and "response_into_message (env_bindings env) (env_buf_unused env) (env_uri_into_options env) r = Ret m"
  shows "\<forall>opt \<in> set (msg_options m). sendable_option (env_bindings env) opt" and "data_fits fits m"
    and "msg_token m = msg_token (rsp_pdu r)"
proof -
  have m: "msg_options m = msg_options (rsp_pdu r) @ rsp_own_options r" and clear: "clear_options m = clear_options (rsp_pdu r)"
    using response_reparse[of r] assms by (auto simp: sendable_response_def)
  then show "\<forall>opt \<in> set (msg_options m). sendable_option (env_bindings env) opt"
    using assms(1) by (simp add: sendable_response_def)
  show "data_fits fits m"
    using assms(1) data_fits_cleared[OF clear] by (auto simp: sendable_response_def data_fits_def)
  show "msg_token m = msg_token (rsp_pdu r)"
    using clear by (metis clear_options_def CoapMessage.select_convs(5) CoapMessage.surjective CoapMessage.update_convs(4))
qed

section \<open>Delivery of a response\<close>

lemma send_request_waits:
  "send_request env api req s = Ret (Inr h, s') \<Longrightarrow> received_responses s' (handle_token h) = Some []"
  by (erule send_request_queues) simp

lemma response_delivered:
  assumes laws: "bindings_ok (env_bindings env)" "pdu_api_ok fits api" "alloc_ok api" and sapi: "pdu_functions sapi = api"
    and rsp: "sendable_response env rsp" and tok: "msg_token (rsp_pdu rsp) = Some (handle_token h)"
    and m: "response_into_message (env_bindings env) (env_buf_unused env) (env_uri_into_options env) rsp = Ret m"
    and send: "send (env_bindings env) sapi m ss = (Inr i, ss')"
    and waits: "received_responses cs (handle_token h) = Some []"
  shows "\<exists>q cs'. fst (into_raw_pdu (env_bindings env) api (coap_session_max_pdu_size sapi (raw_session ss)) m) = Inr q \<and>
    coap_send sapi (raw_session ss) q = (i, raw_session ss') \<and>
    session_response_handler env api q cs = Ret (COAP_RESPONSE_OK, cs') \<and>
    fst (poll_handle h cs') = Ret [rsp\<lparr>rsp_pdu := received (env_bindings env) m, rsp_echo := None\<rparr>]"
proof -
  let ?B = "env_bindings env" and ?n = "coap_session_max_pdu_size sapi (raw_session ss)"
  from send obtain q where pdu: "fst (into_raw_pdu ?B api ?n m) = Inr q"
    and out: "coap_send sapi (raw_session ss) q = (i, raw_session ss')"
    by (auto simp: send_def sapi split: sum.splits prod.splits)
  then have q: "into_raw_pdu ?B api ?n m = (Inr q, snd (into_raw_pdu ?B api ?n m))" by (metis prod.collapse)
  note ok = sendable_response_message[OF rsp m]
  have parsed: "from_raw_pdu ?B api q = Ret (Inr (received ?B m))"
    using message_reparse[OF laws ok(1,2) q] by (simp add: received_def)
  then have token: "coap_pdu_get_token api q = handle_token h"
    using from_raw_pdu_token[OF parsed] ok(3) tok by (simp add: received_def)
  have "response_from_message (env_split_uri env) (received ?B m) =
      Ret (Inr (rsp\<lparr>rsp_pdu := received ?B m, rsp_echo := None\<rparr>))"
    using rsp by (intro response_received[OF _ _ m]) (simp_all add: sendable_response_def)
  with parsed token waits ok(3) tok show ?thesis
    by (intro exI[of _ q])
      (simp add: session_response_handler_def is_waiting_for_token_def Let_def out pdu add_response_def received_def poll_handle_def)
qed

section \<open>The exchange\<close>

text \<open>The PDU of a request, and what the server makes of it.\<close>

lemma request_parsed:
  assumes laws: "bindings_ok (env_bindings env)" "pdu_api_ok fits api" "alloc_ok api" and capi: "pdu_functions capi = api"
    and req: "sendable_request env fits req"
    and sent: "send_request env capi req cs = Ret (Inr h, cs')"
  obtains mid m p raw where
    "fst (into_raw_pdu (env_bindings env) api (coap_session_max_pdu_size capi raw) m) = Inr p"
    and "coap_send capi raw p = (handle_mid h, raw_session cs')"
    and "request_into_message (env_uri_bindings env) (env_bindings env) (env_buf_unused env) (env_uri_into_options env)
       (req\<lparr>req_pdu := (req_pdu req)\<lparr>msg_token := Some (handle_token h), msg_mid := Some mid\<rparr>\<rparr>) = Ret m"
    and "from_raw_pdu (env_bindings env) api p = Ret (Inr (received (env_bindings env) m))"
    and "\<And>split splitp proto. run_try (from_raw_pdu (env_bindings env) api p) (request_from_message split splitp proto) =
       run_try (run_map (map_err (\<lambda>e. InvalidOptionValue None (UriParsing e)))
                  (request_uri split splitp proto (request_vars (msg_options m))))
         (\<lambda>uri. Ret (Inr (req\<lparr>req_pdu := received (env_bindings env)
            ((req_pdu req)\<lparr>msg_token := Some (handle_token h), msg_mid := Some mid\<rparr>), req_uri := uri\<rparr>)))"
proof -
  let ?B = "env_bindings env"
  obtain mid m p del raw where m: "request_into_message (env_uri_bindings env) ?B (env_buf_unused env) (env_uri_into_options env)
       (req\<lparr>req_pdu := (req_pdu req)\<lparr>msg_token := Some (handle_token h), msg_mid := Some mid\<rparr>\<rparr>) = Ret m"
    and p: "into_raw_pdu ?B api (coap_session_max_pdu_size capi raw) m = (Inr p, del)"
    and out: "coap_send capi raw p = (handle_mid h, raw_session cs')"
    by (rule send_request_sent[OF sent]) (simp add: capi)
  let ?req = "req\<lparr>req_pdu := (req_pdu req)\<lparr>msg_token := Some (handle_token h), msg_mid := Some mid\<rparr>\<rparr>"
  have req': "sendable_request env fits ?req" by (rule sendable_request_pdu[OF req])
  have msg: "from_raw_pdu ?B api p = Ret (Inr (received ?B m))"
    using message_reparse[OF laws sendable_request_message[OF req' m] p] by (simp add: received_def)
  have parsed: "request_from_message split splitp proto (received ?B m) =
       run_try (run_map (map_err (\<lambda>e. InvalidOptionValue None (UriParsing e)))
                  (request_uri split splitp proto (request_vars (msg_options m))))
         (\<lambda>uri. Ret (Inr (?req\<lparr>req_pdu := received ?B (req_pdu ?req), req_uri := uri\<rparr>)))" for split splitp proto
    using req' by (intro request_received[OF _ m]) (auto simp: sendable_request_def)
  show thesis by (rule that[OF _ out m msg]) (simp_all add: p msg parsed)
qed

text \<open>
  C2: a whole exchange of a sendable request and a sendable response. Sendable means: apart from what the
  fields stand for, the message carries only options the crate does not know, in canonical form with
  valid strings; there is no No-Response option (parsing one panics); lists of ETags and If-Match
  values are not empty; the options libcoap makes of the URI are Uri-Host, Uri-Port, Uri-Path and
  Uri-Query options with at most one host and one port; a response has a response code and no
  location, and a request body fits its PDU. When \<^verbatim>\<open>send_request\<close> returned a handle for such a request,
  the PDU it gave to \<^verbatim>\<open>coap_send\<close> is parsed by the server into the request that was sent, with the token of
  the handle, its code and options as on the wire and its URI parsed again from the options, or the
  server rejects the request because its parser rejects that URI. And whenever the server sends such
  a response with that token, the response handler of the client accepts the PDU, and polling the
  handle returns exactly the response, with every field but Echo, which is lost.
\<close>

theorem request_response_exchange:
  assumes laws: "bindings_ok (env_bindings env)" "pdu_api_ok fits api" "alloc_ok api"
    and apis: "pdu_functions capi = api" "pdu_functions sapi = api"
    and req: "sendable_request env fits req"
    and sent: "send_request env capi req cs = Ret (Inr h, cs')"
  shows "\<exists>p raw mid m. fst (into_raw_pdu (env_bindings env) api (coap_session_max_pdu_size capi raw) m) = Inr p \<and>
    coap_send capi raw p = (handle_mid h, raw_session cs') \<and>
    (let req' = req\<lparr>req_pdu := (req_pdu req)\<lparr>msg_token := Some (handle_token h), msg_mid := Some mid\<rparr>\<rparr> in
     request_into_message (env_uri_bindings env) (env_bindings env) (env_buf_unused env) (env_uri_into_options env) req' = Ret m \<and>
     run_try (from_raw_pdu (env_bindings env) api p) (request_from_message split splitp proto) =
       run_try (run_map (map_err (\<lambda>e. InvalidOptionValue None (UriParsing e)))
                  (request_uri split splitp proto (request_vars (msg_options m))))
         (\<lambda>uri. Ret (Inr (req'\<lparr>req_pdu := received (env_bindings env) (req_pdu req'), req_uri := uri\<rparr>)))) \<and>
    (\<forall>rsp m' ss i ss'. sendable_response env rsp \<and> msg_token (rsp_pdu rsp) = Some (handle_token h) \<and>
       response_into_message (env_bindings env) (env_buf_unused env) (env_uri_into_options env) rsp = Ret m' \<and>
       send (env_bindings env) sapi m' ss = (Inr i, ss') \<longrightarrow>
       (\<exists>q cs''. fst (into_raw_pdu (env_bindings env) api (coap_session_max_pdu_size sapi (raw_session ss)) m') = Inr q \<and>
          coap_send sapi (raw_session ss) q = (i, raw_session ss') \<and>
          session_response_handler env api q cs' = Ret (COAP_RESPONSE_OK, cs'') \<and>
          fst (poll_handle h cs'') = Ret [rsp\<lparr>rsp_pdu := received (env_bindings env) m', rsp_echo := None\<rparr>]))"
proof -
  let ?B = "env_bindings env"
  obtain mid m p raw where pdu: "fst (into_raw_pdu ?B api (coap_session_max_pdu_size capi raw) m) = Inr p"
    and out: "coap_send capi raw p = (handle_mid h, raw_session cs')"
    and m: "request_into_message (env_uri_bindings env) ?B (env_buf_unused env) (env_uri_into_options env)
       (req\<lparr>req_pdu := (req_pdu req)\<lparr>msg_token := Some (handle_token h), msg_mid := Some mid\<rparr>\<rparr>) = Ret m"
    and parsed: "run_try (from_raw_pdu ?B api p) (request_from_message split splitp proto) =
       run_try (run_map (map_err (\<lambda>e. InvalidOptionValue None (UriParsing e)))
                  (request_uri split splitp proto (request_vars (msg_options m))))
         (\<lambda>uri. Ret (Inr (req\<lparr>req_pdu := received ?B
            ((req_pdu req)\<lparr>msg_token := Some (handle_token h), msg_mid := Some mid\<rparr>), req_uri := uri\<rparr>)))"
    by (rule request_parsed[OF laws apis(1) req sent]) (rule that)
  have delivered: "\<exists>q cs''. fst (into_raw_pdu (env_bindings env) api (coap_session_max_pdu_size sapi (raw_session ss)) m') = Inr q \<and>
          coap_send sapi (raw_session ss) q = (i, raw_session ss') \<and>
          session_response_handler env api q cs' = Ret (COAP_RESPONSE_OK, cs'') \<and>
          fst (poll_handle h cs'') = Ret [rsp\<lparr>rsp_pdu := received ?B m', rsp_echo := None\<rparr>]"
    if "sendable_response env rsp" "msg_token (rsp_pdu rsp) = Some (handle_token h)"
      "response_into_message ?B (env_buf_unused env) (env_uri_into_options env) rsp = Ret m'"
      "send ?B sapi m' ss = (Inr i, ss')" for rsp m' ss i ss'
    by (rule response_delivered[OF laws apis(2) that]) (rule send_request_waits[OF sent])
  have "\<forall>rsp m' ss i ss'. sendable_response env rsp \<and> msg_token (rsp_pdu rsp) = Some (handle_token h) \<and>
       response_into_message ?B (env_buf_unused env) (env_uri_into_options env) rsp = Ret m' \<and>
       send ?B sapi m' ss = (Inr i, ss') \<longrightarrow>
       (\<exists>q cs''. fst (into_raw_pdu ?B api (coap_session_max_pdu_size sapi (raw_session ss)) m') = Inr q \<and>
          coap_send sapi (raw_session ss) q = (i, raw_session ss') \<and>
          session_response_handler env api q cs' = Ret (COAP_RESPONSE_OK, cs'') \<and>
          fst (poll_handle h cs'') = Ret [rsp\<lparr>rsp_pdu := received ?B m', rsp_echo := None\<rparr>])"
    using delivered by blast
  then show ?thesis
    unfolding Let_def
    by (intro exI[of _ p], intro exI[of _ raw], intro exI[of _ mid], intro exI[of _ m], intro conjI pdu out m)
      (simp_all add: parsed)
qed

text \<open>The two ends of the sample bindings: a GET is answered by the sample response.\<close>

abbreviation sample_reply :: CoapResponse where
  "sample_reply \<equiv> sample_response\<lparr>rsp_pdu := (rsp_pdu sample_response)\<lparr>msg_token := Some [1, 7], msg_mid := Some 9\<rparr>\<rparr>"

theorem request_response_exchange_witness:
  "\<exists>cs' h m q cs''. send_request sample_env sample_session_api plain_request sample_session = Ret (Inr h, cs') \<and>
     response_into_message iana (env_buf_unused sample_env) (env_uri_into_options sample_env) sample_reply = Ret m \<and>
     session_response_handler sample_env mem_api q cs' = Ret (COAP_RESPONSE_OK, cs'') \<and>
     fst (poll_handle h cs'') = Ret [sample_reply\<lparr>rsp_pdu := received iana m, rsp_echo := None\<rparr>]"
proof -
  obtain cs' where sent: "send_request sample_env sample_session_api plain_request sample_session =
      Ret (Inr \<lparr>handle_mid = 2, handle_token = [1, 7]\<rparr>, cs')"
    using sample_send by blast
  have env: "env_bindings sample_env = iana" "pdu_functions sample_session_api = mem_api"
    by (simp_all add: sample_env_def sample_session_api_def)
  have req: "sendable_request sample_env (\<lambda>d. True) plain_request"
    by (auto simp: sendable_request_def wf_request_def plain_request_def own_options_def data_fits_def message_new_def
        sample_env_def uri_into_options_def uri_options_ok_def)
  have rsp: "sendable_response sample_env sample_reply"
    by (simp add: sendable_response_def wf_response_def sample_response_def rsp_own_options_def message_new_def
        sendable_option_def sample_env_def)
  let ?m = "(message_new Ack (Response Content))\<lparr>msg_mid := Some 9, msg_token := Some [1, 7],
      msg_options := [CoapOption.MaxAge 60, CoapOption.ContentFormat 0]\<rparr>"
  have m: "response_into_message iana (env_buf_unused sample_env) (env_uri_into_options sample_env) sample_reply = Ret ?m"
    by (simp add: response_into_message_def sample_response_def Let_def add_opt_def add_option_def message_new_def)
  have enc: "into_value_bytes iana (CoapOption.MaxAge 60) = Inr (encode_var_len_u32 60)"
    "into_value_bytes iana (CoapOption.ContentFormat 0) = Inr (encode_var_len_u16 0)"
    using encode_length_bounds(1)[of 0] encode_length_bounds(2)[of 60]
    by (simp_all add: into_value_bytes_def Let_def known_iana not_less)
  have "\<exists>p. fst (into_raw_pdu iana mem_api 1152 ?m) = Inr p"
    by (simp add: into_raw_pdu_def message_new_def mem_api_def apply_to_raw_pdu_def apply_options_def apply_data_def
        optlist_step_def into_optlist_entry_def enc)
  then obtain i ss' where send: "send iana sample_session_api ?m sample_session = (Inr i, ss')"
    by (auto simp: send_def sample_session_api_def split: prod.splits sum.splits)
  have tok: "msg_token (rsp_pdu sample_reply) = Some (handle_token \<lparr>handle_mid = 2, handle_token = [1, 7]\<rparr>)"
    by simp
  obtain q cs'' where "session_response_handler sample_env mem_api q cs' = Ret (COAP_RESPONSE_OK, cs'')"
    and "fst (poll_handle \<lparr>handle_mid = 2, handle_token = [1, 7]\<rparr> cs'') =
      Ret [sample_reply\<lparr>rsp_pdu := received iana ?m, rsp_echo := None\<rparr>]"
    using request_response_exchange[OF _ mem_api_ok env(2,2) req sent] rsp tok m send
    unfolding env(1) using bindings_ok_iana by blast
  with sent m show ?thesis by blast
qed

end
