(* ===== verification/Uri_Text.thy ===== *)
theory Uri_Text
  imports Coap_Uri
begin

text \<open>
  The textual form of URIs (\<^verbatim>\<open>libcoap/src/types.rs\<close>): \<^verbatim>\<open>FromStr\<close>, \<^verbatim>\<open>TryFrom<&Url>\<close> and \<^verbatim>\<open>Display\<close> of
  \<^verbatim>\<open>CoapUri\<close>, and the text a clone has. \<^verbatim>\<open>Display\<close> calls \<^verbatim>\<open>fmt\<close> on a \<^verbatim>\<open>Pin<Box<CoapUriInner>>\<close>, which has
  only the derived \<^verbatim>\<open>Debug\<close>, so that this is what it prints. How \<^verbatim>\<open>std\<close> prints a \<^verbatim>\<open>CString\<close> for debugging
  is an argument, and so is \<^verbatim>\<open>Url::as_str\<close>.
\<close>

section \<open>Conversions\<close>

definition uri_from_str :: "split_fn \<Rightarrow> rstring \<Rightarrow> UriParsingError + CoapUri" where
  "uri_from_str coap_split_uri s = try_from_str coap_split_uri s"

definition try_from_url :: "('u \<Rightarrow> rstring) \<Rightarrow> split_fn \<Rightarrow> 'u \<Rightarrow> UriParsingError + CoapUri" where
  "try_from_url as_str coap_split_uri url = try_from_str coap_split_uri (as_str url)"

definition try_from_url_proxy :: "('u \<Rightarrow> rstring) \<Rightarrow> split_fn \<Rightarrow> 'u \<Rightarrow> UriParsingError + CoapUri" where
  "try_from_url_proxy as_str coap_split_proxy_uri url = try_from_str_proxy coap_split_proxy_uri (as_str url)"

definition uri_try_from :: "('u \<Rightarrow> rstring) \<Rightarrow> split_fn \<Rightarrow> 'u \<Rightarrow> UriParsingError + CoapUri" where
  "uri_try_from as_str coap_split_uri url = try_from_url as_str coap_split_uri url"

text \<open>The derived \<^verbatim>\<open>Debug\<close> of \<^verbatim>\<open>CoapUriInner(CString, PhantomPinned)\<close>.\<close>

definition uri_inner_debug :: "(bytes \<Rightarrow> bytes) \<Rightarrow> bytes \<Rightarrow> bytes" where
  "uri_inner_debug debug_cstring s = ascii ''CoapUriInner('' @ debug_cstring s @ ascii '', PhantomPinned)''"

definition uri_fmt :: "(bytes \<Rightarrow> bytes) \<Rightarrow> CoapUri \<Rightarrow> bytes" where
  "uri_fmt debug_cstring u = uri_inner_debug debug_cstring (uri_str u)"

section \<open>What std documents\<close>

text \<open>A \<^verbatim>\<open>CString\<close> of printable ASCII characters other than quotes and backslash is printed between double quotes.\<close>

definition plain_text :: "bytes \<Rightarrow> bool" where
  "plain_text s \<longleftrightarrow> (\<forall>b \<in> set s. 0x20 \<le> b \<and> b \<le> 0x7e \<and> b \<notin> {0x22, 0x27, 0x5c})"

definition debug_cstring_ok :: "(bytes \<Rightarrow> bytes) \<Rightarrow> bool" where
  "debug_cstring_ok debug_cstring \<longleftrightarrow> (\<forall>s. plain_text s \<longrightarrow> debug_cstring s = [0x22] @ s @ [0x22])"

section \<open>Properties\<close>

text \<open>
  \<^verbatim>\<open>Display\<close> does not print the text of a URI: it prints the debugging form of the wrapper struct, which
  is never the text.
\<close>

theorem uri_display:
  assumes "debug_cstring_ok debug_cstring" and "plain_text (uri_str u)"
  shows "uri_fmt debug_cstring u = ascii ''CoapUriInner('' @ [0x22] @ uri_str u @ [0x22] @ ascii '', PhantomPinned)''"
    and "uri_fmt debug_cstring u \<noteq> uri_str u"
proof -
  show eq: "uri_fmt debug_cstring u = ascii ''CoapUriInner('' @ [0x22] @ uri_str u @ [0x22] @ ascii '', PhantomPinned)''"
    using assms by (simp add: uri_fmt_def uri_inner_debug_def debug_cstring_ok_def)
  show "uri_fmt debug_cstring u \<noteq> uri_str u" using arg_cong[OF eq, of length] by auto
qed

text \<open>
  The text of a clone. \<^verbatim>\<open>from_raw_uri\<close> puts the components after one another as libcoap parsed them,
  that is without the slash before the path and without the question mark before the query: the text
  of the clone of a URI with a path or a query is not the text of the URI.
\<close>

theorem uri_clone_text:
  assumes "uri_bindings_ok U" and "uri_wf u" and "uri_clone U u = Ret c" and "uri_scheme U u = Ret (Some sch)"
  shows "uri_str c = scheme_fmt sch @ ascii ''://'' @ read_slice (raw_host (raw_uri u)) @ port_suffix (raw_port (raw_uri u)) @
    read_slice (raw_path (raw_uri u)) @ read_slice (raw_query (raw_uri u))"
proof -
  have wf: "raw_wf (uri_str u) (raw_uri u)" and nul: "0 \<notin> set (uri_str u)"
    using assms(2) by (simp_all add: uri_wf_def)
  then obtain sch' where sch': "raw_scheme (raw_uri u) = scheme_const sch'" by (auto simp: raw_wf_def)
  have "c = rebuilt_uri sch' (raw_uri u) (uri_is_proxy u)"
    using assms(3) from_raw_uri_eq[OF assms(1) wf nul sch'] by (simp add: uri_clone_def)
  moreover have "uri_host u \<noteq> None" and "sch' = sch"
    using assms(1,4) sch' by (auto simp: uri_scheme_def from_raw_scheme_const split: option.splits)
  moreover have "read_slice (raw_host (raw_uri u)) \<noteq> []"
    using \<open>uri_host u \<noteq> None\<close> wf read_slice_in(2)[of "uri_str u" "raw_host (raw_uri u)"]
    by (auto simp: uri_host_def raw_wf_def split: if_splits)
  ultimately show ?thesis
    by (simp add: rebuilt_uri_def Let_def create_unparsed_uri_def uri_prefix_def)
qed

text \<open>The URI \<^verbatim>\<open>coap://h/a?b\<close>, as libcoap parses it.\<close>

definition text_uri :: CoapUri where
  "text_uri =
     (let t = ascii ''coap://h/a?b''; at = (\<lambda>i n. \<lparr>str_length = n, str_s = At (with_nul t) i\<rparr>)
      in \<lparr>uri_is_proxy = False,
          raw_uri = \<lparr>raw_host = at 7 1, raw_port = 5683, raw_path = at 9 1, raw_query = at 11 1,
                     raw_scheme = COAP_URI_SCHEME_COAP\<rparr>,
          uri_str = t\<rparr>)"

lemma text_uri_wf: "uri_wf text_uri"
  by (simp add: uri_wf_def text_uri_def raw_wf_def str_in_def ascii_def with_nul_def image_iff Let_def)
    (metis scheme_const.simps(1))

theorem uri_clone_text_witness:
  "\<exists>c. uri_clone libcoap_uri text_uri = Ret c \<and> uri_str c = ascii ''coap://h:5683ab'' \<and> uri_str text_uri = ascii ''coap://h/a?b''"
proof -
  note wf = text_uri_wf
  then obtain c where c: "uri_clone libcoap_uri text_uri = Ret c"
    using uri_clone_faithful[OF uri_bindings_ok_libcoap] by blast
  have sch: "uri_scheme libcoap_uri text_uri = Ret (Some Coap)"
    using from_raw_scheme_const[OF uri_bindings_ok_libcoap, of Coap]
    by (simp add: uri_scheme_def uri_host_def text_uri_def Let_def)
  have port: "port_suffix 5683 = ascii '':5683''" by (simp add: port_suffix_def ascii_def dec_string.simps)
  have "uri_str c = ascii ''coap://h:5683ab''"
    using uri_clone_text[OF uri_bindings_ok_libcoap wf c sch] port
    by (simp add: text_uri_def Let_def read_slice_def ascii_def with_nul_def)
  with c show ?thesis by (simp add: text_uri_def Let_def)
qed

end
