(* ===== verification/Ffi_Mem.thy ===== *)
theory Ffi_Mem
  imports Coap_Prelude
begin

text \<open>
  Memory shared across the FFI barrier (\<^verbatim>\<open>libcoap/src/mem.rs\<close>): the reference counts of
  \<^verbatim>\<open>CoapFfiRcCell\<close>, and the cell \<^verbatim>\<open>CoapLendableFfiRcCell\<close> through which a mutable reference is lent to
  callbacks of libcoap. The second is a state machine: its reachable states are characterised by
  rule induction, from which it follows that at most one usable mutable reference exists at any
  time and that a lent reference is never reclaimed while it is in use.
\<close>

section \<open>Reference counted cells\<close>

text \<open>
  The counts of one allocation. A raw pointer made by \<^verbatim>\<open>into_raw\<close> keeps its count; \<^verbatim>\<open>from_raw\<close> followed
  by \<^verbatim>\<open>into_raw\<close> leaves the counts as they are.
\<close>

record rc_counts =
  strong :: nat
  weak :: nat

definition rc_new :: rc_counts where
  "rc_new = \<lparr>strong = 1, weak = 0\<rparr>"

definition rc_clone :: "rc_counts \<Rightarrow> rc_counts" where
  "rc_clone c = c\<lparr>strong := strong c + 1\<rparr>"

definition rc_drop :: "rc_counts \<Rightarrow> rc_counts" where
  "rc_drop c = c\<lparr>strong := strong c - 1\<rparr>"

definition weak_drop :: "rc_counts \<Rightarrow> rc_counts" where
  "weak_drop c = c\<lparr>weak := weak c - 1\<rparr>"

definition clone_raw_rc :: "rc_counts \<Rightarrow> rc_counts" where
  "clone_raw_rc c = rc_clone c"

definition clone_raw_weak :: "rc_counts \<Rightarrow> rc_counts run" where
  "clone_raw_weak c = (if strong c = 0 then Panic else Ret (c\<lparr>strong := strong c + 1\<rparr>))"

definition create_raw_rc :: "rc_counts \<Rightarrow> rc_counts" where
  "create_raw_rc c = rc_clone c"

definition create_raw_weak :: "rc_counts \<Rightarrow> rc_counts" where
  "create_raw_weak c = c\<lparr>weak := weak c + 1\<rparr>"

definition drop_exclusively :: "rc_counts \<Rightarrow> rc_counts run" where
  "drop_exclusively c = (if strong c = 1 then Ret (rc_drop c) else Panic)"

section \<open>Lendable cells\<close>

text \<open>The borrow flag of a \<^verbatim>\<open>RefCell\<close>.\<close>

datatype borrow_flag = Unborrowed | Shared nat | Exclusive

definition refcell_borrow :: "borrow_flag \<Rightarrow> borrow_flag run" where
  "refcell_borrow b = (case b of Unborrowed \<Rightarrow> Ret (Shared 0) | Shared n \<Rightarrow> Ret (Shared (Suc n)) | Exclusive \<Rightarrow> Panic)"

definition refcell_borrow_mut :: "borrow_flag \<Rightarrow> borrow_flag run" where
  "refcell_borrow_mut b = (if b = Unborrowed then Ret Exclusive else Panic)"

definition release_shared :: "borrow_flag \<Rightarrow> borrow_flag" where
  "release_shared b = (case b of Shared (Suc n) \<Rightarrow> Shared n | _ \<Rightarrow> Unborrowed)"

text \<open>
  The cell: the flag of the value and the container of the lent pointer. All pointers stored in the
  container point to the value of the cell (\<^verbatim>\<open>lend_ref_mut\<close> asserts it), so that only its presence
  matters. The container itself is borrowed for single statements only.
\<close>

record lend_cell =
  flag :: borrow_flag
  lent :: bool

text \<open>The references handed out: owned or lent, mutable or not, and the lender's token.\<close>

datatype frame = Owned | OwnedMut | Borrowed | BorrowedMut | Lender

definition cell_new :: lend_cell where
  "cell_new = \<lparr>flag = Unborrowed, lent = False\<rparr>"

definition cell_borrow_mut :: "lend_cell \<Rightarrow> (frame \<times> lend_cell) run" where
  "cell_borrow_mut c =
     (if lent c then Ret (BorrowedMut, c\<lparr>lent := False\<rparr>)
      else run_map (\<lambda>b. (OwnedMut, c\<lparr>flag := b\<rparr>)) (refcell_borrow_mut (flag c)))"

definition cell_borrow :: "lend_cell \<Rightarrow> (frame \<times> lend_cell) run" where
  "cell_borrow c =
     (if lent c then Ret (Borrowed, c\<lparr>lent := False\<rparr>)
      else run_map (\<lambda>b. (Owned, c\<lparr>flag := b\<rparr>)) (refcell_borrow (flag c)))"

definition lend_ref_mut :: "bool \<Rightarrow> lend_cell \<Rightarrow> (frame \<times> lend_cell) run" where
  "lend_ref_mut same_object c = (if same_object then Ret (Lender, c\<lparr>lent := True\<rparr>) else Panic)"

definition ref_mut_drop :: "lend_cell \<Rightarrow> lend_cell run" where
  "ref_mut_drop c = (if lent c then Panic else Ret (c\<lparr>lent := True\<rparr>))"

definition lender_drop :: "lend_cell \<Rightarrow> lend_cell run" where
  "lender_drop c = (if lent c then Ret (c\<lparr>lent := False\<rparr>) else Panic)"

fun frame_drop :: "frame \<Rightarrow> lend_cell \<Rightarrow> lend_cell run" where
  "frame_drop Owned c = Ret (c\<lparr>flag := release_shared (flag c)\<rparr>)"
| "frame_drop OwnedMut c = Ret (c\<lparr>flag := Unborrowed\<rparr>)"
| "frame_drop Borrowed c = ref_mut_drop c"
| "frame_drop BorrowedMut c = ref_mut_drop c"
| "frame_drop Lender c = lender_drop c"

section \<open>The state machine\<close>

text \<open>
  A state is the cell with the references that are alive, the youngest first. The lender's token
  holds the mutable reference it was made from (\<^verbatim>\<open>&'a mut T\<close>), so a reference can be lent only while
  it is the youngest, and outlives its lender; references are dropped youngest first.
\<close>

definition mutable_ref :: "frame \<Rightarrow> bool" where
  "mutable_ref f \<longleftrightarrow> f = OwnedMut \<or> f = BorrowedMut"

inductive lend_step :: "lend_cell \<times> frame list \<Rightarrow> lend_cell \<times> frame list \<Rightarrow> bool" where
  borrow_mut: "cell_borrow_mut c = Ret (f, c') \<Longrightarrow> lend_step (c, st) (c', f # st)"
| borrow: "cell_borrow c = Ret (f, c') \<Longrightarrow> lend_step (c, st) (c', f # st)"
| lend: "mutable_ref f \<Longrightarrow> lend_ref_mut True c = Ret (l, c') \<Longrightarrow> lend_step (c, f # st) (c', l # f # st)"
| drop: "frame_drop f c = Ret c' \<Longrightarrow> lend_step (c, f # st) (c', st)"

inductive lend_reachable :: "lend_cell \<times> frame list \<Rightarrow> bool" where
  start: "lend_reachable (cell_new, [])"
| more: "lend_reachable s \<Longrightarrow> lend_step s s' \<Longrightarrow> lend_reachable s'"

inductive_cases lend_step_elim: "lend_step (c, st) s'"

text \<open>The stacks of references that occur: lending and borrowing alternate.\<close>

fun wf_stack :: "frame list \<Rightarrow> bool" where
  "wf_stack [] = True"
| "wf_stack (Owned # st) = (\<forall>f \<in> set st. f = Owned)"
| "wf_stack (OwnedMut # st) = (st = [])"
| "wf_stack (Lender # f # st) = (mutable_ref f \<and> wf_stack (f # st))"
| "wf_stack (Lender # []) = False"
| "wf_stack (Borrowed # f # st) = (f = Lender \<and> wf_stack (f # st))"
| "wf_stack (Borrowed # []) = False"
| "wf_stack (BorrowedMut # f # st) = (f = Lender \<and> wf_stack (f # st))"
| "wf_stack (BorrowedMut # []) = False"

definition flag_of :: "frame list \<Rightarrow> borrow_flag" where
  "flag_of st =
     (if OwnedMut \<in> set st then Exclusive
      else (case filter (\<lambda>f. f = Owned) st of [] \<Rightarrow> Unborrowed | _ # fs \<Rightarrow> Shared (length fs)))"

definition cell_inv :: "lend_cell \<times> frame list \<Rightarrow> bool" where
  "cell_inv s = (case s of (c, st) \<Rightarrow>
     wf_stack st \<and> (lent c \<longleftrightarrow> (\<exists>st'. st = Lender # st')) \<and> flag c = flag_of st)"

lemma wf_stack_tl: "wf_stack (f # st) \<Longrightarrow> wf_stack st"
  by (cases f; cases st rule: wf_stack.cases) auto

lemma wf_stack_cases:
  assumes "wf_stack st"
  obtains "st = []" | n where "st = replicate (Suc n) Owned" | "OwnedMut \<in> set st" "Owned \<notin> set st"
proof (cases "\<exists>f \<in> set st. f \<noteq> Owned")
  case True
  have "OwnedMut \<in> set st \<and> Owned \<notin> set st" if "wf_stack st" "\<exists>f \<in> set st. f \<noteq> Owned" for st
    using that
  proof (induction st rule: wf_stack.induct)
    case (4 f st)
    then show ?case by (auto simp: mutable_ref_def)
  qed (auto simp: mutable_ref_def)
  with assms True that show thesis by blast
next
  case False
  then have "st = replicate (length st) Owned" by (simp add: list_eq_iff_nth_eq)
  with that show thesis by (cases st) (metis length_Cons)+
qed

lemma flag_of_simps [simp]:
  "flag_of [] = Unborrowed"
  "flag_of (Lender # st) = flag_of st"
  "flag_of (Borrowed # st) = flag_of st"
  "flag_of (BorrowedMut # st) = flag_of st"
  "flag_of (OwnedMut # st) = Exclusive"
  "flag_of [Owned] = Shared 0"
  "flag_of (Owned # replicate n Owned) = Shared n"
  "flag_of (Owned # Owned # replicate n Owned) = Shared (Suc n)"
  by (simp_all add: flag_of_def)

lemma flag_of_wf:
  assumes "wf_stack st"
  shows "flag_of st = Unborrowed \<Longrightarrow> st = []" and "flag_of st = Shared n \<Longrightarrow> st = replicate (Suc n) Owned"
  by (rule wf_stack_cases[OF assms]; simp add: flag_of_def)+

lemma all_owned: "(\<forall>f \<in> set st. f = Owned) \<longleftrightarrow> st = replicate (length st) Owned"
  by (induction st) auto

lemma release_shared_owned:
  "\<forall>f \<in> set st. f = Owned \<Longrightarrow> release_shared (flag_of (Owned # st)) = flag_of st"
proof -
  assume "\<forall>f \<in> set st. f = Owned"
  then obtain n where "st = replicate n Owned" using all_owned by blast
  then show ?thesis by (cases n) (simp_all add: release_shared_def)
qed

lemma cell_inv_step:
  assumes "cell_inv s" and "lend_step s s'"
  shows "cell_inv s'"
  using assms(2,1)
proof cases
  case (borrow_mut c f c' st)
  show ?thesis
  proof (cases "lent c")
    case True
    with borrow_mut assms(1) show ?thesis by (auto simp: cell_inv_def cell_borrow_mut_def)
  next
    case False
    with borrow_mut assms(1) have "flag_of st = Unborrowed" and "wf_stack st" and "f = OwnedMut"
        and "c' = c\<lparr>flag := Exclusive\<rparr>"
      by (auto simp: cell_inv_def cell_borrow_mut_def refcell_borrow_mut_def run_map_eq_Ret split: if_splits)
    with flag_of_wf(1) borrow_mut False show ?thesis by (simp add: cell_inv_def)
  qed
next
  case (borrow c f c' st)
  show ?thesis
  proof (cases "lent c")
    case True
    with borrow assms(1) show ?thesis by (auto simp: cell_inv_def cell_borrow_def)
  next
    case False
    with borrow assms(1) have wf: "wf_stack st" and f: "f = Owned" and
      b: "flag_of st = Unborrowed \<and> c' = c\<lparr>flag := Shared 0\<rparr> \<or>
          (\<exists>n. flag_of st = Shared n \<and> c' = c\<lparr>flag := Shared (Suc n)\<rparr>)"
      by (auto simp: cell_inv_def cell_borrow_def refcell_borrow_def run_map_eq_Ret split: borrow_flag.splits)
    from b show ?thesis
      using flag_of_wf[OF wf] borrow False f by (auto simp: cell_inv_def)
  qed
next
  case (lend f c l c' st)
  with assms(1) show ?thesis by (auto simp: cell_inv_def lend_ref_mut_def)
next
  case (drop f c c' st)
  with assms(1) have inv: "wf_stack (f # st)" "lent c \<longleftrightarrow> f = Lender" "flag c = flag_of (f # st)"
    by (auto simp: cell_inv_def)
  show ?thesis
  proof (cases f)
    case Owned
    with inv drop release_shared_owned[of st] show ?thesis by (cases st) (auto simp: cell_inv_def)
  next
    case Lender
    with inv drop show ?thesis
      by (cases st) (auto simp: cell_inv_def lender_drop_def mutable_ref_def)
  next
    case OwnedMut
    with inv drop show ?thesis by (auto simp: cell_inv_def)
  next
    case Borrowed
    with inv drop show ?thesis by (cases st) (auto simp: cell_inv_def ref_mut_drop_def)
  next
    case BorrowedMut
    with inv drop show ?thesis by (cases st) (auto simp: cell_inv_def ref_mut_drop_def)
  qed
qed

lemma cell_inv_reachable: "lend_reachable s \<Longrightarrow> cell_inv s"
proof (induction rule: lend_reachable.induct)
  case start
  show ?case by (simp add: cell_inv_def cell_new_def)
next
  case (more s s')
  then show ?case using cell_inv_step by blast
qed

section \<open>Properties\<close>

text \<open>The references that can be used: those not lent to a younger holder.\<close>

fun usable :: "frame list \<Rightarrow> frame list" where
  "usable [] = []"
| "usable (Lender # f # st) = usable st"
| "usable (Lender # []) = []"
| "usable (f # st) = f # usable st"

lemma usable_Lender: "wf_stack (Lender # st) \<Longrightarrow> usable (Lender # st) = []"
proof (induction st rule: length_induct)
  case (1 st)
  then obtain f rest where st: "st = f # rest" by (cases st) auto
  show ?case
  proof (cases "f = OwnedMut")
    case True
    with 1 st show ?thesis by simp
  next
    case False
    with 1(2) st have f: "f = BorrowedMut" by (auto simp: mutable_ref_def)
    with 1(2) st obtain rest' where "rest = Lender # rest'" "wf_stack (Lender # rest')"
      by (cases rest) auto
    with 1(1) st show ?thesis by simp
  qed
qed

lemma usable_wf:
  assumes "wf_stack st"
  shows "(\<forall>f \<in> set (usable st). f = Owned) \<or> (\<exists>f. usable st = [f])"
proof (cases st)
  case (Cons f rest)
  with assms show ?thesis
  proof (cases f)
    case Owned
    with assms Cons have "\<forall>f \<in> set rest. f = Owned" by simp
    then have "usable rest = rest" by (induction rest rule: usable.induct) auto
    with Owned Cons \<open>\<forall>f \<in> set rest. f = Owned\<close> show ?thesis by simp
  next
    case Lender
    with assms Cons show ?thesis by (simp add: usable_Lender del: usable.simps)
  next
    case Borrowed
    with assms Cons usable_Lender show ?thesis by (cases rest) auto
  next
    case BorrowedMut
    with assms Cons usable_Lender show ?thesis by (cases rest) auto
  qed simp
qed simp

text \<open>
  C8: aliasing. In every reachable state of a lendable cell a usable mutable reference is the only
  usable reference; so no callback ever holds a second reference to the value while one is
  mutable.
\<close>

theorem lend_no_aliasing:
  assumes "lend_reachable (c, st)" and "f \<in> set (usable st)" and "mutable_ref f"
  shows "usable st = [f]"
proof -
  have "wf_stack st" using cell_inv_reachable[OF assms(1)] by (simp add: cell_inv_def)
  from usable_wf[OF this] assms(2,3) show ?thesis by (auto simp: mutable_ref_def)
qed

text \<open>A run: borrow, lend, borrow the lent reference.\<close>

lemma lend_sample: "lend_reachable (\<lparr>flag = Exclusive, lent = False\<rparr>, [BorrowedMut, Lender, OwnedMut])"
proof -
  have "lend_step (cell_new, []) (\<lparr>flag = Exclusive, lent = False\<rparr>, [OwnedMut])"
    by (rule lend_step.borrow_mut) (simp add: cell_borrow_mut_def cell_new_def refcell_borrow_mut_def)
  moreover have "lend_step (\<lparr>flag = Exclusive, lent = False\<rparr>, [OwnedMut])
      (\<lparr>flag = Exclusive, lent = True\<rparr>, [Lender, OwnedMut])"
    by (rule lend_step.lend) (simp_all add: mutable_ref_def lend_ref_mut_def)
  moreover have "lend_step (\<lparr>flag = Exclusive, lent = True\<rparr>, [Lender, OwnedMut])
      (\<lparr>flag = Exclusive, lent = False\<rparr>, [BorrowedMut, Lender, OwnedMut])"
    by (rule lend_step.borrow_mut) (simp add: cell_borrow_mut_def)
  ultimately show ?thesis by (meson lend_reachable.intros)
qed

theorem lend_no_aliasing_witness: "usable [BorrowedMut, Lender, OwnedMut] = [BorrowedMut]"
  using lend_no_aliasing[OF lend_sample, of BorrowedMut] by (simp add: mutable_ref_def)

text \<open>
  Panics of a lendable cell. In a reachable state borrowing mutably panics exactly when the
  youngest reference is not a lender's token, that is when the value is in use; dropping the
  youngest reference never panics; and dropping a lender's token while the reference it lent is
  still alive always does.
\<close>

theorem lend_panics:
  assumes "lend_reachable (c, st)"
  shows "(cell_borrow_mut c = Panic \<longleftrightarrow> (\<exists>f st'. st = f # st' \<and> f \<noteq> Lender)) \<and>
    (\<forall>f st'. st = f # st' \<longrightarrow> (\<exists>c'. frame_drop f c = Ret c')) \<and>
    (\<forall>f st'. st = f # Lender # st' \<longrightarrow> frame_drop Lender c = Panic)"
proof -
  have inv: "wf_stack st" "lent c \<longleftrightarrow> (\<exists>st'. st = Lender # st')" "flag c = flag_of st"
    using cell_inv_reachable[OF assms] by (auto simp: cell_inv_def)
  have flag: "flag_of st = Unborrowed \<longleftrightarrow> st = []" using flag_of_wf(1)[OF inv(1)] by auto
  have "cell_borrow_mut c = Panic \<longleftrightarrow> (\<exists>f st'. st = f # st' \<and> f \<noteq> Lender)"
    using inv flag by (cases st) (auto simp: cell_borrow_mut_def refcell_borrow_mut_def)
  moreover have "\<exists>c'. frame_drop f c = Ret c'" if "st = f # st'" for f st'
    using that inv by (cases f) (auto simp: ref_mut_drop_def lender_drop_def)
  moreover have "frame_drop Lender c = Panic" if "st = f # Lender # st'" for f st'
    using that inv by (cases f) (auto simp: lender_drop_def mutable_ref_def)
  ultimately show ?thesis by blast
qed

text \<open>Leaving all scopes: the live references are dropped, the youngest first.\<close>

fun drop_all :: "frame list \<Rightarrow> lend_cell \<Rightarrow> lend_cell run" where
  "drop_all [] c = Ret c"
| "drop_all (f # st) c = run_bind (frame_drop f c) (drop_all st)"

lemma reachable_frame_drop:
  assumes "lend_reachable (c, f # st)"
  obtains c' where "frame_drop f c = Ret c'" and "lend_reachable (c', st)"
proof -
  have inv: "wf_stack (f # st)" "lent c \<longleftrightarrow> f = Lender"
    using cell_inv_reachable[OF assms] by (auto simp: cell_inv_def)
  then obtain c' where "frame_drop f c = Ret c'"
    by (cases f) (auto simp: ref_mut_drop_def lender_drop_def)
  with that lend_reachable.more[OF assms lend_step.drop] show thesis by blast
qed

text \<open>
  C16: a lent value is always given back. From every reachable state the live references can be
  dropped without a panic, and the cell is then unused and can be borrowed mutably again; so no
  sequence of borrowing and lending, however deep, blocks the cell for good.
\<close>

theorem lend_unwinds:
  assumes "lend_reachable (c, st)"
  shows "drop_all st c = Ret cell_new \<and> (\<exists>c'. cell_borrow_mut cell_new = Ret (OwnedMut, c'))"
proof
  show "drop_all st c = Ret cell_new"
    using assms
  proof (induction st arbitrary: c)
    case Nil
    then show ?case using cell_inv_reachable by (cases c) (fastforce simp: cell_inv_def cell_new_def)
  next
    case (Cons f st)
    from Cons.prems obtain c' where "frame_drop f c = Ret c'" "lend_reachable (c', st)"
      by (rule reachable_frame_drop)
    with Cons.IH show ?case by simp
  qed
  show "\<exists>c'. cell_borrow_mut cell_new = Ret (OwnedMut, c')"
    by (simp add: cell_borrow_mut_def cell_new_def refcell_borrow_mut_def)
qed

theorem lend_unwinds_witness:
  "drop_all [BorrowedMut, Lender, OwnedMut] \<lparr>flag = Exclusive, lent = False\<rparr> = Ret cell_new"
  using lend_unwinds[OF lend_sample] by simp

text \<open>
  Reference counts. Restoring a counted reference from a raw pointer and dropping it leaves the
  counts as they were, from a weak pointer it panics exactly when no strong reference is left, and
  dropping exclusively succeeds exactly when the reference is the only one, releasing the value.
\<close>

theorem rc_balance:
  "rc_drop (clone_raw_rc c) = c \<and> rc_drop (create_raw_rc c) = c \<and> weak_drop (create_raw_weak c) = c \<and>
   (case clone_raw_weak c of Panic \<Rightarrow> strong c = 0 | Ret c' \<Rightarrow> strong c > 0 \<and> rc_drop c' = c) \<and>
   (case drop_exclusively c of Panic \<Rightarrow> strong c \<noteq> 1 | Ret c' \<Rightarrow> strong c = 1 \<and> strong c' = 0 \<and> weak c' = weak c)"
  by (auto simp: clone_raw_rc_def create_raw_rc_def create_raw_weak_def clone_raw_weak_def
      drop_exclusively_def rc_clone_def rc_drop_def weak_drop_def split: run.split)

end
