(* ===== verification/Startup.thy ===== *)
theory Startup
  imports Coap_Error
begin

text \<open>
  Library start-up with its feature checks (\<^verbatim>\<open>coap_startup_with_feature_checks\<close> in
  \<^verbatim>\<open>libcoap-sys/src/lib.rs\<close>), the guard \<^verbatim>\<open>ensure_coap_started\<close> of \<^verbatim>\<open>libcoap/src/context.rs\<close> that runs
  it once, and the random number functions of \<^verbatim>\<open>libcoap/src/prng.rs\<close> with their mutexes. What libcoap
  supports, its generator and a generator supplied by the user are parameters.
\<close>

section \<open>Feature checks\<close>

text \<open>The Cargo features that are checked, in the order of the checks.\<close>

datatype feature =
    AfUnix | Async | Client | Dtls | DtlsCid | DtlsPsk | DtlsPki | DtlsPkcs11 | DtlsRpk | Epoll |
    Ipv4 | Ipv6 | ObservePersist | Oscore | QBlock | Server | Tcp | ThreadSafe | Tls | Websockets |
    SecureWebsockets

definition feature_checks :: "feature list" where
  "feature_checks =
     [AfUnix, Async, Client, Dtls, DtlsCid, DtlsPsk, DtlsPki, DtlsPkcs11, DtlsRpk, Epoll, Ipv4, Ipv6,
      ObservePersist, Oscore, QBlock, Server, Tcp, ThreadSafe, Tls, Websockets, SecureWebsockets]"

text \<open>The name in the panic message of each check.\<close>

fun feature_message :: "feature \<Rightarrow> string" where
  "feature_message AfUnix = ''af-unix''"
| "feature_message Async = ''async''"
| "feature_message Client = ''ipv4''"
| "feature_message Dtls = ''dtls''"
| "feature_message DtlsCid = ''dtls-cid''"
| "feature_message DtlsPsk = ''dtls-psk''"
| "feature_message DtlsPki = ''dtls-pki''"
| "feature_message DtlsPkcs11 = ''dtls-pkcs11''"
| "feature_message DtlsRpk = ''dtls-rpk''"
| "feature_message Epoll = ''epoll''"
| "feature_message Ipv4 = ''ipv4''"
| "feature_message Ipv6 = ''ipv6''"
| "feature_message ObservePersist = ''ipv4''"
| "feature_message Oscore = ''oscore''"
| "feature_message QBlock = ''q-block''"
| "feature_message Server = ''ipv4''"
| "feature_message Tcp = ''tcp''"
| "feature_message ThreadSafe = ''thread-safe''"
| "feature_message Tls = ''tls''"
| "feature_message Websockets = ''websockets''"
| "feature_message SecureWebsockets = ''websockets''"

text \<open>
  The build: the enabled features and whether the linked libcoap has the functions that report
  support; \<open>supported\<close> is what they return.
\<close>

record build_config =
  enabled :: "feature \<Rightarrow> bool"
  feature_checks_available :: bool

fun first_failed :: "(feature \<Rightarrow> bool) \<Rightarrow> (feature \<Rightarrow> int) \<Rightarrow> feature list \<Rightarrow> string option" where
  "first_failed en supported [] = None"
| "first_failed en supported (f # fs) =
     (if en f \<and> supported f \<noteq> 1 then Some (feature_message f) else first_failed en supported fs)"

text \<open>The start-up returns the message it panics with, or the state after \<^verbatim>\<open>coap_startup\<close>.\<close>

definition coap_startup_with_feature_checks ::
    "build_config \<Rightarrow> (feature \<Rightarrow> int) \<Rightarrow> ('l \<Rightarrow> 'l) \<Rightarrow> 'l \<Rightarrow> string + 'l" where
  "coap_startup_with_feature_checks cfg supported coap_startup lib =
     (case (if feature_checks_available cfg then first_failed (enabled cfg) supported feature_checks else None) of
        Some msg \<Rightarrow> Inl msg
      | None \<Rightarrow> Inr (coap_startup lib))"

lemma feature_checks_all: "f \<in> set feature_checks"
  by (cases f) (simp_all add: feature_checks_def)


section \<open>Starting once\<close>

text \<open>
  \<^verbatim>\<open>std::sync::Once\<close>: a closure that panics poisons it, and every later \<^verbatim>\<open>call_once\<close> panics.
\<close>

datatype once = Incomplete | Poisoned | Complete

definition call_once :: "('l \<Rightarrow> string + 'l) \<Rightarrow> once \<times> 'l \<Rightarrow> unit run \<times> once \<times> 'l" where
  "call_once f s =
     (case fst s of
        Complete \<Rightarrow> (Ret (), s)
      | Poisoned \<Rightarrow> (Panic, s)
      | Incomplete \<Rightarrow>
          (case f (snd s) of Inl _ \<Rightarrow> (Panic, Poisoned, snd s) | Inr lib \<Rightarrow> (Ret (), Complete, lib)))"

definition ensure_coap_started ::
    "build_config \<Rightarrow> (feature \<Rightarrow> int) \<Rightarrow> ('l \<Rightarrow> 'l) \<Rightarrow> once \<times> 'l \<Rightarrow> unit run \<times> once \<times> 'l" where
  "ensure_coap_started cfg supported coap_startup =
     call_once (coap_startup_with_feature_checks cfg supported coap_startup)"







section \<open>Random numbers\<close>

text \<open>
  The state behind the random number functions: the start-up guard, the poison flags of the three
  mutexes, the generator set by the user, and the state of libcoap.
\<close>

record ('l, 'g) prng_state =
  startup_once :: "once \<times> 'l"
  seed_poisoned :: bool
  fn_poisoned :: bool
  access_poisoned :: bool
  user_rng :: "'g option"
  callback_set :: bool

text \<open>
  The functions of libcoap: \<open>coap_prng\<close> fills a buffer of the given length, \<open>coap_prng_init\<close> seeds
  the default generator. A panic inside the callback cannot unwind through libcoap and aborts.
\<close>

record ('l, 'g) prng_api =
  prng_build :: build_config
  prng_supported :: "feature \<Rightarrow> int"
  prng_startup :: "'l \<Rightarrow> 'l"
  coap_prng :: "('l, 'g) prng_state \<Rightarrow> nat \<Rightarrow> (int \<times> bytes) run \<times> ('l, 'g) prng_state"
  coap_prng_init :: "'l \<Rightarrow> u32 \<Rightarrow> 'l"

definition prng_start :: "('l, 'g) prng_api \<Rightarrow> ('l, 'g) prng_state \<Rightarrow> unit run \<times> ('l, 'g) prng_state" where
  "prng_start api s =
     (let (r, once) = ensure_coap_started (prng_build api) (prng_supported api) (prng_startup api) (startup_once s)
      in (r, s\<lparr>startup_once := once\<rparr>))"

text \<open>
  The callback installed by \<open>set_coap_prng\<close> calls the generator of the user, which may fail or
  panic. The result is the value returned to libcoap and the filled buffer.
\<close>

definition prng_callback ::
    "('g \<Rightarrow> nat \<Rightarrow> ((unit + bytes) \<times> 'g) run) \<Rightarrow> nat \<Rightarrow> ('l, 'g) prng_state \<Rightarrow>
      (int \<times> bytes) run \<times> ('l, 'g) prng_state" where
  "prng_callback try_fill len s =
     (if fn_poisoned s then (Ret (0, []), s)
      else case user_rng s of
        None \<Rightarrow> (Panic, s)
      | Some g \<Rightarrow>
          (case try_fill g len of
             Panic \<Rightarrow> (Panic, s)
           | Ret (Inl _, g') \<Rightarrow> (Ret (0, []), s\<lparr>user_rng := Some g'\<rparr>)
           | Ret (Inr bs, g') \<Rightarrow> (Ret (1, bs), s\<lparr>user_rng := Some g'\<rparr>)))"

definition set_coap_prng ::
    "('l, 'g) prng_api \<Rightarrow> 'g \<Rightarrow> ('l, 'g) prng_state \<Rightarrow> (RngError + unit) run \<times> ('l, 'g) prng_state" where
  "set_coap_prng api rng s =
     (case prng_start api s of
        (Panic, s) \<Rightarrow> (Panic, s)
      | (Ret _, s) \<Rightarrow>
          if fn_poisoned s then (Ret (Inl (rng_error_from_poison ())), s)
          else (Ret (Inr ()), s\<lparr>user_rng := Some rng, callback_set := True\<rparr>))"

definition seed_coap_prng ::
    "('l, 'g) prng_api \<Rightarrow> u32 \<Rightarrow> ('l, 'g) prng_state \<Rightarrow> (RngError + unit) run \<times> ('l, 'g) prng_state" where
  "seed_coap_prng api seed s =
     (case prng_start api s of
        (Panic, s) \<Rightarrow> (Panic, s)
      | (Ret _, s) \<Rightarrow>
          if seed_poisoned s then (Ret (Inl (rng_error_from_poison ())), s)
          else (Ret (Inr ()), s\<lparr>startup_once := (fst (startup_once s), coap_prng_init api (snd (startup_once s)) seed)\<rparr>))"

definition coap_prng_try_fill ::
    "('l, 'g) prng_api \<Rightarrow> nat \<Rightarrow> ('l, 'g) prng_state \<Rightarrow> (RngError + bytes) run \<times> ('l, 'g) prng_state" where
  "coap_prng_try_fill api len s =
     (case prng_start api s of
        (Panic, s) \<Rightarrow> (Panic, s)
      | (Ret _, s) \<Rightarrow>
          if access_poisoned s then (Ret (Inl (rng_error_from_poison ())), s)
          else
            (let (r, s) = coap_prng api s len
             in (run_map (\<lambda>(code, bs). if code = 1 then Inr bs else Inl RngUnknown) r, s)))"

text \<open>\<^verbatim>\<open>CoapRng::fill_bytes\<close> panics on an error.\<close>

definition fill_bytes ::
    "('l, 'g) prng_api \<Rightarrow> nat \<Rightarrow> ('l, 'g) prng_state \<Rightarrow> bytes run \<times> ('l, 'g) prng_state" where
  "fill_bytes api len s =
     (let (r, s) = coap_prng_try_fill api len s
      in (run_bind r (\<lambda>x. expect (res_ok x)), s))"

text \<open>What \<^verbatim>\<open>coap_set_prng\<close> documents: the function set replaces the generator of libcoap.\<close>

definition prng_replaced :: "('l, 'g) prng_api \<Rightarrow> ('g \<Rightarrow> nat \<Rightarrow> ((unit + bytes) \<times> 'g) run) \<Rightarrow> bool" where
  "prng_replaced api try_fill \<longleftrightarrow>
     (\<forall>s len. callback_set s \<longrightarrow> coap_prng api s len = prng_callback try_fill len s)"

section \<open>Properties\<close>


text \<open>
  A generator of the user. After \<open>set_coap_prng\<close> succeeded, filling a buffer gives the bytes
  that generator returns, reports its failure as an error, panics exactly when it panics, and keeps
  the generator's new state for the next call.
\<close>

theorem user_rng_used:
  assumes "prng_replaced api try_fill" and "set_coap_prng api rng s = (Ret (Inr ()), s')"
    and "\<not> access_poisoned s"
  shows "case try_fill rng len of
      Panic \<Rightarrow> fst (coap_prng_try_fill api len s') = Panic
    | Ret (r, rng') \<Rightarrow>
        coap_prng_try_fill api len s' =
          (Ret (case r of Inl _ \<Rightarrow> Inl RngUnknown | Inr bs \<Rightarrow> Inr bs), s'\<lparr>user_rng := Some rng'\<rparr>)"
proof -
  from assms(2) obtain once where
    started: "ensure_coap_started (prng_build api) (prng_supported api) (prng_startup api) (startup_once s) = (Ret (), once)"
    and s': "s' = s\<lparr>startup_once := once, user_rng := Some rng, callback_set := True\<rparr>" and ok: "\<not> fn_poisoned s"
    by (auto simp: set_coap_prng_def prng_start_def split: prod.splits run.splits if_splits)
  from started have "fst once = Complete"
    by (auto simp: ensure_coap_started_def call_once_def split: once.splits sum.splits)
  then have "prng_start api s' = (Ret (), s')"
    using s' by (simp add: prng_start_def ensure_coap_started_def call_once_def)
  moreover have "coap_prng api s' len = prng_callback try_fill len s'"
    using assms(1) s' by (simp add: prng_replaced_def)
  ultimately show ?thesis
    using s' ok assms(3)
    by (auto simp: coap_prng_try_fill_def prng_callback_def split: run.splits prod.splits sum.splits)
qed

text \<open>The generator of the documentation's example, which returns zeros.\<close>

definition null_rng :: "unit \<Rightarrow> nat \<Rightarrow> ((unit + bytes) \<times> unit) run" where
  "null_rng g len = Ret (Inr (replicate len 0), g)"

definition sample_prng_api :: "(nat, unit) prng_api" where
  "sample_prng_api = \<lparr>prng_build = \<lparr>enabled = (\<lambda>f. f = Tcp), feature_checks_available = True\<rparr>,
     prng_supported = (\<lambda>f. 1), prng_startup = Suc,
     coap_prng = (\<lambda>s len. if callback_set s then prng_callback null_rng len s else (Ret (1, replicate len 7), s)),
     coap_prng_init = (\<lambda>l seed. l)\<rparr>"

definition sample_prng_state :: "(nat, unit) prng_state" where
  "sample_prng_state = \<lparr>startup_once = (Incomplete, 0), seed_poisoned = False, fn_poisoned = False,
     access_poisoned = False, user_rng = None, callback_set = False\<rparr>"

end
