(* ===== verification/Session_Handles.thy ===== *)
theory Session_Handles
  imports Session Ffi_Mem Startup
begin

text \<open>
  Client and server sessions (\<^verbatim>\<open>libcoap/src/session/client.rs\<close>, \<^verbatim>\<open>server.rs\<close> and the enum \<^verbatim>\<open>CoapSession\<close>
  of \<^verbatim>\<open>mod.rs\<close>): the Rust handles around raw sessions of libcoap, with both reference counts that keep
  them alive. The counter of libcoap is taken with \<^verbatim>\<open>coap_session_reference\<close> and given back with
  \<^verbatim>\<open>coap_session_release\<close> by counted server handles; the counts of the Rust allocation are those of
  theory \<open>Ffi_Mem\<close>, and a weak pointer to the allocation is the application data of the raw session.
  The functions of libcoap are the fields of the parameter record \<open>raw_session_api\<close>.
\<close>

section \<open>Raw sessions\<close>

datatype coap_session_type_t =
    COAP_SESSION_TYPE_NONE | COAP_SESSION_TYPE_CLIENT | COAP_SESSION_TYPE_SERVER | COAP_SESSION_TYPE_HELLO |
    COAP_SESSION_TYPE_OTHER nat

text \<open>
  Pointers are numbers, the null pointer is \<open>0\<close>. The raw sessions of type \<open>'r\<close> are found by their
  pointers; the functions that create one or that act on its context get all of them.
\<close>

record 'r raw_session_api =
  coap_session_get_type :: "'r \<Rightarrow> coap_session_type_t"
  coap_session_get_app_data :: "'r \<Rightarrow> nat"
  coap_session_set_app_data :: "'r \<Rightarrow> nat \<Rightarrow> 'r"
  coap_session_reference :: "'r \<Rightarrow> 'r"
  coap_session_release :: "'r \<Rightarrow> 'r"
  coap_session_init_token :: "'r \<Rightarrow> bytes \<Rightarrow> 'r"
  coap_session_get_context :: "'r \<Rightarrow> nat"
  coap_session_get_ifindex :: "'r \<Rightarrow> int"
  coap_session_get_addr_local :: "'r \<Rightarrow> coap_address_t option"
  coap_session_get_addr_remote :: "'r \<Rightarrow> coap_address_t option"
  coap_new_client_session :: "(nat \<Rightarrow> 'r) \<Rightarrow> coap_address_t \<Rightarrow> CoapProtocol \<Rightarrow> nat \<times> (nat \<Rightarrow> 'r)"
  session_platform :: platform

text \<open>
  The heap: the raw sessions, the counts and contents of the allocations made by Rust, whether an
  allocation holds a crypto context, the address of the next allocation, and whether the event
  handler of the context is registered with libcoap. The content of a cell is borrowed for single
  statements only, so its borrow flag is left out.
\<close>

record ('r, 'ty, 'v) heap =
  raws :: "nat \<Rightarrow> 'r"
  counts :: "nat \<Rightarrow> rc_counts"
  inners :: "nat \<Rightarrow> (nat, 'ty, 'v) CoapSessionInner"
  crypto_held :: "nat \<Rightarrow> bool"
  next_cell :: nat
  event_handler_set :: bool

definition upd_raw :: "nat \<Rightarrow> ('r \<Rightarrow> 'r) \<Rightarrow> ('r, 'ty, 'v) heap \<Rightarrow> ('r, 'ty, 'v) heap" where
  "upd_raw p f w = w\<lparr>raws := (raws w)(p := f (raws w p))\<rparr>"

definition upd_counts :: "nat \<Rightarrow> (rc_counts \<Rightarrow> rc_counts) \<Rightarrow> ('r, 'ty, 'v) heap \<Rightarrow> ('r, 'ty, 'v) heap" where
  "upd_counts c f w = w\<lparr>counts := (counts w)(c := f (counts w c))\<rparr>"

text \<open>\<^verbatim>\<open>CoapFfiRcCell::new\<close>.\<close>

definition alloc_cell ::
    "(nat, 'ty, 'v) CoapSessionInner \<Rightarrow> bool \<Rightarrow> ('r, 'ty, 'v) heap \<Rightarrow> nat \<times> ('r, 'ty, 'v) heap" where
  "alloc_cell inner crypto w =
     (let c = next_cell w
      in (c, w\<lparr>counts := (counts w)(c := rc_new), inners := (inners w)(c := inner),
               crypto_held := (crypto_held w)(c := crypto), next_cell := c + 1\<rparr>))"

section \<open>Server sessions\<close>

record CoapServerSession =
  srv_inner :: nat
  ref_counted :: bool

definition server_initialize_raw ::
    "'r raw_session_api \<Rightarrow> nat \<Rightarrow> ('r, 'ty, 'v) heap \<Rightarrow> (CoapServerSession \<times> ('r, 'ty, 'v) heap) run" where
  "server_initialize_raw A p w =
     (if p = 0 then Panic
      else let start =
        (let (c, w) = alloc_cell (session_inner_new p) False w;
             w = upd_counts c create_raw_weak w;
             w = upd_raw p (\<lambda>r. coap_session_set_app_data A r c) w;
             w = upd_raw p (coap_session_reference A) w
         in Ret (\<lparr>srv_inner = c, ref_counted = True\<rparr>, w))
      in case coap_session_get_type A (raws w p) of
           COAP_SESSION_TYPE_NONE \<Rightarrow> Panic
         | COAP_SESSION_TYPE_CLIENT \<Rightarrow> Panic
         | COAP_SESSION_TYPE_SERVER \<Rightarrow> start
         | COAP_SESSION_TYPE_HELLO \<Rightarrow> start
         | COAP_SESSION_TYPE_OTHER _ \<Rightarrow> Panic)"

definition server_from_raw_without_refcount ::
    "'r raw_session_api \<Rightarrow> nat \<Rightarrow> ('r, 'ty, 'v) heap \<Rightarrow> (CoapServerSession \<times> ('r, 'ty, 'v) heap) run" where
  "server_from_raw_without_refcount A p w =
     (if p = 0 then Panic
      else let restore =
        (let c = coap_session_get_app_data A (raws w p)
         in if c = 0 then Panic
            else Ret (\<lparr>srv_inner = c, ref_counted = False\<rparr>, upd_counts c clone_raw_rc w))
      in case coap_session_get_type A (raws w p) of
           COAP_SESSION_TYPE_NONE \<Rightarrow> Panic
         | COAP_SESSION_TYPE_SERVER \<Rightarrow> restore
         | COAP_SESSION_TYPE_HELLO \<Rightarrow> restore
         | COAP_SESSION_TYPE_CLIENT \<Rightarrow> Panic
         | COAP_SESSION_TYPE_OTHER _ \<Rightarrow> Panic)"

definition server_from_raw ::
    "'r raw_session_api \<Rightarrow> nat \<Rightarrow> ('r, 'ty, 'v) heap \<Rightarrow> (CoapServerSession \<times> ('r, 'ty, 'v) heap) run" where
  "server_from_raw A p w =
     run_map (\<lambda>(session, w). (session\<lparr>ref_counted := True\<rparr>, upd_raw p (coap_session_reference A) w))
       (server_from_raw_without_refcount A p w)"

text \<open>\<^verbatim>\<open>#[derive(Clone)]\<close>: the cell is cloned, the flag is copied.\<close>

definition server_clone ::
    "CoapServerSession \<Rightarrow> ('r, 'ty, 'v) heap \<Rightarrow> CoapServerSession \<times> ('r, 'ty, 'v) heap" where
  "server_clone h w = (h, upd_counts (srv_inner h) rc_clone w)"

text \<open>The destructor of the allocation's content, run when the last counted reference is gone.\<close>

definition server_inner_drop ::
    "'r raw_session_api \<Rightarrow> nat \<Rightarrow> ('r, 'ty, 'v) heap \<Rightarrow> ('r, 'ty, 'v) heap run" where
  "server_inner_drop A c w =
     (let data = coap_session_get_app_data A (raws w (raw_session (inners w c)))
      in if data = 0 then Panic else Ret (upd_counts data weak_drop w))"

text \<open>Dropping a \<^verbatim>\<open>CoapFfiRcCell\<close>, given the destructor of its content.\<close>

definition cell_drop ::
    "(nat \<Rightarrow> ('r, 'ty, 'v) heap \<Rightarrow> ('r, 'ty, 'v) heap run) \<Rightarrow> nat \<Rightarrow> ('r, 'ty, 'v) heap \<Rightarrow>
      ('r, 'ty, 'v) heap run" where
  "cell_drop destructor c w =
     (let w = upd_counts c rc_drop w
      in if strong (counts w c) = 0 then destructor c w else Ret w)"

text \<open>\<^verbatim>\<open>CoapFfiRcCell::drop_exclusively\<close>.\<close>

definition cell_drop_exclusively ::
    "(nat \<Rightarrow> ('r, 'ty, 'v) heap \<Rightarrow> ('r, 'ty, 'v) heap run) \<Rightarrow> nat \<Rightarrow> ('r, 'ty, 'v) heap \<Rightarrow>
      ('r, 'ty, 'v) heap run" where
  "cell_drop_exclusively destructor c w =
     run_bind (drop_exclusively (counts w c)) (\<lambda>n. destructor c (w\<lparr>counts := (counts w)(c := n)\<rparr>))"

text \<open>The destructor of the handle, followed by the drop of its field \<^verbatim>\<open>inner\<close>.\<close>

definition server_drop ::
    "'r raw_session_api \<Rightarrow> CoapServerSession \<Rightarrow> ('r, 'ty, 'v) heap \<Rightarrow> ('r, 'ty, 'v) heap run" where
  "server_drop A h w =
     (let p = raw_session (inners w (srv_inner h));
          w = (if ref_counted h then upd_raw p (coap_session_release A) w else w)
      in cell_drop (server_inner_drop A) (srv_inner h) w)"

definition server_drop_exclusively ::
    "'r raw_session_api \<Rightarrow> CoapServerSession \<Rightarrow> ('r, 'ty, 'v) heap \<Rightarrow> ('r, 'ty, 'v) heap run" where
  "server_drop_exclusively A h w =
     (let c = srv_inner h;
          w = upd_counts c rc_clone w
      in run_bind (server_drop A h w) (cell_drop_exclusively (server_inner_drop A) c))"

section \<open>Client sessions\<close>

text \<open>
  \<^verbatim>\<open>CoapClientSessionInner::new\<close>; \<open>fill\<close> is the outcome of \<open>coap_prng_try_fill\<close> on the token buffer.
\<close>

definition client_inner_new ::
    "'r raw_session_api \<Rightarrow> (RngError + bytes) run \<Rightarrow> nat \<Rightarrow> ('r, 'ty, 'v) heap \<Rightarrow> (nat \<times> ('r, 'ty, 'v) heap) run" where
  "client_inner_new A fill p w =
     run_bind fill (\<lambda>r. run_bind (expect (res_ok r)) (\<lambda>token.
       let w = upd_raw p (\<lambda>r. coap_session_init_token A r token) w;
           (c, w) = alloc_cell (session_inner_new p) False w;
           w = upd_counts c create_raw_weak w;
           w = upd_raw p (\<lambda>r. coap_session_set_app_data A r c) w
       in Ret (c, w)))"

definition client_new_with_crypto_ctx ::
    "'r raw_session_api \<Rightarrow> nat \<Rightarrow> ('r, 'ty, 'v) heap \<Rightarrow> nat \<times> ('r, 'ty, 'v) heap" where
  "client_new_with_crypto_ctx A p w =
     (let (c, w) = alloc_cell (session_inner_new p) True w;
          w = upd_counts c create_raw_weak w;
          w = upd_raw p (\<lambda>r. coap_session_set_app_data A r c) w
      in (c, w))"

text \<open>Connecting; \<open>token_len\<close> is \<^verbatim>\<open>COAP_TOKEN_DEFAULT_MAX\<close>.\<close>

definition connect_plain ::
    "CoapProtocol \<Rightarrow> 'r raw_session_api \<Rightarrow> ('l, 'g) prng_api \<Rightarrow> nat \<Rightarrow> SocketAddr \<Rightarrow> ('l, 'g) prng_state \<Rightarrow>
      ('r, 'ty, 'v) heap \<Rightarrow>
      ((SessionCreationError + nat) \<times> ('l, 'g) prng_state \<times> ('r, 'ty, 'v) heap) run" where
  "connect_plain proto A P token_len addr rng w =
     (let (p, rs) = coap_new_client_session A (raws w) (address_from_socket_addr (session_platform A) addr) proto;
          w = w\<lparr>raws := rs\<rparr>
      in if p = 0 then Ret (Inl SessionUnknown, rng, w)
         else let (fill, rng) = coap_prng_try_fill P token_len rng
              in run_map (\<lambda>(c, w). (Inr c, rng, w)) (client_inner_new A fill p w))"

definition connect_udp ::
    "'r raw_session_api \<Rightarrow> ('l, 'g) prng_api \<Rightarrow> nat \<Rightarrow> SocketAddr \<Rightarrow> ('l, 'g) prng_state \<Rightarrow>
      ('r, 'ty, 'v) heap \<Rightarrow>
      ((SessionCreationError + nat) \<times> ('l, 'g) prng_state \<times> ('r, 'ty, 'v) heap) run" where
  "connect_udp = connect_plain CoapProtocol.Udp"

definition connect_tcp ::
    "'r raw_session_api \<Rightarrow> ('l, 'g) prng_api \<Rightarrow> nat \<Rightarrow> SocketAddr \<Rightarrow> ('l, 'g) prng_state \<Rightarrow>
      ('r, 'ty, 'v) heap \<Rightarrow>
      ((SessionCreationError + nat) \<times> ('l, 'g) prng_state \<times> ('r, 'ty, 'v) heap) run" where
  "connect_tcp = connect_plain CoapProtocol.Tcp"

text \<open>\<open>create_raw_session\<close> is the method of the crypto context that makes the raw session.\<close>

definition connect_dtls ::
    "'r raw_session_api \<Rightarrow> (coap_address_t \<Rightarrow> CoapProtocol \<Rightarrow> (nat \<Rightarrow> 'r) \<Rightarrow> (SessionCreationError + nat) \<times> (nat \<Rightarrow> 'r)) \<Rightarrow>
      SocketAddr \<Rightarrow> ('r, 'ty, 'v) heap \<Rightarrow> (SessionCreationError + nat) \<times> ('r, 'ty, 'v) heap" where
  "connect_dtls A create_raw_session addr w =
     (let (r, rs) = create_raw_session (address_from_socket_addr (session_platform A) addr) CoapProtocol.Dtls (raws w);
          w = w\<lparr>raws := rs\<rparr>
      in case r of
           Inl e \<Rightarrow> (Inl e, w)
         | Inr p \<Rightarrow> (let (c, w) = client_new_with_crypto_ctx A p w in (Inr c, w)))"

definition client_from_raw ::
    "'r raw_session_api \<Rightarrow> nat \<Rightarrow> ('r, 'ty, 'v) heap \<Rightarrow> (nat \<times> ('r, 'ty, 'v) heap) run" where
  "client_from_raw A p w =
     (if p = 0 then Panic
      else case coap_session_get_type A (raws w p) of
        COAP_SESSION_TYPE_NONE \<Rightarrow> Panic
      | COAP_SESSION_TYPE_CLIENT \<Rightarrow>
          (let c = coap_session_get_app_data A (raws w p)
           in if c = 0 then Panic else Ret (c, upd_counts c clone_raw_rc w))
      | COAP_SESSION_TYPE_SERVER \<Rightarrow> Panic
      | COAP_SESSION_TYPE_HELLO \<Rightarrow> Panic
      | COAP_SESSION_TYPE_OTHER _ \<Rightarrow> Panic)"

definition client_clone :: "nat \<Rightarrow> ('r, 'ty, 'v) heap \<Rightarrow> nat \<times> ('r, 'ty, 'v) heap" where
  "client_clone c w = (c, upd_counts c rc_clone w)"

text \<open>
  The destructor of a client session releases the raw session with the event handler disabled, so
  that the handler is not entered for the session being destroyed.
\<close>

definition client_inner_drop ::
    "'r raw_session_api \<Rightarrow> nat \<Rightarrow> ('r, 'ty, 'v) heap \<Rightarrow> ('r, 'ty, 'v) heap run" where
  "client_inner_drop A c w =
     (let p = raw_session (inners w c);
          data = coap_session_get_app_data A (raws w p)
      in if data = 0 then Panic
         else let w = upd_counts data weak_drop w
         in if coap_session_get_context A (raws w p) = 0 then Panic
         else let w = w\<lparr>event_handler_set := False\<rparr>;
                  w = upd_raw p (coap_session_release A) w;
                  w = w\<lparr>event_handler_set := True\<rparr>
              in Ret w)"

definition client_drop ::
    "'r raw_session_api \<Rightarrow> nat \<Rightarrow> ('r, 'ty, 'v) heap \<Rightarrow> ('r, 'ty, 'v) heap run" where
  "client_drop A c w = cell_drop (client_inner_drop A) c w"

definition client_drop_exclusively ::
    "'r raw_session_api \<Rightarrow> nat \<Rightarrow> ('r, 'ty, 'v) heap \<Rightarrow> ('r, 'ty, 'v) heap run" where
  "client_drop_exclusively A c w = cell_drop_exclusively (client_inner_drop A) c w"

section \<open>Sessions of either kind\<close>

datatype CoapSession = ClientSession nat | is_ServerSession: ServerSession CoapServerSession

definition session_from_raw ::
    "'r raw_session_api \<Rightarrow> nat \<Rightarrow> ('r, 'ty, 'v) heap \<Rightarrow> (CoapSession \<times> ('r, 'ty, 'v) heap) run" where
  "session_from_raw A p w =
     (if p = 0 then Panic
      else let server = run_map (\<lambda>(h, w). (ServerSession h, w)) (server_from_raw A p w)
      in case coap_session_get_type A (raws w p) of
           COAP_SESSION_TYPE_NONE \<Rightarrow> Panic
         | COAP_SESSION_TYPE_CLIENT \<Rightarrow> run_map (\<lambda>(c, w). (ClientSession c, w)) (client_from_raw A p w)
         | COAP_SESSION_TYPE_SERVER \<Rightarrow> server
         | COAP_SESSION_TYPE_HELLO \<Rightarrow> server
         | COAP_SESSION_TYPE_OTHER _ \<Rightarrow> Panic)"

definition session_drop ::
    "'r raw_session_api \<Rightarrow> CoapSession \<Rightarrow> ('r, 'ty, 'v) heap \<Rightarrow> ('r, 'ty, 'v) heap run" where
  "session_drop A h w = (case h of ClientSession c \<Rightarrow> client_drop A c w | ServerSession h \<Rightarrow> server_drop A h w)"

text \<open>The raw session of a handle (\<^verbatim>\<open>inner_ref\<close>), the accessors used by equality, and equality.\<close>

fun session_cell :: "CoapSession \<Rightarrow> nat" where
  "session_cell (ClientSession c) = c"
| "session_cell (ServerSession h) = srv_inner h"

definition session_ptr :: "CoapSession \<Rightarrow> ('r, 'ty, 'v) heap \<Rightarrow> nat" where
  "session_ptr h w = raw_session (inners w (session_cell h))"

definition addr_local :: "'r raw_session_api \<Rightarrow> 'r \<Rightarrow> SocketAddr run" where
  "addr_local A r =
     run_bind (expect (coap_session_get_addr_local A r))
       (\<lambda>a. to_socket_addrs (session_platform A) (address_from_raw a))"

definition addr_remote :: "'r raw_session_api \<Rightarrow> 'r \<Rightarrow> SocketAddr run" where
  "addr_remote A r =
     run_bind (expect (coap_session_get_addr_remote A r))
       (\<lambda>a. to_socket_addrs (session_platform A) (address_from_raw a))"

text \<open>Sessions are compared by interface, raw pointer and addresses, and only as far as needed.\<close>

definition raw_session_eq :: "'r raw_session_api \<Rightarrow> ('r, 'ty, 'v) heap \<Rightarrow> nat \<Rightarrow> nat \<Rightarrow> bool run" where
  "raw_session_eq A w p q =
     (let r = raws w p; s = raws w q
      in if coap_session_get_ifindex A r \<noteq> coap_session_get_ifindex A s then Ret False
         else if p \<noteq> q then Ret False
         else run_bind (addr_local A r) (\<lambda>a. run_bind (addr_local A s) (\<lambda>b.
           if a \<noteq> b then Ret False
           else run_bind (addr_remote A r) (\<lambda>a. run_bind (addr_remote A s) (\<lambda>b. Ret (a = b))))))"

definition client_eq :: "'r raw_session_api \<Rightarrow> ('r, 'ty, 'v) heap \<Rightarrow> nat \<Rightarrow> CoapSession \<Rightarrow> bool run" where
  "client_eq A w c k = raw_session_eq A w (session_ptr (ClientSession c) w) (session_ptr k w)"

definition server_eq :: "'r raw_session_api \<Rightarrow> ('r, 'ty, 'v) heap \<Rightarrow> CoapServerSession \<Rightarrow> CoapSession \<Rightarrow> bool run" where
  "server_eq A w v k = raw_session_eq A w (session_ptr (ServerSession v) w) (session_ptr k w)"

definition session_eq ::
    "'r raw_session_api \<Rightarrow> ('r, 'ty, 'v) heap \<Rightarrow> CoapSession \<Rightarrow> CoapSession \<Rightarrow> bool run" where
  "session_eq A w h k = (case h of ClientSession c \<Rightarrow> client_eq A w c k | ServerSession v \<Rightarrow> server_eq A w v k)"

lemma session_eq_raw: "session_eq A w h k = raw_session_eq A w (session_ptr h w) (session_ptr k w)"
  by (cases h) (simp_all add: session_eq_def client_eq_def server_eq_def)

section \<open>What libcoap documents\<close>

text \<open>
  \<open>refs\<close> is the reference counter libcoap keeps for a session. Setting the application data changes
  nothing else; taking and giving back a reference changes only the counter.
\<close>

definition app_data_law :: "'r raw_session_api \<Rightarrow> ('r \<Rightarrow> nat) \<Rightarrow> bool" where
  "app_data_law A refs \<longleftrightarrow>
     (\<forall>r c. coap_session_get_app_data A (coap_session_set_app_data A r c) = c \<and>
       coap_session_get_type A (coap_session_set_app_data A r c) = coap_session_get_type A r \<and>
       refs (coap_session_set_app_data A r c) = refs r)"

definition reference_law :: "'r raw_session_api \<Rightarrow> ('r \<Rightarrow> nat) \<Rightarrow> bool" where
  "reference_law A refs \<longleftrightarrow>
     (\<forall>r. refs (coap_session_reference A r) = refs r + 1 \<and>
       coap_session_get_app_data A (coap_session_reference A r) = coap_session_get_app_data A r \<and>
       coap_session_get_type A (coap_session_reference A r) = coap_session_get_type A r)"

definition release_law :: "'r raw_session_api \<Rightarrow> ('r \<Rightarrow> nat) \<Rightarrow> bool" where
  "release_law A refs \<longleftrightarrow>
     (\<forall>r. 0 < refs r \<longrightarrow> refs (coap_session_release A r) = refs r - 1 \<and>
       coap_session_get_app_data A (coap_session_release A r) = coap_session_get_app_data A r \<and>
       coap_session_get_type A (coap_session_release A r) = coap_session_get_type A r)"

definition raw_session_laws :: "'r raw_session_api \<Rightarrow> ('r \<Rightarrow> nat) \<Rightarrow> bool" where
  "raw_session_laws A refs \<longleftrightarrow> app_data_law A refs \<and> reference_law A refs \<and> release_law A refs"

lemma set_app_data_simps:
  assumes "raw_session_laws A refs"
  shows "coap_session_get_app_data A (coap_session_set_app_data A r c) = c"
    and "coap_session_get_type A (coap_session_set_app_data A r c) = coap_session_get_type A r"
    and "refs (coap_session_set_app_data A r c) = refs r"
  using assms by (simp_all add: raw_session_laws_def app_data_law_def)

lemma reference_simps:
  assumes "raw_session_laws A refs"
  shows "refs (coap_session_reference A r) = refs r + 1"
    and "coap_session_get_app_data A (coap_session_reference A r) = coap_session_get_app_data A r"
    and "coap_session_get_type A (coap_session_reference A r) = coap_session_get_type A r"
  using assms by (simp_all add: raw_session_laws_def reference_law_def)

lemma release_simps:
  assumes "raw_session_laws A refs" and "0 < refs r"
  shows "refs (coap_session_release A r) = refs r - 1"
    and "coap_session_get_app_data A (coap_session_release A r) = coap_session_get_app_data A r"
    and "coap_session_get_type A (coap_session_release A r) = coap_session_get_type A r"
  using assms by (simp_all add: raw_session_laws_def release_law_def)

definition server_type :: "coap_session_type_t \<Rightarrow> bool" where
  "server_type t \<longleftrightarrow> t = COAP_SESSION_TYPE_SERVER \<or> t = COAP_SESSION_TYPE_HELLO"

lemma upd_raw_simps [simp]:
  "raws (upd_raw p f w) = (raws w)(p := f (raws w p))"
  "counts (upd_raw p f w) = counts w" "inners (upd_raw p f w) = inners w"
  "next_cell (upd_raw p f w) = next_cell w"
  by (simp_all add: upd_raw_def)

lemma upd_counts_simps [simp]:
  "raws (upd_counts c f w) = raws w"
  "counts (upd_counts c f w) = (counts w)(c := f (counts w c))" "inners (upd_counts c f w) = inners w"
  "next_cell (upd_counts c f w) = next_cell w"
  by (simp_all add: upd_counts_def)

lemma rc_simps [simp]:
  "strong (rc_clone n) = strong n + 1" "weak (rc_clone n) = weak n"
  "strong (rc_drop n) = strong n - 1" "weak (rc_drop n) = weak n"
  "strong (weak_drop n) = strong n" "weak (weak_drop n) = weak n - 1"
  "strong (create_raw_weak n) = strong n" "weak (create_raw_weak n) = weak n + 1"
  "strong (clone_raw_rc n) = strong n + 1" "weak (clone_raw_rc n) = weak n"
  "strong rc_new = 1" "weak rc_new = 0"
  by (simp_all add: rc_clone_def rc_drop_def weak_drop_def create_raw_weak_def clone_raw_rc_def rc_new_def)

text \<open>The effect of each operation on a server session.\<close>

lemma without_refcount_eq:
  "server_from_raw_without_refcount A p w =
     (if p \<noteq> 0 \<and> server_type (coap_session_get_type A (raws w p)) \<and> coap_session_get_app_data A (raws w p) \<noteq> 0
      then Ret (\<lparr>srv_inner = coap_session_get_app_data A (raws w p), ref_counted = False\<rparr>,
                upd_counts (coap_session_get_app_data A (raws w p)) clone_raw_rc w)
      else Panic)"
  by (auto simp: server_from_raw_without_refcount_def server_type_def Let_def split: coap_session_type_t.split)

lemma from_raw_eq:
  "server_from_raw A p w =
     (if p \<noteq> 0 \<and> server_type (coap_session_get_type A (raws w p)) \<and> coap_session_get_app_data A (raws w p) \<noteq> 0
      then Ret (\<lparr>srv_inner = coap_session_get_app_data A (raws w p), ref_counted = True\<rparr>,
                upd_raw p (coap_session_reference A) (upd_counts (coap_session_get_app_data A (raws w p)) clone_raw_rc w))
      else Panic)"
  by (simp add: server_from_raw_def without_refcount_eq)

lemma initialize_raw_eq:
  "server_initialize_raw A p w =
     (if p \<noteq> 0 \<and> server_type (coap_session_get_type A (raws w p))
      then Ret (\<lparr>srv_inner = next_cell w, ref_counted = True\<rparr>,
        upd_raw p (coap_session_reference A) (upd_raw p (\<lambda>r. coap_session_set_app_data A r (next_cell w))
          (upd_counts (next_cell w) create_raw_weak (snd (alloc_cell (session_inner_new p) False w)))))
      else Panic)"
  by (auto simp: server_initialize_raw_def server_type_def alloc_cell_def Let_def split: coap_session_type_t.split)

section \<open>The life of a server session\<close>

text \<open>
  The handles of one raw session \<open>p\<close> after it was initialised. A handle is restored from the raw
  session (counted or not) while another one exists, which keeps the allocation alive; a handle
  that is not counted may be cloned; any handle may be dropped.
\<close>

inductive server_step ::
    "'r raw_session_api \<Rightarrow> nat \<Rightarrow> ('r, 'ty, 'v) heap \<times> CoapServerSession list \<Rightarrow>
      ('r, 'ty, 'v) heap \<times> CoapServerSession list \<Rightarrow> bool" for A p where
  restore: "hs \<noteq> [] \<Longrightarrow> server_from_raw A p w = Ret (h, w') \<Longrightarrow> server_step A p (w, hs) (w', h # hs)"
| restore_uncounted: "hs \<noteq> [] \<Longrightarrow> server_from_raw_without_refcount A p w = Ret (h, w') \<Longrightarrow>
    server_step A p (w, hs) (w', h # hs)"
| clone_uncounted: "h \<in> set hs \<Longrightarrow> \<not> ref_counted h \<Longrightarrow> server_clone h w = (h', w') \<Longrightarrow>
    server_step A p (w, hs) (w', h' # hs)"
| drop: "h \<in> set hs \<Longrightarrow> server_drop A h w = Ret w' \<Longrightarrow> server_step A p (w, hs) (w', remove1 h hs)"

inductive server_life ::
    "'r raw_session_api \<Rightarrow> nat \<Rightarrow> ('r, 'ty, 'v) heap \<Rightarrow> ('r, 'ty, 'v) heap \<times> CoapServerSession list \<Rightarrow> bool"
    for A p w0 where
  init: "server_initialize_raw A p w0 = Ret (h, w) \<Longrightarrow> server_life A p w0 (w, [h])"
| step: "server_life A p w0 s \<Longrightarrow> server_step A p s s' \<Longrightarrow> server_life A p w0 s'"

text \<open>
  The counts that belong to the handles \<open>hs\<close> of a session with cell \<open>c\<close>, when libcoap itself holds
  \<open>base\<close> references: one strong count per handle, a weak one for the application data while a handle
  exists, and one reference of libcoap per counted handle.
\<close>

definition counts_inv ::
    "'r raw_session_api \<Rightarrow> ('r \<Rightarrow> nat) \<Rightarrow> nat \<Rightarrow> nat \<Rightarrow> nat \<Rightarrow> ('r, 'ty, 'v) heap \<Rightarrow> CoapServerSession list \<Rightarrow> bool" where
  "counts_inv A refs p c base w hs \<longleftrightarrow>
     strong (counts w c) = length hs \<and> weak (counts w c) = (if hs = [] then 0 else 1) \<and>
     refs (raws w p) = base + length (filter ref_counted hs)"

definition server_inv ::
    "'r raw_session_api \<Rightarrow> ('r \<Rightarrow> nat) \<Rightarrow> nat \<Rightarrow> nat \<Rightarrow> nat \<Rightarrow> ('r, 'ty, 'v) heap \<Rightarrow> CoapServerSession list \<Rightarrow> bool" where
  "server_inv A refs p c base w hs \<longleftrightarrow>
     p \<noteq> 0 \<and> c \<noteq> 0 \<and> coap_session_get_app_data A (raws w p) = c \<and>
     server_type (coap_session_get_type A (raws w p)) \<and> raw_session (inners w c) = p \<and>
     (\<forall>h \<in> set hs. srv_inner h = c) \<and> counts_inv A refs p c base w hs"

lemma server_inv_init:
  assumes laws: "raw_session_laws A refs" and "next_cell w0 \<noteq> 0" and "server_initialize_raw A p w0 = Ret (h, w)"
  shows "server_inv A refs p (next_cell w0) (refs (raws w0 p)) w [h]"
  using assms(2,3)
  by (auto simp: initialize_raw_eq server_inv_def counts_inv_def alloc_cell_def session_inner_new_def Let_def
      set_app_data_simps[OF laws] reference_simps[OF laws] split: if_splits)

lemma server_inv_restore:
  assumes laws: "raw_session_laws A refs" and inv: "server_inv A refs p c base w hs" and "hs \<noteq> []"
  shows "\<exists>w'. server_from_raw A p w = Ret (\<lparr>srv_inner = c, ref_counted = True\<rparr>, w') \<and>
    server_inv A refs p c base w' (\<lparr>srv_inner = c, ref_counted = True\<rparr> # hs)"
  using assms(3) inv
  by (auto simp: from_raw_eq server_inv_def counts_inv_def reference_simps[OF laws])

lemma server_inv_restore_uncounted:
  assumes inv: "server_inv A refs p c base w hs" and "hs \<noteq> []"
  shows "\<exists>w'. server_from_raw_without_refcount A p w = Ret (\<lparr>srv_inner = c, ref_counted = False\<rparr>, w') \<and>
    server_inv A refs p c base w' (\<lparr>srv_inner = c, ref_counted = False\<rparr> # hs)"
  using assms(2) inv
  by (auto simp: without_refcount_eq server_inv_def counts_inv_def)

lemma server_inv_clone:
  assumes inv: "server_inv A refs p c base w hs" and "h \<in> set hs" and "\<not> ref_counted h"
  shows "server_inv A refs p c base (snd (server_clone h w)) (h # hs)"
  using assms(2,3) inv by (auto simp: server_clone_def server_inv_def counts_inv_def)

lemma length_filter_remove1:
  "x \<in> set xs \<Longrightarrow> length (filter P (remove1 x xs)) = length (filter P xs) - (if P x then 1 else 0)"
  by (simp add: filter_remove1 length_remove1)

lemma filter_pos: "x \<in> set xs \<Longrightarrow> P x \<Longrightarrow> \<exists>k. length (filter P xs) = Suc k"
  by (metis filter_empty_conv length_0_conv not0_implies_Suc)

text \<open>The part of a drop that concerns the allocation only.\<close>

lemma server_cell_drop:
  assumes "coap_session_get_app_data A (raws w (raw_session (inners w c))) = c" and "c \<noteq> 0"
  shows "cell_drop (server_inner_drop A) c w =
     Ret (if strong (counts w c) \<le> 1 then upd_counts c weak_drop (upd_counts c rc_drop w) else upd_counts c rc_drop w)"
  using assms by (simp add: cell_drop_def server_inner_drop_def Let_def)

lemma server_inv_drop:
  assumes laws: "raw_session_laws A refs" and inv: "server_inv A refs p c base w hs" and h: "h \<in> set hs"
  shows "\<exists>w'. server_drop A h w = Ret w' \<and> server_inv A refs p c base w' (remove1 h hs)"
proof -
  let ?w = "if ref_counted h then upd_raw p (coap_session_release A) w else w"
  from inv h have c: "srv_inner h = c" "raw_session (inners w c) = p" "c \<noteq> 0"
    and n: "strong (counts w c) = length hs" "weak (counts w c) = 1"
      "refs (raws w p) = base + length (filter ref_counted hs)"
    by (auto simp: server_inv_def counts_inv_def)
  have rel: "0 < refs (raws w p)" if "ref_counted h"
    using n(3) filter_pos[of h hs ref_counted, OF h that] by auto
  from inv rel have same: "coap_session_get_app_data A (raws ?w p) = c"
      "server_type (coap_session_get_type A (raws ?w p))" "inners ?w = inners w" "counts ?w = counts w"
      "refs (raws ?w p) = base + length (filter ref_counted hs) - (if ref_counted h then 1 else 0)"
    using n(3) by (auto simp: server_inv_def release_simps[OF laws])
  have "server_drop A h w = cell_drop (server_inner_drop A) c ?w"
    using c by (simp add: server_drop_def Let_def)
  also have "\<dots> = Ret (if length hs \<le> 1 then upd_counts c weak_drop (upd_counts c rc_drop ?w) else upd_counts c rc_drop ?w)"
    using same c n(1) server_cell_drop[of A ?w c] by auto
  finally have eq: "server_drop A h w =
      Ret (if length hs \<le> 1 then upd_counts c weak_drop (upd_counts c rc_drop ?w) else upd_counts c rc_drop ?w)"
    (is "_ = Ret ?w'") .
  have len: "remove1 h hs = [] \<longleftrightarrow> length hs \<le> 1"
    using h length_remove1[of h hs] by (cases hs) auto
  have "counts_inv A refs p c base ?w' (remove1 h hs)"
    using n same(4,5) h len length_filter_remove1[OF h, of ref_counted] filter_pos[of h hs ref_counted, OF h]
    by (auto simp: counts_inv_def length_remove1)
  moreover have "raws ?w' = raws ?w" "inners ?w' = inners w" using same(3) by simp_all
  ultimately have "server_inv A refs p c base ?w' (remove1 h hs)"
    using inv same(1,2) by (auto simp: server_inv_def dest: notin_set_remove1 set_remove1_subset[THEN subsetD])
  with eq show ?thesis by blast
qed

lemma server_inv_step:
  assumes laws: "raw_session_laws A refs" and inv: "server_inv A refs p c base w hs"
    and step: "server_step A p (w, hs) (w', hs')"
  shows "server_inv A refs p c base w' hs'"
  using step
proof cases
  case (restore h)
  with server_inv_restore[OF laws inv] show ?thesis by auto
next
  case (restore_uncounted h)
  with server_inv_restore_uncounted[OF inv] show ?thesis by auto
next
  case (clone_uncounted h h')
  with server_inv_clone[OF inv] show ?thesis by (auto simp: server_clone_def)
next
  case (drop h)
  with server_inv_drop[OF laws inv drop(2)] show ?thesis by simp
qed

lemma server_inv_life:
  assumes laws: "raw_session_laws A refs" and "next_cell w0 \<noteq> 0" and "server_life A p w0 s"
  shows "server_inv A refs p (next_cell w0) (refs (raws w0 p)) (fst s) (snd s)"
  using assms(3)
proof (induction rule: server_life.induct)
  case (init h w)
  then show ?case using server_inv_init[OF laws assms(2)] by simp
next
  case (step s s')
  then show ?case using server_inv_step[OF laws, of p _ _ "fst s" "snd s"] by (cases s; cases s') auto
qed

section \<open>Properties\<close>

text \<open>
  C7: reference counts of a server session, as long as no counted handle is cloned. Whatever sequence of
  restoring, cloning uncounted handles and dropping follows the initialisation of a raw session,
  libcoap's counter is what it was before plus one per counted handle and the strong count is the
  number of handles, so that the counter is back at its old value when the last handle is gone; while
  a handle exists restoring another one succeeds and finds the same allocation, and dropping a handle
  never panics. (A clone of a counted handle is not counted by libcoap, but released when dropped.)
\<close>

theorem server_refs_balanced:
  assumes "raw_session_laws A refs" and "next_cell w0 \<noteq> 0" and "server_life A p w0 (w, hs)"
  shows "refs (raws w p) = refs (raws w0 p) + length (filter ref_counted hs) \<and>
    strong (counts w (next_cell w0)) = length hs \<and>
    weak (counts w (next_cell w0)) = (if hs = [] then 0 else 1) \<and>
    (hs \<noteq> [] \<longrightarrow> (\<exists>w'. server_from_raw A p w = Ret (\<lparr>srv_inner = next_cell w0, ref_counted = True\<rparr>, w'))) \<and>
    (\<forall>h \<in> set hs. \<exists>w'. server_drop A h w = Ret w')"
proof -
  have inv: "server_inv A refs p (next_cell w0) (refs (raws w0 p)) w hs"
    using server_inv_life[OF assms] by simp
  then have "counts_inv A refs p (next_cell w0) (refs (raws w0 p)) w hs" by (simp add: server_inv_def)
  moreover have "hs \<noteq> [] \<longrightarrow> (\<exists>w'. server_from_raw A p w = Ret (\<lparr>srv_inner = next_cell w0, ref_counted = True\<rparr>, w'))"
    using server_inv_restore[OF assms(1) inv] by blast
  moreover have "\<forall>h \<in> set hs. \<exists>w'. server_drop A h w = Ret w'"
    using server_inv_drop[OF assms(1) inv] by blast
  ultimately show ?thesis by (simp add: counts_inv_def)
qed

text \<open>A raw session with its type, application data and counter.\<close>

definition sample_raw_api :: "(coap_session_type_t \<times> nat \<times> nat) raw_session_api" where
  "sample_raw_api = \<lparr>coap_session_get_type = (\<lambda>(t, d, n). t), coap_session_get_app_data = (\<lambda>(t, d, n). d),
     coap_session_set_app_data = (\<lambda>(t, d, n) c. (t, c, n)), coap_session_reference = (\<lambda>(t, d, n). (t, d, n + 1)),
     coap_session_release = (\<lambda>(t, d, n). (t, d, n - 1)), coap_session_init_token = (\<lambda>r token. r),
     coap_session_get_context = (\<lambda>r. 1), coap_session_get_ifindex = (\<lambda>r. 0),
     coap_session_get_addr_local = (\<lambda>r. None), coap_session_get_addr_remote = (\<lambda>r. None),
     coap_new_client_session = (\<lambda>rs addr proto. (1, rs(1 := (COAP_SESSION_TYPE_CLIENT, 0, 1)))),
     session_platform = linux\<rparr>"

definition sample_refs :: "coap_session_type_t \<times> nat \<times> nat \<Rightarrow> nat" where
  "sample_refs = (\<lambda>(t, d, n). n)"

definition sample_heap :: "(coap_session_type_t \<times> nat \<times> nat, unit, unit) heap" where
  "sample_heap = \<lparr>raws = (\<lambda>p. (COAP_SESSION_TYPE_SERVER, 0, 1)), counts = (\<lambda>c. \<lparr>strong = 0, weak = 0\<rparr>),
     inners = (\<lambda>c. session_inner_new 0), crypto_held = (\<lambda>c. False), next_cell = 1, event_handler_set = True\<rparr>"

lemma sample_raw_laws: "raw_session_laws sample_raw_api sample_refs"
  by (auto simp: raw_session_laws_def app_data_law_def reference_law_def release_law_def sample_raw_api_def sample_refs_def)

theorem server_refs_balanced_witness:
  "\<exists>h w. server_initialize_raw sample_raw_api 5 sample_heap = Ret (h, w) \<and> sample_refs (raws w 5) = 2"
proof -
  have "server_initialize_raw sample_raw_api 5 sample_heap \<noteq> Panic"
    by (simp add: initialize_raw_eq server_type_def sample_raw_api_def sample_heap_def)
  then obtain h w where init: "server_initialize_raw sample_raw_api 5 sample_heap = Ret (h, w)"
    by (cases "server_initialize_raw sample_raw_api 5 sample_heap") auto
  have "ref_counted h" using init by (auto simp: initialize_raw_eq split: if_splits)
  moreover have "next_cell sample_heap \<noteq> 0" by (simp add: sample_heap_def)
  ultimately have "sample_refs (raws w 5) = sample_refs (raws sample_heap 5) + 1"
    using server_refs_balanced[OF sample_raw_laws _ server_life.init[OF init]] by simp
  then have "sample_refs (raws w 5) = 2" by (simp add: sample_refs_def sample_heap_def)
  with init show ?thesis by blast
qed

text \<open>
  Cloning a counted handle. The derived \<open>clone\<close> copies the flag without taking a reference:
  dropping the clone gives back a reference it never took, so that libcoap's counter no longer covers
  the handle that is still alive.
\<close>

theorem server_clone_over_releases:
  assumes laws: "raw_session_laws A refs" and inv: "server_inv A refs p c base w hs" and h: "h \<in> set hs"
    and "ref_counted h"
  shows "\<exists>w'. server_drop A h (snd (server_clone h w)) = Ret w' \<and>
    strong (counts w' c) = strong (counts w c) \<and> refs (raws w' p) + 1 = refs (raws w p) \<and>
    refs (raws w' p) < base + length (filter ref_counted hs)"
proof -
  let ?v = "snd (server_clone h w)"
  from inv h have c: "srv_inner h = c" "raw_session (inners w c) = p" "c \<noteq> 0"
      "coap_session_get_app_data A (raws w p) = c"
    and n: "strong (counts w c) = length hs" "refs (raws w p) = base + length (filter ref_counted hs)"
    by (auto simp: server_inv_def counts_inv_def)
  obtain k where k: "length (filter ref_counted hs) = Suc k" using filter_pos[of h hs ref_counted, OF h assms(4)] by blast
  let ?w = "upd_raw p (coap_session_release A) ?v"
  have v: "inners ?v = inners w" "raws ?v = raws w" "counts ?v c = rc_clone (counts w c)"
    using c by (simp_all add: server_clone_def)
  have "server_drop A h ?v = cell_drop (server_inner_drop A) c ?w"
    using c v assms(4) by (simp add: server_drop_def Let_def)
  also have "\<dots> = Ret (upd_counts c rc_drop ?w)"
    using server_cell_drop[of A ?w c] c v n k release_simps(2)[OF laws, of "raws w p"] h
    by (cases hs) auto
  finally show ?thesis
    using v n k release_simps(1)[OF laws, of "raws w p"] by (auto simp: server_clone_def)
qed

text \<open>
  Restoring a session from its raw counterpart. It panics exactly on the null pointer, a session
  without a known type, and one without application data; otherwise the handle is of the kind of the
  raw session and refers to the cell its application data points to.
\<close>

theorem session_from_raw_exact:
  "case session_from_raw A p w of
     Panic \<Rightarrow> p = 0 \<or> coap_session_get_app_data A (raws w p) = 0 \<or>
       \<not> server_type (coap_session_get_type A (raws w p)) \<and> coap_session_get_type A (raws w p) \<noteq> COAP_SESSION_TYPE_CLIENT
   | Ret (h, w') \<Rightarrow> p \<noteq> 0 \<and> session_cell h = coap_session_get_app_data A (raws w p) \<and> session_cell h \<noteq> 0 \<and>
       (case h of
          ClientSession c \<Rightarrow> coap_session_get_type A (raws w p) = COAP_SESSION_TYPE_CLIENT \<and> raws w' = raws w
        | ServerSession k \<Rightarrow> server_type (coap_session_get_type A (raws w p)) \<and> ref_counted k \<and>
            raws w' = (raws w)(p := coap_session_reference A (raws w p))) \<and>
       strong (counts w' (session_cell h)) = strong (counts w (session_cell h)) + 1 \<and> inners w' = inners w"
  by (auto simp: session_from_raw_def client_from_raw_def from_raw_eq server_type_def Let_def
      split: coap_session_type_t.split)

end
