(* ===== verification/Resource.thy ===== *)
theory Resource
  imports Session_Handles
begin

text \<open>
  Resources and their request handlers (\<^verbatim>\<open>libcoap/src/resource.rs\<close>): the table of handlers by method,
  its registration with libcoap, the preparation of the arguments of a handler, and the call of a
  dynamic handler, which is taken out of the table while it runs so that it may use the resource.
  The user's handler closures have an arbitrary type \<open>'f\<close> and are called through a parameter; the raw
  resource of type \<open>'q\<close> is accessed through the parameter record \<open>resource_api\<close>.
\<close>

section \<open>Handlers\<close>

text \<open>A handler: the C function registered with libcoap and, for dynamic handlers, the closure.\<close>

record 'f CoapRequestHandler =
  raw_handler :: nat
  dynamic_handler_function :: "'f option"

record 'f CoapResourceHandlers =
  h_get :: "'f CoapRequestHandler option"
  h_put :: "'f CoapRequestHandler option"
  h_delete :: "'f CoapRequestHandler option"
  h_post :: "'f CoapRequestHandler option"
  h_fetch :: "'f CoapRequestHandler option"
  h_ipatch :: "'f CoapRequestHandler option"
  h_patch :: "'f CoapRequestHandler option"

definition handlers_default :: "'f CoapResourceHandlers" where
  "handlers_default = \<lparr>h_get = None, h_put = None, h_delete = None, h_post = None, h_fetch = None,
     h_ipatch = None, h_patch = None\<rparr>"

fun handler :: "'f CoapResourceHandlers \<Rightarrow> CoapRequestCode \<Rightarrow> 'f CoapRequestHandler option" where
  "handler hs CoapRequestCode.Get = h_get hs"
| "handler hs CoapRequestCode.Put = h_put hs"
| "handler hs CoapRequestCode.Delete = h_delete hs"
| "handler hs CoapRequestCode.Post = h_post hs"
| "handler hs CoapRequestCode.Fetch = h_fetch hs"
| "handler hs CoapRequestCode.IPatch = h_ipatch hs"
| "handler hs CoapRequestCode.Patch = h_patch hs"

text \<open>An assignment through the reference that \<^verbatim>\<open>handler_ref_mut\<close> returns.\<close>

fun handler_ref_mut ::
    "CoapRequestCode \<Rightarrow> 'f CoapRequestHandler option \<Rightarrow> 'f CoapResourceHandlers \<Rightarrow> 'f CoapResourceHandlers" where
  "handler_ref_mut CoapRequestCode.Get h hs = hs\<lparr>h_get := h\<rparr>"
| "handler_ref_mut CoapRequestCode.Put h hs = hs\<lparr>h_put := h\<rparr>"
| "handler_ref_mut CoapRequestCode.Delete h hs = hs\<lparr>h_delete := h\<rparr>"
| "handler_ref_mut CoapRequestCode.Post h hs = hs\<lparr>h_post := h\<rparr>"
| "handler_ref_mut CoapRequestCode.Fetch h hs = hs\<lparr>h_fetch := h\<rparr>"
| "handler_ref_mut CoapRequestCode.IPatch h hs = hs\<lparr>h_ipatch := h\<rparr>"
| "handler_ref_mut CoapRequestCode.Patch h hs = hs\<lparr>h_patch := h\<rparr>"

text \<open>\<^verbatim>\<open>CoapRequestHandler::from_raw_handler\<close> and \<^verbatim>\<open>new_resource_ref\<close>; \<open>dynamic_wrapper\<close> is the generated
  C function that calls \<open>call_dynamic_handler\<close>.\<close>

definition from_raw_handler :: "nat \<Rightarrow> 'f CoapRequestHandler" where
  "from_raw_handler raw = \<lparr>raw_handler = raw, dynamic_handler_function = None\<rparr>"

definition new_resource_ref :: "nat \<Rightarrow> 'f \<Rightarrow> 'f CoapRequestHandler" where
  "new_resource_ref dynamic_wrapper f = (from_raw_handler dynamic_wrapper)\<lparr>dynamic_handler_function := Some f\<rparr>"

section \<open>Resources\<close>

record ('q, 'd, 'f) CoapResourceInner =
  raw_resource :: 'q
  user_data :: 'd
  handlers :: "'f CoapResourceHandlers"

record 'q resource_api =
  coap_resource_init :: "bytes \<Rightarrow> int \<Rightarrow> 'q"
  COAP_RESOURCE_FLAGS_RELEASE_URI :: u32
  COAP_RESOURCE_FLAGS_NOTIFY_CON :: u32
  COAP_RESOURCE_FLAGS_NOTIFY_NON :: u32
  coap_register_request_handler :: "'q \<Rightarrow> coap_request_t \<Rightarrow> nat option \<Rightarrow> 'q"
  coap_resource_set_get_observable :: "'q \<Rightarrow> int \<Rightarrow> 'q"
  coap_resource_set_mode :: "'q \<Rightarrow> int \<Rightarrow> 'q"
  coap_resource_notify_observers :: "'q \<Rightarrow> int \<times> 'q"
  coap_resource_get_uri_path :: "'q \<Rightarrow> bytes"

definition resource_flags :: "'q resource_api \<Rightarrow> bool \<Rightarrow> int" where
  "resource_flags R notify_con =
     sint (or (COAP_RESOURCE_FLAGS_RELEASE_URI R)
       (if notify_con then COAP_RESOURCE_FLAGS_NOTIFY_CON R else COAP_RESOURCE_FLAGS_NOTIFY_NON R))"

text \<open>The cell of a new resource: its content and counts, with the weak pointer stored as user data.\<close>

definition resource_new ::
    "'q resource_api \<Rightarrow> rstring \<Rightarrow> 'd \<Rightarrow> bool \<Rightarrow> ('q, 'd, 'f) CoapResourceInner \<times> rc_counts" where
  "resource_new R path data notify_con =
     (\<lparr>raw_resource = coap_resource_init R path (resource_flags R notify_con), user_data = data,
       handlers = handlers_default\<rparr>, create_raw_weak rc_new)"

definition notify_observers ::
    "'q resource_api \<Rightarrow> ('q, 'd, 'f) CoapResourceInner \<Rightarrow> bool \<times> ('q, 'd, 'f) CoapResourceInner" where
  "notify_observers R inner =
     (let (r, raw) = coap_resource_notify_observers R (raw_resource inner) in (r \<noteq> 0, inner\<lparr>raw_resource := raw\<rparr>))"

definition set_get_observable ::
    "'q resource_api \<Rightarrow> bool \<Rightarrow> ('q, 'd, 'f) CoapResourceInner \<Rightarrow> ('q, 'd, 'f) CoapResourceInner" where
  "set_get_observable R observable inner =
     inner\<lparr>raw_resource := coap_resource_set_get_observable R (raw_resource inner) (if observable then 1 else 0)\<rparr>"

definition set_observe_notify_confirmable ::
    "'q resource_api \<Rightarrow> bool \<Rightarrow> ('q, 'd, 'f) CoapResourceInner \<Rightarrow> ('q, 'd, 'f) CoapResourceInner" where
  "set_observe_notify_confirmable R confirmable inner =
     inner\<lparr>raw_resource := coap_resource_set_mode R (raw_resource inner) (if confirmable then 1 else 0)\<rparr>"

definition uri_path_of :: "'q resource_api \<Rightarrow> ('q, 'd, 'f) CoapResourceInner \<Rightarrow> bytes" where
  "uri_path_of R inner = coap_resource_get_uri_path R (raw_resource inner)"

definition set_method_handler ::
    "'q resource_api \<Rightarrow> CoapRequestCode \<Rightarrow> 'f CoapRequestHandler option \<Rightarrow>
      ('q, 'd, 'f) CoapResourceInner \<Rightarrow> ('q, 'd, 'f) CoapResourceInner" where
  "set_method_handler R code h inner =
     (let inner = inner\<lparr>handlers := handler_ref_mut code h (handlers inner)\<rparr>
      in inner\<lparr>raw_resource := coap_register_request_handler R (raw_resource inner) (request_to_raw_request code)
                 (map_option raw_handler (handler (handlers inner) code))\<rparr>)"

section \<open>Calling handlers\<close>

text \<open>
  A dynamic handler, called on its closure, the resource, the session, the request and the prepared
  response; it returns the closure with its updated captures.
\<close>

type_synonym ('f, 'q, 'd, 's, 'ty, 'v) closure_call =
  "'f \<Rightarrow> ('q, 'd, 'f) CoapResourceInner \<Rightarrow> ('s, 'ty, 'v) CoapSessionInner \<Rightarrow> CoapRequest \<Rightarrow> CoapResponse \<Rightarrow>
    ('f \<times> ('q, 'd, 'f) CoapResourceInner \<times> ('s, 'ty, 'v) CoapSessionInner) run"

text \<open>The answer to a message that is no request.\<close>

definition send_rst_response ::
    "uri_env \<Rightarrow> ('s, 'p) session_api \<Rightarrow> CoapResponse \<Rightarrow> ('s, 'ty, 'v) CoapSessionInner \<Rightarrow>
      ('s, 'ty, 'v) CoapSessionInner run" where
  "send_rst_response env api rsp s =
     run_bind (response_into_message (env_bindings env) (env_buf_unused env) (env_uri_into_options env)
                (rsp\<lparr>rsp_pdu := set_type Rst (rsp_pdu rsp)\<rparr>)) (\<lambda>m.
     let (r, s) = send (env_bindings env) api m s in run_map (\<lambda>_. s) (expect (res_ok r)))"

definition call_dynamic_handler ::
    "uri_env \<Rightarrow> ('s, 'p) session_api \<Rightarrow> ('f, 'q, 'd, 's, 'ty, 'v) closure_call \<Rightarrow> CoapRequest \<Rightarrow> CoapResponse \<Rightarrow>
      ('q, 'd, 'f) CoapResourceInner \<times> ('s, 'ty, 'v) CoapSessionInner \<Rightarrow>
      (('q, 'd, 'f) CoapResourceInner \<times> ('s, 'ty, 'v) CoapSessionInner) run" where
  "call_dynamic_handler env api call req rsp st =
     (case st of (inner, s) \<Rightarrow>
      case msg_code (req_pdu req) of
        Request req_code \<Rightarrow>
          run_bind (expect (handler (handlers inner) req_code)) (\<lambda>handler_fn.
          let inner = inner\<lparr>handlers := handler_ref_mut req_code None (handlers inner)\<rparr>
          in run_bind (expect (dynamic_handler_function handler_fn)) (\<lambda>f.
             run_map (\<lambda>(f, inner, s).
               (case handler (handlers inner) req_code of
                  None \<Rightarrow> inner\<lparr>handlers := handler_ref_mut req_code
                             (Some (handler_fn\<lparr>dynamic_handler_function := Some f\<rparr>)) (handlers inner)\<rparr>
                | Some _ \<Rightarrow> inner, s))
               (call f inner s req rsp)))
      | _ \<Rightarrow> run_map (\<lambda>s. (inner, s)) (send_rst_response env api rsp s))"

text \<open>
  The preparation of the arguments: the resource (whose cell must be alive), the session, the parsed
  request and the parsed response; on an error a RST is sent. The parser of proxy URIs and the
  protocol of the session are arguments.
\<close>

definition prepare_resource_handler_data ::
    "uri_env \<Rightarrow> split_fn \<Rightarrow> 'p pdu_api \<Rightarrow> 'r raw_session_api \<Rightarrow> (nat \<Rightarrow> CoapProtocol) \<Rightarrow> rc_counts \<Rightarrow> nat \<Rightarrow> 'p \<Rightarrow> 'p \<Rightarrow>
      ('r, 'ty, 'v) heap \<Rightarrow>
      ((MessageConversionError + CoapServerSession \<times> CoapRequest \<times> CoapResponse) \<times> bool \<times> rc_counts \<times>
        ('r, 'ty, 'v) heap) run" where
  "prepare_resource_handler_data env split_proxy api A proto res_counts p incoming response_pdu w =
     run_bind (clone_raw_weak res_counts) (\<lambda>res_counts.
     run_bind (server_from_raw A p w) (\<lambda>(session, w).
     run_bind (run_try (from_raw_pdu (env_bindings env) api incoming)
                (request_from_message (env_split_uri env) split_proxy (proto p))) (\<lambda>request.
     run_bind (run_try (from_raw_pdu (env_bindings env) api response_pdu)
                (response_from_message (env_split_uri env))) (\<lambda>response.
     case (request, response) of
       (Inr req, Inr rsp) \<Rightarrow> Ret (Inr (session, req, rsp), False, res_counts, w)
     | (v1, v2) \<Rightarrow>
         (let e = (case v1 of Inl e \<Rightarrow> Inl e | Inr _ \<Rightarrow> map_sum id (\<lambda>_. ()) v2)
          in run_bind (expect (case e of Inl e \<Rightarrow> Some e | Inr _ \<Rightarrow> None)) (\<lambda>e.
             run_map (\<lambda>w. (Inl e, True, rc_drop res_counts, w)) (server_drop A session w)))))))"

section \<open>The handler table\<close>

lemma handler_set: "handler (handler_ref_mut code h hs) code' = (if code' = code then h else handler hs code')"
  by (cases code; cases code') simp_all


text \<open>
  \<open>registered\<close> reads the handler that libcoap calls for a method. Registering a handler changes that
  method only, and a new resource has none.
\<close>

definition registration_law :: "'q resource_api \<Rightarrow> ('q \<Rightarrow> coap_request_t \<Rightarrow> nat option) \<Rightarrow> bool" where
  "registration_law R registered \<longleftrightarrow>
     (\<forall>q m h m'. registered (coap_register_request_handler R q m h) m' = (if m' = m then h else registered q m')) \<and>
     (\<forall>path flags m. registered (coap_resource_init R path flags) m = None)"

lemma registered_set:
  assumes "registration_law R registered"
  shows "registered (raw_resource (set_method_handler R code h inner)) m =
    (if m = request_to_raw_request code then map_option raw_handler h else registered (raw_resource inner) m)"
  using assms by (simp add: set_method_handler_def registration_law_def handler_set Let_def)

lemma handler_set_method:
  "handler (handlers (set_method_handler R code h inner)) code' = (if code' = code then h else handler (handlers inner) code')"
  by (simp add: set_method_handler_def handler_set Let_def)




section \<open>Properties\<close>


text \<open>
  A handler for Delete. It is registered for FETCH: libcoap never calls it for DELETE requests,
  and if no handler is set for Fetch, the FETCH request for which libcoap does call it makes the
  dynamic handler panic, because the table has none for the code of the request.
\<close>

theorem delete_handler_misregistered:
  assumes "registration_law R registered"
  shows "(let inner = set_method_handler R CoapRequestCode.Delete (Some h) inner0 in
    registered (raw_resource inner) COAP_REQUEST_DELETE = registered (raw_resource inner0) COAP_REQUEST_DELETE \<and>
    registered (raw_resource inner) COAP_REQUEST_FETCH = Some (raw_handler h) \<and>
    (handler (handlers inner0) CoapRequestCode.Fetch = None \<and> msg_code (req_pdu req) = Request CoapRequestCode.Fetch \<longrightarrow>
       call_dynamic_handler env api call req rsp (inner, s) = Panic))"
  by (auto simp: registered_set[OF assms] handler_set_method call_dynamic_handler_def Let_def simp del: handler.simps)

text \<open>
  C34: a dynamic handler call. For a request whose method has a dynamic handler, the closure is called
  exactly once, on a resource whose table has no handler for that method while it runs (a nested
  call for the same method would panic); afterwards the table has the handler back with the closure's
  new state, unless the closure set another one, which is then kept; all other handlers are as the
  closure left them.
\<close>

theorem dynamic_handler_put_back:
  assumes "msg_code (req_pdu req) = Request code" and "handler (handlers inner) code = Some h"
    and "dynamic_handler_function h = Some f"
  shows "let taken = inner\<lparr>handlers := handler_ref_mut code None (handlers inner)\<rparr> in
    call_dynamic_handler env api call req rsp (taken, s) = Panic \<and>
    (case call f taken s req rsp of
       Panic \<Rightarrow> call_dynamic_handler env api call req rsp (inner, s) = Panic
     | Ret (f', inner', s') \<Rightarrow>
         \<exists>result. call_dynamic_handler env api call req rsp (inner, s) = Ret (result, s') \<and>
           raw_resource result = raw_resource inner' \<and> user_data result = user_data inner' \<and>
           handler (handlers result) code =
             (case handler (handlers inner') code of
                None \<Rightarrow> Some (h\<lparr>dynamic_handler_function := Some f'\<rparr>) | Some k \<Rightarrow> Some k) \<and>
           (\<forall>code'. code' \<noteq> code \<longrightarrow> handler (handlers result) code' = handler (handlers inner') code'))"
proof -
  let ?taken = "inner\<lparr>handlers := handler_ref_mut code None (handlers inner)\<rparr>"
  have "call_dynamic_handler env api call req rsp (?taken, s) = Panic"
    using assms(1) by (simp add: call_dynamic_handler_def handler_set)
  moreover have eq: "call_dynamic_handler env api call req rsp (inner, s) =
    run_map (\<lambda>(f, inner, s).
      (case handler (handlers inner) code of
         None \<Rightarrow> inner\<lparr>handlers := handler_ref_mut code (Some (h\<lparr>dynamic_handler_function := Some f\<rparr>)) (handlers inner)\<rparr>
       | Some _ \<Rightarrow> inner, s)) (call f ?taken s req rsp)"
    using assms by (simp add: call_dynamic_handler_def Let_def)
  ultimately show ?thesis
    by (cases "call f ?taken s req rsp") (auto simp: handler_set Let_def split: option.split)
qed

text \<open>A raw resource that is its table of handlers, and a closure that counts its calls.\<close>

definition sample_resource_api :: "(coap_request_t \<Rightarrow> nat option) resource_api" where
  "sample_resource_api = \<lparr>coap_resource_init = (\<lambda>path flags m. None), COAP_RESOURCE_FLAGS_RELEASE_URI = 1,
     COAP_RESOURCE_FLAGS_NOTIFY_CON = 2, COAP_RESOURCE_FLAGS_NOTIFY_NON = 0,
     coap_register_request_handler = (\<lambda>q m h. q(m := h)), coap_resource_set_get_observable = (\<lambda>q b. q),
     coap_resource_set_mode = (\<lambda>q b. q), coap_resource_notify_observers = (\<lambda>q. (0, q)),
     coap_resource_get_uri_path = (\<lambda>q. [])\<rparr>"

definition counting_call :: "(nat, coap_request_t \<Rightarrow> nat option, unit, nat, unit, unit) closure_call" where
  "counting_call f inner s req rsp = Ret (f + 1, inner, s)"

definition sample_resource :: "(coap_request_t \<Rightarrow> nat option, unit, nat) CoapResourceInner" where
  "sample_resource = fst (resource_new sample_resource_api [97] () False)"



theorem dynamic_handler_put_back_witness:
  "\<exists>result. call_dynamic_handler sample_env sample_session_api counting_call plain_request sample_response
      (set_method_handler sample_resource_api CoapRequestCode.Get (Some (new_resource_ref 7 0)) sample_resource, sample_session)
      = Ret (result, sample_session) \<and>
    handler (handlers result) CoapRequestCode.Get = Some (new_resource_ref 7 1)"
proof -
  let ?inner = "set_method_handler sample_resource_api CoapRequestCode.Get (Some (new_resource_ref 7 0)) sample_resource"
  have code: "msg_code (req_pdu plain_request) = Request CoapRequestCode.Get"
    by (simp add: plain_request_def message_new_def)
  have h: "handler (handlers ?inner) CoapRequestCode.Get = Some (new_resource_ref 7 0)"
    by (simp add: handler_set_method del: handler.simps)
  have f: "dynamic_handler_function (new_resource_ref 7 (0 :: nat)) = Some 0" by (simp add: new_resource_ref_def)
  have upd: "(new_resource_ref 7 (0 :: nat))\<lparr>dynamic_handler_function := Some (Suc 0)\<rparr> = new_resource_ref 7 (Suc 0)"
    by (simp add: new_resource_ref_def)
  show ?thesis
    using dynamic_handler_put_back[OF code h f, of sample_env sample_session_api counting_call sample_response sample_session]
    by (auto simp: counting_call_def Let_def handler_set upd simp del: handler.simps handler_ref_mut.simps)
qed

text \<open>
  Preparing a handler call. If the arguments are prepared, both messages were parsed and no RST
  was sent; if an error is returned, a RST was sent, the error is that of the request, or that of the
  response if the request was fine, and the reference to the resource was given back.
\<close>

theorem prepare_exact:
  "case prepare_resource_handler_data env split_proxy api A proto n p incoming response_pdu w of
     Panic \<Rightarrow> True
   | Ret (result, rst, n', w') \<Rightarrow>
       (let request = run_try (from_raw_pdu (env_bindings env) api incoming)
              (request_from_message (env_split_uri env) split_proxy (proto p));
            response = run_try (from_raw_pdu (env_bindings env) api response_pdu) (response_from_message (env_split_uri env))
        in case result of
             Inr (session, req, rsp) \<Rightarrow>
               \<not> rst \<and> request = Ret (Inr req) \<and> response = Ret (Inr rsp) \<and> rc_drop n' = n \<and> ref_counted session
           | Inl e \<Rightarrow>
               rst \<and> n' = n \<and> (if \<exists>req. request = Ret (Inr req) then response = Ret (Inl e) else request = Ret (Inl e)))"
proof -
  have counts: "rc_drop n' = n" if "clone_raw_weak n = Ret n'" for n'
    using that by (auto simp: clone_raw_weak_def rc_drop_def split: if_splits)
  show ?thesis
    by (auto simp: prepare_resource_handler_data_def run_bind_def run_map_eq_Ret run_map_eq_Panic Let_def counts from_raw_eq
        split: run.splits sum.splits if_splits)
qed

end
