(* ===== verification/Resource_Dispatch.thy ===== *)
theory Resource_Dispatch
  imports Resource
begin

text \<open>
  The path of a request through a resource (\<^verbatim>\<open>libcoap/src/resource.rs\<close>): the C function the macro
  \<^verbatim>\<open>resource_handler!\<close> generates, which restores the resource and the session from their raw
  pointers, parses the messages, calls the dynamic handler and drops the restored handles again; the
  handlers of \<^verbatim>\<open>CoapRequestHandler::new\<close>, which see the user data only; and the remaining operations
  on the cell of a resource.
\<close>

section \<open>The cell of a resource\<close>

definition restore_from_raw :: "rc_counts \<Rightarrow> rc_counts run" where
  "restore_from_raw n = clone_raw_weak n"

definition user_data_mut :: "('d \<Rightarrow> 'd) \<Rightarrow> ('q, 'd, 'f) CoapResourceInner \<Rightarrow> ('q, 'd, 'f) CoapResourceInner" where
  "user_data_mut f inner = inner\<lparr>user_data := f (user_data inner)\<rparr>"

text \<open>A handler of \<^verbatim>\<open>CoapRequestHandler::new\<close> is a closure over the user data, wrapped into one over the resource.\<close>

definition handler_new :: "nat \<Rightarrow> 'f \<Rightarrow> 'f CoapRequestHandler" where
  "handler_new dynamic_wrapper f = new_resource_ref dynamic_wrapper f"

definition call_on_user_data ::
    "('f \<Rightarrow> 'd \<Rightarrow> ('s, 'ty, 'v) CoapSessionInner \<Rightarrow> CoapRequest \<Rightarrow> CoapResponse \<Rightarrow>
       ('f \<times> 'd \<times> ('s, 'ty, 'v) CoapSessionInner) run) \<Rightarrow> ('f, 'q, 'd, 's, 'ty, 'v) closure_call" where
  "call_on_user_data closure f inner s req rsp =
     run_map (\<lambda>(f, d, s). (f, user_data_mut (\<lambda>_. d) inner, s)) (closure f (user_data inner) s req rsp)"

section \<open>The generated C function\<close>

text \<open>
  The session a handler works on: the content of its cell with the raw session its pointer refers to,
  read from the heap and written back to it.
\<close>

definition session_load :: "nat \<Rightarrow> ('r, 'ty, 'v) heap \<Rightarrow> ('r, 'ty, 'v) CoapSessionInner" where
  "session_load c w =
     (let i = inners w c
      in \<lparr>raw_session = raws w (raw_session i), app_data = app_data i, received_responses = received_responses i\<rparr>)"

definition session_store ::
    "nat \<Rightarrow> ('r, 'ty, 'v) CoapSessionInner \<Rightarrow> ('r, 'ty, 'v) heap \<Rightarrow> ('r, 'ty, 'v) heap" where
  "session_store c s w =
     (let i = inners w c
      in w\<lparr>raws := (raws w)(raw_session i := raw_session s),
           inners := (inners w)(c := i\<lparr>app_data := app_data s, received_responses := received_responses s\<rparr>)\<rparr>)"

definition coap_method_handler_wrapper ::
    "uri_env \<Rightarrow> split_fn \<Rightarrow> 'p pdu_api \<Rightarrow> ('r, 'p) session_api \<Rightarrow> 'r raw_session_api \<Rightarrow> (nat \<Rightarrow> CoapProtocol) \<Rightarrow>
      ('f, 'q, 'd, 'r, 'ty, 'v) closure_call \<Rightarrow> nat \<Rightarrow> 'p \<Rightarrow> 'p \<Rightarrow>
      ('q, 'd, 'f) CoapResourceInner \<times> rc_counts \<times> ('r, 'ty, 'v) heap \<Rightarrow>
      (bool \<times> ('q, 'd, 'f) CoapResourceInner \<times> rc_counts \<times> ('r, 'ty, 'v) heap) run" where
  "coap_method_handler_wrapper env split_proxy api sapi A proto call p incoming response_pdu st =
     (case st of (inner, n, w) \<Rightarrow>
      run_bind (prepare_resource_handler_data env split_proxy api A proto n p incoming response_pdu w)
        (\<lambda>(handler_data, rst, n, w).
      case handler_data of
        Inl e \<Rightarrow> Ret (rst, inner, n, w)
      | Inr (session, req, rsp) \<Rightarrow>
          run_bind (call_dynamic_handler env sapi call req rsp (inner, session_load (srv_inner session) w)) (\<lambda>(inner, s).
          let w = session_store (srv_inner session) s w
          in run_map (\<lambda>w. (rst, inner, rc_drop n, w)) (server_drop A session w))))"

section \<open>Balance of the restored handles\<close>

lemma load_store [simp]: "session_load c (session_store c s w) = s"
  by (simp add: session_load_def session_store_def Let_def)

lemma clone_then_drop: "0 < strong n \<Longrightarrow> \<exists>n'. clone_raw_weak n = Ret n' \<and> rc_drop n' = n"
  by (auto simp: clone_raw_weak_def rc_drop_def)

text \<open>What a handler must leave alone of the raw session: its type, application data and reference counter.\<close>

definition keeps_session :: "'r raw_session_api \<Rightarrow> ('r \<Rightarrow> nat) \<Rightarrow> 'r \<Rightarrow> 'r \<Rightarrow> bool" where
  "keeps_session A refs r r' \<longleftrightarrow>
     refs r' = refs r \<and> coap_session_get_app_data A r' = coap_session_get_app_data A r \<and>
     coap_session_get_type A r' = coap_session_get_type A r"

definition closure_keeps ::
    "'r raw_session_api \<Rightarrow> ('r \<Rightarrow> nat) \<Rightarrow> ('f, 'q, 'd, 'r, 'ty, 'v) closure_call \<Rightarrow> bool" where
  "closure_keeps A refs call \<longleftrightarrow>
     (\<forall>f inner s req rsp f' inner' s'. call f inner s req rsp = Ret (f', inner', s') \<longrightarrow>
       keeps_session A refs (raw_session s) (raw_session s'))"

definition send_keeps :: "'r raw_session_api \<Rightarrow> ('r \<Rightarrow> nat) \<Rightarrow> ('r, 'p) session_api \<Rightarrow> bool" where
  "send_keeps A refs sapi \<longleftrightarrow> (\<forall>r pdu. keeps_session A refs r (snd (coap_send sapi r pdu)))"

lemma send_keeps_session:
  assumes "send_keeps A refs sapi"
  shows "keeps_session A refs (raw_session s) (raw_session (snd (send B sapi m s)))"
  using assms by (simp add: send_def send_keeps_def keeps_session_def case_prod_beta split: sum.split)

lemma dynamic_handler_keeps:
  assumes "closure_keeps A refs call" and "send_keeps A refs sapi"
    and "call_dynamic_handler env sapi call req rsp (inner, s) = Ret (inner', s')"
  shows "keeps_session A refs (raw_session s) (raw_session s')"
proof (cases "msg_code (req_pdu req)")
  case (Request code)
  with assms(3) obtain f inner0 f' inner1 where "call f inner0 s req rsp = Ret (f', inner1, s')"
    by (auto simp: call_dynamic_handler_def run_bind_eq_Ret run_map_eq_Ret Let_def)
  with assms(1) show ?thesis by (auto simp: closure_keeps_def)
qed (use assms(3) send_keeps_session[OF assms(2), of s] in
     \<open>auto simp: call_dynamic_handler_def send_rst_response_def run_bind_eq_Ret run_map_eq_Ret Let_def case_prod_beta\<close>)

lemma server_inv_store:
  assumes "server_inv A refs p c base w hs"
    and "keeps_session A refs (raw_session (session_load c w)) (raw_session s)"
  shows "server_inv A refs p c base (session_store c s w) hs"
  using assms by (auto simp: server_inv_def counts_inv_def session_load_def session_store_def keeps_session_def Let_def)

lemma session_load_after_drop:
  assumes "server_inv A refs p c base w (h # hs)" and "hs \<noteq> []" and "server_drop A h w = Ret w'"
  shows "app_data (inners w' c) = app_data (inners w c) \<and> received_responses (inners w' c) = received_responses (inners w c)"
  using assms by (auto simp: server_inv_def counts_inv_def server_drop_def cell_drop_def Let_def split: if_splits)

abbreviation parsed_request ::
    "uri_env \<Rightarrow> split_fn \<Rightarrow> 'p pdu_api \<Rightarrow> CoapProtocol \<Rightarrow> 'p \<Rightarrow> (MessageConversionError + CoapRequest) run" where
  "parsed_request env split_proxy api proto incoming \<equiv>
     run_try (from_raw_pdu (env_bindings env) api incoming) (request_from_message (env_split_uri env) split_proxy proto)"

abbreviation parsed_response :: "uri_env \<Rightarrow> 'p pdu_api \<Rightarrow> 'p \<Rightarrow> (MessageConversionError + CoapResponse) run" where
  "parsed_response env api pdu \<equiv>
     run_try (from_raw_pdu (env_bindings env) api pdu) (response_from_message (env_split_uri env))"

lemma request_handled:
  assumes laws: "raw_session_laws A refs" and inv: "server_inv A refs p c base w hs" and hs: "hs \<noteq> []"
    and n: "0 < strong n"
    and req: "parsed_request env split_proxy api (proto p) incoming = Ret request"
    and rsp: "parsed_response env api response_pdu = Ret response"
    and call: "closure_keeps A refs call" and send: "send_keeps A refs sapi"
  shows "\<exists>w1. server_from_raw A p w = Ret (\<lparr>srv_inner = c, ref_counted = True\<rparr>, w1) \<and>
    (let result = coap_method_handler_wrapper env split_proxy api sapi A proto call p incoming response_pdu (inner, n, w)
     in case (request, response) of
          (Inr req, Inr rsp) \<Rightarrow>
            (case call_dynamic_handler env sapi call req rsp (inner, session_load c w1) of
               Panic \<Rightarrow> result = Panic
             | Ret (inner', s') \<Rightarrow>
                 \<exists>w'. result = Ret (False, inner', n, w') \<and> server_inv A refs p c base w' hs \<and>
                   app_data (inners w' c) = app_data s' \<and> received_responses (inners w' c) = received_responses s')
        | _ \<Rightarrow> \<exists>w'. result = Ret (True, inner, n, w') \<and> server_inv A refs p c base w' hs)"
proof -
  let ?h = "\<lparr>srv_inner = c, ref_counted = True\<rparr>"
  obtain n' where n': "clone_raw_weak n = Ret n'" "rc_drop n' = n" using clone_then_drop[OF n] by blast
  obtain w1 where w1: "server_from_raw A p w = Ret (?h, w1)" and inv1: "server_inv A refs p c base w1 (?h # hs)"
    using server_inv_restore[OF laws inv hs] by blast
  have prep: "prepare_resource_handler_data env split_proxy api A proto n p incoming response_pdu w =
    (case (request, response) of
       (Inr req, Inr rsp) \<Rightarrow> Ret (Inr (?h, req, rsp), False, n', w1)
     | (Inl e, _) \<Rightarrow> run_map (\<lambda>w. (Inl e, True, n, w)) (server_drop A ?h w1)
     | (_, Inl e) \<Rightarrow> run_map (\<lambda>w. (Inl e, True, n, w)) (server_drop A ?h w1))"
    by (simp add: prepare_resource_handler_data_def n' w1 req rsp split: sum.split)
  have dropped: "\<exists>w'. server_drop A ?h v = Ret w' \<and> server_inv A refs p c base w' hs"
    if "server_inv A refs p c base v (?h # hs)" for v
    using server_inv_drop[OF laws that, of ?h] by simp
  have called: "\<exists>w'. run_map (\<lambda>w. (False, inner', n, w)) (server_drop A ?h (session_store c s' w1)) = Ret (False, inner', n, w') \<and>
      server_inv A refs p c base w' hs \<and> app_data (inners w' c) = app_data s' \<and> received_responses (inners w' c) = received_responses s'"
    if "call_dynamic_handler env sapi call req rsp (inner, session_load c w1) = Ret (inner', s')" for req rsp inner' s'
  proof -
    have st: "server_inv A refs p c base (session_store c s' w1) (?h # hs)"
      by (rule server_inv_store[OF inv1 dynamic_handler_keeps[OF call send that]])
    from dropped[OF this] obtain w' where w': "server_drop A ?h (session_store c s' w1) = Ret w'"
      "server_inv A refs p c base w' hs" by blast
    with session_load_after_drop[OF st hs w'(1)] show ?thesis
      by (simp add: session_store_def Let_def)
  qed
  show ?thesis
    using w1 dropped[OF inv1] called n'(2)
    by (auto simp: coap_method_handler_wrapper_def prep Let_def split: sum.split run.split)
qed

text \<open>
  C13: the references of a request. When a request for a live resource arrives on a session some handle
  keeps alive and neither message panics while it is parsed, the generated C function restores a handle
  to each and gives both back, so that the counts of resource and session are as before: with a RST
  if a message cannot be parsed, and otherwise after the dynamic handler ran on the parsed messages
  (unless that panics), whose effect on the resource, the application data and the response queues
  is kept. The handler may use the raw session but not its type, application data or counter.
\<close>

theorem request_references_balanced:
  assumes laws: "raw_session_laws A refs" and inv: "server_inv A refs p c base w hs" and hs: "hs \<noteq> []"
    and n: "0 < strong n"
    and req: "parsed_request env split_proxy api (proto p) incoming = Ret request"
    and rsp: "parsed_response env api response_pdu = Ret response"
    and call: "closure_keeps A refs call" and send: "send_keeps A refs sapi"
  shows "\<exists>w1. server_from_raw A p w = Ret (\<lparr>srv_inner = c, ref_counted = True\<rparr>, w1) \<and>
    (let result = coap_method_handler_wrapper env split_proxy api sapi A proto call p incoming response_pdu (inner, n, w)
     in case (request, response) of
          (Inr req, Inr rsp) \<Rightarrow>
            (case call_dynamic_handler env sapi call req rsp (inner, session_load c w1) of
               Panic \<Rightarrow> result = Panic
             | Ret (inner', s') \<Rightarrow>
                 \<exists>w'. result = Ret (False, inner', n, w') \<and> server_inv A refs p c base w' hs \<and>
                   app_data (inners w' c) = app_data s' \<and> received_responses (inners w' c) = received_responses s')
        | _ \<Rightarrow> \<exists>w'. result = Ret (True, inner, n, w') \<and> server_inv A refs p c base w' hs)"
  using assms by (rule request_handled)

text \<open>A handler that marks the session it is called on, and a request for the empty path.\<close>

definition idle_session_api :: "(coap_session_type_t \<times> nat \<times> nat, mem_pdu) session_api" where
  "idle_session_api =
     \<lparr>pdu_functions = mem_api, COAP_TOKEN_DEFAULT_MAX = 8, coap_session_new_token = (\<lambda>r len buf. (0, buf, r)),
      coap_new_message_id = (\<lambda>r. (0, r)), coap_session_max_pdu_size = (\<lambda>r. 1152), coap_send = (\<lambda>r p. (p_mid p, r))\<rparr>"

definition marking_call ::
    "(nat, coap_request_t \<Rightarrow> nat option, unit, coap_session_type_t \<times> nat \<times> nat, unit, unit) closure_call" where
  "marking_call f inner s req rsp = Ret (f + 1, inner, s\<lparr>app_data := Some ((), ())\<rparr>)"

definition get_pdu :: mem_pdu where
  "get_pdu = \<lparr>p_type = COAP_MESSAGE_CON, p_code = COAP_REQUEST_CODE_GET, p_mid = 7, p_token = [1], p_options = [], p_data = []\<rparr>"

definition content_pdu :: mem_pdu where
  "content_pdu = get_pdu\<lparr>p_type := COAP_MESSAGE_ACK, p_code := COAP_RESPONSE_CODE_CONTENT\<rparr>"

lemma sample_codes:
  "message_code_try_from iana COAP_REQUEST_CODE_GET = Inr (Request CoapRequestCode.Get)"
  "message_code_try_from iana COAP_RESPONSE_CODE_CONTENT = Inr (Response CoapResponseCode.Content)"
  "\<exists>t. message_type_from iana raw = Ret t"
  using message_code_decided[OF bindings_ok_iana] message_type_roundtrip[OF bindings_ok_iana]
    request_code_const.simps(1) response_code_const.simps by metis+

lemma get_pdu_parsed: "\<exists>req. parsed_request sample_env split_relative mem_api Udp get_pdu = Ret (Inr req) \<and>
    msg_code (req_pdu req) = Request CoapRequestCode.Get"
proof -
  obtain t where "message_type_from iana COAP_MESSAGE_CON = Ret t" using sample_codes(3) by blast
  then show ?thesis
    by (simp add: from_raw_pdu_def get_pdu_def mem_api_def sample_env_def request_from_message_def req_vars_init_def
      request_uri_def uri_new_def new_from_parts_eq cstring_new_def uri_text_def uri_prefix_def port_suffix_def ascii_def
      construct_path_string_def create_parsed_uri_def split_relative_def request_of_vars_def clear_options_def sample_codes Let_def)
qed

lemma content_pdu_parsed: "\<exists>rsp. parsed_response sample_env mem_api content_pdu = Ret (Inr rsp)"
proof -
  obtain t where "message_type_from iana COAP_MESSAGE_ACK = Ret t" using sample_codes(3) by blast
  then show ?thesis
    by (simp add: from_raw_pdu_def get_pdu_def content_pdu_def mem_api_def sample_env_def response_from_message_def
      rsp_vars_init_def response_location_def sample_codes Let_def)
qed

text \<open>The resource with a handler for Get, and the session at address 5 once it was initialised.\<close>

definition get_resource :: "(coap_request_t \<Rightarrow> nat option, unit, nat) CoapResourceInner" where
  "get_resource = set_method_handler sample_resource_api CoapRequestCode.Get (Some (new_resource_ref 7 0)) sample_resource"

theorem request_references_balanced_witness:
  "\<exists>h w inner' w'. server_initialize_raw sample_raw_api 5 sample_heap = Ret (h, w) \<and>
     coap_method_handler_wrapper sample_env split_relative mem_api idle_session_api sample_raw_api (\<lambda>_. Udp) marking_call
       5 get_pdu content_pdu (get_resource, \<lparr>strong = 1, weak = 1\<rparr>, w) = Ret (False, inner', \<lparr>strong = 1, weak = 1\<rparr>, w') \<and>
     app_data (inners w' 1) = Some ((), ()) \<and> sample_refs (raws w' 5) = 2"
proof -
  obtain h w where init: "server_initialize_raw sample_raw_api 5 sample_heap = Ret (h, w)" and h: "ref_counted h"
    by (simp add: initialize_raw_eq server_type_def sample_raw_api_def sample_heap_def)
  have inv: "server_inv sample_raw_api sample_refs 5 1 1 w [h]"
    using server_inv_init[OF sample_raw_laws _ init] by (simp add: sample_heap_def sample_refs_def)
  obtain req where req: "parsed_request sample_env split_relative mem_api Udp get_pdu = Ret (Inr req)"
    "msg_code (req_pdu req) = Request CoapRequestCode.Get" using get_pdu_parsed by blast
  obtain rsp where rsp: "parsed_response sample_env mem_api content_pdu = Ret (Inr rsp)" using content_pdu_parsed by blast
  have keeps: "closure_keeps sample_raw_api sample_refs marking_call" "send_keeps sample_raw_api sample_refs idle_session_api"
    by (auto simp: closure_keeps_def send_keeps_def keeps_session_def marking_call_def idle_session_api_def)
  have called: "\<exists>inner'. call_dynamic_handler sample_env idle_session_api marking_call req rsp (get_resource, s) =
      Ret (inner', s\<lparr>app_data := Some ((), ())\<rparr>)" for s
    using req(2)
    by (simp add: call_dynamic_handler_def get_resource_def handler_set_method new_resource_ref_def marking_call_def Let_def
        del: handler.simps)
  let ?n = "\<lparr>strong = 1, weak = 1\<rparr>"
  let ?run = "coap_method_handler_wrapper sample_env split_relative mem_api idle_session_api sample_raw_api (\<lambda>_. Udp) marking_call
       5 get_pdu content_pdu (get_resource, ?n, w)"
  obtain w1 where "case call_dynamic_handler sample_env idle_session_api marking_call req rsp (get_resource, session_load 1 w1) of
      Panic \<Rightarrow> ?run = Panic
    | Ret (inner', s') \<Rightarrow> \<exists>w'. ?run = Ret (False, inner', ?n, w') \<and> server_inv sample_raw_api sample_refs 5 1 1 w' [h] \<and>
         app_data (inners w' 1) = app_data s' \<and> received_responses (inners w' 1) = received_responses s'"
    using request_references_balanced[where proto = "\<lambda>_. Udp" and n = ?n and inner = get_resource,
      OF sample_raw_laws inv _ _ req(1) rsp keeps]
    by (auto simp: Let_def simp del: One_nat_def)
  moreover obtain inner' where "call_dynamic_handler sample_env idle_session_api marking_call req rsp (get_resource, session_load 1 w1) =
      Ret (inner', (session_load 1 w1)\<lparr>app_data := Some ((), ())\<rparr>)" using called by blast
  ultimately show ?thesis using init h by (fastforce simp: server_inv_def counts_inv_def)
qed

end
