(* ===== verification/Integration.thy ===== *)
theory Integration
  imports Exchange Uri_Text Resource_Dispatch
begin

text \<open>
  The scenario of the integration tests (\<^verbatim>\<open>libcoap/tests/common/mod.rs\<close> and
  \<^verbatim>\<open>libcoap/tests/udp_client_server_test.rs\<close>): a server with a resource \<^verbatim>\<open>test1\<close> whose handler answers a
  Get with the body \<^verbatim>\<open>Hello World!\<close>, and a client that sends the request and checks the response. The
  theory composes the client's \<^verbatim>\<open>send_request\<close>, the generated C function of the resource with the
  handles it restores, the handler over the user data, the response handler of the client and polling.
  Threads, sockets and the IO loops around them are not part of it.
\<close>

section \<open>The code of the tests\<close>

abbreviation hello_world :: bytes where
  "hello_world \<equiv> ascii ''Hello World!''"

definition gen_test_request :: "split_fn \<Rightarrow> CoapRequest run" where
  "gen_test_request coap_split_uri =
     run_bind (expect (res_ok (uri_from_str coap_split_uri (ascii ''/test1'')))) (\<lambda>uri.
     expect (res_ok (request_new Con CoapRequestCode.Get uri)))"

text \<open>The handler; the user data says whether a request was completed.\<close>

definition test_handler ::
    "uri_env \<Rightarrow> ('s, 'p) session_api \<Rightarrow> 'f \<Rightarrow> bool \<Rightarrow> ('s, 'ty, 'v) CoapSessionInner \<Rightarrow> CoapRequest \<Rightarrow> CoapResponse \<Rightarrow>
      ('f \<times> bool \<times> ('s, 'ty, 'v) CoapSessionInner) run" where
  "test_handler env api f completed sess req rsp =
     (let rsp = rsp\<lparr>rsp_pdu := set_data (Some hello_world) (rsp_pdu rsp)\<rparr>
      in run_bind (response_set_code (Response CoapResponseCode.Content) rsp) (\<lambda>rsp.
         run_bind (response_into_message (env_bindings env) (env_buf_unused env) (env_uri_into_options env) rsp) (\<lambda>m.
         let (r, sess) = send (env_bindings env) api m sess
         in run_map (\<lambda>_. (f, True, sess)) (expect (res_ok r)))))"

definition test_resource :: "'q resource_api \<Rightarrow> nat \<Rightarrow> 'f \<Rightarrow> ('q, bool, 'f) CoapResourceInner" where
  "test_resource R dynamic_wrapper f =
     set_method_handler R CoapRequestCode.Get (Some (handler_new dynamic_wrapper f))
       (fst (resource_new R (ascii ''test1'') False False))"

text \<open>The assertions of the client.\<close>

definition test_assertions :: "CoapResponse \<Rightarrow> bool" where
  "test_assertions rsp \<longleftrightarrow>
     msg_code (rsp_pdu rsp) = Response CoapResponseCode.Content \<and> msg_data (rsp_pdu rsp) = Some hello_world"

section \<open>The request\<close>

abbreviation get_request :: "CoapUri \<Rightarrow> CoapRequest" where
  "get_request uri \<equiv>
     \<lparr>req_pdu = message_new Con (Request CoapRequestCode.Get), req_uri = uri, req_accept = None,
      req_etag = None, req_if_match = None, req_content_format = None, req_if_none_match = False,
      req_hop_limit = None, req_no_response = None, req_observe = None\<rparr>"

lemma create_parsed_uri_proxy: "create_parsed_uri s split p = Inr u \<Longrightarrow> uri_is_proxy u = p"
  by (auto simp: create_parsed_uri_def create_unparsed_uri_def split: if_splits prod.splits)

lemma gen_test_request_eq:
  assumes "gen_test_request split = Ret req"
  shows "req = get_request (req_uri req)"
    and "create_parsed_uri (ascii ''/test1'') split False = Inr (req_uri req)" and "\<not> uri_is_proxy (req_uri req)"
proof -
  obtain uri where uri: "uri_from_str split (ascii ''/test1'') = Inr uri"
    and req: "request_new Con CoapRequestCode.Get uri = Inr req"
    using assms by (auto simp: gen_test_request_def run_bind_eq_Ret expect_eq_Ret res_ok_eq_Some)
  from req show "req = get_request (req_uri req)"
    by (auto simp: request_new_def)
  from req have "req_uri req = uri" by (auto simp: request_new_def)
  with uri show parsed: "create_parsed_uri (ascii ''/test1'') split False = Inr (req_uri req)"
    by (auto simp: uri_from_str_def try_from_str_def res_try_eq_Inr cstring_new_Inr)
  then show "\<not> uri_is_proxy (req_uri req)" by (simp add: create_parsed_uri_proxy)
qed

abbreviation test_path :: CoapOption where
  "test_path \<equiv> CoapOption.UriPath (ascii ''test1'')"

lemma test_request_sendable:
  assumes "gen_test_request split = Ret req"
    and "uri_into_options (env_bindings env) (env_buf_unused env) (env_uri_into_options env) (req_uri req) = Ret [test_path]"
  shows "sendable_request env fits req"
proof -
  have "sendable_option (env_bindings env) test_path"
    by (simp add: sendable_option_def ascii_def utf8_valid_ascii_Cons)
  moreover have "uri_options_ok [test_path]" by (simp add: uri_options_ok_def sel_defs)
  moreover obtain uri where "req = get_request uri" using gen_test_request_eq(1)[OF assms(1)] by blast
  ultimately show ?thesis
    using assms(2) by (auto simp: sendable_request_def wf_request_def own_options_def data_fits_def message_new_def)
qed

text \<open>The server parses the URI the client parsed, from the path option it became.\<close>

lemma test_request_uri:
  assumes "gen_test_request split = Ret req"
  shows "request_uri split splitp proto (request_vars [test_path]) = Ret (Inr (req_uri req))"
proof -
  have "request_vars [test_path] = req_vars_init\<lparr>rq_path := Some [ascii ''test1'']\<rparr>"
    by (simp add: request_vars_def req_vars_init_def sel_defs)
  moreover have "uri_text (scheme_from_protocol proto) [] 0 (construct_path_string [ascii ''test1'']) [] = ascii ''/test1''"
    by (simp add: uri_text_def uri_prefix_def port_suffix_def construct_path_string_def ascii_def)
  moreover have "cstring_new (ascii ''/test1'') = Inr (ascii ''/test1'')" by (simp add: cstring_new_Inr ascii_def)
  ultimately show ?thesis
    using gen_test_request_eq(2)[OF assms]
    by (simp add: request_uri_def req_vars_init_def uri_new_def new_from_parts_eq)
qed

section \<open>The response\<close>

text \<open>The response PDU libcoap prepares: of some type, with code 0.00 and without options and body.\<close>

definition prepared_pdu :: "'p pdu_api \<Rightarrow> coap_pdu_type_t \<Rightarrow> int \<Rightarrow> bytes \<Rightarrow> 'p \<Rightarrow> bool" where
  "prepared_pdu api ty mid token pdu \<longleftrightarrow> pdu_state api pdu = (ty, COAP_EMPTY_CODE, mid, token, [], [])"

abbreviation prepared_response :: "CoapMessageType \<Rightarrow> int \<Rightarrow> bytes \<Rightarrow> CoapResponse" where
  "prepared_response ty mid token \<equiv>
     \<lparr>rsp_pdu = \<lparr>msg_type = ty, msg_code = CoapMessageCode.Empty, msg_mid = Some mid, msg_options = [],
                 msg_token = Some token, msg_data = None\<rparr>,
      rsp_content_format = None, rsp_max_age = None, rsp_etag = None, rsp_echo = None, rsp_location = None, rsp_observe = None\<rparr>"

definition test_reply :: "CoapMessageType \<Rightarrow> int \<Rightarrow> bytes \<Rightarrow> CoapMessage" where
  "test_reply ty mid token =
     \<lparr>msg_type = ty, msg_code = Response CoapResponseCode.Content, msg_mid = Some mid, msg_options = [],
      msg_token = Some token, msg_data = Some hello_world\<rparr>"

lemma prepared_parsed:
  assumes "bindings_ok (env_bindings env)" and "prepared_pdu api (to_raw_pdu_type ty) mid token pdu"
  shows "parsed_response env api pdu = Ret (Inr (prepared_response ty mid token))"
proof -
  have "message_code_try_from (env_bindings env) COAP_EMPTY_CODE = Inr CoapMessageCode.Empty"
    using message_code_decided[OF assms(1)] by blast
  moreover have "message_type_from (env_bindings env) (to_raw_pdu_type ty) = Ret ty"
    using message_type_wire[OF assms(1)] by simp
  ultimately show ?thesis
    using assms(2)
    by (simp add: prepared_pdu_def pdu_state_def from_raw_pdu_def response_from_message_def rsp_vars_init_def
        response_location_def Let_def)
qed

abbreviation test_response :: "CoapMessageType \<Rightarrow> int \<Rightarrow> bytes \<Rightarrow> CoapResponse" where
  "test_response ty mid token \<equiv> (prepared_response ty mid token)\<lparr>rsp_pdu := test_reply ty mid token\<rparr>"

lemma test_response_message:
  "response_into_message B unused conv (test_response ty mid token) = Ret (test_reply ty mid token)"
  by (simp add: response_into_message_def add_opt_def Let_def)

lemma test_response_sendable: "sendable_response env (test_response ty mid token)"
  by (simp add: sendable_response_def wf_response_def test_reply_def rsp_own_options_def)

lemma test_handler_eq:
  "test_handler env api f completed s req (prepared_response ty mid token) =
     (case send (env_bindings env) api (test_reply ty mid token) s of
        (Inl e, s') \<Rightarrow> Panic
      | (Inr i, s') \<Rightarrow> Ret (f, True, s'))"
  using test_response_message[of _ _ _ ty mid token]
  by (simp add: test_handler_def response_set_code_def set_data_def set_code_def test_reply_def case_prod_beta Let_def
      split: sum.split)

section \<open>The handler of the resource\<close>

lemma test_handler_called:
  assumes "msg_code (req_pdu req) = Request CoapRequestCode.Get"
  shows "call_dynamic_handler env api (call_on_user_data (test_handler env api)) req (prepared_response ty mid token)
      (test_resource R wrapper f, s) =
    (case send (env_bindings env) api (test_reply ty mid token) s of
       (Inl e, s') \<Rightarrow> Panic
     | (Inr i, s') \<Rightarrow> Ret ((test_resource R wrapper f)\<lparr>user_data := True\<rparr>, s'))"
  using assms
  by (auto simp: call_dynamic_handler_def call_on_user_data_def test_handler_eq user_data_mut_def Let_def test_resource_def
      set_method_handler_def resource_new_def handler_new_def new_resource_ref_def from_raw_handler_def
      split: sum.split prod.split)

lemma test_handler_keeps:
  assumes "send_keeps A refs api"
  shows "closure_keeps A refs (call_on_user_data (test_handler env api))"
  using send_keeps_session[OF assms]
  by (auto simp: closure_keeps_def call_on_user_data_def test_handler_def Let_def run_map_eq_Ret run_bind_eq_Ret case_prod_beta)

section \<open>The test\<close>

text \<open>
  C3: the integration test. When the client's \<^verbatim>\<open>send_request\<close> returned a handle, the PDU it sent makes the C
  function of the test resource run the handler: it panics exactly if the response cannot be sent.
  Otherwise the request is marked as completed, every restored reference is given back, the response
  handler of the client accepts the PDU the server sent, and polling the handle returns exactly one
  response, for which the assertions of the test hold. libcoap is relied on for the option of the
  path, the response PDU with the token of the request and the documented PDU functions.
\<close>

theorem integration_test:
  assumes laws: "bindings_ok (env_bindings env)" "pdu_api_ok fits api" "alloc_ok api"
    and apis: "pdu_functions capi = api" "pdu_functions sapi = api"
    and req: "gen_test_request (env_split_uri env) = Ret req"
    and path: "uri_into_options (env_bindings env) (env_buf_unused env) (env_uri_into_options env) (req_uri req) = Ret [test_path]"
    and sent: "send_request env capi req cs = Ret (Inr h, cs')"
    and server: "raw_session_laws A refs" "server_inv A refs p c base w hs" "hs \<noteq> []" "0 < strong n" "send_keeps A refs sapi"
    and prepared: "prepared_pdu api (to_raw_pdu_type ty) mid (handle_token h) response_pdu"
  shows "\<exists>incoming raw w1. coap_send capi raw incoming = (handle_mid h, raw_session cs') \<and>
    coap_pdu_get_token api incoming = handle_token h \<and>
    server_from_raw A p w = Ret (\<lparr>srv_inner = c, ref_counted = True\<rparr>, w1) \<and>
    (let result = coap_method_handler_wrapper env split_proxy api sapi A proto (call_on_user_data (test_handler env sapi))
           p incoming response_pdu (test_resource R wrapper f, n, w)
     in case send (env_bindings env) sapi (test_reply ty mid (handle_token h)) (session_load c w1) of
          (Inl e, _) \<Rightarrow> result = Panic
        | (Inr i, s') \<Rightarrow>
            \<exists>w' q cs'' rsp. result = Ret (False, (test_resource R wrapper f)\<lparr>user_data := True\<rparr>, n, w') \<and>
              server_inv A refs p c base w' hs \<and>
              coap_send sapi (raw_session (session_load c w1)) q = (i, raw_session s') \<and>
              session_response_handler env api q cs' = Ret (COAP_RESPONSE_OK, cs'') \<and>
              fst (poll_handle h cs'') = Ret [rsp] \<and> test_assertions rsp)"
proof -
  let ?B = "env_bindings env" and ?tok = "handle_token h"
  let ?call = "call_on_user_data (test_handler env sapi)" and ?res = "test_resource R wrapper f"
  obtain mid' m incoming raw where out: "coap_send capi raw incoming = (handle_mid h, raw_session cs')"
    and m: "request_into_message (env_uri_bindings env) ?B (env_buf_unused env) (env_uri_into_options env)
       (req\<lparr>req_pdu := (req_pdu req)\<lparr>msg_token := Some ?tok, msg_mid := Some mid'\<rparr>\<rparr>) = Ret m"
    and msg: "from_raw_pdu ?B api incoming = Ret (Inr (received ?B m))"
    and parsed: "\<And>split splitp proto. run_try (from_raw_pdu ?B api incoming) (request_from_message split splitp proto) =
       run_try (run_map (map_err (\<lambda>e. InvalidOptionValue None (UriParsing e)))
                  (request_uri split splitp proto (request_vars (msg_options m))))
         (\<lambda>uri. Ret (Inr (req\<lparr>req_pdu := received ?B ((req_pdu req)\<lparr>msg_token := Some ?tok, msg_mid := Some mid'\<rparr>),
            req_uri := uri\<rparr>)))"
    by (rule request_parsed[OF laws apis(1) test_request_sendable[OF req path] sent]) (rule that)
  let ?req = "req\<lparr>req_pdu := received ?B ((req_pdu req)\<lparr>msg_token := Some ?tok, msg_mid := Some mid'\<rparr>)\<rparr>"
  obtain uri where get: "req = get_request uri" using gen_test_request_eq(1)[OF req] by blast
  have opts: "msg_options m = [test_path] \<and> msg_token m = Some ?tok"
    using m path gen_test_request_eq(3)[OF req]
    by (auto simp: get request_into_message_def run_bind_eq_Ret Let_def add_opt_def add_each_def add_all_def add_option_def message_new_def)
  have tok: "coap_pdu_get_token api incoming = ?tok"
    using from_raw_pdu_token[OF msg] opts by (simp add: received_def)
  have request: "parsed_request env split_proxy api (proto p) incoming = Ret (Inr ?req)"
    using test_request_uri[OF req, of split_proxy "proto p"] by (simp add: parsed opts)
  have code: "msg_code (req_pdu ?req) = Request CoapRequestCode.Get"
    by (simp add: get received_def message_new_def)
  note response = prepared_parsed[OF laws(1) prepared]
  obtain w1 where w1: "server_from_raw A p w = Ret (\<lparr>srv_inner = c, ref_counted = True\<rparr>, w1)"
    and handled: "case call_dynamic_handler env sapi ?call ?req (prepared_response ty mid ?tok) (?res, session_load c w1) of
        Panic \<Rightarrow> coap_method_handler_wrapper env split_proxy api sapi A proto ?call p incoming response_pdu (?res, n, w) = Panic
      | Ret (inner', s') \<Rightarrow> \<exists>w'. coap_method_handler_wrapper env split_proxy api sapi A proto ?call p incoming response_pdu (?res, n, w) =
            Ret (False, inner', n, w') \<and> server_inv A refs p c base w' hs \<and>
            app_data (inners w' c) = app_data s' \<and> received_responses (inners w' c) = received_responses s'"
    using request_handled[where proto = proto and inner = ?res, OF server(1-4) request response test_handler_keeps[OF server(5)] server(5)]
    by (auto simp: Let_def)
  have delivered: "\<exists>q cs'' rsp. coap_send sapi (raw_session s) q = (i, raw_session s') \<and>
      session_response_handler env api q cs' = Ret (COAP_RESPONSE_OK, cs'') \<and>
      fst (poll_handle h cs'') = Ret [rsp] \<and> test_assertions rsp"
    if "send ?B sapi (test_reply ty mid ?tok) s = (Inr i, s')" for s i s'
  proof -
    have "msg_token (rsp_pdu (test_response ty mid ?tok)) = Some ?tok" by (simp add: test_reply_def)
    from response_delivered[OF laws apis(2) test_response_sendable this test_response_message that send_request_waits[OF sent]]
    show ?thesis by (fastforce simp: test_assertions_def received_def test_reply_def ascii_def)
  qed
  show ?thesis
    using handled delivered[of "session_load c w1"]
    by (intro exI[of _ incoming] exI[of _ raw] exI[of _ w1] conjI out tok w1)
      (auto simp: test_handler_called[OF code] Let_def split: prod.splits sum.splits)
qed

section \<open>The test on concrete bindings\<close>

definition test_env :: uri_env where
  "test_env = sample_env\<lparr>env_uri_into_options := (\<lambda>raw n. (1, [\<lparr>opt_number = 11, opt_data = ascii ''test1''\<rparr>]))\<rparr>"

definition empty_pdu :: mem_pdu where
  "empty_pdu = \<lparr>p_type = COAP_MESSAGE_ACK, p_code = COAP_EMPTY_CODE, p_mid = 2, p_token = [1, 7], p_options = [], p_data = []\<rparr>"

lemma test_env_simps [simp]:
  "env_bindings test_env = iana" "env_uri_bindings test_env = libcoap_uri" "env_buf_unused test_env = False"
  "env_split_uri test_env = split_relative"
  by (simp_all add: test_env_def sample_env_def)

lemma test_env_path: "uri_into_options iana False (env_uri_into_options test_env) uri = Ret [test_path]"
proof -
  have "from_type_value iana 11 (ascii ''test1'') = Ret (Inr test_path)"
    using option_parse_encoded[OF bindings_ok_iana, of test_path "ascii ''test1''"]
    by (simp add: iana_num ascii_def utf8_valid_ascii_Cons into_value_bytes_def Let_def
        known_iana[of CoapOptionType.UriPath, unfolded iana_num, simplified])
  then show ?thesis by (simp add: uri_into_options_def test_env_def from_optlist_entry_def)
qed

lemma test_env_request: "\<exists>req. gen_test_request split_relative = Ret req"
  by (simp add: gen_test_request_def uri_from_str_def try_from_str_def ascii_def create_parsed_uri_def split_relative_def
      create_unparsed_uri_def request_new_def)

lemma test_env_sent:
  assumes "gen_test_request split_relative = Ret req"
  shows "\<exists>cs'. send_request test_env sample_session_api req sample_session =
     Ret (Inr \<lparr>handle_mid = 2, handle_token = [1, 7]\<rparr>, cs')"
proof -
  obtain uri where req: "req = get_request uri" using gen_test_request_eq(1)[OF assms] by blast
  have enc: "into_value_bytes iana test_path = Inr (ascii ''test1'')"
    by (simp add: into_value_bytes_def Let_def known_iana ascii_def)
  have "\<not> uri_is_proxy uri" using gen_test_request_eq(3)[OF assms] by (simp add: req)
  then show ?thesis
    by (simp add: req send_request_def request_token_def ensure_mid_def next_message_id_def sample_session_api_def
        sample_session_def session_inner_new_def message_new_def set_token_def set_mid_def Let_def request_into_message_def
        test_env_path add_all_def add_opt_def add_each_def add_option_def send_def into_raw_pdu_def mem_api_def apply_to_raw_pdu_def
        apply_options_def apply_data_def optlist_step_def into_optlist_entry_def enc)
qed

lemma test_env_reply: "\<exists>i s'. send iana idle_session_api (test_reply Ack 2 [1, 7]) s = (Inr i, s')"
  by (simp add: send_def into_raw_pdu_def test_reply_def idle_session_api_def mem_api_def apply_to_raw_pdu_def
      apply_options_def apply_data_def)

theorem integration_test_witness:
  "\<exists>req cs' incoming (w :: (coap_session_type_t \<times> nat \<times> nat, unit, unit) heap) w' q cs'' rsp.
     gen_test_request split_relative = Ret req \<and>
     send_request test_env sample_session_api req sample_session = Ret (Inr \<lparr>handle_mid = 2, handle_token = [1, 7]\<rparr>, cs') \<and>
     coap_method_handler_wrapper test_env split_relative mem_api idle_session_api sample_raw_api (\<lambda>_. Udp)
       (call_on_user_data (test_handler test_env idle_session_api)) 5 incoming empty_pdu
       (test_resource sample_resource_api 7 (), \<lparr>strong = 1, weak = 1\<rparr>, w) =
       Ret (False, (test_resource sample_resource_api 7 ())\<lparr>user_data := True\<rparr>, \<lparr>strong = 1, weak = 1\<rparr>, w') \<and>
     session_response_handler test_env mem_api q cs' = Ret (COAP_RESPONSE_OK, cs'') \<and>
     fst (poll_handle \<lparr>handle_mid = 2, handle_token = [1, 7]\<rparr> cs'') = Ret [rsp] \<and> test_assertions rsp"
proof -
  obtain h w where init: "server_initialize_raw sample_raw_api 5 sample_heap = Ret (h, w)"
    by (simp add: initialize_raw_eq server_type_def sample_raw_api_def sample_heap_def)
  have inv: "server_inv sample_raw_api sample_refs 5 1 1 w [h]"
    using server_inv_init[OF sample_raw_laws _ init] by (simp add: sample_heap_def sample_refs_def)
  obtain req where req: "gen_test_request split_relative = Ret req" using test_env_request by blast
  obtain cs' where sent: "send_request test_env sample_session_api req sample_session =
      Ret (Inr \<lparr>handle_mid = 2, handle_token = [1, 7]\<rparr>, cs')" using test_env_sent[OF req] by blast
  have keeps: "send_keeps sample_raw_api sample_refs idle_session_api"
    by (auto simp: send_keeps_def keeps_session_def idle_session_api_def)
  have prepared: "prepared_pdu mem_api (to_raw_pdu_type Ack) 2
      (handle_token \<lparr>handle_mid = 2, handle_token = [1, 7]\<rparr>) empty_pdu"
    by (simp add: prepared_pdu_def pdu_state_def mem_api_def empty_pdu_def)
  have apis: "pdu_functions sample_session_api = mem_api" "pdu_functions idle_session_api = mem_api"
    by (simp_all add: sample_session_api_def idle_session_api_def)
  let ?n = "\<lparr>strong = 1, weak = 1\<rparr>"
  have ne: "[h] \<noteq> []" "0 < strong ?n" by simp_all
  note test = integration_test[where env = test_env and fits = "\<lambda>d. True" and n = ?n and proto = "\<lambda>_. Udp" and
      split_proxy = split_relative and R = sample_resource_api and wrapper = 7 and f = "()",
      OF _ mem_api_ok apis _ _ sent sample_raw_laws inv ne keeps prepared]
  from test[unfolded test_env_simps Let_def CoapRequestHandle.select_convs, OF bindings_ok_iana req test_env_path]
  show ?thesis
  proof (elim exE conjE, goal_cases)
    case (1 incoming raw w1)
    obtain i s' where reply: "send iana idle_session_api (test_reply Ack 2 [1, 7]) (session_load 1 w1) = (Inr i, s')"
      using test_env_reply by blast
    from 1(4) req sent show ?case unfolding reply prod.case sum.case by blast
  qed
qed

end
