(* ===== verification/Request_Uri.thy ===== *)
theory Request_Uri
  imports Request Uri_Text
begin

text \<open>
  The URI of a request on its way from client to server. The client turns it into Uri-Host, Uri-Port,
  Uri-Path and Uri-Query options (\<^verbatim>\<open>into_options\<close>), the server joins their values to a text again
  (\<^verbatim>\<open>construct_path_string\<close>, \<^verbatim>\<open>construct_query_string\<close>, \<^verbatim>\<open>construct_uri_string_from_parts\<close>) and parses it
  (\<^verbatim>\<open>CoapUri::new\<close>). The parser of libcoap is a parameter; what is relied on of it is that it finds the
  components of a text written by the URI syntax. The theory shows that the server gets an equal URI.
\<close>

section \<open>Texts of URIs\<close>

text \<open>The names and default ports of the schemes that belong to a protocol (RFC 7252 and RFC 8323).\<close>

fun scheme_name :: "CoapUriScheme \<Rightarrow> bytes" where
  "scheme_name Coaps = ascii ''coaps''"
| "scheme_name CoapTcp = ascii ''coap+tcp''"
| "scheme_name CoapsTcp = ascii ''coaps+tcp''"
| "scheme_name _ = ascii ''coap''"

fun default_port :: "CoapUriScheme \<Rightarrow> u16" where
  "default_port Coaps = 5684"
| "default_port CoapsTcp = 5684"
| "default_port _ = 5683"

definition digits :: "bytes \<Rightarrow> bool" where
  "digits ds \<longleftrightarrow> (\<forall>d \<in> set ds. 48 \<le> d \<and> d \<le> 57)"

definition dec_value :: "bytes \<Rightarrow> nat" where
  "dec_value ds = foldl (\<lambda>n d. 10 * n + (unat d - 48)) 0 ds"

text \<open>The characters of host, path and query: none that separates components, and no percent encoding.\<close>

definition host_chars :: "bytes \<Rightarrow> bool" where
  "host_chars s \<longleftrightarrow> set s \<inter> ({0} \<union> set (ascii '':/?#[]@%'')) = {}"

definition path_chars :: "bytes \<Rightarrow> bool" where
  "path_chars s \<longleftrightarrow> set s \<inter> ({0} \<union> set (ascii ''?#%'')) = {} \<and> (s = [] \<or> hd s \<noteq> of_char CHR ''/'')"

definition query_chars :: "bytes \<Rightarrow> bool" where
  "query_chars s \<longleftrightarrow> set s \<inter> ({0} \<union> set (ascii ''#%'')) = {}"

definition path_query :: "bytes \<Rightarrow> bytes \<Rightarrow> bytes" where
  "path_query path query = ascii ''/'' @ path @ (if query = [] then [] else ascii ''?'' @ query)"

definition absolute_text :: "CoapUriScheme \<Rightarrow> bytes \<Rightarrow> bytes \<Rightarrow> bytes \<Rightarrow> bytes \<Rightarrow> bytes" where
  "absolute_text sch host ds path query =
     scheme_name sch @ ascii ''://'' @ host @ (if ds = [] then [] else ascii '':'' @ ds) @ path_query path query"

section \<open>What libcoap documents of its parser\<close>

text \<open>
  The parser accepts a text and finds these components in it, inside the text; a component that is
  not there is empty, and a port that is not there is the default port of the scheme.
\<close>

definition split_finds :: "split_fn \<Rightarrow> bytes \<Rightarrow> coap_uri_t \<Rightarrow> CoapUriScheme \<Rightarrow> bytes \<Rightarrow> u16 \<Rightarrow> bytes \<Rightarrow> bytes \<Rightarrow> bool" where
  "split_finds split t raw sch host port path query \<longleftrightarrow>
     (case split (At (with_nul t) 0) (length t) raw of (r, raw') \<Rightarrow>
        0 \<le> r \<and> raw_wf t raw' \<and> raw_scheme raw' = scheme_const sch \<and> read_slice (raw_host raw') = host \<and>
        raw_port raw' = port \<and> read_slice (raw_path raw') = path \<and> read_slice (raw_query raw') = query)"

definition split_documented :: "CoapUriScheme \<Rightarrow> split_fn \<Rightarrow> bool" where
  "split_documented sch split \<longleftrightarrow>
     (\<forall>host ds path query raw. host_chars host \<and> digits ds \<and> dec_value ds < 2 ^ 16 \<and> path_chars path \<and> query_chars query \<longrightarrow>
        (host \<noteq> [] \<longrightarrow> split_finds split (absolute_text sch host ds path query) raw sch host
           (if ds = [] then default_port sch else word_of_nat (dec_value ds)) path query) \<and>
        split_finds split (path_query path query) raw Coap [] (default_port Coap) path query)"

text \<open>
  The options libcoap makes of a URI: the host if there is one, the port if it is not the default one,
  and the segments of path and query.
\<close>

definition uri_options :: "CoapUriScheme \<Rightarrow> CoapUri \<Rightarrow> CoapOption list" where
  "uri_options sch u =
     (let host = read_slice (raw_host (raw_uri u)); port = raw_port (raw_uri u);
          path = read_slice (raw_path (raw_uri u)); query = read_slice (raw_query (raw_uri u))
      in (if host = [] then [] else [CoapOption.UriHost host]) @
         (if host = [] \<or> port = default_port sch then [] else [CoapOption.UriPort port]) @
         (if path = [] then [] else map CoapOption.UriPath (segments (is_byte (CHR ''/'')) path)) @
         (if query = [] then [] else map CoapOption.UriQuery (segments (is_byte (CHR ''&'')) query)))"

text \<open>A URI for a session with this scheme, or a relative one.\<close>

definition plain_uri :: "CoapUriScheme \<Rightarrow> CoapUri \<Rightarrow> bool" where
  "plain_uri sch u \<longleftrightarrow>
     host_chars (read_slice (raw_host (raw_uri u))) \<and> path_chars (read_slice (raw_path (raw_uri u))) \<and>
     query_chars (read_slice (raw_query (raw_uri u))) \<and> raw_port (raw_uri u) \<noteq> 0 \<and>
     (if read_slice (raw_host (raw_uri u)) = []
      then raw_scheme (raw_uri u) = scheme_const Coap \<and> raw_port (raw_uri u) = default_port Coap
      else raw_scheme (raw_uri u) = scheme_const sch)"

section \<open>Joining what was split\<close>

lemma segments_Cons_ne: "segments sep v \<noteq> []"
  by (induction v) (auto split: list.split)

lemma join_segments:
  assumes "\<And>c. sep c \<longleftrightarrow> c = b"
  shows "concat (map (\<lambda>s. b # s) (segments sep v)) = b # v"
proof (induction v)
  case (Cons c v)
  obtain s ss where "segments sep v = s # ss" using segments_Cons_ne by (metis list.exhaust)
  moreover from this Cons have "s @ concat (map (\<lambda>s. b # s) ss) = v" by simp
  ultimately show ?case using assms[of c] by (cases "c = b") simp_all
qed simp

lemma construct_path_segments: "construct_path_string (segments (is_byte (CHR ''/'')) v) = ascii ''/'' @ v"
  using join_segments[of "is_byte (CHR ''/'')" "of_char CHR ''/''" v]
  by (simp add: construct_path_string_eq is_byte_def ascii_def)

lemma construct_query_segments: "construct_query_string (segments (is_byte (CHR ''&'')) v) = ascii ''?'' @ v"
proof -
  obtain s ss where "segments (is_byte (CHR ''&'')) v = s # ss" using segments_Cons_ne by (metis list.exhaust)
  moreover from this join_segments[of "is_byte (CHR ''&'')" "of_char CHR ''&''" v]
  have "s @ concat (map (\<lambda>s. of_char CHR ''&'' # s) ss) = v" by (simp add: is_byte_def)
  moreover have "(@) [b] = (#) b" for b :: u8 by auto
  ultimately show ?thesis by (simp add: construct_query_string_eq ascii_def)
qed

lemma digit_byte: "n < 10 \<Longrightarrow> unat (word_of_nat (48 + n) :: u8) = 48 + n"
  by (simp add: unsigned_of_nat take_bit_nat_eq_self_iff del: of_nat_add)

lemma dec_string_value: "dec_value (dec_string n) = n \<and> digits (dec_string n)"
proof (induction n rule: dec_string.induct)
  case (1 n)
  have digit: "48 \<le> (word_of_nat (48 + m) :: u8) \<and> (word_of_nat (48 + m) :: u8) \<le> 57" if "m < 10" for m
    using digit_byte[OF that] that by (simp add: word_le_nat_alt del: of_nat_add)
  show ?case
  proof (cases "n < 10")
    case True
    with digit[of n] digit_byte[of n] show ?thesis
      by (subst (1 2) dec_string.simps) (simp add: dec_value_def digits_def del: of_nat_add)
  next
    case False
    with 1 digit[of "n mod 10"] digit_byte[of "n mod 10"] show ?thesis
      by (subst (1 2) dec_string.simps) (auto simp: dec_value_def digits_def simp del: of_nat_add)
  qed
qed

lemma dec_string_ne: "dec_string n \<noteq> []"
  by (subst dec_string.simps) simp

section \<open>The URI at the server\<close>

text \<open>The text the server builds from the parts.\<close>

lemma rebuilt_text:
  "uri_text (scheme_from_protocol proto) host port (ascii ''/'' @ path) (if query = [] then [] else ascii ''?'' @ query) =
     (if host = [] then port_suffix port @ path_query path query
      else absolute_text (scheme_from_protocol proto) host (if port = 0 then [] else dec_string (unat port)) path query)"
  by (cases proto)
    (simp_all add: uri_text_def uri_prefix_def port_suffix_def absolute_text_def path_query_def dec_string_ne ascii_def)

lemma text_no_nul:
  "path_chars path \<Longrightarrow> query_chars query \<Longrightarrow> 0 \<notin> set (path_query path query)"
  "host_chars host \<Longrightarrow> digits ds \<Longrightarrow> path_chars path \<Longrightarrow> query_chars query \<Longrightarrow> 0 \<notin> set (absolute_text sch host ds path query)"
proof -
  have "0 \<notin> set ds" if "digits ds" for ds using that by (auto simp: digits_def)
  moreover have "0 \<notin> set (scheme_name sch)" by (cases sch) (simp_all add: ascii_def)
  ultimately show "path_chars path \<Longrightarrow> query_chars query \<Longrightarrow> 0 \<notin> set (path_query path query)"
    "host_chars host \<Longrightarrow> digits ds \<Longrightarrow> path_chars path \<Longrightarrow> query_chars query \<Longrightarrow> 0 \<notin> set (absolute_text sch host ds path query)"
    by (auto simp: path_query_def absolute_text_def path_chars_def query_chars_def host_chars_def ascii_def)
qed

lemma parsed_uri_finds:
  assumes "0 \<notin> set t" and "\<And>raw. split_finds split t raw sch host port path query"
  shows "\<exists>u. create_parsed_uri t split False = Inr u \<and> uri_wf u \<and> raw_scheme (raw_uri u) = scheme_const sch \<and>
    read_slice (raw_host (raw_uri u)) = host \<and> raw_port (raw_uri u) = port \<and>
    read_slice (raw_path (raw_uri u)) = path \<and> read_slice (raw_query (raw_uri u)) = query"
  using assms(1) assms(2)[of "raw_uri (create_unparsed_uri t False)"]
  by (auto simp: split_finds_def create_parsed_uri_def create_unparsed_uri_def uri_wf_def split: prod.splits)

lemma uri_options_occ:
  defines "p u \<equiv> read_slice (raw_path (raw_uri u))" and "q u \<equiv> read_slice (raw_query (raw_uri u))"
    and "h u \<equiv> read_slice (raw_host (raw_uri u))"
  shows "occ sel_host (uri_options sch u) = (if h u = [] then [] else [h u])"
    "occ sel_port (uri_options sch u) = (if h u = [] \<or> raw_port (raw_uri u) = default_port sch then [] else [raw_port (raw_uri u)])"
    "occ sel_path (uri_options sch u) = (if p u = [] then [] else segments (is_byte (CHR ''/'')) (p u))"
    "occ sel_query (uri_options sch u) = (if q u = [] then [] else segments (is_byte (CHR ''&'')) (q u))"
    "uri_options_ok (uri_options sch u)"
  by (auto simp: uri_options_def uri_options_ok_def p_def q_def h_def Let_def sel_defs occ_map)

text \<open>The URI built from the options of a URI equals it.\<close>

lemma request_uri_rebuilt:
  assumes "uri_wf u" and plain: "plain_uri (scheme_from_protocol proto) u"
    and split: "split_documented (scheme_from_protocol proto) split"
    and opts: "occ sel_host opts = occ sel_host (uri_options (scheme_from_protocol proto) u)"
      "occ sel_port opts = occ sel_port (uri_options (scheme_from_protocol proto) u)"
      "occ sel_path opts = occ sel_path (uri_options (scheme_from_protocol proto) u)"
      "occ sel_query opts = occ sel_query (uri_options (scheme_from_protocol proto) u)"
      "occ sel_proxy_uri opts = []" "occ sel_proxy_scheme opts = []"
  shows "\<exists>u'. request_uri split splitp proto (request_vars opts) = Ret (Inr u') \<and> uri_wf u' \<and> uri_eq u u'"
proof -
  define sch where "sch = scheme_from_protocol proto"
  define host where "host = read_slice (raw_host (raw_uri u))"
  define path where "path = read_slice (raw_path (raw_uri u))"
  define query where "query = read_slice (raw_query (raw_uri u))"
  define port where "port = (if host = [] \<or> raw_port (raw_uri u) = default_port sch then 0 else raw_port (raw_uri u))"
  let ?t = "uri_text sch host port (ascii ''/'' @ path) (if query = [] then [] else ascii ''?'' @ query)"
  have chars: "host_chars host" "path_chars path" "query_chars query" and "raw_port (raw_uri u) \<noteq> 0"
    using plain by (simp_all add: plain_uri_def host_def path_def query_def)
  have t: "?t = (if host = [] then path_query path query
      else absolute_text sch host (if port = 0 then [] else dec_string (unat port)) path query)"
    using rebuilt_text[of proto host port path query] by (auto simp: sch_def port_def port_suffix_def)
  have ds: "digits (dec_string (unat port))" "dec_value (dec_string (unat port)) = unat port" "unat port < 2 ^ 16"
    using dec_string_value[of "unat port"] unsigned_less[of port] by simp_all
  have nul: "0 \<notin> set ?t"
    unfolding t using text_no_nul(1)[OF chars(2,3)] text_no_nul(2)[OF chars(1) _ chars(2,3)] ds(1)
    by (auto simp: digits_def)
  have "split_finds split ?t raw (if host = [] then Coap else sch) host (raw_port (raw_uri u)) path query" for raw
  proof (cases "host = []")
    case True
    then have "raw_port (raw_uri u) = default_port Coap" using plain by (simp add: plain_uri_def host_def)
    moreover have "digits []" "dec_value [] < 2 ^ 16" by (simp_all add: digits_def dec_value_def)
    then have "split_finds split (path_query path query) raw Coap [] (default_port Coap) path query"
      using split chars unfolding split_documented_def by blast
    ultimately show ?thesis using True t by simp
  next
    case False
    let ?ds = "if port = 0 then [] else dec_string (unat port)"
    have "digits ?ds" "dec_value ?ds < 2 ^ 16" using ds by (simp_all add: digits_def dec_value_def)
    then have "split_finds split (absolute_text sch host ?ds path query) raw sch host
        (if ?ds = [] then default_port sch else word_of_nat (dec_value ?ds)) path query"
      using split chars False unfolding split_documented_def sch_def by blast
    moreover have "(if ?ds = [] then default_port sch else word_of_nat (dec_value ?ds)) = raw_port (raw_uri u)"
      using False ds(2) \<open>raw_port (raw_uri u) \<noteq> 0\<close> by (auto simp: port_def dec_string_ne)
    ultimately show ?thesis using False t by simp
  qed
  from parsed_uri_finds[OF nul this] obtain u' where u': "create_parsed_uri ?t split False = Inr u'" "uri_wf u'"
    "raw_scheme (raw_uri u') = raw_scheme (raw_uri u)" "raw_port (raw_uri u') = raw_port (raw_uri u)"
    "read_slice (raw_host (raw_uri u')) = host" "read_slice (raw_path (raw_uri u')) = path" "read_slice (raw_query (raw_uri u')) = query"
    using plain by (auto simp: plain_uri_def host_def sch_def split: if_splits)
  have "uri_eq u u'" using u' assms(1) by (simp add: uri_eq_iff host_def path_def query_def)
  moreover have "request_uri split splitp proto (request_vars opts) = Ret (res_try (cstring_new ?t) (\<lambda>s. create_parsed_uri s split False))"
    using opts uri_options_occ[of sch u]
    by (simp add: request_uri_def request_vars_def many_def segments_Cons_ne construct_path_segments construct_query_segments
        uri_new_def new_from_parts_eq port_def host_def path_def query_def sch_def)
  ultimately show ?thesis using u'(1,2) nul by auto
qed

text \<open>
  C30: the URI of a request. When a request is converted into a message and libcoap makes the documented
  options of its URI, and the server parses the message in a session of the protocol that belongs to
  the scheme of the URI (a relative URI: of any protocol), then parsing succeeds, the URI it finds
  compares equal to the URI of the request, and everything else is as in the request. The URI is not
  that of a proxy, has no percent-encoded characters, and its path does not begin with an empty
  segment; the request has no options of its own but unknown ones, and no empty list of ETags or
  If-Match values.
\<close>

theorem request_uri_recovered:
  assumes "wf_request r" and "request_into_message U B unused conv r = Ret m"
    and "uri_into_options B unused conv (req_uri r) = Ret (uri_options (scheme_from_protocol proto) (req_uri r))"
    and "\<not> uri_is_proxy (req_uri r)" and "uri_wf (req_uri r)" and "plain_uri (scheme_from_protocol proto) (req_uri r)"
    and "split_documented (scheme_from_protocol proto) split"
  shows "\<exists>u. request_from_message split splitp proto m = Ret (Inr (r\<lparr>req_uri := u\<rparr>)) \<and>
    uri_wf u \<and> uri_eq (req_uri r) u"
proof -
  let ?opts = "uri_options (scheme_from_protocol proto) (req_uri r)"
  obtain ps opts where "uri_into_options B unused conv (req_uri r) = Ret opts"
    and m: "msg_options m = msg_options (req_pdu r) @ ps @ opts @ own_options r"
    and "ps = [] \<and> \<not> uri_is_proxy (req_uri r) \<or>
      uri_is_proxy (req_uri r) \<and> (\<exists>sch. ps = [CoapOption.ProxyScheme (scheme_fmt sch)] \<and> uri_scheme U (req_uri r) = Ret (Some sch))"
    by (rule request_into_message_options[OF assms(2)])
  with assms(3,4) have m: "msg_options m = msg_options (req_pdu r) @ ?opts @ own_options r" by auto
  have base: "\<forall>opt \<in> set (msg_options (req_pdu r)). \<exists>n v. opt = CoapOption.Other n v"
    using assms(1) by (simp add: wf_request_def)
  have uri: "\<forall>opt \<in> set ?opts. uri_option opt" using uri_options_occ(5) by (simp add: uri_options_ok_def)
  obtain u where u: "request_uri split splitp proto (request_vars (msg_options m)) = Ret (Inr u)" "uri_wf u" "uri_eq (req_uri r) u"
    using request_uri_rebuilt[OF assms(5-7), of "msg_options m" splitp]
    by (auto simp: m occ_base_options[OF base] occ_own_options occ_uri_options[OF uri])
  have "uri_options_ok opts" if "uri_into_options B unused conv (req_uri r) = Ret opts" for opts
    using that assms(3) uri_options_occ(5) by auto
  from request_reparse[OF assms(1,2) this] u show ?thesis by auto
qed

section \<open>A parser\<close>

text \<open>A parser for these texts, to show that the hypothesis on libcoap's can hold.\<close>

definition text_at :: "cptr \<Rightarrow> nat \<Rightarrow> nat \<Rightarrow> coap_str_const_t" where
  "text_at p pos n = \<lparr>str_length = n, str_s = (case p of NullPtr \<Rightarrow> NullPtr | At buf off \<Rightarrow> At buf (off + pos))\<rparr>"

definition split_text :: split_fn where
  "split_text p len raw =
     (let t = read_slice \<lparr>str_length = len, str_s = p\<rparr>;
          name = takeWhile (\<lambda>c. c \<notin> set (ascii '':/'')) t;
          start = (if name = [] then 0 else length name + 3);
          host = (if name = [] then [] else takeWhile (\<lambda>c. c \<notin> set (ascii '':/'')) (drop start t));
          port = takeWhile (\<lambda>c. c \<noteq> of_char CHR ''/'') (drop (start + length host) t);
          pos = start + length host + length port + 1;
          path = takeWhile (\<lambda>c. c \<noteq> of_char CHR ''?'') (drop pos t);
          query = drop (pos + length path + 1) t;
          sch = (if name = [] then Inr Coap else scheme_from_str name)
      in case sch of
           Inl _ \<Rightarrow> (- 1, raw)
         | Inr sch \<Rightarrow>
             (0, \<lparr>raw_host = text_at p start (length host),
                  raw_port = (if port = [] then default_port sch else word_of_nat (dec_value (tl port))),
                  raw_path = text_at p pos (length path), raw_query = text_at p (min len (pos + length path + 1)) (length query),
                  raw_scheme = scheme_const sch\<rparr>))"

lemma takeWhile_until: "\<forall>x \<in> set xs. P x \<Longrightarrow> \<not> P y \<Longrightarrow> takeWhile P (xs @ y # ys) = xs"
  by (simp add: takeWhile_append2)

lemma read_text_at: "read_slice (text_at (At (with_nul t) 0) pos n) = take n (drop pos (with_nul t))"
  by (simp add: read_slice_def text_at_def)

lemma scheme_name_chars: "scheme_name sch \<noteq> []" "set (scheme_name sch) \<inter> set (ascii '':/'') = {}"
  by (cases sch; simp add: ascii_def)+

text \<open>How the parser cuts a text into its parts.\<close>

lemma split_text_parts:
  assumes t: "t = name_part @ host @ port @ path_query path query"
    and name: "name_part = [] \<and> host = [] \<and> port = [] \<and> nm = [] \<or> name_part = nm @ ascii ''://'' \<and> nm = scheme_name sch"
    and chars: "host_chars host" "path_chars path"
    and port: "port = [] \<or> (\<exists>ds. port = ascii '':'' @ ds \<and> digits ds)"
  shows "takeWhile (\<lambda>c. c \<notin> set (ascii '':/'')) t = nm"
    and "nm \<noteq> [] \<Longrightarrow> takeWhile (\<lambda>c. c \<notin> set (ascii '':/'')) (drop (length nm + 3) t) = host"
    and "takeWhile (\<lambda>c. c \<noteq> of_char CHR ''/'') (drop (length name_part + length host) t) = port"
    and "takeWhile (\<lambda>c. c \<noteq> of_char CHR ''?'') (drop (length name_part + length host + length port + 1) t) = path"
    and "drop (length name_part + length host + length port + 1 + length path + 1) t = query"
proof -
  have digit: "of_char CHR ''/'' \<notin> set ds" if "digits ds" for ds :: bytes using that by (force simp: digits_def)
  have slash: "of_char CHR ''/'' \<notin> set port" using port digit by (auto simp: ascii_def)
  let ?rest = "path @ (if query = [] then [] else ascii ''?'' @ query)"
  have pq: "path_query path query = of_char CHR ''/'' # ?rest" by (simp add: path_query_def ascii_def)
  show "takeWhile (\<lambda>c. c \<noteq> of_char CHR ''/'') (drop (length name_part + length host) t) = port"
    unfolding t pq using slash by (auto intro!: takeWhile_until)
  show "takeWhile (\<lambda>c. c \<noteq> of_char CHR ''?'') (drop (length name_part + length host + length port + 1) t) = path"
    unfolding t pq using chars(2) by (auto simp: path_chars_def ascii_def takeWhile_eq_all_conv intro!: takeWhile_until)
  show "drop (length name_part + length host + length port + 1 + length path + 1) t = query"
    unfolding t pq by (simp add: ascii_def)
  show "takeWhile (\<lambda>c. c \<notin> set (ascii '':/'')) t = nm"
    using name scheme_name_chars(2)[of sch] unfolding t pq by (auto simp: ascii_def intro!: takeWhile_until)
  assume "nm \<noteq> []"
  with name have "drop (length nm + 3) t = host @ port @ of_char CHR ''/'' # ?rest" unfolding t pq by (auto simp: ascii_def)
  moreover have "\<forall>c \<in> set host. c \<notin> set (ascii '':/'')" using chars(1) by (auto simp: host_chars_def ascii_def)
  ultimately show "takeWhile (\<lambda>c. c \<notin> set (ascii '':/'')) (drop (length nm + 3) t) = host"
    using port by (auto simp: takeWhile_append2 ascii_def)
qed

lemma split_text_finds:
  assumes t: "t = name_part @ host @ port @ path_query path query"
    and name: "name_part = [] \<and> host = [] \<and> port = [] \<and> nm = [] \<and> sch = Coap \<or>
      name_part = nm @ ascii ''://'' \<and> nm = scheme_name sch \<and> scheme_from_str nm = Inr sch"
    and chars: "host_chars host" "path_chars path"
    and port: "port = [] \<or> (\<exists>ds. port = ascii '':'' @ ds \<and> digits ds)"
  shows "split_finds split_text t raw sch host
    (if port = [] then default_port sch else word_of_nat (dec_value (tl port))) path query"
proof -
  have nm: "name_part = [] \<and> host = [] \<and> port = [] \<and> nm = [] \<or> name_part = nm @ ascii ''://'' \<and> nm = scheme_name sch"
    using name by blast
  note parts = split_text_parts[OF t nm chars port]
  have start: "(if nm = [] then 0 else length nm + 3) = length name_part"
    using name scheme_name_chars(1)[of sch] by (auto simp: ascii_def)
  have host: "(if nm = [] then [] else takeWhile (\<lambda>c. c \<notin> set (ascii '':/'')) (drop (length name_part) t)) = host"
    and sch: "(if nm = [] then Inr Coap else scheme_from_str nm) = Inr sch"
    using name scheme_name_chars(1)[of sch] parts(2) start by (auto simp: eval_nat_numeral)
  let ?pos = "length name_part + length host + length port + 1"
  have "read_slice \<lparr>str_length = length t, str_s = At (with_nul t) 0\<rparr> = t"
    by (simp add: read_slice_def with_nul_def)
  then have split: "split_text (At (with_nul t) 0) (length t) raw =
      (0, \<lparr>raw_host = text_at (At (with_nul t) 0) (length name_part) (length host),
           raw_port = (if port = [] then default_port sch else word_of_nat (dec_value (tl port))),
           raw_path = text_at (At (with_nul t) 0) ?pos (length path),
           raw_query = text_at (At (with_nul t) 0) (min (length t) (?pos + length path + 1)) (length query),
           raw_scheme = scheme_const sch\<rparr>)"
    unfolding split_text_def Let_def by (simp only: parts(1,3,4,5) start host sch sum.case)
  have len: "length t = length name_part + length host + length port + 1 + length path + (if query = [] then 0 else 1 + length query)"
    by (simp add: t path_query_def ascii_def)
  have "str_in t (text_at (At (with_nul t) 0) (length name_part) (length host))"
      "str_in t (text_at (At (with_nul t) 0) ?pos (length path))"
      "str_in t (text_at (At (with_nul t) 0) (min (length t) (?pos + length path + 1)) (length query))"
    using len by (auto simp: str_in_def text_at_def)
  moreover have "take (length host) (drop (length name_part) (with_nul t)) = host"
      "take (length path) (drop ?pos (with_nul t)) = path"
      "take (length query) (drop (min (length t) (?pos + length path + 1)) (with_nul t)) = query"
    using len by (auto simp: t with_nul_def path_query_def ascii_def min_def)
  ultimately show ?thesis unfolding split_finds_def split by (simp add: raw_wf_def read_text_at)
qed

lemma split_documented_text:
  assumes "scheme_from_str (scheme_name sch) = Inr sch"
  shows "split_documented sch split_text"
  unfolding split_documented_def
proof (intro allI impI conjI)
  fix host ds path query :: bytes and raw
  assume "host_chars host \<and> digits ds \<and> dec_value ds < 2 ^ 16 \<and> path_chars path \<and> query_chars query"
  then have chars: "host_chars host" "digits ds" "path_chars path" by simp_all
  show "split_finds split_text (path_query path query) raw Coap [] (default_port Coap) path query"
    using split_text_finds[of "path_query path query" "[]" "[]" "[]" path query "[]" Coap raw] chars
    by (simp add: host_chars_def)
  show "split_finds split_text (absolute_text sch host ds path query) raw sch host
      (if ds = [] then default_port sch else word_of_nat (dec_value ds)) path query"
    using split_text_finds[of "absolute_text sch host ds path query" "scheme_name sch @ ascii ''://''" host
        "if ds = [] then [] else ascii '':'' @ ds" path query "scheme_name sch" sch raw] chars assms
    by (auto simp: absolute_text_def ascii_def split: if_splits)
qed

text \<open>A request for \<^verbatim>\<open>coap://h/a?b\<close>.\<close>

definition text_request :: CoapRequest where
  "text_request = sample_request\<lparr>req_uri := text_uri\<rparr>"

definition text_conv :: "coap_uri_t \<Rightarrow> nat \<Rightarrow> int \<times> optlist_entry list" where
  "text_conv raw n = (1, [\<lparr>opt_number = 3, opt_data = [104]\<rparr>, \<lparr>opt_number = 11, opt_data = [97]\<rparr>, \<lparr>opt_number = 15, opt_data = [98]\<rparr>])"

lemma text_uri_parts:
  "read_slice (raw_host (raw_uri text_uri)) = [104]" "read_slice (raw_path (raw_uri text_uri)) = [97]"
  "read_slice (raw_query (raw_uri text_uri)) = [98]" "raw_port (raw_uri text_uri) = 5683"
  "raw_scheme (raw_uri text_uri) = COAP_URI_SCHEME_COAP" "\<not> uri_is_proxy text_uri"
  by (simp_all add: text_uri_def Let_def read_slice_def with_nul_def ascii_def)

lemma text_options: "uri_into_options iana False text_conv text_uri = Ret (uri_options Coap text_uri)"
proof -
  have "from_type_value iana 15 [98] = Ret (Inr (CoapOption.UriQuery [98]))"
    using option_parse_encoded[OF bindings_ok_iana, of "CoapOption.UriQuery [98]" "[98]"]
    by (simp add: iana_num utf8_valid_ascii_Cons into_value_bytes_def Let_def
        known_iana[of CoapOptionType.UriQuery, unfolded iana_num, simplified])
  with sample_options_parse show ?thesis
    by (simp add: uri_into_options_def text_conv_def from_optlist_entry_def uri_options_def text_uri_parts is_byte_def)
qed

theorem request_uri_recovered_witness:
  "\<exists>m u. request_into_message libcoap_uri iana False text_conv text_request = Ret m \<and>
     request_from_message split_text split_text Udp m = Ret (Inr (text_request\<lparr>req_uri := u\<rparr>)) \<and>
     uri_eq text_uri u"
proof -
  have uri: "req_uri text_request = text_uri" by (simp add: text_request_def)
  have wf: "wf_request text_request" by (simp add: wf_request_def text_request_def sample_request_def message_new_def)
  obtain m where m: "request_into_message libcoap_uri iana False text_conv text_request = Ret m"
    by (simp add: request_into_message_def uri text_options text_uri_parts Let_def)
  have "plain_uri Coap text_uri"
    by (simp add: plain_uri_def text_uri_parts host_chars_def path_chars_def query_chars_def ascii_def)
  moreover have "split_documented Coap split_text" by (rule split_documented_text) (simp add: scheme_from_str_def)
  ultimately show ?thesis
    using request_uri_recovered[OF wf m, of Udp split_text split_text] text_options text_uri_parts(6) text_uri_wf m
    by (auto simp: uri)
qed

end
