(* ===== verification/Message_Fields.thy ===== *)
theory Message_Fields
  imports Response
begin

text \<open>
  The getters of messages, requests and responses (\<^verbatim>\<open>message/*.rs\<close>), and the contract of a field with
  its setter. The setters of messages reach requests and responses through \<^verbatim>\<open>as_message_mut\<close>. The
  theory shows what any sequence of setters makes of a request, and that the location of a response is
  not such a field.
\<close>

section \<open>Getters\<close>

definition options_iter :: "CoapMessage \<Rightarrow> CoapOption list" where
  "options_iter m = msg_options m"

definition message_type :: "CoapMessage \<Rightarrow> CoapMessageType" where
  "message_type m = msg_type m"

definition message_code :: "CoapMessage \<Rightarrow> CoapMessageCode" where
  "message_code m = msg_code m"

definition message_mid :: "CoapMessage \<Rightarrow> int option" where
  "message_mid m = msg_mid m"

definition message_data :: "CoapMessage \<Rightarrow> bytes option" where
  "message_data m = msg_data m"

definition message_token :: "CoapMessage \<Rightarrow> bytes option" where
  "message_token m = msg_token m"

definition request_as_message :: "CoapRequest \<Rightarrow> CoapMessage" where
  "request_as_message r = req_pdu r"

definition request_as_message_mut :: "(CoapMessage \<Rightarrow> CoapMessage) \<Rightarrow> CoapRequest \<Rightarrow> CoapRequest" where
  "request_as_message_mut f r = r\<lparr>req_pdu := f (req_pdu r)\<rparr>"

definition response_as_message :: "CoapResponse \<Rightarrow> CoapMessage" where
  "response_as_message r = rsp_pdu r"

definition response_as_message_mut :: "(CoapMessage \<Rightarrow> CoapMessage) \<Rightarrow> CoapResponse \<Rightarrow> CoapResponse" where
  "response_as_message_mut f r = r\<lparr>rsp_pdu := f (rsp_pdu r)\<rparr>"

definition request_accept :: "CoapRequest \<Rightarrow> u16 option" where
  "request_accept r = req_accept r"

definition request_etag :: "CoapRequest \<Rightarrow> bytes list option" where
  "request_etag r = req_etag r"

definition request_if_match :: "CoapRequest \<Rightarrow> CoapMatch list option" where
  "request_if_match r = req_if_match r"

definition request_content_format :: "CoapRequest \<Rightarrow> u16 option" where
  "request_content_format r = req_content_format r"

definition request_if_none_match :: "CoapRequest \<Rightarrow> bool" where
  "request_if_none_match r = req_if_none_match r"

definition request_hop_limit :: "CoapRequest \<Rightarrow> u16 option" where
  "request_hop_limit r = req_hop_limit r"

definition request_no_response :: "CoapRequest \<Rightarrow> u8 option" where
  "request_no_response r = req_no_response r"

definition request_observe :: "CoapRequest \<Rightarrow> u32 option" where
  "request_observe r = req_observe r"

definition request_get_uri :: "CoapRequest \<Rightarrow> CoapUri" where
  "request_get_uri r = req_uri r"

definition response_max_age :: "CoapResponse \<Rightarrow> u32 option" where
  "response_max_age r = rsp_max_age r"

definition response_content_format :: "CoapResponse \<Rightarrow> u16 option" where
  "response_content_format r = rsp_content_format r"

definition response_etag :: "CoapResponse \<Rightarrow> bytes option" where
  "response_etag r = rsp_etag r"

definition response_echo :: "CoapResponse \<Rightarrow> bytes option" where
  "response_echo r = rsp_echo r"

definition response_observe :: "CoapResponse \<Rightarrow> u32 option" where
  "response_observe r = rsp_observe r"

definition response_location_ref :: "CoapResponse \<Rightarrow> CoapUri option" where
  "response_location_ref r = rsp_location r"

lemmas getter_defs = message_type_def message_code_def message_mid_def message_data_def message_token_def
  request_as_message_def request_as_message_mut_def response_as_message_def response_as_message_mut_def
  request_accept_def request_etag_def request_if_match_def request_content_format_def request_if_none_match_def
  request_hop_limit_def request_no_response_def request_observe_def request_get_uri_def response_max_age_def response_content_format_def
  response_etag_def response_echo_def response_observe_def response_location_ref_def

lemmas setter_defs = set_type_def set_code_def set_mid_def set_data_def set_token_def
  set_accept_def set_etag_def set_if_match_def set_content_format_def set_if_none_match_def set_hop_limit_def
  set_no_response_def set_observe_def set_max_age_def response_set_content_format_def response_set_etag_def
  set_echo_def response_set_observe_def

section \<open>Sequences of setters\<close>

text \<open>A call of a setter of a request; \<open>OnMessage\<close> is one of the setters of the underlying message.\<close>

datatype header_set = SetType CoapMessageType | SetMid "int option" | SetData "bytes option" | SetToken "bytes option"

fun header_setter :: "header_set \<Rightarrow> CoapMessage \<Rightarrow> CoapMessage" where
  "header_setter (SetType v) = set_type v"
| "header_setter (SetMid v) = set_mid v"
| "header_setter (SetData v) = set_data v"
| "header_setter (SetToken v) = set_token v"

datatype request_set =
    SetAccept "u16 option" | SetEtag "bytes list option" | SetIfMatch "CoapMatch list option" | SetContentFormat "u16 option"
  | SetIfNoneMatch bool | SetHopLimit "u16 option" | SetNoResponse "u8 option" | SetObserve "u32 option"
  | SetCode CoapMessageCode | OnMessage header_set

fun request_setter :: "request_set \<Rightarrow> CoapRequest \<Rightarrow> CoapRequest run" where
  "request_setter (SetAccept v) r = Ret (set_accept v r)"
| "request_setter (SetEtag v) r = Ret (set_etag v r)"
| "request_setter (SetIfMatch v) r = Ret (set_if_match v r)"
| "request_setter (SetContentFormat v) r = Ret (set_content_format v r)"
| "request_setter (SetIfNoneMatch v) r = Ret (set_if_none_match v r)"
| "request_setter (SetHopLimit v) r = Ret (set_hop_limit v r)"
| "request_setter (SetNoResponse v) r = Ret (set_no_response v r)"
| "request_setter (SetObserve v) r = Ret (set_observe v r)"
| "request_setter (SetCode v) r = request_set_code v r"
| "request_setter (OnMessage s) r = Ret (request_as_message_mut (header_setter s) r)"

primrec request_setters :: "request_set list \<Rightarrow> CoapRequest \<Rightarrow> CoapRequest run" where
  "request_setters [] r = Ret r"
| "request_setters (s # ss) r = run_bind (request_setter s r) (request_setters ss)"

section \<open>The contract of a field\<close>

text \<open>
  \<open>get\<close> reads the field of a request and \<open>sel\<close> what a setter sets it to, if it is the setter of this
  field. The value after a sequence of setters is the last one set.
\<close>

definition last_set :: "('s \<Rightarrow> 'v option) \<Rightarrow> 's list \<Rightarrow> 'v \<Rightarrow> 'v" where
  "last_set sel ss v = fold (\<lambda>s v. case sel s of Some w \<Rightarrow> w | None \<Rightarrow> v) ss v"

locale request_field =
  fixes get :: "CoapRequest \<Rightarrow> 'v" and sel :: "request_set \<Rightarrow> 'v option"
  assumes get_set: "request_setter s r = Ret r' \<Longrightarrow> get r' = (case sel s of Some v \<Rightarrow> v | None \<Rightarrow> get r)"
begin

lemma get_last: "request_setters ss r = Ret r' \<Longrightarrow> get r' = last_set sel ss (get r)"
  by (induction ss arbitrary: r) (auto simp: last_set_def run_bind_eq_Ret get_set)

end

text \<open>What each setter sets each field to.\<close>

abbreviation sets_accept where "sets_accept \<equiv> \<lambda>s. case s of SetAccept v \<Rightarrow> Some v | _ \<Rightarrow> None"
abbreviation sets_etag where "sets_etag \<equiv> \<lambda>s. case s of SetEtag v \<Rightarrow> Some v | _ \<Rightarrow> None"
abbreviation sets_if_match where "sets_if_match \<equiv> \<lambda>s. case s of SetIfMatch v \<Rightarrow> Some v | _ \<Rightarrow> None"
abbreviation sets_content_format where "sets_content_format \<equiv> \<lambda>s. case s of SetContentFormat v \<Rightarrow> Some v | _ \<Rightarrow> None"
abbreviation sets_if_none_match where "sets_if_none_match \<equiv> \<lambda>s. case s of SetIfNoneMatch v \<Rightarrow> Some v | _ \<Rightarrow> None"
abbreviation sets_hop_limit where "sets_hop_limit \<equiv> \<lambda>s. case s of SetHopLimit v \<Rightarrow> Some v | _ \<Rightarrow> None"
abbreviation sets_no_response where "sets_no_response \<equiv> \<lambda>s. case s of SetNoResponse v \<Rightarrow> Some v | _ \<Rightarrow> None"
abbreviation sets_observe where "sets_observe \<equiv> \<lambda>s. case s of SetObserve v \<Rightarrow> Some v | _ \<Rightarrow> None"
abbreviation sets_type where "sets_type \<equiv> \<lambda>s. case s of OnMessage (SetType v) \<Rightarrow> Some v | _ \<Rightarrow> None"
abbreviation sets_mid where "sets_mid \<equiv> \<lambda>s. case s of OnMessage (SetMid v) \<Rightarrow> Some v | _ \<Rightarrow> None"
abbreviation sets_data where "sets_data \<equiv> \<lambda>s. case s of OnMessage (SetData v) \<Rightarrow> Some v | _ \<Rightarrow> None"
abbreviation sets_token where "sets_token \<equiv> \<lambda>s. case s of OnMessage (SetToken v) \<Rightarrow> Some v | _ \<Rightarrow> None"
abbreviation sets_code where "sets_code \<equiv> \<lambda>s. case s of SetCode v \<Rightarrow> Some v | _ \<Rightarrow> None"

lemma header_setter_keeps [simp]:
  "msg_code (header_setter s m) = msg_code m" "msg_options (header_setter s m) = msg_options m"
  by (cases s; simp add: setter_defs)+

lemma request_setter_fields:
  assumes "request_setter s r = Ret r'"
  shows "request_accept r' = (case sets_accept s of Some v \<Rightarrow> v | None \<Rightarrow> request_accept r)"
    and "request_etag r' = (case sets_etag s of Some v \<Rightarrow> v | None \<Rightarrow> request_etag r)"
    and "request_if_match r' = (case sets_if_match s of Some v \<Rightarrow> v | None \<Rightarrow> request_if_match r)"
    and "request_content_format r' = (case sets_content_format s of Some v \<Rightarrow> v | None \<Rightarrow> request_content_format r)"
    and "request_if_none_match r' = (case sets_if_none_match s of Some v \<Rightarrow> v | None \<Rightarrow> request_if_none_match r)"
    and "request_hop_limit r' = (case sets_hop_limit s of Some v \<Rightarrow> v | None \<Rightarrow> request_hop_limit r)"
    and "request_no_response r' = (case sets_no_response s of Some v \<Rightarrow> v | None \<Rightarrow> request_no_response r)"
    and "request_observe r' = (case sets_observe s of Some v \<Rightarrow> v | None \<Rightarrow> request_observe r)"
    and "message_type (request_as_message r') = (case sets_type s of Some v \<Rightarrow> v | None \<Rightarrow> message_type (request_as_message r))"
    and "message_mid (request_as_message r') = (case sets_mid s of Some v \<Rightarrow> v | None \<Rightarrow> message_mid (request_as_message r))"
    and "message_data (request_as_message r') = (case sets_data s of Some v \<Rightarrow> v | None \<Rightarrow> message_data (request_as_message r))"
    and "message_token (request_as_message r') = (case sets_token s of Some v \<Rightarrow> v | None \<Rightarrow> message_token (request_as_message r))"
    and "message_code (request_as_message r') = (case sets_code s of Some v \<Rightarrow> v | None \<Rightarrow> message_code (request_as_message r))"
  using assms
  by (cases s; auto simp: getter_defs setter_defs request_set_code_def split: CoapMessageCode.splits header_set.splits)+

interpretation accept_field: request_field request_accept sets_accept
  by unfold_locales (rule request_setter_fields)

interpretation etag_field: request_field request_etag sets_etag
  by unfold_locales (rule request_setter_fields)

interpretation if_match_field: request_field request_if_match sets_if_match
  by unfold_locales (rule request_setter_fields)

interpretation content_format_field: request_field request_content_format sets_content_format
  by unfold_locales (rule request_setter_fields)

interpretation if_none_match_field: request_field request_if_none_match sets_if_none_match
  by unfold_locales (rule request_setter_fields)

interpretation hop_limit_field: request_field request_hop_limit sets_hop_limit
  by unfold_locales (rule request_setter_fields)

interpretation no_response_field: request_field request_no_response sets_no_response
  by unfold_locales (rule request_setter_fields)

interpretation observe_field: request_field request_observe sets_observe
  by unfold_locales (rule request_setter_fields)

interpretation type_field: request_field "\<lambda>r. message_type (request_as_message r)" sets_type
  by unfold_locales (rule request_setter_fields)

interpretation mid_field: request_field "\<lambda>r. message_mid (request_as_message r)" sets_mid
  by unfold_locales (rule request_setter_fields)

interpretation data_field: request_field "\<lambda>r. message_data (request_as_message r)" sets_data
  by unfold_locales (rule request_setter_fields)

interpretation token_field: request_field "\<lambda>r. message_token (request_as_message r)" sets_token
  by unfold_locales (rule request_setter_fields)

interpretation code_field: request_field "\<lambda>r. message_code (request_as_message r)" sets_code
  by unfold_locales (rule request_setter_fields)

section \<open>Properties\<close>

lemma request_setter_Panic: "request_setter s r = Panic \<longleftrightarrow> (\<exists>c. s = SetCode c \<and> (\<forall>rc. c \<noteq> Request rc))"
  by (cases s) (auto simp: request_set_code_def split: CoapMessageCode.splits)

lemma request_setters_Panic: "request_setters ss r = Panic \<longleftrightarrow> (\<exists>c. SetCode c \<in> set ss \<and> (\<forall>rc. c \<noteq> Request rc))"
proof (induction ss arbitrary: r)
  case (Cons s ss)
  then show ?case
    by (cases "request_setter s r") (use request_setter_Panic[of s r] in auto)
qed simp

lemma request_setter_fixed:
  "request_setter s r = Ret r' \<Longrightarrow> request_get_uri r' = request_get_uri r \<and> options_iter (request_as_message r') = options_iter (request_as_message r) \<and>
     ((\<exists>c. message_code (request_as_message r) = Request c) \<longrightarrow> (\<exists>c. message_code (request_as_message r') = Request c))"
  by (auto elim!: request_setter.elims simp: getter_defs setter_defs request_set_code_def options_iter_def split: CoapMessageCode.splits elim: header_setter.elims)

text \<open>
  Setting up a request. A sequence of setters panics exactly if it sets a code that is no request
  code. Otherwise every getter returns what was set last, or what it returned before; the URI and the
  options are as before; and a request code stays one. The message type, in contrast, is not
  checked: it can be set to one that \<^verbatim>\<open>CoapRequest::new\<close> refuses.
\<close>

theorem request_setters_exact:
  "(request_setters ss r = Panic \<longleftrightarrow> (\<exists>c. SetCode c \<in> set ss \<and> (\<forall>rc. c \<noteq> Request rc))) \<and>
   (\<forall>r'. request_setters ss r = Ret r' \<longrightarrow>
      request_accept r' = last_set sets_accept ss (request_accept r) \<and>
      request_etag r' = last_set sets_etag ss (request_etag r) \<and>
      request_if_match r' = last_set sets_if_match ss (request_if_match r) \<and>
      request_content_format r' = last_set sets_content_format ss (request_content_format r) \<and>
      request_if_none_match r' = last_set sets_if_none_match ss (request_if_none_match r) \<and>
      request_hop_limit r' = last_set sets_hop_limit ss (request_hop_limit r) \<and>
      request_no_response r' = last_set sets_no_response ss (request_no_response r) \<and>
      request_observe r' = last_set sets_observe ss (request_observe r) \<and>
      message_type (request_as_message r') = last_set sets_type ss (message_type (request_as_message r)) \<and>
      message_mid (request_as_message r') = last_set sets_mid ss (message_mid (request_as_message r)) \<and>
      message_data (request_as_message r') = last_set sets_data ss (message_data (request_as_message r)) \<and>
      message_token (request_as_message r') = last_set sets_token ss (message_token (request_as_message r)) \<and>
      message_code (request_as_message r') = last_set sets_code ss (message_code (request_as_message r)) \<and>
      request_get_uri r' = request_get_uri r \<and> options_iter (request_as_message r') = options_iter (request_as_message r) \<and>
      ((\<exists>c. message_code (request_as_message r) = Request c) \<longrightarrow> (\<exists>c. message_code (request_as_message r') = Request c)))"
proof -
  have "request_get_uri r' = request_get_uri r \<and> options_iter (request_as_message r') = options_iter (request_as_message r) \<and>
      ((\<exists>c. message_code (request_as_message r) = Request c) \<longrightarrow> (\<exists>c. message_code (request_as_message r') = Request c))"
    if "request_setters ss r = Ret r'" for r'
    using that
  proof (induction ss arbitrary: r)
    case (Cons s ss)
    then show ?case by (auto simp: run_bind_eq_Ret dest!: request_setter_fixed)
  qed simp
  then show ?thesis
    by (intro conjI allI impI request_setters_Panic accept_field.get_last etag_field.get_last if_match_field.get_last
        content_format_field.get_last if_none_match_field.get_last hop_limit_field.get_last no_response_field.get_last
        observe_field.get_last type_field.get_last mid_field.get_last data_field.get_last token_field.get_last code_field.get_last)
      blast+
qed

text \<open>
  The location of a response. \<^verbatim>\<open>set_location\<close> never returns an error, whatever the URI is, and setting
  no location does not remove the one that was set.
\<close>

theorem set_location_never_clears:
  "fst (set_location uri r) = Inr () \<and>
   response_location_ref (snd (set_location None (snd (set_location (Some u) r)))) = Some u"
  by (simp add: set_location_def response_location_ref_def)

end
