(* ===== verification/Message_Memory.thy ===== *)
theory Message_Memory
  imports Coap_Message
begin

text \<open>
  The memory behind the sending of a message (\<^verbatim>\<open>libcoap/src/message/mod.rs\<close>, \<^verbatim>\<open>into_raw_pdu\<close>,
  \<^verbatim>\<open>apply_to_raw_pdu\<close> and \<^verbatim>\<open>large_data_cleanup_handler\<close>): the entries of the option list, which libcoap
  allocates and \<^verbatim>\<open>coap_delete_optlist\<close> frees, and the boxed body, which is dropped or handed to libcoap
  with a function that frees it. The definitions carry the heap through the same steps as those of
  theory \<open>Coap_Message\<close>, which they refine; the properties say what is freed, what is leaked, and when the
  function given to libcoap frees the body with the layout it was allocated with.
\<close>

section \<open>The heap\<close>

text \<open>A live block: an entry of an option list, or a boxed slice with the size of its layout.\<close>

datatype block = Entry | Body nat

record msg_heap =
  blocks :: "nat \<rightharpoonup> block"
  fresh :: nat

definition alloc_entry :: "msg_heap \<Rightarrow> nat \<times> msg_heap" where
  "alloc_entry h = (fresh h, \<lparr>blocks = (blocks h)(fresh h \<mapsto> Entry), fresh = fresh h + 1\<rparr>)"

text \<open>Freeing what is not live, or with another layout, is undefined behaviour: there is no result.\<close>

definition dealloc :: "block \<Rightarrow> nat \<Rightarrow> msg_heap \<Rightarrow> msg_heap option" where
  "dealloc b a h = (if blocks h a = Some b then Some (h\<lparr>blocks := (blocks h)(a := None)\<rparr>) else None)"

type_synonym chain = "(nat \<times> optlist_entry) list option"

fun free_entries :: "nat list \<Rightarrow> msg_heap \<Rightarrow> msg_heap option" where
  "free_entries [] h = Some h"
| "free_entries (a # as) h = Option.bind (dealloc Entry a h) (free_entries as)"

definition coap_delete_optlist :: "chain \<Rightarrow> msg_heap \<Rightarrow> msg_heap option" where
  "coap_delete_optlist ch h = free_entries (case ch of None \<Rightarrow> [] | Some es \<Rightarrow> map fst es) h"

text \<open>Dropping a boxed slice: an empty one has no block.\<close>

definition drop_body :: "nat \<Rightarrow> nat \<Rightarrow> msg_heap \<Rightarrow> msg_heap option" where
  "drop_body a len h = (if len = 0 then Some h else dealloc (Body len) a h)"

text \<open>The handler given to libcoap restores a box of a single byte from the address and drops it.\<close>

definition large_data_cleanup_handler :: "nat \<Rightarrow> msg_heap \<Rightarrow> msg_heap option" where
  "large_data_cleanup_handler a h = dealloc (Body 1) a h"

section \<open>Sending with the heap\<close>

text \<open>
  The loop over the options. An option that cannot be encoded returns at once; an entry appended to a
  chain whose head is null is appended to a copy of the head, and lost.
\<close>

fun optlist_loop_mem ::
    "bindings \<Rightarrow> 'p pdu_api \<Rightarrow> chain option \<Rightarrow> CoapOption list \<Rightarrow> msg_heap \<Rightarrow>
     ((MessageConversionError + chain option) \<times> msg_heap) option" where
  "optlist_loop_mem B api ol [] h = Some (Inr ol, h)"
| "optlist_loop_mem B api ol (opt # opts) h =
     (case into_value_bytes B opt of
        Inl e \<Rightarrow> Some (Inl (invalid_option B (number B opt) e), h)
      | Inr val \<Rightarrow>
          (case coap_new_optlist api (number B opt) val of
             None \<Rightarrow>
               (case ol of
                  None \<Rightarrow> optlist_loop_mem B api (Some None) opts h
                | Some ch \<Rightarrow> map_option (Pair (Inl MessageUnknown)) (coap_delete_optlist ch h))
           | Some e \<Rightarrow>
               (let (a, h) = alloc_entry h in
                optlist_loop_mem B api
                  (Some (case ol of None \<Rightarrow> Some [(a, e)]
                                  | Some ch \<Rightarrow> map_option (\<lambda>es. es @ [(a, e)]) ch)) opts h)))"

definition abs_chain :: "chain \<Rightarrow> optlist" where
  "abs_chain = map_option (map snd)"

definition apply_options_mem ::
    "bindings \<Rightarrow> 'p pdu_api \<Rightarrow> CoapMessage \<Rightarrow> 'p \<Rightarrow> msg_heap \<Rightarrow>
     ((MessageConversionError + unit) \<times> 'p \<times> msg_heap) option" where
  "apply_options_mem B api m pdu h =
     Option.bind (optlist_loop_mem B api None (msg_options m) h) (\<lambda>(r, h).
     case r of
       Inl e \<Rightarrow> Some (Inl e, pdu, h)
     | Inr None \<Rightarrow> Some (Inr (), pdu, h)
     | Inr (Some ch) \<Rightarrow>
         (let (r, pdu) = coap_add_optlist_pdu api pdu (abs_chain ch)
          in map_option (\<lambda>h. (if r = 0 then Inl MessageUnknown else Inr (), pdu, h)) (coap_delete_optlist ch h)))"

text \<open>
  The body at address \<open>a\<close>; the result says whether libcoap now owns it. In every other case it is
  dropped with the message.
\<close>

definition apply_data_mem ::
    "'p pdu_api \<Rightarrow> CoapMessage \<Rightarrow> nat \<Rightarrow> 'p \<Rightarrow> msg_heap \<Rightarrow>
     ((MessageConversionError + unit) \<times> 'p \<times> bool \<times> msg_heap) option" where
  "apply_data_mem api m a pdu h =
     (case msg_data m of
        None \<Rightarrow> Some (Inr (), pdu, False, h)
      | Some data \<Rightarrow>
          (case msg_code m of
             CoapMessageCode.Empty \<Rightarrow>
               map_option (\<lambda>h. (Inl DataInEmptyMessage, pdu, False, h)) (drop_body a (length data) h)
           | Request _ \<Rightarrow> Some (Inr (), coap_add_data_large_request api pdu data, True, h)
           | Response _ \<Rightarrow>
               (let (r, pdu) = coap_add_data api pdu data
                in map_option (\<lambda>h. (if r = 0 then Inl MessageUnknown else Inr (), pdu, False, h))
                     (drop_body a (length data) h))))"

definition drop_message :: "CoapMessage \<Rightarrow> nat \<Rightarrow> msg_heap \<Rightarrow> msg_heap option" where
  "drop_message m a h = (case msg_data m of None \<Rightarrow> Some h | Some data \<Rightarrow> drop_body a (length data) h)"

definition apply_to_raw_pdu_mem ::
    "bindings \<Rightarrow> 'p pdu_api \<Rightarrow> CoapMessage \<Rightarrow> nat \<Rightarrow> 'p \<Rightarrow> msg_heap \<Rightarrow>
     ((MessageConversionError + unit) \<times> 'p \<times> bool \<times> msg_heap) option" where
  "apply_to_raw_pdu_mem B api m a pdu h =
     (let pdu = coap_pdu_set_type api pdu (to_raw_pdu_type (msg_type m));
          pdu = coap_pdu_set_code api pdu (to_raw_pdu_code (msg_code m))
      in case msg_token m of
           None \<Rightarrow> map_option (\<lambda>h. (Inl MissingToken, pdu, False, h)) (drop_message m a h)
         | Some token \<Rightarrow>
             (let (r, pdu) = coap_add_token api pdu token in
              if r = 0 then map_option (\<lambda>h. (Inl MessageUnknown, pdu, False, h)) (drop_message m a h)
              else Option.bind (apply_options_mem B api m pdu h) (\<lambda>(r, pdu, h).
                case r of
                  Inl e \<Rightarrow> map_option (\<lambda>h. (Inl e, pdu, False, h)) (drop_message m a h)
                | Inr _ \<Rightarrow> apply_data_mem api m a pdu h)))"

definition into_raw_pdu_mem ::
    "bindings \<Rightarrow> 'p pdu_api \<Rightarrow> nat \<Rightarrow> CoapMessage \<Rightarrow> nat \<Rightarrow> msg_heap \<Rightarrow>
     ((MessageConversionError + 'p) \<times> 'p option \<times> bool \<times> msg_heap) option" where
  "into_raw_pdu_mem B api max_pdu_size m a h =
     (case msg_mid m of
        None \<Rightarrow> map_option (\<lambda>h. (Inl MissingMessageId, None, False, h)) (drop_message m a h)
      | Some mid \<Rightarrow>
          (case coap_pdu_init api (to_raw_pdu_type (msg_type m)) (to_raw_pdu_code (msg_code m))
                  mid max_pdu_size of
             None \<Rightarrow> map_option (\<lambda>h. (Inl MessageUnknown, None, False, h)) (drop_message m a h)
           | Some pdu \<Rightarrow>
               map_option (\<lambda>(r, pdu, owned, h).
                   case r of Inl e \<Rightarrow> (Inl e, Some pdu, owned, h) | Inr _ \<Rightarrow> (Inr pdu, None, owned, h))
                 (apply_to_raw_pdu_mem B api m a pdu h)))"

section \<open>Chains of entries\<close>

text \<open>The heap with \<open>n\<close> entries more.\<close>

definition with_entries :: "nat \<Rightarrow> msg_heap \<Rightarrow> msg_heap" where
  "with_entries n h =
     \<lparr>blocks = (\<lambda>a. if fresh h \<le> a \<and> a < fresh h + n then Some Entry else blocks h a), fresh = fresh h + n\<rparr>"

definition wf_heap :: "msg_heap \<Rightarrow> bool" where
  "wf_heap h \<longleftrightarrow> (\<forall>a \<ge> fresh h. blocks h a = None)"

lemma with_entries_0 [simp]: "with_entries 0 h = h"
  by (cases h) (auto simp: with_entries_def fun_eq_iff)

lemma alloc_entry_with: "alloc_entry (with_entries n h) = (fresh h + n, with_entries (Suc n) h)"
  by (auto simp: alloc_entry_def with_entries_def fun_eq_iff)

text \<open>Freeing addresses that are live and distinct succeeds and frees exactly them.\<close>

lemma free_entries_live:
  assumes "distinct as" and "\<forall>a \<in> set as. blocks h a = Some Entry"
  shows "free_entries as h = Some (h\<lparr>blocks := (\<lambda>a. if a \<in> set as then None else blocks h a)\<rparr>)"
  using assms
proof (induction as arbitrary: h)
  case (Cons a as)
  let ?h = "h\<lparr>blocks := (blocks h)(a := None)\<rparr>"
  have "free_entries as ?h = Some (?h\<lparr>blocks := (\<lambda>x. if x \<in> set as then None else blocks ?h x)\<rparr>)"
    using Cons.prems by (intro Cons.IH) auto
  with Cons.prems show ?case by (auto simp: dealloc_def fun_eq_iff)
qed simp

lemma free_with_entries:
  assumes "wf_heap h"
  shows "free_entries [fresh h ..< fresh h + n] (with_entries n h) = Some (h\<lparr>fresh := fresh h + n\<rparr>)"
proof -
  have "free_entries [fresh h ..< fresh h + n] (with_entries n h) =
      Some ((with_entries n h)\<lparr>blocks := (\<lambda>a. if a \<in> set [fresh h ..< fresh h + n] then None
        else blocks (with_entries n h) a)\<rparr>)"
    by (rule free_entries_live) (auto simp: with_entries_def)
  moreover have "(\<lambda>a. if a \<in> set [fresh h ..< fresh h + n] then None else blocks (with_entries n h) a) = blocks h"
    using assms by (auto simp: with_entries_def wf_heap_def fun_eq_iff)
  ultimately show ?thesis by (simp add: with_entries_def)
qed

text \<open>The blocks of a chain are live and distinct.\<close>

definition chain_ok :: "chain option \<Rightarrow> msg_heap \<Rightarrow> bool" where
  "chain_ok ol h \<longleftrightarrow>
     (case ol of Some (Some es) \<Rightarrow> distinct (map fst es) \<and> (\<forall>a \<in> set (map fst es). blocks h a = Some Entry) | _ \<Rightarrow> True)"

definition bodies :: "msg_heap \<Rightarrow> (nat \<times> nat) set" where
  "bodies h = {(a, n). blocks h a = Some (Body n)}"

lemma wf_alloc:
  assumes "wf_heap h" and "alloc_entry h = (a, h')"
  shows "wf_heap h'" and "bodies h' = bodies h" and "blocks h a = None"
    and "blocks h' = (blocks h)(a \<mapsto> Entry)"
  using assms by (auto simp: alloc_entry_def wf_heap_def bodies_def split: if_splits)

lemma chain_ok_alloc:
  assumes "wf_heap h" and "chain_ok ol h" and "alloc_entry h = (a, h')"
  shows "chain_ok (Some (case ol of None \<Rightarrow> Some [(a, e)] | Some ch \<Rightarrow> map_option (\<lambda>es. es @ [(a, e)]) ch)) h'"
proof -
  have "a \<notin> fst ` set es" if "ol = Some (Some es)" for es
    using that assms(2) wf_alloc(3)[OF assms(1,3)] by (fastforce simp: chain_ok_def)
  with assms(2) wf_alloc(4)[OF assms(1,3)] show ?thesis
    by (auto simp: chain_ok_def split: option.splits)
qed

lemma delete_optlist_ok:
  assumes "wf_heap h" and "chain_ok (Some ch) h"
  obtains h' where "coap_delete_optlist ch h = Some h'" and "wf_heap h'" and "bodies h' = bodies h"
proof -
  let ?as = "case ch of None \<Rightarrow> [] | Some es \<Rightarrow> map fst es"
  let ?h = "h\<lparr>blocks := (\<lambda>a. if a \<in> set ?as then None else blocks h a)\<rparr>"
  have live: "distinct ?as" "\<forall>a \<in> set ?as. blocks h a = Some Entry"
    using assms(2) by (auto simp: chain_ok_def split: option.splits)
  then have "coap_delete_optlist ch h = Some ?h" unfolding coap_delete_optlist_def by (rule free_entries_live)
  moreover have "wf_heap ?h" using assms(1) by (simp add: wf_heap_def)
  moreover have "bodies ?h = bodies h" using live(2) by (auto simp: bodies_def split: if_splits)
  ultimately show thesis by (rule that)
qed

text \<open>The loop with the heap is the loop without it, and leaves a chain that can be freed.\<close>

lemma optlist_loop_refines:
  assumes "wf_heap h" and "chain_ok ol h"
  shows "\<exists>r h'. optlist_loop_mem B api ol opts h = Some (r, h') \<and>
    map_sum id (map_option abs_chain) r = try_fold (optlist_step B api) (map_option abs_chain ol) opts \<and>
    wf_heap h' \<and> bodies h' = bodies h \<and> (\<forall>ol'. r = Inr ol' \<longrightarrow> chain_ok ol' h')"
  using assms
proof (induction opts arbitrary: ol h)
  case Nil
  then show ?case by simp
next
  case (Cons opt opts)
  show ?case
  proof (cases "into_value_bytes B opt")
    case (Inl e)
    with Cons.prems show ?thesis
      by (simp add: optlist_step_def into_optlist_entry_def)
  next
    case (Inr v)
    note val = Inr
    show ?thesis
    proof (cases "coap_new_optlist api (number B opt) v")
      case None
      show ?thesis
      proof (cases ol)
        case None
        with Cons.IH[of h "Some None"] Cons.prems val \<open>coap_new_optlist api (number B opt) v = None\<close> show ?thesis
          by (simp add: optlist_step_def into_optlist_entry_def chain_ok_def abs_chain_def)
      next
        case (Some ch)
        with Cons.prems obtain h' where "coap_delete_optlist ch h = Some h'" "wf_heap h'" "bodies h' = bodies h"
          using delete_optlist_ok by blast
        with Some val None show ?thesis by (simp add: optlist_step_def into_optlist_entry_def)
      qed
    next
      case (Some e)
      obtain a h1 where al: "alloc_entry h = (a, h1)" by (cases "alloc_entry h")
      let ?ol = "Some (case ol of None \<Rightarrow> Some [(a, e)] | Some ch \<Rightarrow> map_option (\<lambda>es. es @ [(a, e)]) ch)"
      have "optlist_step B api (map_option abs_chain ol) opt = Inr (map_option abs_chain ?ol)"
        using Some val
        by (auto simp: optlist_step_def into_optlist_entry_def abs_chain_def option.map_comp comp_def split: option.splits)
      with Cons.IH[OF wf_alloc(1)[OF Cons.prems(1) al] chain_ok_alloc[OF Cons.prems al, of e]]
        Some val al wf_alloc(2)[OF Cons.prems(1) al] show ?thesis
        by simp
    qed
  qed
qed

lemma apply_options_refines:
  assumes "wf_heap h"
  shows "\<exists>h'. apply_options_mem B api m pdu h = Some (fst (apply_options B api m pdu), snd (apply_options B api m pdu), h') \<and>
    wf_heap h' \<and> bodies h' = bodies h"
proof -
  have "chain_ok None h" by (simp add: chain_ok_def)
  from optlist_loop_refines[OF assms this, of B api "msg_options m"] obtain r h1 where
    loop: "optlist_loop_mem B api None (msg_options m) h = Some (r, h1)"
    and abs: "try_fold (optlist_step B api) None (msg_options m) = map_sum id (map_option abs_chain) r"
    and wf: "wf_heap h1" "bodies h1 = bodies h" and ok: "\<forall>ol. r = Inr ol \<longrightarrow> chain_ok ol h1"
    by auto
  show ?thesis
  proof (cases r)
    case (Inl e)
    with loop abs wf show ?thesis by (simp add: apply_options_mem_def apply_options_def)
  next
    case (Inr ol)
    show ?thesis
    proof (cases ol)
      case None
      with Inr loop abs wf show ?thesis by (simp add: apply_options_mem_def apply_options_def)
    next
      case (Some ch)
      with Inr ok obtain h2 where "coap_delete_optlist ch h1 = Some h2" "wf_heap h2" "bodies h2 = bodies h1"
        using delete_optlist_ok[OF wf(1)] by blast
      with Some Inr loop abs wf show ?thesis
        by (simp add: apply_options_mem_def apply_options_def case_prod_beta)
    qed
  qed
qed

text \<open>The body of a message is live, with the layout of its length; an empty one is no block.\<close>

definition body_ok :: "CoapMessage \<Rightarrow> nat \<Rightarrow> msg_heap \<Rightarrow> bool" where
  "body_ok m a h \<longleftrightarrow>
     (\<forall>data. msg_data m = Some data \<longrightarrow> (if data = [] then \<forall>n. (a, n) \<notin> bodies h else (a, length data) \<in> bodies h))"

definition body_of :: "CoapMessage \<Rightarrow> nat \<Rightarrow> (nat \<times> nat) set" where
  "body_of m a = (case msg_data m of None \<Rightarrow> {} | Some data \<Rightarrow> if data = [] then {} else {(a, length data)})"

lemma drop_message_ok:
  assumes "wf_heap h" and "body_ok m a h"
  obtains h' where "drop_message m a h = Some h'" and "wf_heap h'" and "bodies h' = bodies h - body_of m a"
proof (cases "body_of m a = {}")
  case True
  then have "drop_message m a h = Some h"
    by (auto simp: drop_message_def drop_body_def body_of_def split: option.splits if_splits)
  with True that assms(1) show thesis by simp
next
  case False
  then obtain data where m: "msg_data m = Some data" "data \<noteq> []" by (auto simp: body_of_def split: option.splits if_splits)
  then have "blocks h a = Some (Body (length data))" using assms(2) by (auto simp: body_ok_def bodies_def)
  moreover let ?h = "h\<lparr>blocks := (blocks h)(a := None)\<rparr>"
  have "bodies ?h = bodies h - {(a, length data)}"
    using \<open>blocks h a = Some (Body (length data))\<close> by (auto simp: bodies_def split: if_splits)
  moreover have "wf_heap ?h" using assms(1) by (simp add: wf_heap_def)
  ultimately show thesis
    using m that[of ?h] by (simp add: drop_message_def drop_body_def dealloc_def body_of_def)
qed

lemma body_ok_bodies: "bodies h' = bodies h \<Longrightarrow> body_ok m a h' = body_ok m a h"
  by (simp add: body_ok_def)

text \<open>The condition under which libcoap owns the body afterwards.\<close>

definition handed_over :: "CoapMessage \<Rightarrow> bool" where
  "handed_over m \<longleftrightarrow> msg_data m \<noteq> None \<and> (\<exists>r. msg_code m = Request r)"

lemma apply_data_refines:
  assumes "wf_heap h" and "body_ok m a h"
  shows "\<exists>h'. apply_data_mem api m a pdu h =
      Some (fst (apply_data api m pdu), snd (apply_data api m pdu), handed_over m, h') \<and> wf_heap h' \<and>
    bodies h' = (if handed_over m then bodies h else bodies h - body_of m a)"
proof (cases "msg_data m")
  case None
  with assms show ?thesis by (simp add: apply_data_mem_def apply_data_def handed_over_def body_of_def)
next
  case (Some data)
  obtain h' where d: "drop_body a (length data) h = Some h'" "wf_heap h'" "bodies h' = bodies h - body_of m a"
    using drop_message_ok[OF assms] Some by (auto simp: drop_message_def)
  from Some d assms(1) show ?thesis
    by (cases "msg_code m") (simp_all add: apply_data_mem_def apply_data_def handed_over_def case_prod_beta)
qed

lemma apply_to_raw_pdu_refines:
  assumes "wf_heap h" and "body_ok m a h"
  shows "let X = apply_to_raw_pdu B api m pdu; owned = (fst X = Inr () \<and> handed_over m) in
    \<exists>h'. apply_to_raw_pdu_mem B api m a pdu h = Some (fst X, snd X, owned, h') \<and> wf_heap h' \<and>
      bodies h' = (if owned then bodies h else bodies h - body_of m a)"
proof -
  obtain hd where d: "drop_message m a h = Some hd" "wf_heap hd" "bodies hd = bodies h - body_of m a"
    by (rule drop_message_ok[OF assms])
  let ?pdu = "coap_pdu_set_code api (coap_pdu_set_type api pdu (to_raw_pdu_type (msg_type m))) (to_raw_pdu_code (msg_code m))"
  show ?thesis
  proof (cases "msg_token m")
    case None
    with d show ?thesis by (simp add: apply_to_raw_pdu_mem_def apply_to_raw_pdu_def Let_def)
  next
    case (Some tok)
    obtain r p1 where add: "coap_add_token api ?pdu tok = (r, p1)" by (cases "coap_add_token api ?pdu tok")
    show ?thesis
    proof (cases "r = 0")
      case True
      with Some add d show ?thesis by (simp add: apply_to_raw_pdu_mem_def apply_to_raw_pdu_def Let_def)
    next
      case False
      obtain h1 where o: "apply_options_mem B api m p1 h = Some (fst (apply_options B api m p1), snd (apply_options B api m p1), h1)"
          "wf_heap h1" "bodies h1 = bodies h"
        using apply_options_refines[OF assms(1), of B api m p1] by blast
      have body1: "body_ok m a h1" using assms(2) body_ok_bodies[OF o(3)] by simp
      show ?thesis
      proof (cases "fst (apply_options B api m p1)")
        case (Inl e)
        obtain h2 where "drop_message m a h1 = Some h2" "wf_heap h2" "bodies h2 = bodies h1 - body_of m a"
          by (rule drop_message_ok[OF o(2) body1])
        with Inl Some add False o show ?thesis
          by (simp add: apply_to_raw_pdu_mem_def apply_to_raw_pdu_def Let_def case_prod_beta)
      next
        case (Inr u)
        have owned: "fst (apply_data api m q) = Inr ()" if "handed_over m" for q
          using that by (auto simp: apply_data_def handed_over_def)
        let ?q = "snd (apply_options B api m p1)"
        have "apply_to_raw_pdu B api m pdu = apply_data api m ?q"
          using Inr Some add False by (simp add: apply_to_raw_pdu_def Let_def case_prod_beta)
        moreover have "apply_to_raw_pdu_mem B api m a pdu h = apply_data_mem api m a ?q h1"
          using Inr Some add False o(1) by (simp add: apply_to_raw_pdu_mem_def Let_def)
        moreover have "(fst (apply_data api m ?q) = Inr () \<and> handed_over m) = handed_over m" using owned by blast
        ultimately show ?thesis
          using apply_data_refines[OF o(2) body1, of api ?q] unfolding Let_def o(3) by simp
      qed
    qed
  qed
qed

section \<open>Leaks\<close>

definition entries :: "msg_heap \<Rightarrow> nat set" where
  "entries h = {a. blocks h a = Some Entry}"

lemma entries_fresh [simp]: "entries (h\<lparr>fresh := n\<rparr>) = entries h"
  by (simp add: entries_def)

lemma entries_with: "wf_heap h \<Longrightarrow> entries (with_entries n h) = entries h \<union> {fresh h ..< fresh h + n}"
  by (auto simp: entries_def with_entries_def split: if_splits)

lemma entries_drop:
  assumes "drop_message m a h = Some h'"
  shows "entries h' = entries h"
  using assms
  by (auto simp: drop_message_def drop_body_def dealloc_def entries_def split: option.splits if_splits)

lemma entries_apply_data:
  assumes "apply_data_mem api m a pdu h = Some (r, q, owned, h')"
  shows "entries h' = entries h" and "r \<noteq> Inl (InvalidOptionValue ty e)"
  using assms
  by (auto simp: apply_data_mem_def drop_body_def dealloc_def entries_def case_prod_beta
      split: option.splits CoapMessageCode.splits if_splits)

text \<open>When memory is not exhausted, the loop allocates an entry for each option up to the first invalid one.\<close>

definition chain_var :: "(nat \<times> optlist_entry) list \<Rightarrow> chain option" where
  "chain_var es = (if es = [] then None else Some (Some es))"

lemma loop_entries:
  assumes "alloc_ok api" and "map fst ch = [fresh h ..< fresh h + k]"
  shows "\<exists>r. optlist_loop_mem B api (chain_var ch) opts (with_entries k h) =
      Some (r, with_entries (k + length (takeWhile (encodable B) opts)) h) \<and>
    (case r of
       Inl e \<Rightarrow> (\<exists>ty e'. e = InvalidOptionValue ty e') \<and> \<not> (\<forall>opt \<in> set opts. encodable B opt)
     | Inr ol \<Rightarrow> (\<forall>opt \<in> set opts. encodable B opt) \<and>
         (\<exists>ch'. ol = chain_var ch' \<and> map fst ch' = [fresh h ..< fresh h + k + length opts]))"
  using assms(2)
proof (induction opts arbitrary: ch k)
  case Nil
  then show ?case by auto
next
  case (Cons opt opts)
  show ?case
  proof (cases "encodable B opt")
    case True
    let ?ch = "ch @ [(fresh h + k, entry_of B opt)]"
    have "optlist_loop_mem B api (chain_var ch) (opt # opts) (with_entries k h) =
        optlist_loop_mem B api (chain_var ?ch) opts (with_entries (Suc k) h)"
      using True assms(1) by (simp add: encodable_def alloc_ok_def alloc_entry_with entry_of_def chain_var_def)
    moreover have "map fst ?ch = [fresh h ..< fresh h + Suc k]" using Cons.prems by simp
    ultimately show ?thesis using Cons.IH[of ?ch "Suc k"] True by (auto split: sum.splits)
  next
    case False
    then obtain e where "into_value_bytes B opt = Inl e" by (cases rule: into_value_bytes_cases[of B opt]) auto
    with False show ?thesis by (simp add: invalid_option_def)
  qed
qed

lemma apply_options_entries:
  assumes "wf_heap h" and "alloc_ok api" and "apply_options_mem B api m pdu h = Some (r, q, h')"
  shows "case r of
      Inl (InvalidOptionValue ty e) \<Rightarrow>
        entries h' = entries h \<union> {fresh h ..< fresh h + length (takeWhile (encodable B) (msg_options m))}
    | _ \<Rightarrow> entries h' = entries h"
proof -
  let ?n = "length (takeWhile (encodable B) (msg_options m))"
  have "map fst [] = [fresh h ..< fresh h + 0]" by simp
  from loop_entries[OF assms(2) this, of B "msg_options m"] obtain res where
    "optlist_loop_mem B api (chain_var []) (msg_options m) (with_entries 0 h) = Some (res, with_entries (0 + ?n) h)"
    and res: "case res of
       Inl e \<Rightarrow> (\<exists>ty e'. e = InvalidOptionValue ty e') \<and> \<not> (\<forall>opt \<in> set (msg_options m). encodable B opt)
     | Inr ol \<Rightarrow> (\<forall>opt \<in> set (msg_options m). encodable B opt) \<and>
         (\<exists>ch'. ol = chain_var ch' \<and> map fst ch' = [fresh h ..< fresh h + 0 + length (msg_options m)])"
    by (rule exE) blast
  then have loop: "optlist_loop_mem B api None (msg_options m) h = Some (res, with_entries ?n h)"
    by (simp add: chain_var_def)
  show ?thesis
  proof (cases res)
    case (Inl e)
    with res obtain ty e' where "e = InvalidOptionValue ty e'" by auto
    with Inl loop assms(1,3) show ?thesis by (auto simp: apply_options_mem_def entries_with)
  next
    case (Inr ol)
    with res obtain ch where ch: "ol = chain_var ch"
      "map fst ch = [fresh h ..< fresh h + ?n]" by (auto simp: takeWhile_eq_all_conv[THEN iffD2])
    have "free_entries [fresh h ..< fresh h + ?n] (with_entries ?n h) = Some (h\<lparr>fresh := fresh h + ?n\<rparr>)"
      by (rule free_with_entries[OF assms(1)])
    moreover have "?n = 0" if "ch = []" using that arg_cong[OF ch(2), of length] by simp
    ultimately show ?thesis
      using Inr loop ch assms(3)
      by (auto simp: apply_options_mem_def coap_delete_optlist_def chain_var_def case_prod_beta split: if_splits)
  qed
qed

lemma into_raw_pdu_refines:
  assumes "wf_heap h" and "body_ok m a h"
  shows "let X = into_raw_pdu B api n m; owned = ((\<exists>p. fst X = Inr p) \<and> handed_over m) in
    \<exists>h'. into_raw_pdu_mem B api n m a h = Some (fst X, snd X, owned, h') \<and>
      bodies h' = (if owned then bodies h else bodies h - body_of m a)"
proof -
  obtain hd where d: "drop_message m a h = Some hd" "bodies hd = bodies h - body_of m a"
    by (rule drop_message_ok[OF assms])
  show ?thesis
  proof (cases "msg_mid m")
    case None
    with d show ?thesis by (simp add: into_raw_pdu_mem_def into_raw_pdu_def)
  next
    case (Some mid)
    note mid = Some
    show ?thesis
    proof (cases "coap_pdu_init api (to_raw_pdu_type (msg_type m)) (to_raw_pdu_code (msg_code m)) mid n")
      case None
      with mid d show ?thesis by (simp add: into_raw_pdu_mem_def into_raw_pdu_def)
    next
      case (Some pdu)
      obtain r q where X: "apply_to_raw_pdu B api m pdu = (r, q)" by (cases "apply_to_raw_pdu B api m pdu")
      from apply_to_raw_pdu_refines[OF assms, of B api pdu] obtain h' where
        "apply_to_raw_pdu_mem B api m a pdu h = Some (r, q, r = Inr () \<and> handed_over m, h')"
        "bodies h' = (if r = Inr () \<and> handed_over m then bodies h else bodies h - body_of m a)"
        by (auto simp: X Let_def)
      with mid Some X show ?thesis
        by (cases r) (simp_all add: into_raw_pdu_mem_def into_raw_pdu_def Let_def)
    qed
  qed
qed

lemma cleanup_iff: "large_data_cleanup_handler a h \<noteq> None \<longleftrightarrow> (a, 1) \<in> bodies h"
  by (simp add: large_data_cleanup_handler_def dealloc_def bodies_def)

lemma bodies_unique: "(a, n) \<in> bodies h \<Longrightarrow> (a, n') \<in> bodies h \<Longrightarrow> n = n'"
  by (simp add: bodies_def)

lemma into_raw_pdu_owned:
  assumes "wf_heap h" and "body_ok m a h" and "into_raw_pdu_mem B api n m a h = Some (r, del, owned, h')" and owned
  shows "handed_over m \<and> bodies h' = bodies h"
  using into_raw_pdu_refines[OF assms(1,2), of B api n] assms(3,4) by (auto simp: Let_def)

lemma sum_unit_cases:
  assumes "(case r of Inl e \<Rightarrow> f e | Inr u \<Rightarrow> g u) = y"
  obtains e where "r = Inl e" and "f e = y" | "r = Inr ()" and "g () = y"
  using assms by (cases r) auto

lemma apply_to_raw_pdu_entries:
  assumes "wf_heap h" and "alloc_ok api" and "apply_to_raw_pdu_mem B api m a pdu h = Some (r, q, owned, h')"
  shows "case r of
      Inl (InvalidOptionValue ty e) \<Rightarrow>
        entries h' = entries h \<union> {fresh h ..< fresh h + length (takeWhile (encodable B) (msg_options m))}
    | _ \<Rightarrow> entries h' = entries h"
proof -
  let ?pdu = "coap_pdu_set_code api (coap_pdu_set_type api pdu (to_raw_pdu_type (msg_type m))) (to_raw_pdu_code (msg_code m))"
  from assms(3) consider
    e where "drop_message m a h = Some h'" "r = Inl e" "\<forall>ty e'. e \<noteq> InvalidOptionValue ty e'"
  | p1 p2 h1 e where "apply_options_mem B api m p1 h = Some (Inl e, p2, h1)" "drop_message m a h1 = Some h'" "r = Inl e"
  | p1 p2 h1 u where "apply_options_mem B api m p1 h = Some (Inr u, p2, h1)" "apply_data_mem api m a p2 h1 = Some (r, q, owned, h')"
    by (auto simp: apply_to_raw_pdu_mem_def Let_def bind_eq_Some_conv elim!: sum_unit_cases
        split: option.splits prod.splits if_splits)
  then show ?thesis
  proof cases
    case 1
    with entries_drop show ?thesis by (cases e) auto
  next
    case 2
    with apply_options_entries[OF assms(1,2) 2(1)] entries_drop[OF 2(2)] show ?thesis by (cases e) simp_all
  next
    case 3
    with apply_options_entries[OF assms(1,2) 3(1)] entries_apply_data[OF 3(2)] show ?thesis
      by (auto split: sum.splits MessageConversionError.splits)
  qed
qed

lemma into_raw_pdu_entries:
  assumes "wf_heap h" and "alloc_ok api" and "into_raw_pdu_mem B api n m a h = Some (r, del, owned, h')"
  shows "case r of
      Inl (InvalidOptionValue ty e) \<Rightarrow>
        entries h' = entries h \<union> {fresh h ..< fresh h + length (takeWhile (encodable B) (msg_options m))}
    | _ \<Rightarrow> entries h' = entries h"
proof -
  from assms(3) consider
    e where "drop_message m a h = Some h'" "r = Inl e" "\<forall>ty e'. e \<noteq> InvalidOptionValue ty e'"
  | pdu r' q where "apply_to_raw_pdu_mem B api m a pdu h = Some (r', q, owned, h')"
      "r = (case r' of Inl e \<Rightarrow> Inl e | Inr _ \<Rightarrow> Inr q)"
    by (auto simp: into_raw_pdu_mem_def elim!: sum_unit_cases split: option.splits)
  then show ?thesis
  proof cases
    case 1
    with entries_drop show ?thesis by (cases e) auto
  next
    case 2
    with apply_to_raw_pdu_entries[OF assms(1,2) 2(1)] show ?thesis by (cases r') simp_all
  qed
qed

section \<open>Properties\<close>

text \<open>
  C17: sending with its memory. For a message whose body is live, the steps with the heap always have a
  result, so that nothing is freed twice or while it is not live, and that result is the one of the
  steps without the heap. The body is dropped unless a request with a body became a PDU: then libcoap
  owns it.
\<close>

theorem into_raw_pdu_memory:
  assumes "wf_heap h" and "body_ok m a h"
  shows "let X = into_raw_pdu B api n m; owned = ((\<exists>p. fst X = Inr p) \<and> handed_over m) in
    \<exists>h'. into_raw_pdu_mem B api n m a h = Some (fst X, snd X, owned, h') \<and>
      bodies h' = (if owned then bodies h else bodies h - body_of m a)"
  by (rule into_raw_pdu_refines[OF assms])

text \<open>A request with a body of two bytes.\<close>

definition body_message :: CoapMessage where
  "body_message = (message_new CoapMessageType.Con (Request CoapRequestCode.Put))
     \<lparr>msg_mid := Some 1, msg_token := Some [7], msg_data := Some [1, 2]\<rparr>"

definition body_heap :: msg_heap where
  "body_heap = \<lparr>blocks = [0 \<mapsto> Body 2], fresh = 1\<rparr>"

lemma body_sample: "wf_heap body_heap" "body_ok body_message 0 body_heap"
  by (auto simp: wf_heap_def body_ok_def body_heap_def body_message_def bodies_def)

theorem into_raw_pdu_memory_witness:
  "\<exists>h'. into_raw_pdu_mem iana mem_api 100 body_message 0 body_heap =
     Some (fst (into_raw_pdu iana mem_api 100 body_message), snd (into_raw_pdu iana mem_api 100 body_message), True, h') \<and>
     bodies h' = {(0, 2)}"
proof -
  have "\<exists>p. fst (into_raw_pdu iana mem_api 100 body_message) = Inr p"
    by (simp add: into_raw_pdu_def body_message_def message_new_def mem_api_def apply_to_raw_pdu_def
        apply_options_def apply_data_def)
  moreover have "handed_over body_message" by (simp add: handed_over_def body_message_def message_new_def)
  moreover have "bodies body_heap = {(0, 2)}" by (auto simp: bodies_def body_heap_def split: if_splits)
  ultimately show ?thesis
    using into_raw_pdu_memory[OF body_sample, of iana mem_api 100] by (simp add: Let_def)
qed

text \<open>
  C20: leaks and layouts of sending. When memory is not exhausted, every entry of the option list is
  freed, unless an option has an invalid value: then the entries of all options before it are leaked.
  And the function given to libcoap for the body of a request frees it with the layout it was allocated
  with only if it is a single byte long.
\<close>

theorem sending_leaks:
  assumes "wf_heap h" and "body_ok m a h" and "alloc_ok api"
    and "into_raw_pdu_mem B api n m a h = Some (r, del, owned, h')"
  shows "(case r of
       Inl (InvalidOptionValue ty e) \<Rightarrow>
         entries h' = entries h \<union> {fresh h ..< fresh h + length (takeWhile (encodable B) (msg_options m))}
     | _ \<Rightarrow> entries h' = entries h) \<and>
    (owned \<longrightarrow> (\<exists>data. msg_data m = Some data \<and> (large_data_cleanup_handler a h' \<noteq> None \<longleftrightarrow> length data = 1)))"
proof
  show "case r of
       Inl (InvalidOptionValue ty e) \<Rightarrow>
         entries h' = entries h \<union> {fresh h ..< fresh h + length (takeWhile (encodable B) (msg_options m))}
     | _ \<Rightarrow> entries h' = entries h"
    by (rule into_raw_pdu_entries[OF assms(1,3,4)])
  show "owned \<longrightarrow> (\<exists>data. msg_data m = Some data \<and> (large_data_cleanup_handler a h' \<noteq> None \<longleftrightarrow> length data = 1))"
  proof
    assume owned
    then have own: "handed_over m" "bodies h' = bodies h" using into_raw_pdu_owned[OF assms(1,2,4)] by simp_all
    then obtain data where data: "msg_data m = Some data" by (auto simp: handed_over_def)
    with assms(2) have "(a, 1) \<in> bodies h \<longleftrightarrow> length data = 1"
      by (auto simp: body_ok_def dest: bodies_unique split: if_splits)
    with data own(2) show "\<exists>data. msg_data m = Some data \<and> (large_data_cleanup_handler a h' \<noteq> None \<longleftrightarrow> length data = 1)"
      unfolding cleanup_iff by blast
  qed
qed

text \<open>A request whose second option is too long.\<close>

definition invalid_message :: CoapMessage where
  "invalid_message = body_message\<lparr>msg_options := [CoapOption.ETag [1], CoapOption.ETag [0, 1, 2, 3, 4, 5, 6, 7, 8]]\<rparr>"

lemma invalid_message_encodable:
  "encodable iana (CoapOption.ETag [1])" "\<not> encodable iana (CoapOption.ETag [0, 1, 2, 3, 4, 5, 6, 7, 8])"
  by code_simp+

lemma invalid_message_rejected: "\<exists>ty e. fst (into_raw_pdu iana mem_api 100 invalid_message) = Inl (InvalidOptionValue ty e)"
proof -
  obtain e where "into_value_bytes iana (CoapOption.ETag [0, 1, 2, 3, 4, 5, 6, 7, 8]) = Inl e"
    by (cases rule: into_value_bytes_cases[of iana "CoapOption.ETag [0, 1, 2, 3, 4, 5, 6, 7, 8]"])
      (use invalid_message_encodable in auto)
  moreover have "into_value_bytes iana (CoapOption.ETag [1]) = Inr (value_bytes (CoapOption.ETag [1]))"
    using invalid_message_encodable by (simp add: encodable_def)
  ultimately show ?thesis
    by (simp add: into_raw_pdu_def invalid_message_def body_message_def message_new_def mem_api_def apply_to_raw_pdu_def
        apply_options_def optlist_step_def into_optlist_entry_def invalid_option_def)
qed

theorem sending_leaks_witness:
  "\<exists>r del owned h'. into_raw_pdu_mem iana mem_api 100 invalid_message 0 body_heap = Some (r, del, owned, h') \<and>
     entries h' = {1}"
proof -
  have ok: "body_ok invalid_message 0 body_heap" using body_sample(2) by (simp add: body_ok_def invalid_message_def)
  obtain h' where run: "into_raw_pdu_mem iana mem_api 100 invalid_message 0 body_heap =
      Some (fst (into_raw_pdu iana mem_api 100 invalid_message), snd (into_raw_pdu iana mem_api 100 invalid_message),
        (\<exists>p. fst (into_raw_pdu iana mem_api 100 invalid_message) = Inr p) \<and> handed_over invalid_message, h')"
    using into_raw_pdu_refines[OF body_sample(1) ok, of iana mem_api 100] by (auto simp: Let_def)
  have "takeWhile (encodable iana) (msg_options invalid_message) = [CoapOption.ETag [1]]"
    using invalid_message_encodable by (simp add: invalid_message_def)
  moreover have "entries body_heap = {}" "fresh body_heap = 1" by (auto simp: entries_def body_heap_def split: if_splits)
  moreover obtain ty e where "fst (into_raw_pdu iana mem_api 100 invalid_message) = Inl (InvalidOptionValue ty e)"
    using invalid_message_rejected by blast
  ultimately have "entries h' = {1}"
    using sending_leaks[OF body_sample(1) ok mem_api_ok(2) run] by auto
  with run show ?thesis by blast
qed

end
