(* ===== verification/Context.thy ===== *)
theory Context
  imports Session_Handles
begin

text \<open>
  The CoAP context (\<^verbatim>\<open>libcoap/src/context.rs\<close>), its endpoints (\<^verbatim>\<open>transport.rs\<close>) and the event callback
  (\<^verbatim>\<open>event.rs\<close>): the dispatch of events to the user's handler, the registration and removal of server
  sessions, the IO loop that lends the context to callbacks, the shutdown loop, the conversions of
  durations, and the destructor. libcoap's functions on a raw context of type \<open>'k\<close> are the fields of
  the parameter record \<open>context_api\<close>; the user's event handler is a parameter function.
\<close>

section \<open>Durations\<close>

text \<open>\<^verbatim>\<open>std::time::Duration\<close>: seconds in 64 bits and nanoseconds below a second.\<close>

record duration =
  dur_secs :: nat
  dur_nanos :: nat

definition wf_duration :: "duration \<Rightarrow> bool" where
  "wf_duration d \<longleftrightarrow> dur_secs d < 2 ^ 64 \<and> dur_nanos d < 10 ^ 9"

definition in_nanos :: "duration \<Rightarrow> nat" where
  "in_nanos d = dur_secs d * 10 ^ 9 + dur_nanos d"

definition as_millis :: "duration \<Rightarrow> nat" where
  "as_millis d = dur_secs d * 1000 + dur_nanos d div 10 ^ 6"

definition subsec_micros :: "duration \<Rightarrow> nat" where
  "subsec_micros d = dur_nanos d div 1000"

definition from_millis :: "nat \<Rightarrow> duration" where
  "from_millis n = \<lparr>dur_secs = n div 1000, dur_nanos = n mod 1000 * 10 ^ 6\<rparr>"

definition from_secs :: "nat \<Rightarrow> duration" where
  "from_secs n = \<lparr>dur_secs = n, dur_nanos = 0\<rparr>"

text \<open>Subtraction panics on underflow.\<close>

definition dur_sub :: "duration \<Rightarrow> duration \<Rightarrow> duration run" where
  "dur_sub a b =
     (if in_nanos b \<le> in_nanos a
      then Ret (let n = in_nanos a - in_nanos b in \<lparr>dur_secs = n div 10 ^ 9, dur_nanos = n mod 10 ^ 9\<rparr>)
      else Panic)"

section \<open>The context\<close>

datatype coap_event_t =
    COAP_EVENT_DTLS_CLOSED | COAP_EVENT_DTLS_CONNECTED | COAP_EVENT_DTLS_RENEGOTIATE | COAP_EVENT_DTLS_ERROR |
    COAP_EVENT_TCP_CONNECTED | COAP_EVENT_TCP_CLOSED | COAP_EVENT_TCP_FAILED | COAP_EVENT_SESSION_CONNECTED |
    COAP_EVENT_SESSION_CLOSED | COAP_EVENT_SESSION_FAILED | COAP_EVENT_PARTIAL_BLOCK |
    COAP_EVENT_SERVER_SESSION_NEW | COAP_EVENT_SERVER_SESSION_DEL | COAP_EVENT_XMIT_BLOCK_FAIL |
    COAP_EVENT_BAD_PACKET | COAP_EVENT_MSG_RETRANSMITTED | COAP_EVENT_OSCORE_DECRYPTION_FAILURE |
    COAP_EVENT_OSCORE_NOT_ENABLED | COAP_EVENT_OSCORE_NO_PROTECTED_PAYLOAD | COAP_EVENT_OSCORE_NO_SECURITY |
    COAP_EVENT_OSCORE_INTERNAL_ERROR | COAP_EVENT_OSCORE_DECODE_ERROR | COAP_EVENT_WS_PACKET_SIZE |
    COAP_EVENT_WS_CONNECTED | COAP_EVENT_WS_CLOSED | COAP_EVENT_KEEPALIVE_FAILURE | COAP_EVENT_OTHER nat

text \<open>The methods of the trait \<^verbatim>\<open>CoapEventHandler\<close>.\<close>

datatype handler_method =
    handle_dtls_closed | handle_dtls_connected | handle_dtls_renegotiate | handle_dtls_error |
    handle_tcp_connected | handle_tcp_closed | handle_tcp_failed | handle_session_connected |
    handle_session_closed | handle_session_failed | handle_partial_block |
    handle_server_session_new | handle_server_session_del | handle_xmit_block_fail |
    handle_bad_packet | handle_msg_retransmitted | handle_oscore_decryption_failure |
    handle_oscore_not_enabled | handle_oscore_no_protected_payload | handle_oscore_no_security |
    handle_oscore_internal_error | handle_oscore_decode_error | handle_ws_packet_size |
    handle_ws_connected | handle_ws_closed | handle_keepalive_failure

text \<open>
  The inner context behind its lendable cell, whose reference counts are those of the handles
  \<^verbatim>\<open>CoapContext\<close>. An endpoint is its raw pointer; a resource is its raw pointer with the counts of its
  cell; the crypto contexts are of an arbitrary type.
\<close>

record ('k, 'h, 'c) CoapContext =
  ctx_cell :: lend_cell
  ctx_counts :: rc_counts
  raw_context :: 'k
  endpoints :: "nat list"
  resources :: "(nat \<times> rc_counts) list"
  server_sessions :: "CoapServerSession list"
  event_handler :: "'h option"
  psk_context :: "'c option"
  pki_rpk_context :: "'c option"

record ('r, 'k) context_api =
  coap_new_context :: "'k option"
  coap_context_set_block_mode :: "'k \<Rightarrow> u8 \<Rightarrow> 'k"
  coap_register_response_handler :: "'k \<Rightarrow> 'k"
  COAP_BLOCK_USE_LIBCOAP :: u32
  COAP_BLOCK_SINGLE_BODY :: u32
  COAP_IO_WAIT :: u32
  coap_new_endpoint :: "'k \<Rightarrow> coap_address_t \<Rightarrow> CoapProtocol \<Rightarrow> nat \<times> 'k"
  coap_endpoint_set_default_mtu :: "'k \<Rightarrow> nat \<Rightarrow> u32 \<Rightarrow> 'k"
  coap_add_resource :: "'k \<Rightarrow> nat \<Rightarrow> 'k"
  coap_io_process :: "'k \<Rightarrow> u32 \<Rightarrow> (((nat \<Rightarrow> 'r) \<Rightarrow> nat \<Rightarrow> 'r) \<times> nat \<times> coap_event_t) list \<times> int \<times> 'k"
  coap_can_exit :: "'k \<Rightarrow> int"
  coap_context_set_pki_root_cas :: "'k \<Rightarrow> bytes option \<Rightarrow> bytes option \<Rightarrow> int \<times> 'k"
  coap_context_get_session_timeout :: "'k \<Rightarrow> u32"
  coap_context_set_session_timeout :: "'k \<Rightarrow> u32 \<Rightarrow> 'k"
  coap_context_get_csm_timeout :: "'k \<Rightarrow> u32"
  coap_context_set_csm_timeout :: "'k \<Rightarrow> u32 \<Rightarrow> 'k"
  coap_context_set_keepalive :: "'k \<Rightarrow> u32 \<Rightarrow> 'k"
  coap_context_get_max_handshake_sessions :: "'k \<Rightarrow> u32"
  coap_context_set_max_handshake_sessions :: "'k \<Rightarrow> u32 \<Rightarrow> 'k"
  coap_context_get_max_idle_sessions :: "'k \<Rightarrow> u32"
  coap_context_set_max_idle_sessions :: "'k \<Rightarrow> u32 \<Rightarrow> 'k"
  coap_context_get_csm_max_message_size :: "'k \<Rightarrow> u32"
  coap_context_set_csm_max_message_size :: "'k \<Rightarrow> u32 \<Rightarrow> 'k"

text \<open>
  \<^verbatim>\<open>CoapContext::new\<close>, with the state of the start-up guard. The application data of the raw context is
  a weak pointer to the new cell.
\<close>

definition context_new ::
    "build_config \<Rightarrow> (feature \<Rightarrow> int) \<Rightarrow> ('l \<Rightarrow> 'l) \<Rightarrow> ('r, 'k) context_api \<Rightarrow> ('r, 'ty, 'v) heap \<Rightarrow> once \<times> 'l \<Rightarrow>
      ((ContextConfigurationError + ('k, 'h, 'c) CoapContext) \<times> ('r, 'ty, 'v) heap) run \<times> once \<times> 'l" where
  "context_new cfg supported coap_startup K w s =
     (case ensure_coap_started cfg supported coap_startup s of (started, s) \<Rightarrow>
        (run_bind started (\<lambda>_.
         case coap_new_context K of
           None \<Rightarrow> Ret (Inl ContextUnknown, w)
         | Some raw \<Rightarrow>
             (let mode = or (COAP_BLOCK_USE_LIBCOAP K) (COAP_BLOCK_SINGLE_BODY K)
              in if unat mode < 256
                 then let raw = coap_context_set_block_mode K raw (ucast mode);
                          raw = coap_register_response_handler K raw;
                          inner = \<lparr>ctx_cell = cell_new, ctx_counts = rc_new, raw_context = raw,
                            endpoints = [], resources = [], server_sessions = [], event_handler = None,
                            psk_context = None, pki_rpk_context = None\<rparr>;
                          inner = inner\<lparr>ctx_counts := create_raw_weak (ctx_counts inner)\<rparr>;
                          w = w\<lparr>event_handler_set := True\<rparr>
                      in Ret (Inr inner, w)
                 else Panic)), s))"

text \<open>\<^verbatim>\<open>CoapContext::from_raw\<close> and the drop of the handle it returns.\<close>

definition context_from_raw :: "nat \<Rightarrow> ('k, 'h, 'c) CoapContext \<Rightarrow> ('k, 'h, 'c) CoapContext run" where
  "context_from_raw raw_ptr ctx =
     (if raw_ptr = 0 then Panic
      else run_map (\<lambda>n. ctx\<lparr>ctx_counts := n\<rparr>) (clone_raw_weak (ctx_counts ctx)))"

section \<open>Events\<close>

fun method_for :: "coap_event_t \<Rightarrow> handler_method option" where
  "method_for COAP_EVENT_DTLS_CLOSED = Some handle_dtls_closed"
| "method_for COAP_EVENT_DTLS_CONNECTED = Some handle_dtls_connected"
| "method_for COAP_EVENT_DTLS_RENEGOTIATE = Some handle_dtls_renegotiate"
| "method_for COAP_EVENT_DTLS_ERROR = Some handle_dtls_error"
| "method_for COAP_EVENT_TCP_CONNECTED = Some handle_tcp_connected"
| "method_for COAP_EVENT_TCP_CLOSED = Some handle_tcp_closed"
| "method_for COAP_EVENT_TCP_FAILED = Some handle_tcp_failed"
| "method_for COAP_EVENT_SESSION_CONNECTED = Some handle_session_connected"
| "method_for COAP_EVENT_SESSION_CLOSED = Some handle_session_closed"
| "method_for COAP_EVENT_SESSION_FAILED = Some handle_session_failed"
| "method_for COAP_EVENT_PARTIAL_BLOCK = Some handle_partial_block"
| "method_for COAP_EVENT_SERVER_SESSION_NEW = Some handle_server_session_new"
| "method_for COAP_EVENT_SERVER_SESSION_DEL = Some handle_server_session_del"
| "method_for COAP_EVENT_XMIT_BLOCK_FAIL = Some handle_xmit_block_fail"
| "method_for COAP_EVENT_BAD_PACKET = Some handle_bad_packet"
| "method_for COAP_EVENT_MSG_RETRANSMITTED = Some handle_msg_retransmitted"
| "method_for COAP_EVENT_OSCORE_DECRYPTION_FAILURE = Some handle_oscore_decryption_failure"
| "method_for COAP_EVENT_OSCORE_NOT_ENABLED = Some handle_oscore_not_enabled"
| "method_for COAP_EVENT_OSCORE_NO_PROTECTED_PAYLOAD = Some handle_oscore_no_protected_payload"
| "method_for COAP_EVENT_OSCORE_NO_SECURITY = Some handle_oscore_no_security"
| "method_for COAP_EVENT_OSCORE_INTERNAL_ERROR = Some handle_oscore_internal_error"
| "method_for COAP_EVENT_OSCORE_DECODE_ERROR = Some handle_oscore_decode_error"
| "method_for COAP_EVENT_WS_PACKET_SIZE = Some handle_ws_packet_size"
| "method_for COAP_EVENT_WS_CONNECTED = Some handle_ws_connected"
| "method_for COAP_EVENT_WS_CLOSED = Some handle_ws_closed"
| "method_for COAP_EVENT_KEEPALIVE_FAILURE = Some handle_keepalive_failure"
| "method_for (COAP_EVENT_OTHER n) = None"

text \<open>
  The user's handler: a method called on the handler object and a session, with its effect on both
  the object and the heap.
\<close>

type_synonym ('h, 'r, 'ty, 'v) user_handler =
  "handler_method \<Rightarrow> 'h \<Rightarrow> CoapSession \<Rightarrow> ('r, 'ty, 'v) heap \<Rightarrow> ('h \<times> ('r, 'ty, 'v) heap) run"

definition call_handler ::
    "('h, 'r, 'ty, 'v) user_handler \<Rightarrow> CoapSession \<Rightarrow> coap_event_t \<Rightarrow> ('k, 'h, 'c) CoapContext \<Rightarrow> ('r, 'ty, 'v) heap \<Rightarrow>
      (('k, 'h, 'c) CoapContext \<times> ('r, 'ty, 'v) heap) run" where
  "call_handler user session ev ctx w =
     (case event_handler ctx of
        None \<Rightarrow> Ret (ctx, w)
      | Some handler \<Rightarrow>
          (case method_for ev of
             None \<Rightarrow> Ret (ctx, w)
           | Some m \<Rightarrow>
               if (m = handle_server_session_new \<or> m = handle_server_session_del) \<and> \<not> is_ServerSession session
               then Panic
               else run_map (\<lambda>(handler, w). (ctx\<lparr>event_handler := Some handler\<rparr>, w)) (user m handler session w)))"

text \<open>\<^verbatim>\<open>position\<close>, whose predicate may panic.\<close>

fun run_position :: "('a \<Rightarrow> bool run) \<Rightarrow> 'a list \<Rightarrow> nat option run" where
  "run_position f [] = Ret None"
| "run_position f (x # xs) =
     run_bind (f x) (\<lambda>b. if b then Ret (Some 0) else run_map (map_option Suc) (run_position f xs))"

definition remove_at :: "nat \<Rightarrow> 'a list \<Rightarrow> 'a list" where
  "remove_at i xs = take i xs @ drop (Suc i) xs"

text \<open>
  What happens to the session after the handler: a new server session is stored in the context, a
  deleted one is removed from it and dropped with both handles, any other session is dropped.
\<close>

definition settle_session ::
    "'r raw_session_api \<Rightarrow> CoapSession \<Rightarrow> coap_event_t \<Rightarrow> ('k, 'h, 'c) CoapContext \<Rightarrow> ('r, 'ty, 'v) heap \<Rightarrow>
      (('k, 'h, 'c) CoapContext \<times> ('r, 'ty, 'v) heap) run" where
  "settle_session A session ev ctx w =
     (case session of
        ClientSession c \<Rightarrow> Ret (ctx, w)
      | ServerSession serv_sess \<Rightarrow>
          if ev = COAP_EVENT_SERVER_SESSION_NEW
          then Ret (ctx\<lparr>server_sessions := server_sessions ctx @ [serv_sess]\<rparr>, w)
          else if ev = COAP_EVENT_SERVER_SESSION_DEL
          then run_bind (run_position (\<lambda>v. session_eq A w (ServerSession v) session) (server_sessions ctx)) (\<lambda>pos.
               run_bind (expect pos) (\<lambda>i.
               let stored = server_sessions ctx ! i;
                   ctx = ctx\<lparr>server_sessions := remove_at i (server_sessions ctx)\<rparr>
               in run_bind (server_drop A stored w) (\<lambda>w.
                  run_map (\<lambda>w. (ctx, w)) (server_drop_exclusively A serv_sess w))))
          else run_map (\<lambda>w. (ctx, w)) (server_drop A serv_sess w))"

text \<open>A client session is dropped last, after the borrow of the context ended.\<close>

definition handle_event ::
    "'r raw_session_api \<Rightarrow> ('h, 'r, 'ty, 'v) user_handler \<Rightarrow> CoapSession \<Rightarrow> coap_event_t \<Rightarrow>
      ('k, 'h, 'c) CoapContext \<times> ('r, 'ty, 'v) heap \<Rightarrow> (('k, 'h, 'c) CoapContext \<times> ('r, 'ty, 'v) heap) run" where
  "handle_event A user session ev s =
     (case s of (ctx, w) \<Rightarrow>
      run_bind (cell_borrow_mut (ctx_cell ctx)) (\<lambda>(guard, cell).
      run_bind (call_handler user session ev (ctx\<lparr>ctx_cell := cell\<rparr>) w) (\<lambda>(ctx, w).
      run_bind (settle_session A session ev ctx w) (\<lambda>(ctx, w).
      run_bind (frame_drop guard (ctx_cell ctx)) (\<lambda>cell.
      let ctx = ctx\<lparr>ctx_cell := cell\<rparr>
      in case session of
           ClientSession c \<Rightarrow> run_map (\<lambda>w. (ctx, w)) (client_drop A c w)
         | ServerSession _ \<Rightarrow> Ret (ctx, w))))))"

definition event_handler_callback ::
    "'r raw_session_api \<Rightarrow> ('h, 'r, 'ty, 'v) user_handler \<Rightarrow> nat \<Rightarrow> coap_event_t \<Rightarrow>
      ('k, 'h, 'c) CoapContext \<times> ('r, 'ty, 'v) heap \<Rightarrow> (('k, 'h, 'c) CoapContext \<times> ('r, 'ty, 'v) heap) run" where
  "event_handler_callback A user p ev s =
     (case s of (ctx, w) \<Rightarrow>
      run_bind
        (if ev = COAP_EVENT_SERVER_SESSION_NEW \<or>
            ev = COAP_EVENT_TCP_CONNECTED \<and> coap_session_get_type A (raws w p) = COAP_SESSION_TYPE_SERVER
         then run_map (\<lambda>(h, w). (ServerSession h, w)) (server_initialize_raw A p w)
         else session_from_raw A p w) (\<lambda>(session, w).
      run_bind (context_from_raw (coap_session_get_context A (raws w p)) ctx) (\<lambda>ctx.
      run_map (\<lambda>(ctx, w). (ctx\<lparr>ctx_counts := rc_drop (ctx_counts ctx)\<rparr>, w))
        (handle_event A user session ev (ctx, w)))))"

section \<open>Input and output\<close>

definition io_timeout :: "u32 \<Rightarrow> duration option \<Rightarrow> u32" where
  "io_timeout io_wait timeout =
     (case timeout of
        Some t \<Rightarrow>
          (let temp = (if as_millis t < 2 ^ 32 then word_of_nat (as_millis t) else - 1 :: u32)
           in if subsec_micros t > 0 \<or> dur_nanos t > 0
              then (if temp = - 1 then temp else temp + 1) else temp)
      | None \<Rightarrow> io_wait)"

text \<open>
  libcoap processes IO by a sequence of event callbacks; \<open>coap_io_process\<close> gives, for each, what
  libcoap did to the raw sessions before it.
\<close>

fun run_callbacks ::
    "'r raw_session_api \<Rightarrow> ('h, 'r, 'ty, 'v) user_handler \<Rightarrow>
      (((nat \<Rightarrow> 'r) \<Rightarrow> nat \<Rightarrow> 'r) \<times> nat \<times> coap_event_t) list \<Rightarrow>
      ('k, 'h, 'c) CoapContext \<times> ('r, 'ty, 'v) heap \<Rightarrow> (('k, 'h, 'c) CoapContext \<times> ('r, 'ty, 'v) heap) run" where
  "run_callbacks A user [] s = Ret s"
| "run_callbacks A user ((f, p, ev) # evs) s =
     (case s of (ctx, w) \<Rightarrow>
      run_bind (event_handler_callback A user p ev (ctx, w\<lparr>raws := f (raws w)\<rparr>)) (run_callbacks A user evs))"

definition do_io ::
    "'r raw_session_api \<Rightarrow> ('r, 'k) context_api \<Rightarrow> ('h, 'r, 'ty, 'v) user_handler \<Rightarrow> duration option \<Rightarrow>
      ('k, 'h, 'c) CoapContext \<times> ('r, 'ty, 'v) heap \<Rightarrow>
      ((IoProcessError + duration) \<times> ('k, 'h, 'c) CoapContext \<times> ('r, 'ty, 'v) heap) run" where
  "do_io A K user timeout s =
     (case s of (ctx, w) \<Rightarrow>
      run_bind (cell_borrow_mut (ctx_cell ctx)) (\<lambda>(inner_ref, cell).
      run_bind (lend_ref_mut True cell) (\<lambda>(lend_handle, cell).
      let (evs, spent_time, raw) = coap_io_process K (raw_context ctx) (io_timeout (COAP_IO_WAIT K) timeout)
      in run_bind (run_callbacks A user evs (ctx\<lparr>ctx_cell := cell, raw_context := raw\<rparr>, w)) (\<lambda>(ctx, w).
         run_bind (frame_drop lend_handle (ctx_cell ctx)) (\<lambda>cell.
         run_bind (frame_drop inner_ref cell) (\<lambda>cell.
         Ret (if spent_time < 0 then Inl IoUnknown else Inr (from_millis (nat spent_time)),
              ctx\<lparr>ctx_cell := cell\<rparr>, w)))))))"

text \<open>The shutdown loop need not end: not returning is \<open>None\<close>.\<close>

partial_function (option) shutdown ::
    "'r raw_session_api \<Rightarrow> ('r, 'k) context_api \<Rightarrow> ('h, 'r, 'ty, 'v) user_handler \<Rightarrow> duration option \<Rightarrow>
      ('k, 'h, 'c) CoapContext \<times> ('r, 'ty, 'v) heap \<Rightarrow>
      ((IoProcessError + unit) \<times> ('k, 'h, 'c) CoapContext \<times> ('r, 'ty, 'v) heap) run option" where
  "shutdown A K user remaining s =
     (if coap_can_exit K (raw_context (fst s)) \<noteq> 0 then Some (Ret (Inr (), s))
      else case do_io A K user remaining s of
        Panic \<Rightarrow> Some Panic
      | Ret (Inl e, s) \<Rightarrow> Some (Ret (Inl e, s))
      | Ret (Inr spent, s) \<Rightarrow>
          (case remaining of
             None \<Rightarrow> shutdown A K user None s
           | Some v \<Rightarrow>
               (case dur_sub v spent of
                  Panic \<Rightarrow> Some Panic
                | Ret v \<Rightarrow> shutdown A K user (Some v) s)))"

declare shutdown.simps [code]

section \<open>Configuration\<close>

text \<open>A function body that borrows the context, mutably or not, for its whole duration.\<close>

definition with_ctx_mut ::
    "('k, 'h, 'c) CoapContext \<Rightarrow> (('k, 'h, 'c) CoapContext \<Rightarrow> ('a \<times> ('k, 'h, 'c) CoapContext) run) \<Rightarrow>
      ('a \<times> ('k, 'h, 'c) CoapContext) run" where
  "with_ctx_mut ctx f =
     run_bind (cell_borrow_mut (ctx_cell ctx)) (\<lambda>(guard, cell).
     run_bind (f (ctx\<lparr>ctx_cell := cell\<rparr>)) (\<lambda>(r, ctx).
     run_map (\<lambda>cell. (r, ctx\<lparr>ctx_cell := cell\<rparr>)) (frame_drop guard (ctx_cell ctx))))"

definition with_ctx ::
    "('k, 'h, 'c) CoapContext \<Rightarrow> (('k, 'h, 'c) CoapContext \<Rightarrow> ('a \<times> ('k, 'h, 'c) CoapContext) run) \<Rightarrow>
      ('a \<times> ('k, 'h, 'c) CoapContext) run" where
  "with_ctx ctx f =
     run_bind (cell_borrow (ctx_cell ctx)) (\<lambda>(guard, cell).
     run_bind (f (ctx\<lparr>ctx_cell := cell\<rparr>)) (\<lambda>(r, ctx).
     run_map (\<lambda>cell. (r, ctx\<lparr>ctx_cell := cell\<rparr>)) (frame_drop guard (ctx_cell ctx))))"

text \<open>Endpoints (\<^verbatim>\<open>transport.rs\<close>); the borrow for the raw context ends before libcoap is called.\<close>

definition new_endpoint ::
    "('r, 'k) context_api \<Rightarrow> platform \<Rightarrow> SocketAddr \<Rightarrow> CoapProtocol \<Rightarrow> ('k, 'h, 'c) CoapContext \<Rightarrow>
      ((EndpointCreationError + nat) \<times> ('k, 'h, 'c) CoapContext) run" where
  "new_endpoint K pl addr proto ctx =
     run_map (\<lambda>(_, ctx).
       let (ep, raw) = coap_new_endpoint K (raw_context ctx) (address_from_socket_addr pl addr) proto
       in (if ep = 0 then Inl EndpointUnknown else Inr ep, ctx\<lparr>raw_context := raw\<rparr>))
       (with_ctx_mut ctx (\<lambda>ctx. Ret ((), ctx)))"

text \<open>\<^verbatim>\<open>CoapEndpoint::set_default_mtu\<close>, on the endpoint with the given raw pointer.\<close>

definition set_default_mtu :: "('r, 'k) context_api \<Rightarrow> nat \<Rightarrow> u32 \<Rightarrow> ('k, 'h, 'c) CoapContext \<Rightarrow> ('k, 'h, 'c) CoapContext" where
  "set_default_mtu K ep mtu ctx = ctx\<lparr>raw_context := coap_endpoint_set_default_mtu K (raw_context ctx) ep mtu\<rparr>"

definition add_endpoint ::
    "('r, 'k) context_api \<Rightarrow> platform \<Rightarrow> SocketAddr \<Rightarrow> CoapProtocol \<Rightarrow> ('k, 'h, 'c) CoapContext \<Rightarrow>
      ((EndpointCreationError + unit) \<times> ('k, 'h, 'c) CoapContext) run" where
  "add_endpoint K pl addr proto ctx =
     run_bind (new_endpoint K pl addr proto ctx) (\<lambda>(r, ctx).
       case r of
         Inl e \<Rightarrow> Ret (Inl e, ctx)
       | Inr endpoint \<Rightarrow>
           with_ctx_mut ctx (\<lambda>ctx. Ret (Inr (), ctx\<lparr>endpoints := endpoints ctx @ [endpoint]\<rparr>)))"

definition add_endpoint_udp ::
    "('r, 'k) context_api \<Rightarrow> platform \<Rightarrow> SocketAddr \<Rightarrow> ('k, 'h, 'c) CoapContext \<Rightarrow>
      ((EndpointCreationError + unit) \<times> ('k, 'h, 'c) CoapContext) run" where
  "add_endpoint_udp K pl addr = add_endpoint K pl addr CoapProtocol.Udp"

definition add_endpoint_tcp ::
    "('r, 'k) context_api \<Rightarrow> platform \<Rightarrow> SocketAddr \<Rightarrow> ('k, 'h, 'c) CoapContext \<Rightarrow>
      ((EndpointCreationError + unit) \<times> ('k, 'h, 'c) CoapContext) run" where
  "add_endpoint_tcp K pl addr = add_endpoint K pl addr CoapProtocol.Tcp"

definition add_endpoint_dtls ::
    "('r, 'k) context_api \<Rightarrow> platform \<Rightarrow> SocketAddr \<Rightarrow> ('k, 'h, 'c) CoapContext \<Rightarrow>
      ((EndpointCreationError + unit) \<times> ('k, 'h, 'c) CoapContext) run" where
  "add_endpoint_dtls K pl addr = add_endpoint K pl addr CoapProtocol.Dtls"

definition add_resource ::
    "('r, 'k) context_api \<Rightarrow> nat \<times> rc_counts \<Rightarrow> ('k, 'h, 'c) CoapContext \<Rightarrow> (unit \<times> ('k, 'h, 'c) CoapContext) run" where
  "add_resource K res ctx =
     with_ctx_mut ctx (\<lambda>ctx.
       let ctx = ctx\<lparr>resources := resources ctx @ [res]\<rparr>
       in Ret ((), ctx\<lparr>raw_context := coap_add_resource K (raw_context ctx) (fst (last (resources ctx)))\<rparr>))"

text \<open>
  The crypto contexts are set once; \<open>apply_to_context\<close> is the method of the crypto context. The
  context stays set also if applying it fails.
\<close>

definition set_psk_context ::
    "('c \<Rightarrow> 'k \<Rightarrow> (ContextConfigurationError + unit) \<times> 'k) \<Rightarrow> 'c \<Rightarrow> ('k, 'h, 'c) CoapContext \<Rightarrow>
      ((ContextConfigurationError + unit) \<times> ('k, 'h, 'c) CoapContext) run" where
  "set_psk_context apply_to_context c ctx =
     with_ctx_mut ctx (\<lambda>ctx.
       if psk_context ctx \<noteq> None then Ret (Inl CryptoContextAlreadySet, ctx)
       else let ctx = ctx\<lparr>psk_context := Some c\<rparr>;
                (r, raw) = apply_to_context c (raw_context ctx)
            in Ret (r, ctx\<lparr>raw_context := raw\<rparr>))"

definition set_pki_rpk_context ::
    "('c \<Rightarrow> 'k \<Rightarrow> (ContextConfigurationError + unit) \<times> 'k) \<Rightarrow> 'c \<Rightarrow> ('k, 'h, 'c) CoapContext \<Rightarrow>
      ((ContextConfigurationError + unit) \<times> ('k, 'h, 'c) CoapContext) run" where
  "set_pki_rpk_context apply_to_context c ctx =
     with_ctx_mut ctx (\<lambda>ctx.
       if pki_rpk_context ctx \<noteq> None then Ret (Inl CryptoContextAlreadySet, ctx)
       else let ctx = ctx\<lparr>pki_rpk_context := Some c\<rparr>;
                (r, raw) = apply_to_context c (raw_context ctx)
            in Ret (r, ctx\<lparr>raw_context := raw\<rparr>))"

definition set_pki_root_cas ::
    "('r, 'k) context_api \<Rightarrow> bytes option \<Rightarrow> bytes option \<Rightarrow> ('k, 'h, 'c) CoapContext \<Rightarrow>
      ((ContextConfigurationError + unit) \<times> ('k, 'h, 'c) CoapContext) run" where
  "set_pki_root_cas K ca_file ca_dir ctx =
     with_ctx ctx (\<lambda>ctx.
       let (result, raw) = coap_context_set_pki_root_cas K (raw_context ctx) ca_file ca_dir
       in Ret (if result = 1 then Inr () else Inl ContextUnknown, ctx\<lparr>raw_context := raw\<rparr>))"

text \<open>A path must satisfy the check of the file system and contain no null byte.\<close>

definition path_cstring :: "(bytes \<Rightarrow> bool) \<Rightarrow> bytes option \<Rightarrow> bytes option run" where
  "path_cstring check path =
     (case path of
        None \<Rightarrow> Ret None
      | Some v \<Rightarrow> if check v \<and> 0 \<notin> set v then Ret (Some v) else Panic)"

definition set_pki_root_ca_paths ::
    "('r, 'k) context_api \<Rightarrow> (bytes \<Rightarrow> bool) \<Rightarrow> (bytes \<Rightarrow> bool) \<Rightarrow> bytes option \<Rightarrow> bytes option \<Rightarrow>
      ('k, 'h, 'c) CoapContext \<Rightarrow> ((ContextConfigurationError + unit) \<times> ('k, 'h, 'c) CoapContext) run" where
  "set_pki_root_ca_paths K is_file is_dir ca_file ca_dir ctx =
     run_bind (path_cstring is_file ca_file) (\<lambda>ca_file.
     run_bind (path_cstring is_dir ca_dir) (\<lambda>ca_dir.
     set_pki_root_cas K ca_file ca_dir ctx))"

text \<open>Timeouts are whole seconds in 32 bits.\<close>

definition secs_u32 :: "duration \<Rightarrow> u32 run" where
  "secs_u32 d = (if dur_secs d < 2 ^ 32 then Ret (word_of_nat (dur_secs d)) else Panic)"

definition session_timeout ::
    "('r, 'k) context_api \<Rightarrow> ('k, 'h, 'c) CoapContext \<Rightarrow> (duration \<times> ('k, 'h, 'c) CoapContext) run" where
  "session_timeout K ctx =
     with_ctx ctx (\<lambda>ctx. Ret (from_secs (unat (coap_context_get_session_timeout K (raw_context ctx))), ctx))"

definition set_session_timeout ::
    "('r, 'k) context_api \<Rightarrow> duration \<Rightarrow> ('k, 'h, 'c) CoapContext \<Rightarrow> (unit \<times> ('k, 'h, 'c) CoapContext) run" where
  "set_session_timeout K timeout ctx =
     with_ctx_mut ctx (\<lambda>ctx. run_map (\<lambda>n. ((), ctx\<lparr>raw_context := coap_context_set_session_timeout K (raw_context ctx) n\<rparr>))
       (secs_u32 timeout))"

definition csm_timeout ::
    "('r, 'k) context_api \<Rightarrow> ('k, 'h, 'c) CoapContext \<Rightarrow> (duration \<times> ('k, 'h, 'c) CoapContext) run" where
  "csm_timeout K ctx =
     with_ctx ctx (\<lambda>ctx. Ret (from_secs (unat (coap_context_get_csm_timeout K (raw_context ctx))), ctx))"

definition set_csm_timeout ::
    "('r, 'k) context_api \<Rightarrow> duration \<Rightarrow> ('k, 'h, 'c) CoapContext \<Rightarrow> (unit \<times> ('k, 'h, 'c) CoapContext) run" where
  "set_csm_timeout K timeout ctx =
     with_ctx ctx (\<lambda>ctx. run_map (\<lambda>n. ((), ctx\<lparr>raw_context := coap_context_set_csm_timeout K (raw_context ctx) n\<rparr>))
       (secs_u32 timeout))"

definition set_keepalive ::
    "('r, 'k) context_api \<Rightarrow> duration option \<Rightarrow> ('k, 'h, 'c) CoapContext \<Rightarrow> (unit \<times> ('k, 'h, 'c) CoapContext) run" where
  "set_keepalive K timeout ctx =
     with_ctx ctx (\<lambda>ctx. run_map (\<lambda>n. ((), ctx\<lparr>raw_context := coap_context_set_keepalive K (raw_context ctx) n\<rparr>))
       (case timeout of None \<Rightarrow> Ret 0 | Some v \<Rightarrow> secs_u32 v))"

definition max_handshake_sessions ::
    "('r, 'k) context_api \<Rightarrow> ('k, 'h, 'c) CoapContext \<Rightarrow> (u32 \<times> ('k, 'h, 'c) CoapContext) run" where
  "max_handshake_sessions K ctx =
     with_ctx ctx (\<lambda>ctx. Ret (coap_context_get_max_handshake_sessions K (raw_context ctx), ctx))"

definition set_max_handshake_sessions ::
    "('r, 'k) context_api \<Rightarrow> u32 \<Rightarrow> ('k, 'h, 'c) CoapContext \<Rightarrow> (unit \<times> ('k, 'h, 'c) CoapContext) run" where
  "set_max_handshake_sessions K n ctx =
     with_ctx ctx (\<lambda>ctx. Ret ((), ctx\<lparr>raw_context := coap_context_set_max_handshake_sessions K (raw_context ctx) n\<rparr>))"

definition max_idle_sessions ::
    "('r, 'k) context_api \<Rightarrow> ('k, 'h, 'c) CoapContext \<Rightarrow> (u32 \<times> ('k, 'h, 'c) CoapContext) run" where
  "max_idle_sessions K ctx =
     with_ctx ctx (\<lambda>ctx. Ret (coap_context_get_max_idle_sessions K (raw_context ctx), ctx))"

definition set_max_idle_sessions ::
    "('r, 'k) context_api \<Rightarrow> u32 \<Rightarrow> ('k, 'h, 'c) CoapContext \<Rightarrow> (unit \<times> ('k, 'h, 'c) CoapContext) run" where
  "set_max_idle_sessions K n ctx =
     with_ctx ctx (\<lambda>ctx. Ret ((), ctx\<lparr>raw_context := coap_context_set_max_idle_sessions K (raw_context ctx) n\<rparr>))"

definition csm_max_message_size ::
    "('r, 'k) context_api \<Rightarrow> ('k, 'h, 'c) CoapContext \<Rightarrow> (u32 \<times> ('k, 'h, 'c) CoapContext) run" where
  "csm_max_message_size K ctx =
     with_ctx ctx (\<lambda>ctx. Ret (coap_context_get_csm_max_message_size K (raw_context ctx), ctx))"

definition set_csm_max_message_size ::
    "('r, 'k) context_api \<Rightarrow> u32 \<Rightarrow> ('k, 'h, 'c) CoapContext \<Rightarrow> (unit \<times> ('k, 'h, 'c) CoapContext) run" where
  "set_csm_max_message_size K n ctx =
     with_ctx ctx (\<lambda>ctx. Ret ((), ctx\<lparr>raw_context := coap_context_set_csm_max_message_size K (raw_context ctx) n\<rparr>))"

section \<open>Destruction\<close>

text \<open>The calls into libcoap that the destructor makes, in order.\<close>

datatype ctx_effect = UnregisterEventHandler | FreeEndpoint nat | DeleteResource nat | FreeContext

text \<open>The destructor of an endpoint.\<close>

definition endpoint_drop :: "nat \<Rightarrow> ctx_effect" where
  "endpoint_drop = FreeEndpoint"

fun drop_server_sessions ::
    "'r raw_session_api \<Rightarrow> CoapServerSession list \<Rightarrow> ('r, 'ty, 'v) heap \<Rightarrow> ('r, 'ty, 'v) heap run" where
  "drop_server_sessions A [] w = Ret w"
| "drop_server_sessions A (h # hs) w = run_bind (server_drop_exclusively A h w) (drop_server_sessions A hs)"

text \<open>\<^verbatim>\<open>drop_inner_exclusive\<close> on every resource: each must be the only reference to its cell.\<close>

fun drop_resources :: "(nat \<times> rc_counts) list \<Rightarrow> ctx_effect list run" where
  "drop_resources [] = Ret []"
| "drop_resources ((raw, n) # rs) =
     run_bind (drop_exclusively n) (\<lambda>_. run_map (\<lambda>es. DeleteResource raw # es) (drop_resources rs))"

definition context_inner_drop ::
    "'r raw_session_api \<Rightarrow> ('k, 'h, 'c) CoapContext \<Rightarrow> ('r, 'ty, 'v) heap \<Rightarrow>
      (ctx_effect list \<times> rc_counts \<times> ('r, 'ty, 'v) heap) run" where
  "context_inner_drop A ctx w =
     run_bind (drop_server_sessions A (server_sessions ctx) (w\<lparr>event_handler_set := False\<rparr>)) (\<lambda>w.
     run_map (\<lambda>es. (UnregisterEventHandler # map endpoint_drop (endpoints ctx) @ es @ [FreeContext],
                    weak_drop (ctx_counts ctx), w))
       (drop_resources (resources ctx)))"

end
