(* ===== verification/Context_Io.thy ===== *)
theory Context_Io
  imports Context
begin

text \<open>
  Properties of the IO functions of the context: the conversion of the timeout, the lending of the
  context to callbacks (whose effect is shown to be that of callbacks with direct access), and the
  shutdown loop (when it returns, and when it panics).
\<close>

section \<open>Timeouts\<close>

lemma as_millis_bounds: "as_millis t * 10 ^ 6 \<le> in_nanos t \<and> in_nanos t < (as_millis t + 1) * 10 ^ 6"
proof -
  have "dur_nanos t = dur_nanos t div 10 ^ 6 * 10 ^ 6 + dur_nanos t mod 10 ^ 6" by simp
  moreover have "dur_nanos t mod 10 ^ 6 < 10 ^ 6" by simp
  ultimately show ?thesis by (simp add: as_millis_def in_nanos_def algebra_simps)
qed

lemma unat_io_timeout:
  "unat (io_timeout wait (Some t)) = min (as_millis t + (if 0 < dur_nanos t then 1 else 0)) (2 ^ 32 - 1)"
proof (cases "as_millis t < 2 ^ 32")
  case True
  then have n: "unat (word_of_nat (as_millis t) :: u32) = as_millis t" by (simp add: unat_of_nat)
  have max: "unat (- 1 :: u32) = 2 ^ 32 - 1" by (simp add: unsigned_minus_1_eq_mask mask_eq_exp_minus_1)
  have "(word_of_nat (as_millis t) :: u32) = - 1 \<longleftrightarrow> as_millis t = 2 ^ 32 - 1"
    using n max by (metis word_unat_eq_iff)
  moreover have "unat (word_of_nat (as_millis t) + 1 :: u32) = as_millis t + 1" if "as_millis t \<noteq> 2 ^ 32 - 1"
  proof -
    have "as_millis t + 1 < 2 ^ 32" using that True by simp
    moreover have "(word_of_nat (as_millis t) + 1 :: u32) = word_of_nat (as_millis t + 1)" by simp
    ultimately show ?thesis by (simp only: unat_of_nat) simp
  qed
  ultimately show ?thesis
    using True n max by (auto simp: io_timeout_def subsec_micros_def Let_def)
next
  case False
  then show ?thesis by (simp add: io_timeout_def Let_def unsigned_minus_1_eq_mask mask_eq_exp_minus_1)
qed

section \<open>Lending\<close>

text \<open>
  The specification of a callback: the context is accessed directly, as if it had been passed as an
  argument, and its cell plays no role.
\<close>

definition handle_event_direct ::
    "'r raw_session_api \<Rightarrow> ('h, 'r, 'ty, 'v) user_handler \<Rightarrow> CoapSession \<Rightarrow> coap_event_t \<Rightarrow>
      ('k, 'h, 'c) CoapContext \<times> ('r, 'ty, 'v) heap \<Rightarrow> (('k, 'h, 'c) CoapContext \<times> ('r, 'ty, 'v) heap) run" where
  "handle_event_direct A user session ev s =
     run_bind (call_handler user session ev (fst s) (snd s)) (\<lambda>(ctx, w).
     run_bind (settle_session A session ev ctx w) (\<lambda>(ctx, w).
     case session of
       ClientSession c \<Rightarrow> run_map (\<lambda>w. (ctx, w)) (client_drop A c w)
     | ServerSession _ \<Rightarrow> Ret (ctx, w)))"

definition callback_direct ::
    "'r raw_session_api \<Rightarrow> ('h, 'r, 'ty, 'v) user_handler \<Rightarrow> nat \<Rightarrow> coap_event_t \<Rightarrow>
      ('k, 'h, 'c) CoapContext \<times> ('r, 'ty, 'v) heap \<Rightarrow> (('k, 'h, 'c) CoapContext \<times> ('r, 'ty, 'v) heap) run" where
  "callback_direct A user p ev s =
     (case s of (ctx, w) \<Rightarrow>
      run_bind
        (if ev = COAP_EVENT_SERVER_SESSION_NEW \<or>
            ev = COAP_EVENT_TCP_CONNECTED \<and> coap_session_get_type A (raws w p) = COAP_SESSION_TYPE_SERVER
         then run_map (\<lambda>(h, w). (ServerSession h, w)) (server_initialize_raw A p w)
         else session_from_raw A p w) (\<lambda>(session, w).
      if coap_session_get_context A (raws w p) = 0 \<or> strong (ctx_counts ctx) = 0 then Panic
      else handle_event_direct A user session ev (ctx, w)))"

fun callbacks_direct ::
    "'r raw_session_api \<Rightarrow> ('h, 'r, 'ty, 'v) user_handler \<Rightarrow>
      (((nat \<Rightarrow> 'r) \<Rightarrow> nat \<Rightarrow> 'r) \<times> nat \<times> coap_event_t) list \<Rightarrow>
      ('k, 'h, 'c) CoapContext \<times> ('r, 'ty, 'v) heap \<Rightarrow> (('k, 'h, 'c) CoapContext \<times> ('r, 'ty, 'v) heap) run" where
  "callbacks_direct A user [] s = Ret s"
| "callbacks_direct A user ((f, p, ev) # evs) s =
     run_bind (callback_direct A user p ev (fst s, (snd s)\<lparr>raws := f (raws (snd s))\<rparr>)) (callbacks_direct A user evs)"

text \<open>Replacing the cell and the counts of a context.\<close>

abbreviation in_cell ::
    "lend_cell \<Rightarrow> rc_counts \<Rightarrow> ('k, 'h, 'c) CoapContext \<times> ('r, 'ty, 'v) heap \<Rightarrow> ('k, 'h, 'c) CoapContext \<times> ('r, 'ty, 'v) heap" where
  "in_cell cell n s \<equiv> ((fst s)\<lparr>ctx_cell := cell, ctx_counts := n\<rparr>, snd s)"

definition lent_cell :: lend_cell where
  "lent_cell = \<lparr>flag = Exclusive, lent = True\<rparr>"

lemma run_bind_map: "run_bind (run_map f m) g = run_bind m (\<lambda>x. g (f x))"
  by (cases m) simp_all

lemma run_map_bind: "run_map f (run_bind m g) = run_bind m (\<lambda>x. run_map f (g x))"
  by (cases m) simp_all

lemma run_map_map: "run_map f (run_map g m) = run_map (\<lambda>x. f (g x)) m"
  by (cases m) simp_all

lemma in_cell_simps:
  "ctx\<lparr>event_handler := h, ctx_cell := cell, ctx_counts := n\<rparr> = ctx\<lparr>ctx_cell := cell, ctx_counts := n, event_handler := h\<rparr>"
  "ctx\<lparr>server_sessions := ss, ctx_cell := cell, ctx_counts := n\<rparr> = ctx\<lparr>ctx_cell := cell, ctx_counts := n, server_sessions := ss\<rparr>"
  "ctx\<lparr>ctx_cell := cell, ctx_counts := n, ctx_cell := cell'\<rparr> = ctx\<lparr>ctx_cell := cell', ctx_counts := n\<rparr>"
  "ctx\<lparr>ctx_cell := cell, ctx_counts := n, ctx_counts := n'\<rparr> = ctx\<lparr>ctx_cell := cell, ctx_counts := n'\<rparr>"
  by simp_all

lemma call_handler_cell:
  "call_handler user session ev (ctx\<lparr>ctx_cell := cell, ctx_counts := n\<rparr>) w =
     run_map (in_cell cell n) (call_handler user session ev ctx w)"
  by (simp add: call_handler_def run_map_map case_prod_unfold in_cell_simps split: option.split)

lemma settle_session_cell:
  "settle_session A session ev (ctx\<lparr>ctx_cell := cell, ctx_counts := n\<rparr>) w =
     run_map (in_cell cell n) (settle_session A session ev ctx w)"
  by (simp add: settle_session_def run_map_map run_map_bind Let_def in_cell_simps split: CoapSession.split)

lemma handle_event_lent:
  "handle_event A user session ev (in_cell lent_cell n s) =
     run_map (in_cell lent_cell n) (handle_event_direct A user session ev s)"
proof -
  obtain ctx w where s: "s = (ctx, w)" by (cases s)
  let ?c = "\<lparr>flag = Exclusive, lent = False\<rparr> :: lend_cell"
  have "cell_borrow_mut lent_cell = Ret (BorrowedMut, ?c)" by (simp add: cell_borrow_mut_def lent_cell_def)
  moreover have "frame_drop BorrowedMut ?c = Ret lent_cell" by (simp add: ref_mut_drop_def lent_cell_def)
  ultimately show ?thesis
    by (cases session)
      (simp_all add: s handle_event_def handle_event_direct_def in_cell_simps call_handler_cell settle_session_cell
        run_bind_map run_map_bind run_map_map Let_def case_prod_unfold)
qed

lemma handle_event_direct_keeps:
  assumes "handle_event_direct A user session ev s = Ret s'"
  shows "ctx_counts (fst s') = ctx_counts (fst s)" and "ctx_cell (fst s') = ctx_cell (fst s)"
  using assms
  by (auto simp: handle_event_direct_def call_handler_def settle_session_def run_bind_eq_Ret run_map_eq_Ret Let_def
      split: option.splits if_splits CoapSession.splits)

lemma callback_direct_keeps:
  assumes "callback_direct A user p ev s = Ret s'"
  shows "ctx_counts (fst s') = ctx_counts (fst s)" and "ctx_cell (fst s') = ctx_cell (fst s)"
proof -
  from assms obtain session w where "handle_event_direct A user session ev (fst s, w) = Ret s'"
    by (cases s) (auto simp: callback_direct_def run_bind_eq_Ret simp del: run_map_def split: if_split_asm)
  from handle_event_direct_keeps[OF this]
  show "ctx_counts (fst s') = ctx_counts (fst s)" and "ctx_cell (fst s') = ctx_cell (fst s)" by simp_all
qed

lemma callback_lent:
  assumes n: "ctx_counts (fst s) = n"
  shows "event_handler_callback A user p ev (in_cell lent_cell n s) = run_map (in_cell lent_cell n) (callback_direct A user p ev s)"
proof -
  obtain ctx w where s: "s = (ctx, w)" by (cases s)
  have drop: "rc_drop (n\<lparr>strong := Suc (strong n)\<rparr>) = n" by (simp add: rc_drop_def)
  have "run_bind (context_from_raw q (ctx\<lparr>ctx_cell := lent_cell, ctx_counts := n\<rparr>)) (\<lambda>ctx.
      run_map (\<lambda>s. ((fst s)\<lparr>ctx_counts := rc_drop (ctx_counts (fst s))\<rparr>, snd s)) (handle_event A user session ev (ctx, w))) =
    run_map (in_cell lent_cell n)
      (if q = 0 \<or> strong n = 0 then Panic else handle_event_direct A user session ev (ctx, w))"
    for q session w
    using handle_event_lent[of A user session ev "n\<lparr>strong := strong n + 1\<rparr>" "(ctx, w)"]
    by (simp add: drop context_from_raw_def clone_raw_weak_def in_cell_simps run_map_map case_prod_unfold)
  then show ?thesis
    using n by (simp add: s event_handler_callback_def callback_direct_def run_map_bind case_prod_unfold cong del: if_weak_cong)
qed

lemma callbacks_lent:
  assumes "ctx_counts (fst s) = n"
  shows "run_callbacks A user evs (in_cell lent_cell n s) = run_map (in_cell lent_cell n) (callbacks_direct A user evs s)"
  using assms
proof (induction evs arbitrary: s)
  case (Cons e evs)
  obtain f p ev where e: "e = (f, p, ev)" by (cases e)
  let ?s = "(fst s, (snd s)\<lparr>raws := f (raws (snd s))\<rparr>)"
  note step = callback_lent[of ?s n A user p ev]
  show ?case
  proof (cases "callback_direct A user p ev ?s")
    case (Ret s')
    with Cons callback_direct_keeps(1)[OF Ret] step show ?thesis by (simp add: e)
  next
    case Panic
    with Cons.prems step show ?thesis by (simp add: e)
  qed
qed simp

lemma callbacks_direct_keeps:
  assumes "callbacks_direct A user evs s = Ret s'"
  shows "ctx_counts (fst s') = ctx_counts (fst s) \<and> ctx_cell (fst s') = ctx_cell (fst s)"
  using assms
proof (induction evs arbitrary: s)
  case (Cons e evs)
  obtain f p ev where e: "e = (f, p, ev)" by (cases e)
  with Cons.prems obtain t where t: "callback_direct A user p ev (fst s, (snd s)\<lparr>raws := f (raws (snd s))\<rparr>) = Ret t"
    and "callbacks_direct A user evs t = Ret s'" by (auto simp: run_bind_eq_Ret)
  with Cons.IH[of t] callback_direct_keeps[OF t] show ?case by simp
qed simp

section \<open>Properties\<close>

text \<open>
  C22: the timeout handed to libcoap. It is the requested duration in milliseconds, rounded up with an
  error of at most one millisecond, unless it does not fit into 32 bits and saturates; without a
  timeout it is the value for waiting indefinitely, which is \<open>0\<close> in libcoap. So exactly the empty
  timeout is passed as that value too: polling with a zero timeout waits indefinitely.
\<close>

theorem io_timeout_rounds:
  "(let n = unat (io_timeout wait (Some t)) in
     (if as_millis t + (if 0 < dur_nanos t then 1 else 0) < 2 ^ 32
      then in_nanos t \<le> n * 10 ^ 6 \<and> n * 10 ^ 6 \<le> in_nanos t + 10 ^ 6
      else n = 2 ^ 32 - 1)) \<and>
   io_timeout wait None = wait \<and>
   (io_timeout 0 (Some t) = io_timeout 0 None \<longleftrightarrow> in_nanos t = 0)"
proof -
  let ?n = "as_millis t + (if 0 < dur_nanos t then 1 else 0)"
  have in_range: "in_nanos t \<le> ?n * 10 ^ 6 \<and> ?n * 10 ^ 6 \<le> in_nanos t + 10 ^ 6"
    using as_millis_bounds[of t] by (auto simp: in_nanos_def as_millis_def)
  have "io_timeout 0 (Some t) = 0 \<longleftrightarrow> unat (io_timeout 0 (Some t)) = 0" by (simp add: unat_eq_0)
  also have "\<dots> \<longleftrightarrow> in_nanos t = 0"
    by (auto simp: unat_io_timeout as_millis_def in_nanos_def min_def)
  finally have zero: "io_timeout 0 (Some t) = 0 \<longleftrightarrow> in_nanos t = 0" .
  then show ?thesis
    using in_range by (simp add: unat_io_timeout Let_def io_timeout_def[of _ None] min_def)
qed

text \<open>
  C9: lending is transparent. Starting from a context that is not borrowed, \<^verbatim>\<open>do_io\<close> behaves as if the
  callbacks had the context passed to them directly: the borrows inside callbacks never panic, the
  lent reference is always back when it is demanded, and afterwards the context is not borrowed. The
  result is the time libcoap reports, or an error exactly if that is negative.
\<close>

theorem do_io_lending_transparent:
  assumes "ctx_cell ctx = cell_new"
  shows "do_io A K user timeout (ctx, w) =
    (let (evs, spent, raw) = coap_io_process K (raw_context ctx) (io_timeout (COAP_IO_WAIT K) timeout)
     in run_map (\<lambda>s'. (if spent < 0 then Inl IoUnknown else Inr (from_millis (nat spent)), s'))
          (callbacks_direct A user evs (ctx\<lparr>raw_context := raw\<rparr>, w)))"
proof -
  obtain evs spent raw where io: "coap_io_process K (raw_context ctx) (io_timeout (COAP_IO_WAIT K) timeout) = (evs, spent, raw)"
    using prod_cases3 by blast
  let ?s = "(ctx\<lparr>raw_context := raw\<rparr>, w)"
  have cells: "cell_borrow_mut cell_new = Ret (OwnedMut, \<lparr>flag = Exclusive, lent = False\<rparr>)"
      "lend_ref_mut True \<lparr>flag = Exclusive, lent = False\<rparr> = Ret (Lender, lent_cell)"
      "lender_drop lent_cell = Ret \<lparr>flag = Exclusive, lent = False\<rparr>"
      "\<lparr>flag = Unborrowed, lent = False\<rparr> = cell_new"
    by (simp_all add: cell_borrow_mut_def cell_new_def refcell_borrow_mut_def lend_ref_mut_def lent_cell_def lender_drop_def)
  have s: "in_cell lent_cell (ctx_counts ctx) ?s = (ctx\<lparr>ctx_cell := lent_cell, raw_context := raw\<rparr>, w)" by simp
  have calls: "run_callbacks A user evs (ctx\<lparr>ctx_cell := lent_cell, raw_context := raw\<rparr>, w) =
      run_map (in_cell lent_cell (ctx_counts ctx)) (callbacks_direct A user evs ?s)"
    using callbacks_lent[of ?s "ctx_counts ctx" A user evs] by (simp only: s) simp
  have restored: "(fst s')\<lparr>ctx_cell := cell_new, ctx_counts := ctx_counts ctx\<rparr> = fst s'"
    if "callbacks_direct A user evs ?s = Ret s'" for s'
    using that assms callbacks_direct_keeps[OF that] by simp
  show ?thesis
    using restored calls
    by (cases "callbacks_direct A user evs ?s")
      (simp_all add: do_io_def assms io cells in_cell_simps prod_eq_iff)
qed

text \<open>A context whose raw context counts the rounds of IO, each with one event callback.\<close>

definition sample_context_api :: "(coap_session_type_t \<times> nat \<times> nat, nat) context_api" where
  "sample_context_api = \<lparr>coap_new_context = Some 0, coap_context_set_block_mode = (\<lambda>k m. k),
     coap_register_response_handler = id, COAP_BLOCK_USE_LIBCOAP = 1, COAP_BLOCK_SINGLE_BODY = 2, COAP_IO_WAIT = 0,
     coap_new_endpoint = (\<lambda>k addr proto. (1, k)), coap_endpoint_set_default_mtu = (\<lambda>k ep mtu. k), coap_add_resource = (\<lambda>k r. k),
     coap_io_process = (\<lambda>k timeout. ([(id, 5, COAP_EVENT_SERVER_SESSION_NEW)], 1, k + 1)),
     coap_can_exit = (\<lambda>k. if k < 1 then 0 else 1), coap_context_set_pki_root_cas = (\<lambda>k f d. (1, k)),
     coap_context_get_session_timeout = (\<lambda>k. 0), coap_context_set_session_timeout = (\<lambda>k n. k),
     coap_context_get_csm_timeout = (\<lambda>k. 0), coap_context_set_csm_timeout = (\<lambda>k n. k),
     coap_context_set_keepalive = (\<lambda>k n. k), coap_context_get_max_handshake_sessions = (\<lambda>k. 0),
     coap_context_set_max_handshake_sessions = (\<lambda>k n. k), coap_context_get_max_idle_sessions = (\<lambda>k. 0),
     coap_context_set_max_idle_sessions = (\<lambda>k n. k), coap_context_get_csm_max_message_size = (\<lambda>k. 0),
     coap_context_set_csm_max_message_size = (\<lambda>k n. k)\<rparr>"

definition sample_context :: "(nat, unit, unit) CoapContext" where
  "sample_context = \<lparr>ctx_cell = cell_new, ctx_counts = \<lparr>strong = 1, weak = 1\<rparr>, raw_context = 0, endpoints = [],
     resources = [], server_sessions = [], event_handler = None, psk_context = None, pki_rpk_context = None\<rparr>"

definition sample_user :: "(unit, coap_session_type_t \<times> nat \<times> nat, unit, unit) user_handler" where
  "sample_user m h session w = Ret (h, w)"

lemma sample_callbacks:
  "\<exists>w. callbacks_direct sample_raw_api sample_user [(id, 5, COAP_EVENT_SERVER_SESSION_NEW)]
     (sample_context\<lparr>raw_context := k\<rparr>, sample_heap) =
   Ret (sample_context\<lparr>raw_context := k, server_sessions := [\<lparr>srv_inner = 1, ref_counted = True\<rparr>]\<rparr>, w)"
  by (simp add: callback_direct_def initialize_raw_eq handle_event_direct_def call_handler_def settle_session_def
      sample_context_def sample_heap_def sample_raw_api_def server_type_def)

theorem do_io_lending_transparent_witness:
  "\<exists>w. do_io sample_raw_api sample_context_api sample_user None (sample_context, sample_heap) =
     Ret (Inr (from_millis 1),
       sample_context\<lparr>raw_context := 1, server_sessions := [\<lparr>srv_inner = 1, ref_counted = True\<rparr>]\<rparr>, w)"
proof -
  have "ctx_cell sample_context = cell_new" by (simp add: sample_context_def)
  note do_io_lending_transparent[OF this, of sample_raw_api sample_context_api sample_user None sample_heap]
  moreover obtain w where "callbacks_direct sample_raw_api sample_user [(id, 5, COAP_EVENT_SERVER_SESSION_NEW)]
      (sample_context\<lparr>raw_context := 1\<rparr>, sample_heap) =
      Ret (sample_context\<lparr>raw_context := 1, server_sessions := [\<lparr>srv_inner = 1, ref_counted = True\<rparr>]\<rparr>, w)"
    using sample_callbacks by blast
  moreover have "coap_io_process sample_context_api 0 t = ([(id, 5, COAP_EVENT_SERVER_SESSION_NEW)], 1, 1)" for t
    by (simp add: sample_context_api_def)
  moreover have "raw_context sample_context = 0" by (simp add: sample_context_def)
  ultimately show ?thesis by (simp del: callbacks_direct.simps)
qed

section \<open>Shutdown\<close>

text \<open>One round of the loop: the context cannot exit yet, IO succeeds and the time is not overdrawn.\<close>

definition remaining_after :: "duration option \<Rightarrow> duration \<Rightarrow> duration option run" where
  "remaining_after rem spent = (case rem of None \<Rightarrow> Ret None | Some v \<Rightarrow> run_map Some (dur_sub v spent))"

inductive shutdown_round ::
    "'r raw_session_api \<Rightarrow> ('r, 'k) context_api \<Rightarrow> ('h, 'r, 'ty, 'v) user_handler \<Rightarrow>
      duration option \<times> ('k, 'h, 'c) CoapContext \<times> ('r, 'ty, 'v) heap \<Rightarrow>
      duration option \<times> ('k, 'h, 'c) CoapContext \<times> ('r, 'ty, 'v) heap \<Rightarrow> bool" for A K user where
  round: "coap_can_exit K (raw_context (fst s)) = 0 \<Longrightarrow> do_io A K user rem s = Ret (Inr spent, s') \<Longrightarrow>
    remaining_after rem spent = Ret rem' \<Longrightarrow> shutdown_round A K user (rem, s) (rem', s')"

inductive_cases shutdown_round_elim: "shutdown_round A K user (rem, s) s'"

lemma shutdown_exit: "coap_can_exit K (raw_context (fst s)) \<noteq> 0 \<Longrightarrow> shutdown A K user rem s = Some (Ret (Inr (), s))"
  by (simp add: shutdown.simps)

lemma shutdown_unfold_round:
  assumes "shutdown_round A K user (rem, s) (rem', s')"
  shows "shutdown A K user rem s = shutdown A K user rem' s'"
  using assms
proof cases
  case (round spent)
  then show ?thesis
    by (subst shutdown.simps) (auto simp: remaining_after_def run_map_eq_Ret split: option.splits)
qed

text \<open>What one unfolding of the loop does, in the shape that induction needs.\<close>

lemma shutdown_cases:
  "shutdown A K user rem s =
     (if coap_can_exit K (raw_context (fst s)) \<noteq> 0 then Some (Ret (Inr (), s))
      else case do_io A K user rem s of
        Panic \<Rightarrow> Some Panic
      | Ret (Inl e, s') \<Rightarrow> Some (Ret (Inl e, s'))
      | Ret (Inr spent, s') \<Rightarrow>
          (case remaining_after rem spent of
             Panic \<Rightarrow> Some Panic
           | Ret rem' \<Rightarrow> shutdown A K user rem' s'))"
  by (subst shutdown.simps) (auto simp: remaining_after_def split: run.split sum.split option.split)

text \<open>The state in which the loop ended, and why.\<close>

definition shutdown_end ::
    "'r raw_session_api \<Rightarrow> ('r, 'k) context_api \<Rightarrow> ('h, 'r, 'ty, 'v) user_handler \<Rightarrow> duration option \<Rightarrow>
      ('k, 'h, 'c) CoapContext \<times> ('r, 'ty, 'v) heap \<Rightarrow>
      ((IoProcessError + unit) \<times> ('k, 'h, 'c) CoapContext \<times> ('r, 'ty, 'v) heap) run \<Rightarrow> bool" where
  "shutdown_end A K user rem s r \<longleftrightarrow>
     (if coap_can_exit K (raw_context (fst s)) \<noteq> 0 then r = Ret (Inr (), s)
      else case do_io A K user rem s of
        Panic \<Rightarrow> r = Panic
      | Ret (Inl e, s') \<Rightarrow> r = Ret (Inl e, s')
      | Ret (Inr spent, s') \<Rightarrow> r = Panic \<and> (\<exists>v. rem = Some v \<and> in_nanos v < in_nanos spent))"

lemma remaining_after_Panic: "remaining_after rem spent = Panic \<longleftrightarrow> (\<exists>v. rem = Some v \<and> in_nanos v < in_nanos spent)"
  by (auto simp: remaining_after_def dur_sub_def run_map_eq_Panic split: option.split)

lemma shutdown_sound:
  assumes "shutdown A K user rem s = Some r"
  shows "\<exists>rem' s'. (shutdown_round A K user)\<^sup>*\<^sup>* (rem, s) (rem', s') \<and> shutdown_end A K user rem' s' r"
proof (rule shutdown.raw_induct[where P = "\<lambda>A K user rem s r. \<exists>rem' s'.
    (shutdown_round A K user)\<^sup>*\<^sup>* (rem, s) (rem', s') \<and> shutdown_end A K user rem' s' r", OF _ assms], goal_cases)
  case (1 loop A K user rem s r)
  show ?case
  proof (cases "\<exists>spent s' rem'. coap_can_exit K (raw_context (fst s)) = 0 \<and>
      do_io A K user rem s = Ret (Inr spent, s') \<and> remaining_after rem spent = Ret rem'")
    case True
    then obtain spent s' rem' where io: "coap_can_exit K (raw_context (fst s)) = 0"
        "do_io A K user rem s = Ret (Inr spent, s')" "remaining_after rem spent = Ret rem'" by blast
    then have step: "shutdown_round A K user (rem, s) (rem', s')" by (rule shutdown_round.round)
    from 1(2) io have "loop A K user rem' s' = Some r"
      by (auto simp: remaining_after_def run_map_eq_Ret split: option.splits)
    from 1(1)[OF this] step show ?thesis by (blast intro: converse_rtranclp_into_rtranclp)
  next
    case False
    with 1(2) have "shutdown_end A K user rem s r"
      by (auto simp: shutdown_end_def remaining_after_def dur_sub_def split: run.splits sum.splits option.splits if_splits prod.splits)
    then show ?thesis by blast
  qed
qed

text \<open>
  Outcome of the shutdown. A shutdown that ends does so after finitely many successful rounds of
  IO, in one of four ways: the context can exit and the shutdown returns; IO reports an error, which
  is returned; a callback panics; or the last round took longer than the time that was left, and the
  subtraction of the durations panics.
\<close>

theorem shutdown_outcome:
  "shutdown A K user rem s = Some r \<longleftrightarrow>
     (\<exists>rem' s'. (shutdown_round A K user)\<^sup>*\<^sup>* (rem, s) (rem', s') \<and> shutdown_end A K user rem' s' r)"
proof
  assume "\<exists>rem' s'. (shutdown_round A K user)\<^sup>*\<^sup>* (rem, s) (rem', s') \<and> shutdown_end A K user rem' s' r"
  then obtain rem' s' where "(shutdown_round A K user)\<^sup>*\<^sup>* (rem, s) (rem', s')" and "shutdown_end A K user rem' s' r"
    by blast
  then show "shutdown A K user rem s = Some r"
  proof (induction rule: converse_rtranclp_induct2)
    case refl
    then show ?case
      by (subst shutdown_cases)
        (auto simp: shutdown_end_def remaining_after_Panic[symmetric] split: if_splits run.splits sum.splits)
  next
    case (step rem1 s1 rem2 s2)
    then show ?case using shutdown_unfold_round[of A K user rem1 s1 rem2 s2] by simp
  qed
qed (rule shutdown_sound)

text \<open>An endless run of the loop: its states with the time that is left, and the time each round took.\<close>

definition shutdown_run ::
    "'r raw_session_api \<Rightarrow> ('r, 'k) context_api \<Rightarrow> ('h, 'r, 'ty, 'v) user_handler \<Rightarrow>
      (nat \<Rightarrow> duration option \<times> ('k, 'h, 'c) CoapContext \<times> ('r, 'ty, 'v) heap) \<Rightarrow> (nat \<Rightarrow> duration) \<Rightarrow> bool" where
  "shutdown_run A K user f spent \<longleftrightarrow>
     (\<forall>n. coap_can_exit K (raw_context (fst (snd (f n)))) = 0 \<and>
          do_io A K user (fst (f n)) (snd (f n)) = Ret (Inr (spent n), snd (f (Suc n))) \<and>
          remaining_after (fst (f n)) (spent n) = Ret (fst (f (Suc n))))"

lemma shutdown_run_round: "shutdown_run A K user f spent \<Longrightarrow> shutdown_round A K user (f n) (f (Suc n))"
  unfolding shutdown_run_def by (metis prod.collapse shutdown_round.round)

lemma shutdown_round_det: "shutdown_round A K user x y \<Longrightarrow> shutdown_round A K user x z \<Longrightarrow> y = z"
  by (elim shutdown_round.cases) auto

lemma shutdown_end_no_round: "shutdown_end A K user rem s r \<Longrightarrow> \<not> shutdown_round A K user (rem, s) y"
  by (auto simp: shutdown_end_def remaining_after_Panic[symmetric] elim!: shutdown_round.cases split: if_splits)

lemma shutdown_run_endless:
  assumes run: "shutdown_run A K user f spent" and "f 0 = (rem, s)"
  shows "shutdown A K user rem s = None"
proof (rule ccontr)
  assume "shutdown A K user rem s \<noteq> None"
  then obtain rem' s' r where steps: "(shutdown_round A K user)\<^sup>*\<^sup>* (f 0) (rem', s')" and stop: "shutdown_end A K user rem' s' r"
    using shutdown_sound assms(2) by (metis not_None_eq)
  from steps have "\<exists>n. (rem', s') = f n"
  proof (induction rule: rtranclp_induct)
    case (step y z)
    then show ?case using shutdown_round_det[OF _ shutdown_run_round[OF run]] by blast
  qed blast
  with shutdown_run_round[OF run] shutdown_end_no_round[OF stop] show False by metis
qed

lemma shutdown_None_round:
  assumes "shutdown A K user rem s = None"
  shows "\<exists>rem' s'. shutdown_round A K user (rem, s) (rem', s') \<and> shutdown A K user rem' s' = None"
proof -
  obtain spent s' rem' where "coap_can_exit K (raw_context (fst s)) = 0" "do_io A K user rem s = Ret (Inr spent, s')"
    "remaining_after rem spent = Ret rem'" "shutdown A K user rem' s' = None"
    using assms by (subst (asm) shutdown_cases) (auto split: if_splits run.splits sum.splits)
  then show ?thesis using shutdown_round.round by blast
qed

lemma endless_shutdown_run:
  assumes "shutdown A K user rem s = None"
  shows "\<exists>f spent. f 0 = (rem, s) \<and> shutdown_run A K user f spent"
proof -
  have "\<exists>f. \<forall>n. (shutdown A K user (fst (f n)) (snd (f n)) = None \<and> (n = 0 \<longrightarrow> f n = (rem, s))) \<and>
      shutdown_round A K user (f n) (f (Suc n))"
  proof (rule dependent_nat_choice, goal_cases)
    case 1
    show ?case using assms by (intro exI[of _ "(rem, s)"]) simp
  next
    case (2 x n)
    then obtain rem' s' where "shutdown_round A K user (fst x, snd x) (rem', s')" "shutdown A K user rem' s' = None"
      using shutdown_None_round by blast
    then show ?case by (intro exI[of _ "(rem', s')"]) simp
  qed
  then obtain f where f: "f 0 = (rem, s)" "\<And>n. shutdown_round A K user (f n) (f (Suc n))" by blast
  have "\<exists>spent. coap_can_exit K (raw_context (fst (snd (f n)))) = 0 \<and>
      do_io A K user (fst (f n)) (snd (f n)) = Ret (Inr spent, snd (f (Suc n))) \<and>
      remaining_after (fst (f n)) spent = Ret (fst (f (Suc n)))" for n
    using f(2)[of n] by cases auto
  then obtain spent where "shutdown_run A K user f spent" unfolding shutdown_run_def by metis
  with f(1) show ?thesis by blast
qed

lemma in_nanos_sub: "dur_sub a b = Ret c \<Longrightarrow> in_nanos c + in_nanos b = in_nanos a"
  by (auto simp: dur_sub_def in_nanos_def Let_def split: if_splits)

text \<open>With a timeout, the time left is the timeout less the time of all rounds so far.\<close>

lemma shutdown_run_time:
  assumes "shutdown_run A K user f spent" and "fst (f 0) = Some v"
  shows "\<exists>u. fst (f n) = Some u \<and> in_nanos u + (\<Sum>i<n. in_nanos (spent i)) = in_nanos v"
proof (induction n)
  case (Suc n)
  then obtain u where u: "fst (f n) = Some u" "in_nanos u + (\<Sum>i<n. in_nanos (spent i)) = in_nanos v" by blast
  moreover have "remaining_after (fst (f n)) (spent n) = Ret (fst (f (Suc n)))" using assms(1) by (simp add: shutdown_run_def)
  ultimately obtain u' where "dur_sub u (spent n) = Ret u'" "fst (f (Suc n)) = Some u'"
    by (auto simp: remaining_after_def run_map_eq_Ret)
  with u in_nanos_sub[of u "spent n" u'] show ?case by auto
qed (use assms(2) in auto)

lemma bounded_sums_end:
  fixes g :: "nat \<Rightarrow> nat"
  assumes "\<And>n. (\<Sum>i<n. g i) \<le> b"
  shows "\<exists>N. \<forall>n \<ge> N. g n = 0"
proof -
  obtain N where N: "\<And>n. b - (\<Sum>i<N. g i) \<le> b - (\<Sum>i<n. g i)"
    using ex_has_least_nat[of "\<lambda>_. True" 0 "\<lambda>n. b - (\<Sum>i<n. g i)"] by auto
  have "g n = 0" if "N \<le> n" for n
    using N[of "Suc n"] assms[of "Suc n"] sum_mono2[of "{..<n}" "{..<N}" g] that by (auto simp: lessThan_Suc)
  then show ?thesis by blast
qed

lemma in_nanos_from_millis: "in_nanos (from_millis n) = n * 10 ^ 6"
proof -
  have "q * 10 ^ 9 + m * 10 ^ 6 = (q * 1000 + m) * (10 ^ 6 :: nat)" for q m by simp
  from this[of "n div 1000" "n mod 1000"] show ?thesis
    unfolding in_nanos_def from_millis_def by (simp only: duration.simps div_mult_mod_eq)
qed

lemma do_io_spent:
  assumes "do_io A K user t s = Ret (Inr spent, s')" and "\<And>k t. fst (snd (coap_io_process K k t)) \<noteq> 0"
  shows "in_nanos spent \<noteq> 0"
proof -
  obtain ctx w where s: "s = (ctx, w)" by (cases s)
  obtain evs ms raw where io: "coap_io_process K (raw_context ctx) (io_timeout (COAP_IO_WAIT K) t) = (evs, ms, raw)"
    by (cases "coap_io_process K (raw_context ctx) (io_timeout (COAP_IO_WAIT K) t)")
  from assms(1) have "\<not> ms < 0" and "spent = from_millis (nat ms)"
    by (auto simp: do_io_def s io run_bind_eq_Ret split: if_splits)
  moreover have "ms \<noteq> 0" using assms(2)[of "raw_context ctx" "io_timeout (COAP_IO_WAIT K) t"] io by simp
  ultimately show ?thesis by (simp add: in_nanos_from_millis)
qed

text \<open>
  C27: termination of the shutdown. The loop runs forever exactly if there is an endless run of
  successful rounds of IO after which the context still cannot exit. If a timeout was given, the time
  of the rounds of such a run together never exceeds the timeout, and from some round on every round
  takes no time at all; so the loop ends (it returns, reports an error or panics) within the timeout
  unless libcoap keeps returning at once. In particular it ends if every call of \<^verbatim>\<open>coap_io_process\<close> reports
  an error or a time of at least one millisecond.
\<close>

theorem shutdown_ends:
  "(shutdown A K user rem s = None \<longleftrightarrow> (\<exists>f spent. f 0 = (rem, s) \<and> shutdown_run A K user f spent)) \<and>
   (\<forall>f spent. f 0 = (Some v, s) \<and> shutdown_run A K user f spent \<longrightarrow>
      (\<forall>n. (\<Sum>i<n. in_nanos (spent i)) \<le> in_nanos v) \<and> (\<exists>N. \<forall>n \<ge> N. in_nanos (spent n) = 0)) \<and>
   ((\<forall>k t. fst (snd (coap_io_process K k t)) \<noteq> 0) \<longrightarrow> (\<exists>r. shutdown A K user (Some v) s = Some r))"
proof -
  have time: "(\<forall>n. (\<Sum>i<n. in_nanos (spent i)) \<le> in_nanos v) \<and> (\<exists>N. \<forall>n \<ge> N. in_nanos (spent n) = 0)"
    if "f 0 = (Some v, s)" and "shutdown_run A K user f spent" for f spent
  proof -
    have "(\<Sum>i<n. in_nanos (spent i)) \<le> in_nanos v" for n
      using shutdown_run_time[OF that(2), of v n] that(1) by force
    then show ?thesis using bounded_sums_end[of "\<lambda>n. in_nanos (spent n)"] by blast
  qed
  have "\<exists>r. shutdown A K user (Some v) s = Some r" if busy: "\<forall>k t. fst (snd (coap_io_process K k t)) \<noteq> 0"
  proof (rule ccontr)
    assume "\<nexists>r. shutdown A K user (Some v) s = Some r"
    then have "shutdown A K user (Some v) s = None" by simp
    from endless_shutdown_run[OF this] obtain f spent where f: "f 0 = (Some v, s)" "shutdown_run A K user f spent"
      by (elim exE conjE)
    from time[OF f] obtain n where "in_nanos (spent n) = 0" by blast
    moreover have "do_io A K user (fst (f n)) (snd (f n)) = Ret (Inr (spent n), snd (f (Suc n)))"
      using f(2) by (simp add: shutdown_run_def)
    ultimately show False using do_io_spent busy by blast
  qed
  moreover have "shutdown A K user rem s = None \<longleftrightarrow> (\<exists>f spent. f 0 = (rem, s) \<and> shutdown_run A K user f spent)"
    by (rule iffI, erule endless_shutdown_run, elim exE conjE, rule shutdown_run_endless)
  ultimately show ?thesis using time by (intro conjI allI impI) auto
qed

text \<open>A context without events whose rounds of IO take one millisecond each and that can exit after the first.\<close>

definition idle_context_api :: "(coap_session_type_t \<times> nat \<times> nat, nat) context_api" where
  "idle_context_api = sample_context_api\<lparr>coap_io_process := (\<lambda>k timeout. ([], 1, k + 1))\<rparr>"

theorem shutdown_ends_witness:
  "(\<forall>k t. fst (snd (coap_io_process idle_context_api k t)) \<noteq> 0) \<and>
   (\<exists>r. shutdown sample_raw_api idle_context_api sample_user (Some (from_secs 1)) (sample_context, sample_heap) = Some r)"
proof -
  have "\<forall>k t. fst (snd (coap_io_process idle_context_api k t)) \<noteq> 0" by (simp add: idle_context_api_def)
  with shutdown_ends[of sample_raw_api idle_context_api sample_user None "(sample_context, sample_heap)" "from_secs 1"]
  show ?thesis by blast
qed

end
