(* ===== verification/Context_Events.thy ===== *)
theory Context_Events
  imports Context_Io
begin

text \<open>
  Server sessions in the context: what the events for a new and for a deleted session do to the
  handles, the reference counts and the other sessions, and the destructor of the context. The
  arguments combine the invariant of a server session (theory \<open>Session_Handles\<close>) with the fact
  that its operations leave all other sessions alone.
\<close>

section \<open>Operations on one session leave the others alone\<close>

definition elsewhere_same :: "nat \<Rightarrow> nat \<Rightarrow> ('r, 'ty, 'v) heap \<Rightarrow> ('r, 'ty, 'v) heap \<Rightarrow> bool" where
  "elsewhere_same p c w w' \<longleftrightarrow>
     (\<forall>q. q \<noteq> p \<longrightarrow> raws w' q = raws w q) \<and>
     (\<forall>d. d \<noteq> c \<longrightarrow> counts w' d = counts w d \<and> inners w' d = inners w d)"

lemma elsewhere_same_trans:
  "elsewhere_same p c w w' \<Longrightarrow> elsewhere_same p c w' w'' \<Longrightarrow> elsewhere_same p c w w''"
  by (simp add: elsewhere_same_def)

lemma elsewhere_same_upd [simp]:
  "elsewhere_same p c w w" "elsewhere_same p c w (upd_raw p f w')  = elsewhere_same p c w w'"
  "elsewhere_same p c w (upd_counts c g w') = elsewhere_same p c w w'"
  by (auto simp: elsewhere_same_def)

lemma initialize_elsewhere:
  "server_initialize_raw A p w = Ret (h, w') \<Longrightarrow> elsewhere_same p (next_cell w) w w' \<and> h = \<lparr>srv_inner = next_cell w, ref_counted = True\<rparr>"
  by (auto simp: initialize_raw_eq alloc_cell_def Let_def elsewhere_same_def split: if_splits)

lemma from_raw_elsewhere:
  assumes "server_inv A refs p c base w hs" and "server_from_raw A p w = Ret (h, w')"
  shows "elsewhere_same p c w w' \<and> h = \<lparr>srv_inner = c, ref_counted = True\<rparr>"
  using assms by (auto simp: from_raw_eq server_inv_def split: if_splits)

text \<open>A drop of a handle of the session, also when its cell is kept alive by others.\<close>

lemma inner_drop_elsewhere:
  assumes "coap_session_get_app_data A (raws w (raw_session (inners w c))) = c" and "server_inner_drop A c w = Ret w'"
  shows "elsewhere_same p c w w'"
  using assms by (auto simp: server_inner_drop_def Let_def split: if_splits)

lemma drop_elsewhere:
  assumes laws: "raw_session_laws A refs" and inv: "server_inv A refs p c base w hs" and h: "h \<in> set hs"
    and drop: "server_drop A h w = Ret w'"
  shows "elsewhere_same p c w w'"
proof -
  let ?w = "if ref_counted h then upd_raw p (coap_session_release A) w else w"
  from inv h have c: "srv_inner h = c" "raw_session (inners w c) = p" "c \<noteq> 0"
      "coap_session_get_app_data A (raws w p) = c"
      "refs (raws w p) = base + length (filter ref_counted hs)"
    by (auto simp: server_inv_def counts_inv_def)
  have "0 < refs (raws w p)" if "ref_counted h"
    using c(5) filter_pos[of h hs ref_counted, OF h that] by auto
  then have "coap_session_get_app_data A (raws ?w (raw_session (inners ?w c))) = c"
    using c release_simps(2)[OF laws] by simp
  from server_cell_drop[OF this c(3)] drop c show ?thesis
    by (auto simp: server_drop_def Let_def)
qed


section \<open>Dropping exclusively\<close>

text \<open>A further reference to the cell counts as a handle that is not counted by libcoap.\<close>

lemma server_inv_share:
  assumes "server_inv A refs p c base w hs" and "hs \<noteq> []"
  shows "server_inv A refs p c base (upd_counts c rc_clone w) (\<lparr>srv_inner = c, ref_counted = False\<rparr> # hs)"
  using assms by (simp add: server_inv_def counts_inv_def)

lemma cell_drop_exclusively_last:
  assumes inv: "server_inv A refs p c base w [h]" and "\<not> ref_counted h"
  shows "\<exists>w'. cell_drop_exclusively (server_inner_drop A) c w = Ret w' \<and> server_inv A refs p c base w' [] \<and>
    elsewhere_same p c w w'"
proof -
  have c: "strong (counts w c) = 1" "raw_session (inners w c) = p" "c \<noteq> 0" "coap_session_get_app_data A (raws w p) = c"
    using inv by (auto simp: server_inv_def counts_inv_def)
  then have "cell_drop_exclusively (server_inner_drop A) c w = Ret (upd_counts c weak_drop (upd_counts c rc_drop w))"
    by (simp add: cell_drop_exclusively_def drop_exclusively_def server_inner_drop_def Let_def upd_counts_def)
  with inv assms(2) show ?thesis by (auto simp: server_inv_def counts_inv_def)
qed

lemma drop_exclusively_last:
  assumes laws: "raw_session_laws A refs" and inv: "server_inv A refs p c base w [h]"
  shows "\<exists>w'. server_drop_exclusively A h w = Ret w' \<and> server_inv A refs p c base w' [] \<and> elsewhere_same p c w w'"
proof -
  let ?u = "\<lparr>srv_inner = c, ref_counted = False\<rparr>"
  have h: "srv_inner h = c" using inv by (simp add: server_inv_def)
  let ?w = "upd_counts c rc_clone w"
  have inv1: "server_inv A refs p c base ?w [?u, h]" using server_inv_share[OF inv] by simp
  then obtain w1 where w1: "server_drop A h ?w = Ret w1" "server_inv A refs p c base w1 (remove1 h [?u, h])"
    using server_inv_drop[OF laws inv1, of h] by auto
  moreover have "elsewhere_same p c ?w w1" using drop_elsewhere[OF laws inv1 _ w1(1)] by simp
  moreover have rest: "remove1 h [?u, h] = [?u]" by auto
  moreover obtain w2 where "cell_drop_exclusively (server_inner_drop A) c w1 = Ret w2"
      "server_inv A refs p c base w2 []" "elsewhere_same p c w1 w2"
    using cell_drop_exclusively_last[OF w1(2)[unfolded rest]] by auto
  ultimately show ?thesis
    using h elsewhere_same_trans[of p c ?w w1 w2] elsewhere_same_trans[of p c w ?w w2]
    by (auto simp: server_drop_exclusively_def Let_def)
qed

section \<open>Finding the stored handle\<close>

lemma run_position_last:
  assumes "\<And>x. x \<in> set xs \<Longrightarrow> f x = Ret False" and "f y = Ret True"
  shows "run_position f (xs @ [y]) = Ret (Some (length xs))"
  using assms by (induction xs) simp_all

text \<open>Every session has its addresses and its context (what libcoap documents of a valid session).\<close>

definition session_known :: "'r raw_session_api \<Rightarrow> bool" where
  "session_known A \<longleftrightarrow>
     (\<forall>r. addr_local A r \<noteq> Panic \<and> addr_remote A r \<noteq> Panic \<and> coap_session_get_context A r \<noteq> 0)"

lemma session_eq_same:
  assumes "session_known A" and "session_ptr h w = session_ptr k w"
  shows "session_eq A w h k = Ret True"
proof -
  obtain a b where "addr_local A (raws w (session_ptr k w)) = Ret a" "addr_remote A (raws w (session_ptr k w)) = Ret b"
    using assms(1) unfolding session_known_def by (metis run.exhaust)
  with assms(2) show ?thesis by (simp add: session_eq_raw raw_session_eq_def Let_def)
qed

lemma session_eq_other: "session_ptr h w \<noteq> session_ptr k w \<Longrightarrow> session_eq A w h k = Ret False"
  by (simp add: session_eq_raw raw_session_eq_def Let_def)

lemma position_new:
  assumes "session_known A" and "\<And>h. h \<in> set hs \<Longrightarrow> raw_session (inners w (srv_inner h)) \<noteq> p"
    and "raw_session (inners w (srv_inner h)) = p" and "raw_session (inners w (srv_inner k)) = p"
  shows "run_position (\<lambda>v. session_eq A w (ServerSession v) (ServerSession k)) (hs @ [h]) = Ret (Some (length hs))"
  using assms by (intro run_position_last session_eq_same session_eq_other) (simp_all add: session_ptr_def)

lemma remove_at_last [simp]: "remove_at (length xs) (xs @ [y]) = xs"
  by (simp add: remove_at_def)

section \<open>The events of a server session\<close>

text \<open>An event handler that only updates itself.\<close>

definition quiet_handler :: "('h, 'r, 'ty, 'v) user_handler \<Rightarrow> bool" where
  "quiet_handler user \<longleftrightarrow> (\<forall>m h session w. \<exists>h'. user m h session w = Ret (h', w))"

lemma call_handler_quiet:
  assumes "quiet_handler user"
  shows "\<exists>eh. call_handler user (ServerSession h) ev ctx w = Ret (ctx\<lparr>event_handler := eh\<rparr>, w)"
proof -
  have self: "ctx\<lparr>event_handler := event_handler ctx\<rparr> = ctx" by simp
  show ?thesis
  proof (cases "event_handler ctx = None \<or> method_for ev = None")
    case True
    then have "call_handler user (ServerSession h) ev ctx w = Ret (ctx, w)"
      by (auto simp: call_handler_def split: option.split)
    then have "call_handler user (ServerSession h) ev ctx w = Ret (ctx\<lparr>event_handler := event_handler ctx\<rparr>, w)"
      unfolding self .
    then show ?thesis by blast
  next
    case False
    then obtain handler m where Some: "event_handler ctx = Some handler" and m: "method_for ev = Some m" by auto
    obtain h' where "user m handler (ServerSession h) w = Ret (h', w)"
      using assms unfolding quiet_handler_def by blast
    with Some m show ?thesis by (auto simp: call_handler_def)
  qed
qed

text \<open>The event for a new session.\<close>

lemma event_new:
  assumes laws: "raw_session_laws A refs" and "quiet_handler user" and "session_known A"
    and "p \<noteq> 0" and "next_cell w \<noteq> 0" and "server_type (coap_session_get_type A (raws w p))"
    and "0 < strong (ctx_counts ctx)"
  obtains eh h w' where "callback_direct A user p COAP_EVENT_SERVER_SESSION_NEW (ctx, w) =
      Ret (ctx\<lparr>event_handler := eh, server_sessions := server_sessions ctx @ [h]\<rparr>, w')"
    and "server_inv A refs p (next_cell w) (refs (raws w p)) w' [h]" and "ref_counted h"
    and "elsewhere_same p (next_cell w) w w'"
proof -
  obtain h w' where init: "server_initialize_raw A p w = Ret (h, w')"
    using assms(4,6) by (auto simp: initialize_raw_eq)
  obtain eh where "call_handler user (ServerSession h) COAP_EVENT_SERVER_SESSION_NEW ctx w' =
      Ret (ctx\<lparr>event_handler := eh\<rparr>, w')"
    using call_handler_quiet[OF assms(2)] by blast
  with init assms(3,7) have "callback_direct A user p COAP_EVENT_SERVER_SESSION_NEW (ctx, w) =
      Ret (ctx\<lparr>event_handler := eh, server_sessions := server_sessions ctx @ [h]\<rparr>, w')"
    by (simp add: callback_direct_def handle_event_direct_def settle_session_def session_known_def)
  moreover have "elsewhere_same p (next_cell w) w w'" "ref_counted h" using initialize_elsewhere[OF init] by simp_all
  ultimately show thesis using that server_inv_init[OF laws assms(5) init] by blast
qed

text \<open>The event for the deletion of a session that the context holds the last handle of.\<close>

lemma event_del:
  assumes laws: "raw_session_laws A refs" and "quiet_handler user" and known: "session_known A"
    and inv: "server_inv A refs p c base w [h]" and "server_sessions ctx = hs @ [h]"
    and others: "\<And>k. k \<in> set hs \<Longrightarrow> srv_inner k \<noteq> c \<and> raw_session (inners w (srv_inner k)) \<noteq> p"
    and "0 < strong (ctx_counts ctx)"
  obtains eh w' where "callback_direct A user p COAP_EVENT_SERVER_SESSION_DEL (ctx, w) =
      Ret (ctx\<lparr>event_handler := eh, server_sessions := hs\<rparr>, w')"
    and "server_inv A refs p c base w' []" and "elsewhere_same p c w w'"
proof -
  let ?k = "\<lparr>srv_inner = c, ref_counted = True\<rparr>"
  obtain w1 where restore: "server_from_raw A p w = Ret (?k, w1)" and inv1: "server_inv A refs p c base w1 [?k, h]"
    using server_inv_restore[OF laws inv] by auto
  have else1: "elsewhere_same p c w w1" using from_raw_elsewhere[OF inv restore] by simp
  from inv have "p \<noteq> 0" "server_type (coap_session_get_type A (raws w p))" by (simp_all add: server_inv_def)
  with restore have session: "session_from_raw A p w = Ret (ServerSession ?k, w1)"
    by (auto simp: session_from_raw_def server_type_def)
  obtain eh where call: "call_handler user (ServerSession ?k) COAP_EVENT_SERVER_SESSION_DEL ctx w1 =
      Ret (ctx\<lparr>event_handler := eh\<rparr>, w1)"
    using call_handler_quiet[OF assms(2)] by blast
  have pos: "run_position (\<lambda>v. session_eq A w1 (ServerSession v) (ServerSession ?k)) (hs @ [h]) = Ret (Some (length hs))"
    using others else1 inv1 by (intro position_new[OF known]) (auto simp: elsewhere_same_def server_inv_def)
  obtain w2 where w2: "server_drop A h w1 = Ret w2" "server_inv A refs p c base w2 (remove1 h [?k, h])"
    using server_inv_drop[OF laws inv1, of h] by auto
  have else2: "elsewhere_same p c w1 w2" using drop_elsewhere[OF laws inv1 _ w2(1)] by simp
  have rest: "remove1 h [?k, h] = [?k]" by auto
  obtain w3 where w3: "server_drop_exclusively A ?k w2 = Ret w3" "server_inv A refs p c base w3 []" "elsewhere_same p c w2 w3"
    using drop_exclusively_last[OF laws w2(2)[unfolded rest]] by blast
  have "settle_session A (ServerSession ?k) COAP_EVENT_SERVER_SESSION_DEL (ctx\<lparr>event_handler := eh\<rparr>) w1 =
      Ret (ctx\<lparr>event_handler := eh, server_sessions := hs\<rparr>, w3)"
    using pos w2(1) w3(1) by (simp add: settle_session_def assms(5) Let_def)
  with session call known assms(7) have "callback_direct A user p COAP_EVENT_SERVER_SESSION_DEL (ctx, w) =
      Ret (ctx\<lparr>event_handler := eh, server_sessions := hs\<rparr>, w3)"
    by (simp add: callback_direct_def handle_event_direct_def session_known_def)
  then show thesis
    using that w3(2) elsewhere_same_trans[OF elsewhere_same_trans[OF else1 else2] w3(3)] by blast
qed

section \<open>Dropping all sessions of the context\<close>



section \<open>Properties\<close>

lemma callback_in_lent:
  assumes "ctx_cell ctx = lent_cell"
  shows "event_handler_callback A user p ev (ctx, w) = callback_direct A user p ev (ctx, w)"
proof -
  have self: "in_cell lent_cell (ctx_counts ctx) (ctx, w) = (ctx, w)" using assms by (simp flip: assms)
  have "event_handler_callback A user p ev (ctx, w) =
      run_map (in_cell lent_cell (ctx_counts ctx)) (callback_direct A user p ev (ctx, w))"
    using callback_lent[of "(ctx, w)" "ctx_counts ctx" A user p ev, unfolded self] by simp
  also have "\<dots> = callback_direct A user p ev (ctx, w)"
  proof (cases "callback_direct A user p ev (ctx, w)")
    case (Ret s')
    have "(fst s')\<lparr>ctx_cell := lent_cell, ctx_counts := ctx_counts ctx\<rparr> = fst s'"
      using callback_direct_keeps[OF Ret] assms by (metis (no_types, lifting) CoapContext.surjective CoapContext.update_convs(1,2) fst_conv)
    with Ret show ?thesis by (simp add: prod_eq_iff)
  qed simp
  finally show ?thesis .
qed

text \<open>Using the handles of the session keeps its invariant and leaves the other sessions alone.\<close>

lemma server_step_elsewhere:
  assumes laws: "raw_session_laws A refs" and inv: "server_inv A refs p c base w hs"
    and step: "server_step A p (w, hs) (w', hs')"
  shows "elsewhere_same p c w w'"
  using step
proof cases
  case (restore h)
  with from_raw_elsewhere[OF inv] show ?thesis by blast
next
  case (restore_uncounted h)
  with inv show ?thesis by (auto simp: without_refcount_eq server_inv_def split: if_splits)
next
  case (clone_uncounted h h')
  with inv show ?thesis by (auto simp: server_clone_def server_inv_def)
next
  case (drop h)
  with drop_elsewhere[OF laws inv] show ?thesis by blast
qed

lemma server_steps_inv:
  assumes laws: "raw_session_laws A refs" and inv: "server_inv A refs p c base w hs"
    and "(server_step A p)\<^sup>*\<^sup>* (w, hs) (w', hs')"
  shows "server_inv A refs p c base w' hs' \<and> elsewhere_same p c w w'"
  using assms(3)
proof (induction rule: rtranclp_induct2)
  case refl
  with inv show ?case by simp
next
  case (step w1 hs1 w2 hs2)
  then show ?case
    using server_inv_step[OF laws, of p c base w1 hs1] server_step_elsewhere[OF laws, of p c base w1 hs1]
    by (blast intro: elsewhere_same_trans)
qed

text \<open>
  C10: life of a server session in the context, with an event handler that only changes its own state.
  While the context is lent to libcoap, the callback for a new server session stores one counted handle
  for it and raises the counter libcoap keeps by one. Whatever restoring, cloning of uncounted handles
  and dropping follows until the stored handle is again the only one, the callback for the deletion
  of the session then removes exactly that handle; neither callback panics, the counter is back at
  its value, the allocation is freed, and no other session is touched. Cloning counted handles and
  the event for an established TCP connection are not among the uses in between.
\<close>

theorem server_session_life:
  assumes laws: "raw_session_laws A refs" and "quiet_handler user" and "session_known A"
    and "ctx_cell ctx = lent_cell" and "0 < strong (ctx_counts ctx)"
    and "p \<noteq> 0" and "next_cell w \<noteq> 0" and "server_type (coap_session_get_type A (raws w p))"
    and others: "\<forall>k \<in> set (server_sessions ctx). srv_inner k \<noteq> next_cell w \<and> raw_session (inners w (srv_inner k)) \<noteq> p"
  shows "\<exists>ctx1 w1 h.
    event_handler_callback A user p COAP_EVENT_SERVER_SESSION_NEW (ctx, w) = Ret (ctx1, w1) \<and>
    server_sessions ctx1 = server_sessions ctx @ [h] \<and> srv_inner h = next_cell w \<and> ref_counted h \<and>
    refs (raws w1 p) = refs (raws w p) + 1 \<and>
    (\<forall>w1'. (server_step A p)\<^sup>*\<^sup>* (w1, [h]) (w1', [h]) \<longrightarrow>
      (\<exists>ctx2 w2. event_handler_callback A user p COAP_EVENT_SERVER_SESSION_DEL (ctx1, w1') = Ret (ctx2, w2) \<and>
        server_sessions ctx2 = server_sessions ctx \<and> refs (raws w2 p) = refs (raws w p) \<and>
        counts w2 (next_cell w) = \<lparr>strong = 0, weak = 0\<rparr> \<and> (\<forall>q. q \<noteq> p \<longrightarrow> raws w2 q = raws w q)))"
proof -
  obtain eh h w1 where new: "callback_direct A user p COAP_EVENT_SERVER_SESSION_NEW (ctx, w) =
      Ret (ctx\<lparr>event_handler := eh, server_sessions := server_sessions ctx @ [h]\<rparr>, w1)"
    and inv: "server_inv A refs p (next_cell w) (refs (raws w p)) w1 [h]" and h: "ref_counted h"
    and else1: "elsewhere_same p (next_cell w) w w1"
    by (rule event_new[OF laws assms(2,3,6,7,8,5)])
  let ?ctx = "ctx\<lparr>event_handler := eh, server_sessions := server_sessions ctx @ [h]\<rparr>"
  have lent: "ctx_cell ?ctx = lent_cell" using assms(4) by simp
  have del: "\<exists>ctx2 w2. event_handler_callback A user p COAP_EVENT_SERVER_SESSION_DEL (?ctx, w1') = Ret (ctx2, w2) \<and>
      server_sessions ctx2 = server_sessions ctx \<and> refs (raws w2 p) = refs (raws w p) \<and>
      counts w2 (next_cell w) = \<lparr>strong = 0, weak = 0\<rparr> \<and> (\<forall>q. q \<noteq> p \<longrightarrow> raws w2 q = raws w q)"
    if "(server_step A p)\<^sup>*\<^sup>* (w1, [h]) (w1', [h])" for w1'
  proof -
    have inv': "server_inv A refs p (next_cell w) (refs (raws w p)) w1' [h]"
      and same: "elsewhere_same p (next_cell w) w w1'"
      using server_steps_inv[OF laws inv that] else1 by (auto intro: elsewhere_same_trans)
    have "server_sessions ?ctx = server_sessions ctx @ [h]" "0 < strong (ctx_counts ?ctx)" using assms(5) by simp_all
    moreover have "srv_inner k \<noteq> next_cell w \<and> raw_session (inners w1' (srv_inner k)) \<noteq> p" if "k \<in> set (server_sessions ctx)" for k
      using that others same by (simp add: elsewhere_same_def)
    ultimately obtain eh' w2 where "callback_direct A user p COAP_EVENT_SERVER_SESSION_DEL (?ctx, w1') =
        Ret (?ctx\<lparr>event_handler := eh', server_sessions := server_sessions ctx\<rparr>, w2)"
      and "server_inv A refs p (next_cell w) (refs (raws w p)) w2 []" and "elsewhere_same p (next_cell w) w1' w2"
      using event_del[OF laws assms(2,3) inv', of ?ctx "server_sessions ctx"] by metis
    then show ?thesis
      using same unfolding callback_in_lent[OF lent]
      by (auto simp: server_inv_def counts_inv_def elsewhere_same_def)
  qed
  have "refs (raws w1 p) = refs (raws w p) + 1" "srv_inner h = next_cell w"
    using inv h by (simp_all add: server_inv_def counts_inv_def)
  with new[folded callback_in_lent[OF assms(4)]] h del show ?thesis
    by (intro exI[of _ ?ctx] exI[of _ w1] exI[of _ h]) simp
qed


text \<open>The sample sessions, with addresses.\<close>

definition known_raw_api :: "(coap_session_type_t \<times> nat \<times> nat) raw_session_api" where
  "known_raw_api = sample_raw_api
     \<lparr>coap_session_get_addr_local := (\<lambda>r. Some (address_from_socket_addr linux (V4 [127, 0, 0, 1] 5683))),
      coap_session_get_addr_remote := (\<lambda>r. Some (address_from_socket_addr linux (V4 [127, 0, 0, 1] 61616)))\<rparr>"

lemma known_raw_laws: "raw_session_laws known_raw_api sample_refs" "session_known known_raw_api"
  using sample_raw_laws
  by (simp_all add: known_raw_api_def raw_session_laws_def app_data_law_def reference_law_def release_law_def
      session_known_def addr_local_def addr_remote_def to_socket_addrs_def address_from_raw_def linux_def sample_raw_api_def)

lemma sample_quiet: "quiet_handler sample_user"
  by (simp add: quiet_handler_def sample_user_def)

theorem server_session_life_witness:
  "\<exists>ctx1 w1 h ctx2 w2. event_handler_callback known_raw_api sample_user 5 COAP_EVENT_SERVER_SESSION_NEW
       (sample_context\<lparr>ctx_cell := lent_cell\<rparr>, sample_heap) = Ret (ctx1, w1) \<and>
     server_sessions ctx1 = [h] \<and> sample_refs (raws w1 5) = 2 \<and>
     event_handler_callback known_raw_api sample_user 5 COAP_EVENT_SERVER_SESSION_DEL (ctx1, w1) = Ret (ctx2, w2) \<and>
     server_sessions ctx2 = [] \<and> sample_refs (raws w2 5) = 1"
proof -
  let ?ctx = "sample_context\<lparr>ctx_cell := lent_cell\<rparr>"
  have "ctx_cell ?ctx = lent_cell" "0 < strong (ctx_counts ?ctx)" "(5 :: nat) \<noteq> 0" "next_cell sample_heap \<noteq> 0"
      "server_type (coap_session_get_type known_raw_api (raws sample_heap 5))"
    by (simp_all add: sample_context_def sample_heap_def known_raw_api_def sample_raw_api_def server_type_def)
  note life = server_session_life[OF known_raw_laws(1) sample_quiet known_raw_laws(2) this]
  have "server_sessions ?ctx = []" "sample_refs (raws sample_heap 5) = 1"
    by (simp_all add: sample_context_def sample_heap_def sample_refs_def)
  moreover from life obtain ctx1 w1 h where "event_handler_callback known_raw_api sample_user 5 COAP_EVENT_SERVER_SESSION_NEW (?ctx, sample_heap) = Ret (ctx1, w1) \<and>
      server_sessions ctx1 = server_sessions ?ctx @ [h] \<and> sample_refs (raws w1 5) = sample_refs (raws sample_heap 5) + 1 \<and>
      (\<exists>ctx2 w2. event_handler_callback known_raw_api sample_user 5 COAP_EVENT_SERVER_SESSION_DEL (ctx1, w1) = Ret (ctx2, w2) \<and>
        server_sessions ctx2 = server_sessions ?ctx \<and> sample_refs (raws w2 5) = sample_refs (raws sample_heap 5))"
    using \<open>server_sessions ?ctx = []\<close> by (metis (no_types, lifting) empty_iff list.set(1) rtranclp.rtrancl_refl)
  ultimately show ?thesis by auto
qed


text \<open>
  The handle of a TCP connection. For a server session the callback for an established TCP
  connection initialises the session again and drops the new handle at its end: the allocation is
  freed, but the application data of the raw session still points to it, so that the next callback
  for this session restores a handle from freed memory.
\<close>

theorem tcp_connected_dangles:
  assumes laws: "raw_session_laws A refs" and "quiet_handler user" and "session_known A"
    and "ctx_cell ctx = lent_cell" and "0 < strong (ctx_counts ctx)" and "p \<noteq> 0" and "next_cell w \<noteq> 0"
    and "coap_session_get_type A (raws w p) = COAP_SESSION_TYPE_SERVER"
  shows "\<exists>ctx' w'. event_handler_callback A user p COAP_EVENT_TCP_CONNECTED (ctx, w) = Ret (ctx', w') \<and>
    server_sessions ctx' = server_sessions ctx \<and>
    counts w' (next_cell w) = \<lparr>strong = 0, weak = 0\<rparr> \<and> coap_session_get_app_data A (raws w' p) = next_cell w"
proof -
  obtain h w1 where init: "server_initialize_raw A p w = Ret (h, w1)"
    using assms(6,8) by (auto simp: initialize_raw_eq server_type_def)
  have inv: "server_inv A refs p (next_cell w) (refs (raws w p)) w1 [h]" by (rule server_inv_init[OF laws assms(7) init])
  obtain eh where call: "call_handler user (ServerSession h) COAP_EVENT_TCP_CONNECTED ctx w1 = Ret (ctx\<lparr>event_handler := eh\<rparr>, w1)"
    using call_handler_quiet[OF assms(2)] by blast
  obtain w2 where drop: "server_drop A h w1 = Ret w2" and gone: "server_inv A refs p (next_cell w) (refs (raws w p)) w2 []"
    using server_inv_drop[OF laws inv, of h] by auto
  have "callback_direct A user p COAP_EVENT_TCP_CONNECTED (ctx, w) = Ret (ctx\<lparr>event_handler := eh\<rparr>, w2)"
    using init call drop assms(3,5,8)
    by (simp add: callback_direct_def handle_event_direct_def settle_session_def session_known_def)
  with gone show ?thesis
    unfolding callback_in_lent[OF assms(4)] by (simp add: server_inv_def counts_inv_def)
qed

end
