(* ===== verification/Resource_Cell.thy ===== *)
theory Resource_Cell
  imports Resource_Dispatch
begin

text \<open>
  The cell of a resource (\<^verbatim>\<open>CoapFfiRcCell<CoapResourceInner>\<close>, \<^verbatim>\<open>libcoap/src/resource.rs\<close>): its borrow
  flag and its life. \<^verbatim>\<open>call_dynamic_handler\<close> gives its borrow of the cell back before it calls the
  closure, so that the closure may call the operations of the resource; the theory proves for which
  uses this works, and that the model of \<^verbatim>\<open>call_dynamic_handler\<close> without flags is right for them. The
  second part is the life of the cell: restored and dropped handles, the weak pointer in the user data
  of the raw resource, and the drop of \<^verbatim>\<open>CoapResourceInner\<close>.
\<close>

section \<open>Handlers by reference\<close>

fun handler_ref :: "'f CoapResourceHandlers \<Rightarrow> CoapRequestCode \<Rightarrow> 'f CoapRequestHandler option" where
  "handler_ref hs CoapRequestCode.Get = h_get hs"
| "handler_ref hs CoapRequestCode.Put = h_put hs"
| "handler_ref hs CoapRequestCode.Delete = h_delete hs"
| "handler_ref hs CoapRequestCode.Post = h_post hs"
| "handler_ref hs CoapRequestCode.Fetch = h_fetch hs"
| "handler_ref hs CoapRequestCode.IPatch = h_ipatch hs"
| "handler_ref hs CoapRequestCode.Patch = h_patch hs"

text \<open>An update through the reference that \<^verbatim>\<open>handler_mut\<close> returns, if there is one.\<close>

fun handler_mut ::
    "CoapRequestCode \<Rightarrow> ('f CoapRequestHandler \<Rightarrow> 'f CoapRequestHandler) \<Rightarrow> 'f CoapResourceHandlers \<Rightarrow> 'f CoapResourceHandlers" where
  "handler_mut CoapRequestCode.Get f hs = hs\<lparr>h_get := map_option f (h_get hs)\<rparr>"
| "handler_mut CoapRequestCode.Put f hs = hs\<lparr>h_put := map_option f (h_put hs)\<rparr>"
| "handler_mut CoapRequestCode.Delete f hs = hs\<lparr>h_delete := map_option f (h_delete hs)\<rparr>"
| "handler_mut CoapRequestCode.Post f hs = hs\<lparr>h_post := map_option f (h_post hs)\<rparr>"
| "handler_mut CoapRequestCode.Fetch f hs = hs\<lparr>h_fetch := map_option f (h_fetch hs)\<rparr>"
| "handler_mut CoapRequestCode.IPatch f hs = hs\<lparr>h_ipatch := map_option f (h_ipatch hs)\<rparr>"
| "handler_mut CoapRequestCode.Patch f hs = hs\<lparr>h_patch := map_option f (h_patch hs)\<rparr>"

lemma handler_ref_eq: "handler_ref hs code = handler hs code"
  by (cases code) simp_all

lemma handler_mut_eq: "handler_mut code f hs = handler_ref_mut code (map_option f (handler hs code)) hs"
  by (cases code) simp_all

section \<open>Operations on the cell\<close>

record ('q, 'd, 'f) resource_cell =
  cell_inner :: "('q, 'd, 'f) CoapResourceInner"
  cell_flag :: borrow_flag

text \<open>A statement that borrows the cell for its own duration: the flag is afterwards as before.\<close>

definition with_borrow_mut ::
    "(('q, 'd, 'f) CoapResourceInner \<Rightarrow> 'a \<times> ('q, 'd, 'f) CoapResourceInner) \<Rightarrow> ('q, 'd, 'f) resource_cell \<Rightarrow>
      ('a \<times> ('q, 'd, 'f) resource_cell) run" where
  "with_borrow_mut f c =
     run_map (\<lambda>_. let (r, inner) = f (cell_inner c) in (r, c\<lparr>cell_inner := inner\<rparr>)) (refcell_borrow_mut (cell_flag c))"

definition with_borrow ::
    "(('q, 'd, 'f) CoapResourceInner \<Rightarrow> 'a) \<Rightarrow> ('q, 'd, 'f) resource_cell \<Rightarrow> ('a \<times> ('q, 'd, 'f) resource_cell) run" where
  "with_borrow f c = run_map (\<lambda>_. (f (cell_inner c), c)) (refcell_borrow (cell_flag c))"

definition cell_notify_observers ::
    "'q resource_api \<Rightarrow> ('q, 'd, 'f) resource_cell \<Rightarrow> (bool \<times> ('q, 'd, 'f) resource_cell) run" where
  "cell_notify_observers R = with_borrow_mut (notify_observers R)"

definition cell_set_get_observable ::
    "'q resource_api \<Rightarrow> bool \<Rightarrow> ('q, 'd, 'f) resource_cell \<Rightarrow> (unit \<times> ('q, 'd, 'f) resource_cell) run" where
  "cell_set_get_observable R b = with_borrow_mut (\<lambda>inner. ((), set_get_observable R b inner))"

definition cell_set_observe_notify_confirmable ::
    "'q resource_api \<Rightarrow> bool \<Rightarrow> ('q, 'd, 'f) resource_cell \<Rightarrow> (unit \<times> ('q, 'd, 'f) resource_cell) run" where
  "cell_set_observe_notify_confirmable R b = with_borrow_mut (\<lambda>inner. ((), set_observe_notify_confirmable R b inner))"

definition cell_set_method_handler ::
    "'q resource_api \<Rightarrow> CoapRequestCode \<Rightarrow> 'f CoapRequestHandler option \<Rightarrow> ('q, 'd, 'f) resource_cell \<Rightarrow>
      (unit \<times> ('q, 'd, 'f) resource_cell) run" where
  "cell_set_method_handler R code h = with_borrow_mut (\<lambda>inner. ((), set_method_handler R code h inner))"

definition cell_raw_resource :: "('q, 'd, 'f) resource_cell \<Rightarrow> ('q \<times> ('q, 'd, 'f) resource_cell) run" where
  "cell_raw_resource = with_borrow_mut (\<lambda>inner. (raw_resource inner, inner))"

definition cell_uri_path :: "'q resource_api \<Rightarrow> ('q, 'd, 'f) resource_cell \<Rightarrow> (bytes \<times> ('q, 'd, 'f) resource_cell) run" where
  "cell_uri_path R = with_borrow (uri_path_of R)"

text \<open>\<^verbatim>\<open>user_data\<close> and \<^verbatim>\<open>user_data_mut\<close> return guards: the flag stays set until the guard is dropped.\<close>

definition cell_user_data :: "('q, 'd, 'f) resource_cell \<Rightarrow> ('d \<times> ('q, 'd, 'f) resource_cell) run" where
  "cell_user_data c = run_map (\<lambda>b. (user_data (cell_inner c), c\<lparr>cell_flag := b\<rparr>)) (refcell_borrow (cell_flag c))"

definition cell_user_data_mut :: "('q, 'd, 'f) resource_cell \<Rightarrow> ('d \<times> ('q, 'd, 'f) resource_cell) run" where
  "cell_user_data_mut c = run_map (\<lambda>b. (user_data (cell_inner c), c\<lparr>cell_flag := b\<rparr>)) (refcell_borrow_mut (cell_flag c))"

section \<open>Calling a dynamic handler\<close>

type_synonym ('f, 'q, 'd, 's, 'ty, 'v) cell_call =
  "'f \<Rightarrow> ('q, 'd, 'f) resource_cell \<Rightarrow> ('s, 'ty, 'v) CoapSessionInner \<Rightarrow> CoapRequest \<Rightarrow> CoapResponse \<Rightarrow>
    ('f \<times> ('q, 'd, 'f) resource_cell \<times> ('s, 'ty, 'v) CoapSessionInner) run"

text \<open>
  The borrow \<open>inner\<close> lives until it is dropped before the call, or until the function returns; the
  handler is put back under a second borrow.
\<close>

definition cell_call_dynamic_handler ::
    "uri_env \<Rightarrow> ('s, 'p) session_api \<Rightarrow> ('f, 'q, 'd, 's, 'ty, 'v) cell_call \<Rightarrow> CoapRequest \<Rightarrow> CoapResponse \<Rightarrow>
      ('q, 'd, 'f) resource_cell \<times> ('s, 'ty, 'v) CoapSessionInner \<Rightarrow>
      (('q, 'd, 'f) resource_cell \<times> ('s, 'ty, 'v) CoapSessionInner) run" where
  "cell_call_dynamic_handler env api call req rsp st =
     (case st of (c, s) \<Rightarrow>
      run_bind (refcell_borrow_mut (cell_flag c)) (\<lambda>_.
      case msg_code (req_pdu req) of
        Request req_code \<Rightarrow>
          run_bind (expect (handler (handlers (cell_inner c)) req_code)) (\<lambda>handler_fn.
          let inner = (cell_inner c)\<lparr>handlers := handler_ref_mut req_code None (handlers (cell_inner c))\<rparr>
          in run_bind (expect (dynamic_handler_function handler_fn)) (\<lambda>f.
             run_bind (call f \<lparr>cell_inner = inner, cell_flag = Unborrowed\<rparr> s req rsp) (\<lambda>(f, c, s).
             run_map (\<lambda>r. (snd r, s)) (with_borrow_mut (\<lambda>inner.
               ((), case handler (handlers inner) req_code of
                      None \<Rightarrow> inner\<lparr>handlers := handler_ref_mut req_code
                                 (Some (handler_fn\<lparr>dynamic_handler_function := Some f\<rparr>)) (handlers inner)\<rparr>
                    | Some _ \<Rightarrow> inner)) c))))
      | _ \<Rightarrow> run_map (\<lambda>s. (c, s)) (send_rst_response env api rsp s)))"

text \<open>\<^verbatim>\<open>coap_resource_handler_dynamic_wrapper\<close>, the function that the generated C function calls.\<close>

definition coap_resource_handler_dynamic_wrapper ::
    "uri_env \<Rightarrow> ('s, 'p) session_api \<Rightarrow> ('f, 'q, 'd, 's, 'ty, 'v) cell_call \<Rightarrow>
      ('q, 'd, 'f) resource_cell \<times> ('s, 'ty, 'v) CoapSessionInner \<Rightarrow> CoapRequest \<Rightarrow> CoapResponse \<Rightarrow>
      (('q, 'd, 'f) resource_cell \<times> ('s, 'ty, 'v) CoapSessionInner) run" where
  "coap_resource_handler_dynamic_wrapper env api call st req rsp = cell_call_dynamic_handler env api call req rsp st"

text \<open>The closure that \<^verbatim>\<open>CoapRequestHandler::new\<close> makes of one over the user data: it holds a \<^verbatim>\<open>RefMut\<close> meanwhile.\<close>

definition cell_call_on_user_data ::
    "('f \<Rightarrow> 'd \<Rightarrow> ('s, 'ty, 'v) CoapSessionInner \<Rightarrow> CoapRequest \<Rightarrow> CoapResponse \<Rightarrow>
       ('f \<times> 'd \<times> ('s, 'ty, 'v) CoapSessionInner) run) \<Rightarrow> ('f, 'q, 'd, 's, 'ty, 'v) cell_call" where
  "cell_call_on_user_data closure f c s req rsp =
     run_bind (cell_user_data_mut c) (\<lambda>(d, c).
     run_map (\<lambda>(f, d, s). (f, c\<lparr>cell_inner := user_data_mut (\<lambda>_. d) (cell_inner c), cell_flag := Unborrowed\<rparr>, s))
       (closure f d s req rsp))"

section \<open>Closures as programs over the cell\<close>

text \<open>
  What a closure can do with the resource it is given: call an operation, take a guard of the user
  data, write through it, drop it. A closure is a program over these uses, which may depend on the
  answers and ends with a result or a panic; what it does with the session is part of its result.
\<close>

datatype ('d, 'f) resource_use =
    UseNotify | UseGetObservable bool | UseNotifyConfirmable bool
  | UseMethodHandler CoapRequestCode "'f CoapRequestHandler option"
  | UseUriPath | UseRawResource | TakeRef | TakeRefMut | WriteData 'd | DropRef | DropRefMut

datatype ('q, 'd) resource_answer = Done | Notified bool | Path bytes | Raw 'q | Data 'd

datatype ('q, 'd, 'f, 'r) handler_prog =
    Finish 'r | Abort | Use "('d, 'f) resource_use" "('q, 'd) resource_answer \<Rightarrow> ('q, 'd, 'f, 'r) handler_prog"

abbreviation answer_with :: "('a \<Rightarrow> 'b) \<Rightarrow> ('a \<times> 'c) run \<Rightarrow> ('b \<times> 'c) run" where
  "answer_with f \<equiv> run_map (\<lambda>(r, c). (f r, c))"

fun use_step ::
    "'q resource_api \<Rightarrow> ('d, 'f) resource_use \<Rightarrow> ('q, 'd, 'f) resource_cell \<Rightarrow>
      (('q, 'd) resource_answer \<times> ('q, 'd, 'f) resource_cell) run" where
  "use_step R UseNotify c = answer_with Notified (cell_notify_observers R c)"
| "use_step R (UseGetObservable b) c = answer_with (\<lambda>_. Done) (cell_set_get_observable R b c)"
| "use_step R (UseNotifyConfirmable b) c = answer_with (\<lambda>_. Done) (cell_set_observe_notify_confirmable R b c)"
| "use_step R (UseMethodHandler code h) c = answer_with (\<lambda>_. Done) (cell_set_method_handler R code h c)"
| "use_step R UseUriPath c = answer_with Path (cell_uri_path R c)"
| "use_step R UseRawResource c = answer_with Raw (cell_raw_resource c)"
| "use_step R TakeRef c = answer_with Data (cell_user_data c)"
| "use_step R TakeRefMut c = answer_with Data (cell_user_data_mut c)"
| "use_step R (WriteData d) c = Ret (Done, c\<lparr>cell_inner := user_data_mut (\<lambda>_. d) (cell_inner c)\<rparr>)"
| "use_step R DropRef c = Ret (Done, c\<lparr>cell_flag := release_shared (cell_flag c)\<rparr>)"
| "use_step R DropRefMut c = Ret (Done, c\<lparr>cell_flag := Unborrowed\<rparr>)"

primrec run_prog ::
    "'q resource_api \<Rightarrow> ('q, 'd, 'f, 'r) handler_prog \<Rightarrow> ('q, 'd, 'f) resource_cell \<Rightarrow>
      ('r \<times> ('q, 'd, 'f) resource_cell) run" where
  "run_prog R (Finish r) c = Ret (r, c)"
| "run_prog R Abort c = Panic"
| "run_prog R (Use u k) c = run_bind (use_step R u c) (\<lambda>(a, c). run_prog R (k a) c)"

definition prog_call ::
    "'q resource_api \<Rightarrow> ('f \<Rightarrow> ('s, 'ty, 'v) CoapSessionInner \<Rightarrow> CoapRequest \<Rightarrow> CoapResponse \<Rightarrow>
       ('q, 'd, 'f, 'f \<times> ('s, 'ty, 'v) CoapSessionInner) handler_prog) \<Rightarrow> ('f, 'q, 'd, 's, 'ty, 'v) cell_call" where
  "prog_call R prog f c s req rsp = run_map (\<lambda>((f, s), c). (f, c, s)) (run_prog R (prog f s req rsp) c)"

text \<open>The same programs on the content of the cell alone, without a borrow flag.\<close>

fun free_use ::
    "'q resource_api \<Rightarrow> ('d, 'f) resource_use \<Rightarrow> ('q, 'd, 'f) CoapResourceInner \<Rightarrow>
      ('q, 'd) resource_answer \<times> ('q, 'd, 'f) CoapResourceInner" where
  "free_use R UseNotify i = map_prod Notified id (notify_observers R i)"
| "free_use R (UseGetObservable b) i = (Done, set_get_observable R b i)"
| "free_use R (UseNotifyConfirmable b) i = (Done, set_observe_notify_confirmable R b i)"
| "free_use R (UseMethodHandler code h) i = (Done, set_method_handler R code h i)"
| "free_use R UseUriPath i = (Path (uri_path_of R i), i)"
| "free_use R UseRawResource i = (Raw (raw_resource i), i)"
| "free_use R TakeRef i = (Data (user_data i), i)"
| "free_use R TakeRefMut i = (Data (user_data i), i)"
| "free_use R (WriteData d) i = (Done, user_data_mut (\<lambda>_. d) i)"
| "free_use R DropRef i = (Done, i)"
| "free_use R DropRefMut i = (Done, i)"

primrec free_prog ::
    "'q resource_api \<Rightarrow> ('q, 'd, 'f, 'r) handler_prog \<Rightarrow> ('q, 'd, 'f) CoapResourceInner \<Rightarrow>
      ('r \<times> ('q, 'd, 'f) CoapResourceInner) run" where
  "free_prog R (Finish r) i = Ret (r, i)"
| "free_prog R Abort i = Panic"
| "free_prog R (Use u k) i = free_prog R (k (fst (free_use R u i))) (snd (free_use R u i))"

definition free_call ::
    "'q resource_api \<Rightarrow> ('f \<Rightarrow> ('s, 'ty, 'v) CoapSessionInner \<Rightarrow> CoapRequest \<Rightarrow> CoapResponse \<Rightarrow>
       ('q, 'd, 'f, 'f \<times> ('s, 'ty, 'v) CoapSessionInner) handler_prog) \<Rightarrow> ('f, 'q, 'd, 's, 'ty, 'v) closure_call" where
  "free_call R prog f i s req rsp = run_map (\<lambda>((f, s), i). (f, i, s)) (free_prog R (prog f s req rsp) i)"

text \<open>What a use does to the flag, \<open>None\<close> for a panic, and the uses a program makes.\<close>

fun use_flag :: "('d, 'f) resource_use \<Rightarrow> borrow_flag \<Rightarrow> borrow_flag option" where
  "use_flag UseUriPath b = (if b = Exclusive then None else Some b)"
| "use_flag TakeRef b = (case b of Unborrowed \<Rightarrow> Some (Shared 0) | Shared n \<Rightarrow> Some (Shared (Suc n)) | Exclusive \<Rightarrow> None)"
| "use_flag TakeRefMut b = (if b = Unborrowed then Some Exclusive else None)"
| "use_flag (WriteData d) b = Some b"
| "use_flag DropRef b = Some (release_shared b)"
| "use_flag DropRefMut b = Some Unborrowed"
| "use_flag _ b = (if b = Unborrowed then Some b else None)"

primrec flag_after :: "('d, 'f) resource_use list \<Rightarrow> borrow_flag \<Rightarrow> borrow_flag option" where
  "flag_after [] b = Some b"
| "flag_after (u # us) b = Option.bind (use_flag u b) (flag_after us)"

primrec prog_uses ::
    "'q resource_api \<Rightarrow> ('q, 'd, 'f, 'r) handler_prog \<Rightarrow> ('q, 'd, 'f) CoapResourceInner \<Rightarrow> ('d, 'f) resource_use list" where
  "prog_uses R (Finish r) i = []"
| "prog_uses R Abort i = []"
| "prog_uses R (Use u k) i = u # prog_uses R (k (fst (free_use R u i))) (snd (free_use R u i))"

lemma use_step_eq:
  "use_step R u c = (case use_flag u (cell_flag c) of
      None \<Rightarrow> Panic
    | Some b \<Rightarrow> Ret (fst (free_use R u (cell_inner c)), c\<lparr>cell_inner := snd (free_use R u (cell_inner c)), cell_flag := b\<rparr>))"
  by (cases u) (simp_all add: cell_notify_observers_def cell_set_get_observable_def cell_set_observe_notify_confirmable_def
      cell_set_method_handler_def cell_raw_resource_def cell_uri_path_def cell_user_data_def cell_user_data_mut_def
      with_borrow_mut_def with_borrow_def refcell_borrow_def refcell_borrow_mut_def case_prod_beta split: borrow_flag.split)

text \<open>A program panics in the cell exactly if it does without flags or a use meets a conflicting guard.\<close>

lemma run_prog_eq:
  "run_prog R p c = (case flag_after (prog_uses R p (cell_inner c)) (cell_flag c) of
      None \<Rightarrow> Panic
    | Some b \<Rightarrow> run_map (\<lambda>(r, i). (r, c\<lparr>cell_inner := i, cell_flag := b\<rparr>)) (free_prog R p (cell_inner c)))"
proof (induction p arbitrary: c)
  case (Use u k)
  show ?case
    by (cases "use_flag u (cell_flag c)") (simp_all add: use_step_eq Use[OF rangeI] cong: option.case_cong)
qed simp_all

section \<open>The contract of closures\<close>

text \<open>
  A closure on the cell, called while the cell is not borrowed, does what it does without the flag,
  and leaves the flag \<open>leaves\<close>, or panics because of a guard it holds.
\<close>

abbreviation lift_cell ::
    "borrow_flag \<Rightarrow> 'f \<times> ('q, 'd, 'f) CoapResourceInner \<times> ('s, 'ty, 'v) CoapSessionInner \<Rightarrow>
      'f \<times> ('q, 'd, 'f) resource_cell \<times> ('s, 'ty, 'v) CoapSessionInner" where
  "lift_cell b \<equiv> \<lambda>(f, i, s). (f, \<lparr>cell_inner = i, cell_flag = b\<rparr>, s)"

locale cell_closure =
  fixes call :: "('f, 'q, 'd, 's, 'ty, 'v) cell_call"
    and free :: "('f, 'q, 'd, 's, 'ty, 'v) closure_call"
    and leaves :: "'f \<Rightarrow> ('q, 'd, 'f) CoapResourceInner \<Rightarrow> ('s, 'ty, 'v) CoapSessionInner \<Rightarrow> CoapRequest \<Rightarrow>
      CoapResponse \<Rightarrow> borrow_flag option"
  assumes call_cell: "call f \<lparr>cell_inner = i, cell_flag = Unborrowed\<rparr> s req rsp =
      (case leaves f i s req rsp of None \<Rightarrow> Panic | Some b \<Rightarrow> run_map (lift_cell b) (free f i s req rsp))"
begin

lemma call_borrowed: "cell_flag c \<noteq> Unborrowed \<Longrightarrow> cell_call_dynamic_handler env api call req rsp (c, s) = Panic"
  by (simp add: cell_call_dynamic_handler_def refcell_borrow_mut_def)

lemma call_exact:
  assumes "msg_code (req_pdu req) = Request code" and "handler (handlers (cell_inner c)) code = Some h"
    and "dynamic_handler_function h = Some f" and "cell_flag c = Unborrowed"
  shows "cell_call_dynamic_handler env api call req rsp (c, s) =
    (if leaves f ((cell_inner c)\<lparr>handlers := handler_ref_mut code None (handlers (cell_inner c))\<rparr>) s req rsp = Some Unborrowed
     then run_map (\<lambda>(i, s). (\<lparr>cell_inner = i, cell_flag = Unborrowed\<rparr>, s))
            (call_dynamic_handler env api free req rsp (cell_inner c, s))
     else Panic)"
proof -
  let ?i = "(cell_inner c)\<lparr>handlers := handler_ref_mut code None (handlers (cell_inner c))\<rparr>"
  show ?thesis
    using assms
    by (cases "free f ?i s req rsp")
      (auto simp: cell_call_dynamic_handler_def call_dynamic_handler_def call_cell refcell_borrow_mut_def with_borrow_mut_def
        Let_def split: option.split)
qed

end

interpretation user_data_closure: cell_closure "cell_call_on_user_data closure" "call_on_user_data closure"
  "\<lambda>f i s req rsp. Some Unborrowed" for closure
proof
  fix f i s req rsp
  show "cell_call_on_user_data closure f \<lparr>cell_inner = i, cell_flag = Unborrowed\<rparr> s req rsp =
      (case Some Unborrowed of None \<Rightarrow> Panic | Some b \<Rightarrow> run_map (lift_cell b) (call_on_user_data closure f i s req rsp))"
    by (cases "closure f (user_data i) s req rsp")
      (auto simp: cell_call_on_user_data_def cell_user_data_mut_def call_on_user_data_def refcell_borrow_mut_def user_data_mut_def)
qed

interpretation prog_closure: cell_closure "prog_call R prog" "free_call R prog"
  "\<lambda>f i s req rsp. flag_after (prog_uses R (prog f s req rsp) i) Unborrowed" for R prog
proof
  fix f i s req rsp
  show "prog_call R prog f \<lparr>cell_inner = i, cell_flag = Unborrowed\<rparr> s req rsp =
      (case flag_after (prog_uses R (prog f s req rsp) i) Unborrowed of None \<Rightarrow> Panic
       | Some b \<Rightarrow> run_map (lift_cell b) (free_call R prog f i s req rsp))"
    by (cases "free_prog R (prog f s req rsp) i")
      (auto simp: prog_call_def free_call_def run_prog_eq split: option.split)
qed

section \<open>Borrows of a handler call\<close>

text \<open>
  C18: which handler calls work. If the resource is borrowed when a request arrives, the call panics
  before the closure runs. Otherwise a closure may use every operation of the resource: the call does
  what it does without borrow flags, except that it panics exactly if a use of the resource conflicts
  with a guard of the user data the closure still holds, or a guard is still there at the end. A
  closure over the user data (\<^verbatim>\<open>CoapRequestHandler::new\<close>) never has such a conflict.
\<close>

theorem handler_borrows:
  assumes "msg_code (req_pdu req) = Request code" and "handler (handlers (cell_inner c)) code = Some h"
    and "dynamic_handler_function h = Some f"
  shows "let taken = (cell_inner c)\<lparr>handlers := handler_ref_mut code None (handlers (cell_inner c))\<rparr>;
      unflagged = run_map (\<lambda>(i, s). (\<lparr>cell_inner = i, cell_flag = Unborrowed\<rparr>, s)) in
    (cell_flag c \<noteq> Unborrowed \<longrightarrow> cell_call_dynamic_handler env api call req rsp (c, s) = Panic) \<and>
    (cell_flag c = Unborrowed \<longrightarrow>
      cell_call_dynamic_handler env api (prog_call R prog) req rsp (c, s) =
        (if flag_after (prog_uses R (prog f s req rsp) taken) Unborrowed = Some Unborrowed
         then unflagged (call_dynamic_handler env api (free_call R prog) req rsp (cell_inner c, s)) else Panic) \<and>
      cell_call_dynamic_handler env api (cell_call_on_user_data closure) req rsp (c, s) =
        unflagged (call_dynamic_handler env api (call_on_user_data closure) req rsp (cell_inner c, s)))"
  unfolding Let_def
  by (simp add: prog_closure.call_exact[OF assms] user_data_closure.call_exact[OF assms])
    (simp add: cell_call_dynamic_handler_def refcell_borrow_mut_def)

text \<open>A handler that reads the user data, drops the guard and notifies observers; and one that keeps the guard.\<close>

definition reading_prog :: "bool \<Rightarrow> 'f \<Rightarrow> ('s, 'ty, 'v) CoapSessionInner \<Rightarrow> CoapRequest \<Rightarrow> CoapResponse \<Rightarrow>
    ('q, 'd, 'f, 'f \<times> ('s, 'ty, 'v) CoapSessionInner) handler_prog" where
  "reading_prog keep f s req rsp =
     Use TakeRef (\<lambda>_. if keep then Use UseNotify (\<lambda>_. Use DropRef (\<lambda>_. Finish (f, s)))
                      else Use DropRef (\<lambda>_. Use UseNotify (\<lambda>_. Finish (f, s))))"

theorem handler_borrows_witness:
  "(\<exists>r. cell_call_dynamic_handler sample_env sample_session_api (prog_call sample_resource_api (reading_prog False))
      plain_request sample_response (\<lparr>cell_inner = get_resource, cell_flag = Unborrowed\<rparr>, sample_session) = Ret r) \<and>
   cell_call_dynamic_handler sample_env sample_session_api (prog_call sample_resource_api (reading_prog True))
      plain_request sample_response (\<lparr>cell_inner = get_resource, cell_flag = Unborrowed\<rparr>, sample_session) = Panic"
proof -
  let ?c = "\<lparr>cell_inner = get_resource, cell_flag = Unborrowed\<rparr>"
  have code: "msg_code (req_pdu plain_request) = Request CoapRequestCode.Get"
    by (simp add: plain_request_def message_new_def)
  have h: "handler (handlers (cell_inner ?c)) CoapRequestCode.Get = Some (new_resource_ref 7 0)"
    by (simp add: get_resource_def handler_set_method del: handler.simps)
  have f: "dynamic_handler_function (new_resource_ref 7 (0 :: nat)) = Some 0" by (simp add: new_resource_ref_def)
  note exact = handler_borrows[OF code h f, where env = sample_env and api = sample_session_api and rsp = sample_response
      and s = sample_session and R = sample_resource_api, unfolded Let_def]
  have "\<exists>r. call_dynamic_handler sample_env sample_session_api (free_call sample_resource_api (reading_prog False))
      plain_request sample_response (get_resource, sample_session) = Ret r"
    using h f code by (simp add: call_dynamic_handler_def free_call_def reading_prog_def Let_def)
  then have "\<exists>r. cell_call_dynamic_handler sample_env sample_session_api (prog_call sample_resource_api (reading_prog False))
      plain_request sample_response (?c, sample_session) = Ret r"
    using exact[THEN conjunct2, rule_format, THEN conjunct1, of "reading_prog False"]
    by (auto simp: reading_prog_def release_shared_def)
  moreover have "cell_call_dynamic_handler sample_env sample_session_api (prog_call sample_resource_api (reading_prog True))
      plain_request sample_response (?c, sample_session) = Panic"
    using exact[THEN conjunct2, rule_format, THEN conjunct1, of "reading_prog True"] by (simp add: reading_prog_def)
  ultimately show ?thesis by blast
qed

section \<open>The life of a resource\<close>

text \<open>
  The counts of the cell, whether the weak pointer in the user data of the raw resource is still
  counted, and whether the raw resource exists. \<open>None\<close> stands for undefined behaviour: the user data
  of a deleted resource is read, or the weak pointer is taken back a second time.
\<close>

record resource_life =
  life_counts :: rc_counts
  user_ptr :: bool
  raw_alive :: bool

definition life_new :: resource_life where
  "life_new = \<lparr>life_counts = create_raw_weak rc_new, user_ptr = True, raw_alive = True\<rparr>"

definition inner_drop :: "resource_life \<Rightarrow> resource_life option" where
  "inner_drop l =
     (if raw_alive l \<and> user_ptr l
      then Some \<lparr>life_counts = weak_drop (life_counts l), user_ptr = False, raw_alive = False\<rparr> else None)"

definition life_restore :: "resource_life \<Rightarrow> resource_life run option" where
  "life_restore l =
     (if raw_alive l \<and> user_ptr l then Some (run_map (\<lambda>n. l\<lparr>life_counts := n\<rparr>) (restore_from_raw (life_counts l))) else None)"

text \<open>The drop of a \<^verbatim>\<open>CoapResource\<close>: the last one drops the content of the cell.\<close>

definition life_drop :: "resource_life \<Rightarrow> resource_life option" where
  "life_drop l =
     (let l = l\<lparr>life_counts := rc_drop (life_counts l)\<rparr>
      in if strong (life_counts l) = 0 then inner_drop l else Some l)"

definition drop_inner_exclusive :: "resource_life \<Rightarrow> resource_life run option" where
  "drop_inner_exclusive l =
     (case drop_exclusively (life_counts l) of
        Panic \<Rightarrow> Some Panic
      | Ret n \<Rightarrow> map_option Ret (inner_drop (l\<lparr>life_counts := n\<rparr>)))"

datatype life_op = Restore | DropHandle | DropExclusive

fun life_exec :: "life_op \<Rightarrow> resource_life \<Rightarrow> resource_life run option" where
  "life_exec Restore l = life_restore l"
| "life_exec DropHandle l = map_option Ret (life_drop l)"
| "life_exec DropExclusive l = drop_inner_exclusive l"

text \<open>libcoap calls handlers of existing resources only; a handle must exist to be dropped.\<close>

fun life_legal :: "life_op \<Rightarrow> resource_life \<Rightarrow> bool" where
  "life_legal Restore l = raw_alive l"
| "life_legal _ l = (0 < strong (life_counts l))"

inductive life_reachable :: "resource_life \<Rightarrow> bool" where
  life_start: "life_reachable life_new"
| life_step: "\<lbrakk>life_reachable l; life_legal op l; life_exec op l = Some (Ret l')\<rbrakk> \<Longrightarrow> life_reachable l'"

definition life_inv :: "resource_life \<Rightarrow> bool" where
  "life_inv l \<longleftrightarrow> (raw_alive l \<longleftrightarrow> 0 < strong (life_counts l)) \<and> (user_ptr l \<longleftrightarrow> raw_alive l) \<and>
     weak (life_counts l) = (if user_ptr l then 1 else 0)"

lemmas life_defs = life_inv_def life_restore_def life_drop_def drop_inner_exclusive_def inner_drop_def restore_from_raw_def
  clone_raw_weak_def rc_drop_def weak_drop_def drop_exclusively_def

lemma life_exec_inv: "life_inv l \<Longrightarrow> life_legal op l \<Longrightarrow> life_exec op l = Some (Ret l') \<Longrightarrow> life_inv l'"
  by (cases op) (auto simp: life_defs Let_def split: if_splits)

lemma life_reachable_inv: "life_reachable l \<Longrightarrow> life_inv l"
proof (induction rule: life_reachable.induct)
  case life_start
  show ?case by (simp add: life_inv_def life_new_def create_raw_weak_def rc_new_def)
qed (rule life_exec_inv)

text \<open>
  C19: the life of a resource. However its handles are restored and dropped, no operation reads the
  user data of a deleted resource or takes the weak pointer back twice; restoring never panics; the
  raw resource and the weak pointer in it exist exactly as long as there is a handle; and the
  exclusive drop of the context's cleanup panics exactly if another handle exists.
\<close>

theorem resource_life_safe:
  assumes "life_reachable l" and "life_legal op l"
  shows "life_exec op l \<noteq> None \<and>
    (life_exec op l = Some Panic \<longleftrightarrow> op = DropExclusive \<and> strong (life_counts l) \<noteq> 1) \<and>
    (\<forall>l'. life_exec op l = Some (Ret l') \<longrightarrow>
       (raw_alive l' \<longleftrightarrow> 0 < strong (life_counts l')) \<and> (user_ptr l' \<longleftrightarrow> raw_alive l') \<and>
       weak (life_counts l') = (if raw_alive l' then 1 else 0) \<and>
       strong (life_counts l') = (if op = Restore then strong (life_counts l) + 1 else strong (life_counts l) - 1))"
proof -
  have inv: "life_inv l" by (rule life_reachable_inv[OF assms(1)])
  have "life_inv l' \<and> strong (life_counts l') = (if op = Restore then strong (life_counts l) + 1 else strong (life_counts l) - 1)"
    if "life_exec op l = Some (Ret l')" for l'
    using life_exec_inv[OF inv assms(2) that] inv assms(2) that
    by (cases op) (auto simp: life_defs Let_def split: if_splits)
  moreover have "life_exec op l \<noteq> None \<and> (life_exec op l = Some Panic \<longleftrightarrow> op = DropExclusive \<and> strong (life_counts l) \<noteq> 1)"
    using inv assms(2) by (cases op) (auto simp: life_defs Let_def)
  ultimately show ?thesis by (auto simp: life_inv_def)
qed

theorem resource_life_safe_witness:
  "life_exec DropExclusive \<lparr>life_counts = \<lparr>strong = 2, weak = 1\<rparr>, user_ptr = True, raw_alive = True\<rparr> = Some Panic \<and>
   life_exec DropExclusive life_new \<noteq> None"
proof -
  let ?l = "\<lparr>life_counts = \<lparr>strong = 2, weak = 1\<rparr>, user_ptr = True, raw_alive = True\<rparr>"
  have "life_exec Restore life_new = Some (Ret ?l)"
    by (simp add: life_restore_def life_new_def restore_from_raw_def clone_raw_weak_def create_raw_weak_def rc_new_def)
  then have "life_reachable ?l" by (intro life_step[OF life_start, of Restore]) (simp_all add: life_new_def)
  from resource_life_safe[OF this, of DropExclusive] resource_life_safe[OF life_start, of DropExclusive]
  show ?thesis by (simp add: life_new_def create_raw_weak_def rc_new_def)
qed

end
