(* ===== verification/Psk.thy ===== *)
theory Psk
  imports Session_Handles
begin

text \<open>
  Pre-shared keys (\<^verbatim>\<open>libcoap/src/crypto/psk\<close>): key objects and their raw form with manually managed
  memory, the key providers, the client and server contexts with their builders, the callbacks that
  hand keys to libcoap, and the destructors that reclaim the memory. Byte strings and raw key
  structures given to libcoap are allocated in an explicit heap, so that leaks, double frees and
  dangling pointers show.
\<close>

section \<open>Keys and their memory\<close>

record PskKey =
  identity :: "bytes option"
  key_data :: bytes

definition psk_key_new :: "bytes option \<Rightarrow> bytes \<Rightarrow> PskKey" where
  "psk_key_new ident data = \<lparr>identity = ident, key_data = data\<rparr>"

text \<open>The conversions from the bytes of a key, and from a pair of identity and key.\<close>

definition psk_key_from :: "bytes \<Rightarrow> PskKey" where
  "psk_key_from v = \<lparr>identity = None, key_data = v\<rparr>"

definition psk_key_from_pair :: "bytes \<times> bytes \<Rightarrow> PskKey" where
  "psk_key_from_pair v = \<lparr>identity = Some (fst v), key_data = snd v\<rparr>"

text \<open>\<^verbatim>\<open>coap_bin_const_t\<close>; the null pointer is \<open>0\<close>.\<close>

record coap_bin_const_t =
  bin_length :: nat
  bin_s :: nat

text \<open>\<^verbatim>\<open>coap_dtls_spsk_info_t\<close> and \<^verbatim>\<open>coap_dtls_cpsk_info_t\<close>: the hint or identity, and the key.\<close>

record raw_psk_info =
  info_id :: coap_bin_const_t
  info_key :: coap_bin_const_t

text \<open>The allocated byte strings and key structures, by address, and the next address.\<close>

record psk_heap =
  boxes :: "nat \<Rightarrow> bytes option"
  infos :: "nat \<Rightarrow> raw_psk_info option"
  next_addr :: nat

text \<open>\<^verbatim>\<open>Box::into_raw\<close> of a fresh box; also an empty slice has a pointer that is not null.\<close>

definition box_bytes :: "bytes \<Rightarrow> psk_heap \<Rightarrow> coap_bin_const_t \<times> psk_heap" where
  "box_bytes bs h =
     (\<lparr>bin_length = length bs, bin_s = next_addr h\<rparr>,
      h\<lparr>boxes := (boxes h)(next_addr h \<mapsto> bs), next_addr := next_addr h + 1\<rparr>)"

definition box_info :: "raw_psk_info \<Rightarrow> psk_heap \<Rightarrow> nat \<times> psk_heap" where
  "box_info i h = (next_addr h, h\<lparr>infos := (infos h)(next_addr h \<mapsto> i), next_addr := next_addr h + 1\<rparr>)"

text \<open>
  Taking a box back. \<open>None\<close> is a memory error: the address is not allocated, or the length is not that
  of the allocation.
\<close>

definition unbox_bytes :: "coap_bin_const_t \<Rightarrow> psk_heap \<Rightarrow> (bytes \<times> psk_heap) option" where
  "unbox_bytes b h =
     (case boxes h (bin_s b) of
        Some bs \<Rightarrow> if length bs = bin_length b then Some (bs, h\<lparr>boxes := (boxes h)(bin_s b := None)\<rparr>) else None
      | None \<Rightarrow> None)"

definition unbox_info :: "nat \<Rightarrow> psk_heap \<Rightarrow> (raw_psk_info \<times> psk_heap) option" where
  "unbox_info a h = map_option (\<lambda>i. (i, h\<lparr>infos := (infos h)(a := None)\<rparr>)) (infos h a)"

definition into_bin_consts :: "PskKey \<Rightarrow> psk_heap \<Rightarrow> (coap_bin_const_t \<times> coap_bin_const_t) \<times> psk_heap" where
  "into_bin_consts key h =
     (let (ident, h) = (case identity key of
            Some v \<Rightarrow> box_bytes v h
          | None \<Rightarrow> (\<lparr>bin_length = 0, bin_s = 0\<rparr>, h));
          (data, h) = box_bytes (key_data key) h
      in ((ident, data), h))"

definition from_bin_consts ::
    "coap_bin_const_t \<Rightarrow> coap_bin_const_t \<Rightarrow> psk_heap \<Rightarrow> (PskKey \<times> psk_heap) option" where
  "from_bin_consts ident key h =
     (case (if bin_s ident = 0 then Some (None, h)
            else map_option (\<lambda>(bs, h). (Some bs, h)) (unbox_bytes ident h)) of
        None \<Rightarrow> None
      | Some (i, h) \<Rightarrow> map_option (\<lambda>(data, h). (\<lparr>identity = i, key_data = data\<rparr>, h)) (unbox_bytes key h))"

definition into_raw_spsk_info :: "PskKey \<Rightarrow> psk_heap \<Rightarrow> raw_psk_info \<times> psk_heap" where
  "into_raw_spsk_info key h =
     (let ((hint, key), h) = into_bin_consts key h in (\<lparr>info_id = hint, info_key = key\<rparr>, h))"

definition from_raw_spsk_info :: "raw_psk_info \<Rightarrow> psk_heap \<Rightarrow> (PskKey \<times> psk_heap) option" where
  "from_raw_spsk_info info h = from_bin_consts (info_id info) (info_key info) h"

definition into_raw_cpsk_info :: "PskKey \<Rightarrow> psk_heap \<Rightarrow> raw_psk_info \<times> psk_heap" where
  "into_raw_cpsk_info key h =
     (let ((ident, key), h) = into_bin_consts key h in (\<lparr>info_id = ident, info_key = key\<rparr>, h))"

definition from_raw_cpsk_info :: "raw_psk_info \<Rightarrow> psk_heap \<Rightarrow> (PskKey \<times> psk_heap) option" where
  "from_raw_cpsk_info info h = from_bin_consts (info_id info) (info_key info) h"

section \<open>Key providers\<close>

text \<open>The implementations of the provider traits for keys, collections of keys and maps.\<close>

definition key_for_identity_hint :: "PskKey \<Rightarrow> bytes option \<Rightarrow> PskKey option" where
  "key_for_identity_hint key hint = (if hint = None \<or> identity key = hint then Some key else None)"

definition key_for_identity :: "PskKey list \<Rightarrow> bytes \<Rightarrow> PskKey option" where
  "key_for_identity keys ident =
     (case List.find (\<lambda>k. identity k = Some ident) keys of
        Some k \<Rightarrow> Some k
      | None \<Rightarrow> List.find (\<lambda>k. identity k = None) keys)"

fun key_for_sni :: "(bytes \<times> PskKey) list \<Rightarrow> bytes \<Rightarrow> PskKey option" where
  "key_for_sni [] sni = None"
| "key_for_sni ((key_sni, key) # rest) sni = (if key_sni = sni then Some key else key_for_sni rest sni)"

definition key_for_sni_map :: "(bytes \<rightharpoonup> PskKey) \<Rightarrow> bytes \<Rightarrow> PskKey option" where
  "key_for_sni_map m sni = m sni"

text \<open>
  A key without identity answers no hint of a server on the client side, but every identity of a
  client on the server side; one with an identity answers exactly this one on both.
\<close>

lemma key_conversions_answer:
  "key_for_identity_hint (psk_key_from d) (Some h) = None"
  "key_for_identity [psk_key_from d] i = Some (psk_key_from d)"
  "key_for_identity_hint (psk_key_from_pair (i, d)) (Some h) = (if h = i then Some (psk_key_from_pair (i, d)) else None)"
  "key_for_identity [psk_key_from_pair (i, d)] h = (if h = i then Some (psk_key_from_pair (i, d)) else None)"
  by (auto simp: key_for_identity_hint_def key_for_identity_def psk_key_from_def psk_key_from_pair_def)

section \<open>Server contexts\<close>

text \<open>
  The inner context. The callback arguments are weak pointers to the context itself, of which only
  their presence matters; the providers are user supplied.
\<close>

record ('i, 'n) ServerPskContextInner =
  psk_info :: raw_psk_info
  provided_keys :: "nat list"
  id_key_provider :: "'i option"
  sni_key_provider :: "'n option"
  validate_id_call_back :: bool
  validate_sni_call_back :: bool
  id_call_back_arg :: bool
  sni_call_back_arg :: bool
  spsk_ec_jpake :: bool

definition server_psk_new :: "PskKey \<Rightarrow> psk_heap \<Rightarrow> ('i, 'n) ServerPskContextInner \<times> psk_heap" where
  "server_psk_new key h =
     (let (info, h) = into_raw_spsk_info key h
      in (\<lparr>psk_info = info, provided_keys = [], id_key_provider = None, sni_key_provider = None,
           validate_id_call_back = False, validate_sni_call_back = False, id_call_back_arg = False,
           sni_call_back_arg = False, spsk_ec_jpake = False\<rparr>, h))"

definition set_id_key_provider ::
    "'i \<Rightarrow> ('i, 'n) ServerPskContextInner \<Rightarrow> ('i, 'n) ServerPskContextInner" where
  "set_id_key_provider p ctx = ctx\<lparr>id_key_provider := Some p, validate_id_call_back := True\<rparr>"

definition set_sni_key_provider ::
    "'n \<Rightarrow> ('i, 'n) ServerPskContextInner \<Rightarrow> ('i, 'n) ServerPskContextInner" where
  "set_sni_key_provider p ctx = ctx\<lparr>sni_key_provider := Some p, validate_sni_call_back := True\<rparr>"

definition server_ec_jpake :: "bool \<Rightarrow> ('i, 'n) ServerPskContextInner \<Rightarrow> ('i, 'n) ServerPskContextInner" where
  "server_ec_jpake b ctx = ctx\<lparr>spsk_ec_jpake := b\<rparr>"

definition server_psk_build ::
    "('i, 'n) ServerPskContextInner \<Rightarrow> ('i, 'n) ServerPskContextInner \<times> rc_counts" where
  "server_psk_build ctx =
     (let n = rc_new;
          (ctx, n) = (if validate_id_call_back ctx then (ctx\<lparr>id_call_back_arg := True\<rparr>, create_raw_weak n) else (ctx, n));
          (ctx, n) = (if validate_sni_call_back ctx then (ctx\<lparr>sni_call_back_arg := True\<rparr>, create_raw_weak n) else (ctx, n))
      in (ctx, n))"

text \<open>A pointer returned to libcoap.\<close>

datatype key_ptr = NullKey | ProvidedKey nat | DanglingKey

text \<open>
  The identity callback stores the key and returns a pointer to the field \<^verbatim>\<open>key\<close> of a copy of the
  stored structure, which is a temporary of the function; the SNI callback returns the stored
  pointer. \<open>key_for_id\<close> and \<open>key_for_name\<close> call the user's providers.
\<close>

definition id_callback ::
    "('i \<Rightarrow> bytes \<Rightarrow> PskKey option) \<Rightarrow> bytes \<Rightarrow> ('i, 'n) ServerPskContextInner \<times> psk_heap \<Rightarrow>
      (key_ptr \<times> ('i, 'n) ServerPskContextInner \<times> psk_heap) run" where
  "id_callback key_for_id ident s =
     (case s of (ctx, h) \<Rightarrow>
      run_map (\<lambda>provider.
        case key_for_id provider ident of
          Some key \<Rightarrow>
            (let (info, h) = into_raw_spsk_info key h; (a, h) = box_info info h
             in (DanglingKey, ctx\<lparr>provided_keys := provided_keys ctx @ [a]\<rparr>, h))
        | None \<Rightarrow> (NullKey, ctx, h)) (expect (id_key_provider ctx)))"

definition sni_callback ::
    "('n \<Rightarrow> bytes \<Rightarrow> PskKey option) \<Rightarrow> bytes \<Rightarrow> ('i, 'n) ServerPskContextInner \<times> psk_heap \<Rightarrow>
      (key_ptr \<times> ('i, 'n) ServerPskContextInner \<times> psk_heap) run" where
  "sni_callback key_for_name sni s =
     (case s of (ctx, h) \<Rightarrow>
      run_map (\<lambda>provider.
        case key_for_name provider sni of
          Some key \<Rightarrow>
            (let (info, h) = into_raw_spsk_info key h; (a, h) = box_info info h
             in (ProvidedKey a, ctx\<lparr>provided_keys := provided_keys ctx @ [a]\<rparr>, h))
        | None \<Rightarrow> (NullKey, ctx, h)) (expect (sni_key_provider ctx)))"

text \<open>Restoring a context from the callback argument: null and orphaned pointers panic.\<close>

definition psk_from_raw :: "bool \<Rightarrow> rc_counts \<Rightarrow> rc_counts run" where
  "psk_from_raw arg n = (if arg then clone_raw_weak n else Panic)"

text \<open>
  The raw callbacks: the session is restored without taking a reference; session and context handle
  are dropped at the end.
\<close>

definition dtls_psk_server_id_callback ::
    "'r raw_session_api \<Rightarrow> ('i \<Rightarrow> bytes \<Rightarrow> PskKey option) \<Rightarrow> bytes \<Rightarrow> nat \<Rightarrow>
      ('i, 'n) ServerPskContextInner \<times> rc_counts \<times> psk_heap \<Rightarrow> ('r, 'ty, 'v) heap \<Rightarrow>
      (key_ptr \<times> (('i, 'n) ServerPskContextInner \<times> rc_counts \<times> psk_heap) \<times> ('r, 'ty, 'v) heap) run" where
  "dtls_psk_server_id_callback A key_for_id ident p s w =
     (case s of (ctx, n, h) \<Rightarrow>
      run_bind (server_from_raw_without_refcount A p w) (\<lambda>(session, w).
      run_bind (psk_from_raw (id_call_back_arg ctx) n) (\<lambda>n.
      run_bind (id_callback key_for_id ident (ctx, h)) (\<lambda>(r, ctx, h).
      run_map (\<lambda>w. (r, (ctx, rc_drop n, h), w)) (server_drop A session w)))))"

definition dtls_psk_server_sni_callback ::
    "'r raw_session_api \<Rightarrow> ('n \<Rightarrow> bytes \<Rightarrow> PskKey option) \<Rightarrow> bytes \<Rightarrow> nat \<Rightarrow>
      ('i, 'n) ServerPskContextInner \<times> rc_counts \<times> psk_heap \<Rightarrow> ('r, 'ty, 'v) heap \<Rightarrow>
      (key_ptr \<times> (('i, 'n) ServerPskContextInner \<times> rc_counts \<times> psk_heap) \<times> ('r, 'ty, 'v) heap) run" where
  "dtls_psk_server_sni_callback A key_for_name sni p s w =
     (case s of (ctx, n, h) \<Rightarrow>
      run_bind (server_from_raw_without_refcount A p w) (\<lambda>(session, w).
      run_bind (psk_from_raw (sni_call_back_arg ctx) n) (\<lambda>n.
      run_bind (sni_callback key_for_name sni (ctx, h)) (\<lambda>(r, ctx, h).
      run_map (\<lambda>w. (r, (ctx, rc_drop n, h), w)) (server_drop A session w)))))"

definition server_psk_apply ::
    "('k \<Rightarrow> ('i, 'n) ServerPskContextInner \<Rightarrow> int \<times> 'k) \<Rightarrow> ('i, 'n) ServerPskContextInner \<Rightarrow> 'k \<Rightarrow>
      (ContextConfigurationError + unit) \<times> 'k" where
  "server_psk_apply coap_context_set_psk2 ctx k =
     (let (r, k) = coap_context_set_psk2 k ctx in (if r = 1 then Inr () else Inl ContextUnknown, k))"

text \<open>Reclaiming the provided keys; \<open>None\<close> is a memory error.\<close>

fun drop_provided :: "nat list \<Rightarrow> psk_heap \<Rightarrow> psk_heap option" where
  "drop_provided [] h = Some h"
| "drop_provided (a # as) h =
     (case unbox_info a h of
        None \<Rightarrow> None
      | Some (info, h) \<Rightarrow>
          (case from_raw_spsk_info info h of
             None \<Rightarrow> None
           | Some (key, h) \<Rightarrow> drop_provided as h))"

definition server_psk_drop ::
    "('i, 'n) ServerPskContextInner \<Rightarrow> rc_counts \<Rightarrow> psk_heap \<Rightarrow> (rc_counts \<times> psk_heap) option" where
  "server_psk_drop ctx n h =
     (case drop_provided (provided_keys ctx) h of
        None \<Rightarrow> None
      | Some h \<Rightarrow>
          (let n = (if id_call_back_arg ctx then weak_drop n else n);
               n = (if sni_call_back_arg ctx then weak_drop n else n)
           in map_option (\<lambda>(key, h). (n, h)) (from_raw_spsk_info (psk_info ctx) h)))"

section \<open>Client contexts\<close>

record 'i ClientPskContextInner =
  cpsk_info :: raw_psk_info
  cl_provided_keys :: "nat list"
  cl_key_provider :: "'i option"
  validate_ih_call_back :: bool
  ih_call_back_arg :: bool
  client_sni :: "bytes option"
  cpsk_ec_jpake :: bool
  use_cid :: bool

definition client_psk_new :: "PskKey \<Rightarrow> psk_heap \<Rightarrow> 'i ClientPskContextInner \<times> psk_heap" where
  "client_psk_new key h =
     (let (info, h) = into_raw_cpsk_info key h
      in (\<lparr>cpsk_info = info, cl_provided_keys = [], cl_key_provider = None, validate_ih_call_back = False,
           ih_call_back_arg = False, client_sni = None, cpsk_ec_jpake = False, use_cid = False\<rparr>, h))"

definition client_key_provider :: "'i \<Rightarrow> 'i ClientPskContextInner \<Rightarrow> 'i ClientPskContextInner" where
  "client_key_provider p ctx = ctx\<lparr>cl_key_provider := Some p, validate_ih_call_back := True\<rparr>"

definition client_ec_jpake :: "bool \<Rightarrow> 'i ClientPskContextInner \<Rightarrow> 'i ClientPskContextInner" where
  "client_ec_jpake b ctx = ctx\<lparr>cpsk_ec_jpake := b\<rparr>"

definition client_use_cid :: "bool \<Rightarrow> 'i ClientPskContextInner \<Rightarrow> 'i ClientPskContextInner" where
  "client_use_cid b ctx = ctx\<lparr>use_cid := b\<rparr>"

text \<open>The SNI is stored with its terminating null; the error is the position of a null inside.\<close>

definition set_client_sni :: "bytes \<Rightarrow> 'i ClientPskContextInner \<Rightarrow> nat + 'i ClientPskContextInner" where
  "set_client_sni sni ctx =
     (if 0 \<in> set sni then Inl (length (takeWhile (\<lambda>b. b \<noteq> 0) sni))
      else Inr (ctx\<lparr>client_sni := Some (sni @ [0])\<rparr>))"

definition client_psk_build :: "'i ClientPskContextInner \<Rightarrow> 'i ClientPskContextInner \<times> rc_counts" where
  "client_psk_build ctx =
     (if validate_ih_call_back ctx then (ctx\<lparr>ih_call_back_arg := True\<rparr>, create_raw_weak rc_new) else (ctx, rc_new))"

definition ih_callback ::
    "('i \<Rightarrow> bytes option \<Rightarrow> PskKey option) \<Rightarrow> bytes option \<Rightarrow> 'i ClientPskContextInner \<times> psk_heap \<Rightarrow>
      (key_ptr \<times> 'i ClientPskContextInner \<times> psk_heap) run" where
  "ih_callback key_for_hint hint s =
     (case s of (ctx, h) \<Rightarrow>
      run_map (\<lambda>provider.
        case key_for_hint provider hint of
          Some key \<Rightarrow>
            (let (info, h) = into_raw_cpsk_info key h; (a, h) = box_info info h
             in (ProvidedKey a, ctx\<lparr>cl_provided_keys := cl_provided_keys ctx @ [a]\<rparr>, h))
        | None \<Rightarrow> (NullKey, ctx, h)) (expect (cl_key_provider ctx)))"

definition client_psk_from_raw :: "bool \<Rightarrow> rc_counts \<Rightarrow> rc_counts run" where
  "client_psk_from_raw arg n = (if arg then clone_raw_weak n else Panic)"

definition dtls_psk_client_ih_callback ::
    "'r raw_session_api \<Rightarrow> ('i \<Rightarrow> bytes option \<Rightarrow> PskKey option) \<Rightarrow> bytes option \<Rightarrow> nat \<Rightarrow>
      'i ClientPskContextInner \<times> rc_counts \<times> psk_heap \<Rightarrow> ('r, 'ty, 'v) heap \<Rightarrow>
      (key_ptr \<times> ('i ClientPskContextInner \<times> rc_counts \<times> psk_heap) \<times> ('r, 'ty, 'v) heap) run" where
  "dtls_psk_client_ih_callback A key_for_hint hint p s w =
     (case s of (ctx, n, h) \<Rightarrow>
      run_bind (client_from_raw A p w) (\<lambda>(session, w).
      run_bind (client_psk_from_raw (ih_call_back_arg ctx) n) (\<lambda>n.
      run_bind (ih_callback key_for_hint hint (ctx, h)) (\<lambda>(r, ctx, h).
      run_map (\<lambda>w. (r, (ctx, rc_drop n, h), w)) (client_drop A session w)))))"

definition client_psk_create_raw_session ::
    "('i ClientPskContextInner \<Rightarrow> coap_address_t \<Rightarrow> CoapProtocol \<Rightarrow> (nat \<Rightarrow> 'r) \<Rightarrow> nat \<times> (nat \<Rightarrow> 'r)) \<Rightarrow>
      'i ClientPskContextInner \<Rightarrow> coap_address_t \<Rightarrow> CoapProtocol \<Rightarrow> (nat \<Rightarrow> 'r) \<Rightarrow>
      (SessionCreationError + nat) \<times> (nat \<Rightarrow> 'r)" where
  "client_psk_create_raw_session coap_new_client_session_psk2 ctx addr proto rs =
     (let (p, rs) = coap_new_client_session_psk2 ctx addr proto rs
      in (if p = 0 then Inl SessionUnknown else Inr p, rs))"

fun client_drop_provided :: "nat list \<Rightarrow> psk_heap \<Rightarrow> psk_heap option" where
  "client_drop_provided [] h = Some h"
| "client_drop_provided (a # as) h =
     (case unbox_info a h of
        None \<Rightarrow> None
      | Some (info, h) \<Rightarrow>
          (case from_raw_cpsk_info info h of
             None \<Rightarrow> None
           | Some (key, h) \<Rightarrow> client_drop_provided as h))"

definition client_psk_drop ::
    "'i ClientPskContextInner \<Rightarrow> rc_counts \<Rightarrow> psk_heap \<Rightarrow> (rc_counts \<times> psk_heap) option" where
  "client_psk_drop ctx n h =
     (case client_drop_provided (cl_provided_keys ctx) h of
        None \<Rightarrow> None
      | Some h \<Rightarrow>
          map_option (\<lambda>(key, h). (if ih_call_back_arg ctx then weak_drop n else n, h))
            (from_raw_cpsk_info (cpsk_info ctx) h))"

section \<open>Key providers\<close>

lemma find_split:
  "List.find P xs = Some x \<Longrightarrow> \<exists>pre post. xs = pre @ x # post \<and> P x \<and> (\<forall>y \<in> set pre. \<not> P y)"
proof (induction xs)
  case (Cons a xs)
  show ?case
  proof (cases "P a")
    case True
    with Cons.prems show ?thesis by (intro exI[of _ "[]"] exI[of _ xs]) auto
  next
    case False
    with Cons obtain pre post where "xs = pre @ x # post" "P x" "\<forall>y \<in> set pre. \<not> P y" by auto
    with False show ?thesis by (intro exI[of _ "a # pre"] exI[of _ post]) auto
  qed
qed simp

lemma key_for_sni_map_of: "key_for_sni es sni = map_of es sni"
  by (induction es sni rule: key_for_sni.induct) auto

text \<open>
  Choice of the key. A server with a list of keys answers an identity with the first key of that
  identity; if there is none, with the first key without identity; and with none only if the list
  has neither. The providers for server names agree: a list of pairs answers as the map it represents.
\<close>

theorem psk_key_choice:
  "(case key_for_identity keys ident of
      None \<Rightarrow> (\<forall>k \<in> set keys. \<exists>v. identity k = Some v \<and> v \<noteq> ident)
    | Some k \<Rightarrow>
        (\<exists>pre post. keys = pre @ k # post \<and>
          (identity k = Some ident \<and> (\<forall>k' \<in> set pre. identity k' \<noteq> Some ident) \<or>
           identity k = None \<and> (\<forall>k' \<in> set keys. identity k' \<noteq> Some ident) \<and> (\<forall>k' \<in> set pre. identity k' \<noteq> None)))) \<and>
   key_for_sni es sni = key_for_sni_map (map_of es) sni"
proof -
  have sni: "key_for_sni es sni = key_for_sni_map (map_of es) sni" by (simp add: key_for_sni_map_of key_for_sni_map_def)
  show ?thesis
  proof (cases "List.find (\<lambda>k. identity k = Some ident) keys")
    case (Some k)
    from find_split[OF this] this show ?thesis by (auto simp: key_for_identity_def sni)
  next
    case None
    then have none: "\<forall>k \<in> set keys. identity k \<noteq> Some ident" by (simp add: find_None_iff)
    show ?thesis
    proof (cases "List.find (\<lambda>k. identity k = None) keys")
      case Some: (Some k)
      from find_split[OF Some] Some None none show ?thesis by (fastforce simp: key_for_identity_def sni)
    next
      case no: None
      then have "\<forall>k \<in> set keys. identity k \<noteq> None" by (simp add: find_None_iff)
      with no None none show ?thesis by (auto simp: key_for_identity_def sni)
    qed
  qed
qed

end
