(* ===== verification/Psk_Memory.thy ===== *)
theory Psk_Memory
  imports Psk
begin

text \<open>
  The memory of PSK contexts: libcoap holds raw pointers into keys that a context handed out, so they
  must stay allocated until the context is destroyed, and be freed then. The interface of a context
  to its memory is the locale \<open>key_owner\<close>, which the server and the client context implement.
\<close>

section \<open>What a heap holds\<close>

text \<open>The allocations that belong to a key given to libcoap in raw form, and when the form is valid.\<close>

definition key_blocks :: "raw_psk_info \<times> PskKey \<Rightarrow> (nat \<times> bytes) list" where
  "key_blocks ik =
     (case identity (snd ik) of None \<Rightarrow> [] | Some v \<Rightarrow> [(bin_s (info_id (fst ik)), v)]) @
     [(bin_s (info_key (fst ik)), key_data (snd ik))]"

definition raw_of :: "raw_psk_info \<times> PskKey \<Rightarrow> bool" where
  "raw_of ik \<longleftrightarrow>
     (case identity (snd ik) of
        None \<Rightarrow> bin_s (info_id (fst ik)) = 0
      | Some v \<Rightarrow> bin_s (info_id (fst ik)) \<noteq> 0 \<and> bin_length (info_id (fst ik)) = length v) \<and>
     bin_length (info_key (fst ik)) = length (key_data (snd ik))"

definition fresh_heap :: "psk_heap \<Rightarrow> bool" where
  "fresh_heap h \<longleftrightarrow> next_addr h \<noteq> 0 \<and> (\<forall>a \<ge> next_addr h. boxes h a = None \<and> infos h a = None)"

text \<open>A map extended by entries that were not there.\<close>

definition extends :: "('a \<rightharpoonup> 'b) \<Rightarrow> ('a \<times> 'b) list \<Rightarrow> ('a \<rightharpoonup> 'b) \<Rightarrow> bool" where
  "extends m0 es m \<longleftrightarrow> distinct (map fst es) \<and> (\<forall>a \<in> fst ` set es. m0 a = None) \<and>
     (\<forall>a. m a = (case map_of es a of None \<Rightarrow> m0 a | Some b \<Rightarrow> Some b))"

lemma extends_Nil [simp]: "extends m0 [] m \<longleftrightarrow> m = m0"
  by (auto simp: extends_def)

lemma map_of_middle:
  "distinct (map fst (pre @ (a, b) # post)) \<Longrightarrow> map_of (pre @ (a, b) # post) = (map_of (pre @ post))(a \<mapsto> b)"
  by (induction pre) auto

lemma extends_add:
  assumes "extends m0 es m" and "m a = None"
  shows "extends m0 (es @ [(a, b)]) (m(a \<mapsto> b))"
proof -
  have "map_of es a = None" and m0: "m0 a = None" using assms by (auto simp: extends_def split: option.splits)
  then have "distinct (map fst (es @ [(a, b)]))" using assms(1) by (auto simp: extends_def map_of_eq_None_iff)
  with map_of_middle[of es a b "[]"] assms(1) m0 show ?thesis by (auto simp: extends_def)
qed

lemma extends_remove:
  assumes "extends m0 (pre @ (a, b) # post) m"
  shows "m a = Some b" and "extends m0 (pre @ post) (m(a := None))"
proof -
  have d: "distinct (map fst (pre @ (a, b) # post))" and m: "\<And>x. m x = (case map_of (pre @ (a, b) # post) x of None \<Rightarrow> m0 x | Some b \<Rightarrow> Some b)"
    and m0: "\<forall>x \<in> fst ` set (pre @ (a, b) # post). m0 x = None"
    using assms by (auto simp: extends_def)
  note mid = map_of_middle[OF d]
  show "m a = Some b" using m[of a] by (simp only: mid) simp
  have "map_of (pre @ post) a = None" using d by (auto simp: map_of_eq_None_iff)
  then have "(m(a := None)) x = (case map_of (pre @ post) x of None \<Rightarrow> m0 x | Some b \<Rightarrow> Some b)" for x
    using m[of x] m0 unfolding mid by (simp del: map_of_append)
  with d m0 show "extends m0 (pre @ post) (m(a := None))" by (simp add: extends_def del: map_of_append)
qed

lemma from_bin_consts_frees:
  assumes "extends m0 (pre @ key_blocks (i, k) @ post) (boxes h)" and "raw_of (i, k)"
  shows "\<exists>h'. from_bin_consts (info_id i) (info_key i) h = Some (k, h') \<and> extends m0 (pre @ post) (boxes h') \<and>
    infos h' = infos h \<and> next_addr h' = next_addr h \<and> (\<forall>a. boxes h a = None \<longrightarrow> boxes h' a = None)"
proof (cases "identity k")
  case None
  with assms extends_remove[of m0 pre "bin_s (info_key i)" "key_data k" post "boxes h"] show ?thesis
    by (auto simp: from_bin_consts_def key_blocks_def raw_of_def unbox_bytes_def)
next
  case (Some v)
  with assms(1) have "extends m0 (pre @ (bin_s (info_id i), v) # (bin_s (info_key i), key_data k) # post) (boxes h)"
    by (simp add: key_blocks_def)
  note ident = extends_remove[OF this]
  note key = extends_remove[OF ident(2)]
  from Some assms(2) ident(1) key show ?thesis
    by (auto simp: from_bin_consts_def raw_of_def unbox_bytes_def)
qed

lemma into_bin_consts_allocates:
  assumes "fresh_heap h" and "extends m0 bl (boxes h)" and "into_bin_consts k h = ((b, d), h')"
  shows "fresh_heap h' \<and> raw_of (\<lparr>info_id = b, info_key = d\<rparr>, k) \<and>
    extends m0 (bl @ key_blocks (\<lparr>info_id = b, info_key = d\<rparr>, k)) (boxes h') \<and> infos h' = infos h"
proof (cases "identity k")
  case None
  with assms extends_add[OF assms(2), of "next_addr h" "key_data k"] show ?thesis
    by (auto simp: into_bin_consts_def box_bytes_def fresh_heap_def raw_of_def key_blocks_def)
next
  case (Some v)
  have none: "boxes h (next_addr h) = None" "boxes h (next_addr h + 1) = None" using assms(1) by (simp_all add: fresh_heap_def)
  note first = extends_add[OF assms(2) none(1), of v]
  have "((boxes h)(next_addr h \<mapsto> v)) (next_addr h + 1) = None" using none(2) by simp
  note extends_add[OF first this, of "key_data k"]
  with Some assms(1,3) show ?thesis
    by (auto simp: into_bin_consts_def box_bytes_def fresh_heap_def raw_of_def key_blocks_def Let_def simp del: fun_upd_apply)
      (auto simp: fun_upd_apply)
qed

text \<open>
  The memory of a context: beyond the heap \<open>h0\<close> it was made in, exactly the blocks of its own key and of
  the provided keys \<open>ps\<close> (address, raw form, key), and their structures.
\<close>

definition psk_mem ::
    "psk_heap \<Rightarrow> raw_psk_info \<times> PskKey \<Rightarrow> (nat \<times> raw_psk_info \<times> PskKey) list \<Rightarrow> psk_heap \<Rightarrow> bool" where
  "psk_mem h0 own ps h \<longleftrightarrow>
     fresh_heap h \<and> raw_of own \<and> (\<forall>p \<in> set ps. raw_of (snd p)) \<and>
     extends (boxes h0) (key_blocks own @ concat (map (\<lambda>p. key_blocks (snd p)) ps)) (boxes h) \<and>
     extends (infos h0) (map (\<lambda>p. (fst p, fst (snd p))) ps) (infos h)"

lemma psk_mem_provide:
  assumes "psk_mem h0 own ps h" and "into_bin_consts k h = ((b, d), h1)"
    and "box_info \<lparr>info_id = b, info_key = d\<rparr> h1 = (a, h')"
  shows "psk_mem h0 own (ps @ [(a, \<lparr>info_id = b, info_key = d\<rparr>, k)]) h'"
proof -
  have "fresh_heap h" using assms(1) by (simp add: psk_mem_def)
  note alloc = into_bin_consts_allocates[OF this _ assms(2), of "boxes h0"
      "key_blocks own @ concat (map (\<lambda>p. key_blocks (snd p)) ps)"]
  with assms(1,3) show ?thesis
    by (auto simp: psk_mem_def box_info_def fresh_heap_def extends_add)
qed

lemma drop_provided_frees:
  assumes "psk_mem h0 own ps h"
  shows "\<exists>h'. drop_provided (map fst ps) h = Some h' \<and> psk_mem h0 own [] h'"
  using assms
proof (induction ps arbitrary: h)
  case (Cons p ps)
  obtain a i k where p: "p = (a, i, k)" by (cases p)
  let ?h = "h\<lparr>infos := (infos h)(a := None)\<rparr>"
  from Cons.prems p have inf: "infos h a = Some i" "extends (infos h0) (map (\<lambda>p. (fst p, fst (snd p))) ps) ((infos h)(a := None))"
    using extends_remove[of "infos h0" "[]" a i "map (\<lambda>p. (fst p, fst (snd p))) ps" "infos h"] by (auto simp: psk_mem_def)
  from Cons.prems p have "extends (boxes h0) (key_blocks own @ key_blocks (i, k) @ concat (map (\<lambda>p. key_blocks (snd p)) ps)) (boxes ?h)"
    and "raw_of (i, k)" by (simp_all add: psk_mem_def)
  from from_bin_consts_frees[OF this] obtain h1 where h1: "from_bin_consts (info_id i) (info_key i) ?h = Some (k, h1)"
    "extends (boxes h0) (key_blocks own @ concat (map (\<lambda>p. key_blocks (snd p)) ps)) (boxes h1)"
    "infos h1 = infos ?h" "next_addr h1 = next_addr ?h" "\<forall>a. boxes ?h a = None \<longrightarrow> boxes h1 a = None" by blast
  have "fresh_heap h1" using Cons.prems h1 by (simp add: psk_mem_def fresh_heap_def)
  with Cons.prems inf h1 have "psk_mem h0 own ps h1" by (simp add: psk_mem_def)
  from Cons.IH[OF this] p inf h1 show ?case by (simp add: unbox_info_def from_raw_spsk_info_def)
qed simp

text \<open>The destructor of a client context reclaims keys in the same way.\<close>

lemma client_drop_provided_eq: "client_drop_provided as h = drop_provided as h"
  by (induction as arbitrary: h) (simp_all add: from_raw_cpsk_info_def from_raw_spsk_info_def split: option.split)

lemma psk_mem_drop_own:
  assumes "psk_mem h0 own [] h"
  shows "\<exists>h'. from_bin_consts (info_id (fst own)) (info_key (fst own)) h = Some (snd own, h') \<and>
    boxes h' = boxes h0 \<and> infos h' = infos h0"
  using assms from_bin_consts_frees[of "boxes h0" "[]" "fst own" "snd own" "[]" h]
  by (auto simp: psk_mem_def)

lemma psk_mem_new:
  assumes "fresh_heap h0" and "into_bin_consts key h0 = ((b, d), h)"
  shows "psk_mem h0 (\<lparr>info_id = b, info_key = d\<rparr>, key) [] h"
  using into_bin_consts_allocates[OF assms(1) _ assms(2), of "boxes h0" "[]"] by (simp add: psk_mem_def)

section \<open>Contexts that own keys\<close>

text \<open>
  A context has a key of its own and the keys it provided. A callback that finds the context ready
  provides at most one key and keeps the rest of the context; the destructor reclaims the provided
  keys, then its own.
\<close>

locale key_owner =
  fixes callback :: "'e \<Rightarrow> 'x \<times> psk_heap \<Rightarrow> (key_ptr \<times> 'x \<times> psk_heap) run"
    and destroy :: "'x \<Rightarrow> rc_counts \<Rightarrow> psk_heap \<Rightarrow> (rc_counts \<times> psk_heap) option"
    and own :: "'x \<Rightarrow> raw_psk_info"
    and provided :: "'x \<Rightarrow> nat list"
    and ready :: "'x \<Rightarrow> bool"
    and give_back :: "'x \<Rightarrow> rc_counts \<Rightarrow> rc_counts"
  assumes callback_provides: "ready x \<Longrightarrow> \<exists>r x' h'. callback e (x, h) = Ret (r, x', h') \<and>
      ready x' \<and> own x' = own x \<and> give_back x' = give_back x \<and>
      (provided x' = provided x \<and> h' = h \<or>
       (\<exists>k b d h1 a. into_bin_consts k h = ((b, d), h1) \<and> box_info \<lparr>info_id = b, info_key = d\<rparr> h1 = (a, h') \<and>
          provided x' = provided x @ [a]))"
    and destroy_reclaims: "destroy x n h =
      (case drop_provided (provided x) h of
         None \<Rightarrow> None
       | Some h \<Rightarrow> map_option (\<lambda>(key, h). (give_back x n, h)) (from_bin_consts (info_id (own x)) (info_key (own x)) h))"
begin

definition holds :: "psk_heap \<Rightarrow> PskKey \<Rightarrow> 'x \<times> psk_heap \<Rightarrow> bool" where
  "holds h0 key s \<longleftrightarrow>
     ready (fst s) \<and> (\<exists>ps. psk_mem h0 (own (fst s), key) ps (snd s) \<and> provided (fst s) = map fst ps)"

lemma callback_holds:
  assumes "holds h0 key (x, h)"
  shows "\<exists>r x' h'. callback e (x, h) = Ret (r, x', h') \<and> holds h0 key (x', h') \<and> give_back x' = give_back x"
proof -
  from assms obtain ps where x: "ready x" "psk_mem h0 (own x, key) ps h" "provided x = map fst ps"
    by (auto simp: holds_def)
  obtain r x' h' where cb: "callback e (x, h) = Ret (r, x', h')" "ready x'" "own x' = own x" "give_back x' = give_back x"
    and mem: "provided x' = provided x \<and> h' = h \<or>
       (\<exists>k b d h1 a. into_bin_consts k h = ((b, d), h1) \<and> box_info \<lparr>info_id = b, info_key = d\<rparr> h1 = (a, h') \<and>
          provided x' = provided x @ [a])"
    using callback_provides[OF x(1), of e h] by blast
  from mem have "\<exists>ps'. psk_mem h0 (own x, key) ps' h' \<and> provided x' = map fst ps'"
  proof (elim disjE exE conjE)
    fix k b d h1 a
    assume "into_bin_consts k h = ((b, d), h1)" "box_info \<lparr>info_id = b, info_key = d\<rparr> h1 = (a, h')"
      and prov: "provided x' = provided x @ [a]"
    from psk_mem_provide[OF x(2) this(1,2)] prov x(3) show ?thesis
      by (intro exI[of _ "ps @ [(a, \<lparr>info_id = b, info_key = d\<rparr>, k)]"]) simp
  qed (use x in auto)
  with cb show ?thesis by (auto simp: holds_def)
qed

lemma callbacks_hold:
  "holds h0 key s \<Longrightarrow> \<exists>s'. run_all callback es s = Ret s' \<and> holds h0 key s' \<and> give_back (fst s') = give_back (fst s)"
proof (induction es arbitrary: s)
  case (Cons e es)
  obtain r x' h' where "callback e s = Ret (r, x', h')" "holds h0 key (x', h')" "give_back x' = give_back (fst s)"
    using callback_holds[of h0 key "fst s" "snd s" e] Cons.prems by auto
  with Cons.IH[of "(x', h')"] show ?case by auto
qed simp

lemma destroy_frees:
  assumes "holds h0 key (x, h)"
  shows "\<exists>h'. destroy x n h = Some (give_back x n, h') \<and> boxes h' = boxes h0 \<and> infos h' = infos h0"
proof -
  from assms obtain ps where ps: "psk_mem h0 (own x, key) ps h" "provided x = map fst ps" by (auto simp: holds_def)
  obtain h1 where h1: "drop_provided (map fst ps) h = Some h1" "psk_mem h0 (own x, key) [] h1"
    using drop_provided_frees[OF ps(1)] by blast
  from psk_mem_drop_own[OF h1(2)] ps(2) h1(1) show ?thesis by (auto simp: destroy_reclaims)
qed

text \<open>From creation over any callbacks to destruction, all memory is freed once.\<close>

lemma life_frees:
  assumes "fresh_heap h0" and "into_bin_consts key h0 = ((b, d), h)"
    and "own x = \<lparr>info_id = b, info_key = d\<rparr>" and "provided x = []" and "ready x"
  shows "\<exists>x' h' h''. run_all callback es (x, h) = Ret (x', h') \<and> destroy x' n h' = Some (give_back x n, h'') \<and>
    boxes h'' = boxes h0 \<and> infos h'' = infos h0"
proof -
  have "holds h0 key (x, h)" using psk_mem_new[OF assms(1,2)] assms(3-5) by (simp add: holds_def)
  from callbacks_hold[OF this, of es] obtain x' h' where
    "run_all callback es (x, h) = Ret (x', h')" "holds h0 key (x', h')" "give_back x' = give_back x" by auto
  with destroy_frees[OF this(2), of n] show ?thesis by auto
qed

end

section \<open>Server and client contexts\<close>

text \<open>The callbacks that libcoap makes into a server context, in any order.\<close>

datatype psk_event = IdentityAsked bytes | SniAsked bytes

fun psk_event_step ::
    "('i \<Rightarrow> bytes \<Rightarrow> PskKey option) \<Rightarrow> ('n \<Rightarrow> bytes \<Rightarrow> PskKey option) \<Rightarrow> psk_event \<Rightarrow>
      ('i, 'n) ServerPskContextInner \<times> psk_heap \<Rightarrow> (key_ptr \<times> ('i, 'n) ServerPskContextInner \<times> psk_heap) run" where
  "psk_event_step key_for_id key_for_name (IdentityAsked ident) s = id_callback key_for_id ident s"
| "psk_event_step key_for_id key_for_name (SniAsked sni) s = sni_callback key_for_name sni s"

interpretation server_keys: key_owner "psk_event_step key_for_id key_for_name" server_psk_drop psk_info provided_keys
    "\<lambda>ctx. id_key_provider ctx \<noteq> None \<and> sni_key_provider ctx \<noteq> None"
    "\<lambda>ctx n. (if sni_call_back_arg ctx then weak_drop else id) ((if id_call_back_arg ctx then weak_drop else id) n)"
  for key_for_id key_for_name
proof (unfold_locales, goal_cases)
  case (1 x e h)
  then obtain ip sp where "id_key_provider x = Some ip" "sni_key_provider x = Some sp" by auto
  then show ?case
    by (cases e)
      (fastforce simp: id_callback_def sni_callback_def into_raw_spsk_info_def Let_def split: option.split prod.split)+
next
  case (2 x n h)
  show ?case by (simp add: server_psk_drop_def from_raw_spsk_info_def Let_def split: option.split)
qed

interpretation client_keys: key_owner "ih_callback key_for_hint" client_psk_drop cpsk_info cl_provided_keys
    "\<lambda>ctx. cl_key_provider ctx \<noteq> None" "\<lambda>ctx n. (if ih_call_back_arg ctx then weak_drop else id) n"
  for key_for_hint
proof (unfold_locales, goal_cases)
  case (1 x e h)
  then obtain ip where "cl_key_provider x = Some ip" by auto
  then show ?case
    by (fastforce simp: ih_callback_def into_raw_cpsk_info_def Let_def split: option.split prod.split)
next
  case (2 x n h)
  show ?case by (simp add: client_psk_drop_def client_drop_provided_eq from_raw_cpsk_info_def split: option.split)
qed

section \<open>Properties\<close>

text \<open>
  C11: memory of a server PSK context. Whatever keys its providers hand out in whatever sequence of
  identity and SNI callbacks, none of the callbacks panics, and the destructor frees every byte
  string and structure exactly once: no memory error occurs, the heap holds what it held before the
  context was made, and all weak references are given back.
\<close>

theorem server_psk_memory:
  assumes "fresh_heap h0" and "server_psk_new key h0 = (ctx0, h)"
    and "server_psk_build (set_sni_key_provider sp (set_id_key_provider ip ctx0)) = (ctx, n)"
  shows "\<exists>ctx' h' h''. run_all (psk_event_step key_for_id key_for_name) es (ctx, h) = Ret (ctx', h') \<and>
    server_psk_drop ctx' n h' = Some (rc_new, h'') \<and> boxes h'' = boxes h0 \<and> infos h'' = infos h0"
proof -
  obtain b d where raw: "into_bin_consts key h0 = ((b, d), h)" and info: "psk_info ctx0 = \<lparr>info_id = b, info_key = d\<rparr>"
    and "provided_keys ctx0 = []"
    using assms(2) by (auto simp: server_psk_new_def into_raw_spsk_info_def Let_def split: prod.splits)
  with assms(3) have ctx: "psk_info ctx = psk_info ctx0" "provided_keys ctx = []" "id_key_provider ctx = Some ip"
      "sni_key_provider ctx = Some sp" "id_call_back_arg ctx" "sni_call_back_arg ctx"
      "n = create_raw_weak (create_raw_weak rc_new)"
    by (auto simp: server_psk_build_def set_sni_key_provider_def set_id_key_provider_def Let_def)
  with server_keys.life_frees[OF assms(1) raw, of ctx key_for_id key_for_name es n] info show ?thesis
    by (auto simp: weak_drop_def create_raw_weak_def)
qed

text \<open>
  Memory of a client PSK context. The same holds for a client context with a key provider:
  whatever identity hints the server sends, the callbacks do not panic and the destructor frees all
  keys exactly once and gives back the weak reference; the server name, the key exchange and
  connection identifier settings made before building do not matter.
\<close>

theorem client_psk_memory:
  assumes "fresh_heap h0" and "client_psk_new key h0 = (ctx0, h)"
    and "set_client_sni sni (client_use_cid cid (client_ec_jpake jpake (client_key_provider p ctx0))) = Inr ctx1"
    and "client_psk_build ctx1 = (ctx, n)"
  shows "\<exists>ctx' h' h''. run_all (ih_callback key_for_hint) hints (ctx, h) = Ret (ctx', h') \<and>
    client_psk_drop ctx' n h' = Some (rc_new, h'') \<and> boxes h'' = boxes h0 \<and> infos h'' = infos h0"
proof -
  obtain b d where raw: "into_bin_consts key h0 = ((b, d), h)" and info: "cpsk_info ctx0 = \<lparr>info_id = b, info_key = d\<rparr>"
    and "cl_provided_keys ctx0 = []"
    using assms(2) by (auto simp: client_psk_new_def into_raw_cpsk_info_def Let_def split: prod.splits)
  with assms(3,4) have ctx: "cpsk_info ctx = cpsk_info ctx0" "cl_provided_keys ctx = []" "cl_key_provider ctx = Some p"
      "ih_call_back_arg ctx" "n = create_raw_weak rc_new"
    by (auto simp: client_psk_build_def set_client_sni_def client_use_cid_def client_ec_jpake_def client_key_provider_def
        split: if_splits)
  with client_keys.life_frees[OF assms(1) raw, of ctx key_for_hint hints n] info show ?thesis
    by (auto simp: weak_drop_def create_raw_weak_def)
qed

definition empty_psk_heap :: psk_heap where
  "empty_psk_heap = \<lparr>boxes = (\<lambda>a. None), infos = (\<lambda>a. None), next_addr = 1\<rparr>"

theorem server_psk_memory_witness:
  "let (ctx0, h) = server_psk_new (psk_key_new None [1, 2]) empty_psk_heap;
       (ctx, n) = server_psk_build (set_sni_key_provider () (set_id_key_provider [psk_key_new (Some [7]) [8]] ctx0))
   in \<exists>ctx' h' h''. run_all (psk_event_step key_for_identity (\<lambda>_ _. None)) [IdentityAsked [7], SniAsked [9], IdentityAsked [7]] (ctx, h) =
        Ret (ctx', h') \<and> server_psk_drop ctx' n h' = Some (rc_new, h'') \<and> boxes h'' 2 = None"
proof -
  have fresh: "fresh_heap empty_psk_heap" by (simp add: fresh_heap_def empty_psk_heap_def)
  obtain ctx0 :: "(PskKey list, unit) ServerPskContextInner" and h where
    new: "server_psk_new (psk_key_new None [1, 2]) empty_psk_heap = (ctx0, h)" by fastforce
  obtain ctx n where build: "server_psk_build (set_sni_key_provider () (set_id_key_provider [psk_key_new (Some [7]) [8]] ctx0)) = (ctx, n)"
    by fastforce
  have "boxes empty_psk_heap 2 = None" by (simp add: empty_psk_heap_def)
  then show ?thesis
    using server_psk_memory[OF fresh new build, of key_for_identity "\<lambda>_ _. None" "[IdentityAsked [7], SniAsked [9], IdentityAsked [7]]"]
    by (auto simp: new build)
qed

end
