(* ===== verification/Pki_Keys.thy ===== *)
theory Pki_Keys
  imports Coap_Prelude
begin

text \<open>
  Asymmetric DTLS keys (\<^verbatim>\<open>libcoap/src/crypto/pki_rpk/key.rs\<close>, and the key definitions of
  \<^verbatim>\<open>pki.rs\<close> and \<^verbatim>\<open>rpk.rs\<close>): key components, key definitions and the raw structures that point into
  them. A component owns an allocation, so an explicit heap maps addresses to byte strings; what
  libcoap reads through a raw structure is defined on that heap.
\<close>

section \<open>Memory\<close>

text \<open>Allocated byte strings; a C string is stored with its terminating null byte.\<close>

record 'd key_heap =
  blocks :: "nat \<rightharpoonup> bytes"
  descriptors :: "nat \<rightharpoonup> 'd"
  next_block :: nat

definition alloc_block :: "bytes \<Rightarrow> 'd key_heap \<Rightarrow> nat \<times> 'd key_heap" where
  "alloc_block bs h = (next_block h, h\<lparr>blocks := (blocks h)(next_block h \<mapsto> bs), next_block := next_block h + 1\<rparr>)"

text \<open>Freeing an allocation; \<open>None\<close> is a double free or a free of memory that was never allocated.\<close>

definition free_block :: "nat \<Rightarrow> 'd key_heap \<Rightarrow> 'd key_heap option" where
  "free_block a h = (if blocks h a = None then None else Some (h\<lparr>blocks := (blocks h)(a := None)\<rparr>))"

section \<open>Key components\<close>

datatype component_kind = PemFile | PemMemory | DerFile | DerMemory | Pkcs11 | Engine

record KeyComponent =
  comp_kind :: component_kind
  comp_block :: nat
  comp_len :: nat

text \<open>The components that are C strings: paths, PKCS11 URIs and strings for the TLS library.\<close>

fun is_cstring :: "component_kind \<Rightarrow> bool" where
  "is_cstring PemFile = True"
| "is_cstring PemMemory = False"
| "is_cstring DerFile = True"
| "is_cstring DerMemory = False"
| "is_cstring Pkcs11 = True"
| "is_cstring Engine = True"

text \<open>
  The conversions into components. A path is made a C string, which panics on a null byte; PKCS11 and
  engine components are given as C strings, which contain none.
\<close>

definition component_from :: "component_kind \<Rightarrow> bytes \<Rightarrow> 'd key_heap \<Rightarrow> (KeyComponent \<times> 'd key_heap) run" where
  "component_from kind bs h =
     (if is_cstring kind \<and> 0 \<in> set bs then Panic
      else let stored = (if is_cstring kind then bs @ [0] else bs);
               (a, h) = alloc_block stored h
           in Ret (\<lparr>comp_kind = kind, comp_block = a, comp_len = length stored\<rparr>, h))"

definition as_raw_key_component :: "KeyComponent \<Rightarrow> nat \<times> nat" where
  "as_raw_key_component c =
     (case comp_kind c of
        PemFile \<Rightarrow> (comp_block c, 0)
      | PemMemory \<Rightarrow> (comp_block c, comp_len c)
      | DerFile \<Rightarrow> (comp_block c, 0)
      | DerMemory \<Rightarrow> (comp_block c, comp_len c)
      | Pkcs11 \<Rightarrow> (comp_block c, 0)
      | Engine \<Rightarrow> (comp_block c, 0))"

section \<open>Private key types\<close>

datatype Asn1PrivateKeyType =
  Asn1None | Rsa | Rsa2 | Dsa | Dsa1 | Dsa2 | Dsa3 | Dsa4 | Dh | Dhx | Ec | Hmac | Cmac | Tls1Prf | Hkdf

datatype coap_asn1_privatekey_type_t =
    COAP_ASN1_PKEY_NONE | COAP_ASN1_PKEY_RSA | COAP_ASN1_PKEY_RSA2 | COAP_ASN1_PKEY_DSA | COAP_ASN1_PKEY_DSA1 |
    COAP_ASN1_PKEY_DSA2 | COAP_ASN1_PKEY_DSA3 | COAP_ASN1_PKEY_DSA4 | COAP_ASN1_PKEY_DH | COAP_ASN1_PKEY_DHX |
    COAP_ASN1_PKEY_EC | COAP_ASN1_PKEY_HMAC | COAP_ASN1_PKEY_CMAC | COAP_ASN1_PKEY_TLS1_PRF | COAP_ASN1_PKEY_HKDF

fun asn1_into_raw :: "Asn1PrivateKeyType \<Rightarrow> coap_asn1_privatekey_type_t" where
  "asn1_into_raw Asn1None = COAP_ASN1_PKEY_NONE"
| "asn1_into_raw Rsa = COAP_ASN1_PKEY_RSA"
| "asn1_into_raw Rsa2 = COAP_ASN1_PKEY_RSA2"
| "asn1_into_raw Dsa = COAP_ASN1_PKEY_DSA"
| "asn1_into_raw Dsa1 = COAP_ASN1_PKEY_DSA1"
| "asn1_into_raw Dsa2 = COAP_ASN1_PKEY_DSA2"
| "asn1_into_raw Dsa3 = COAP_ASN1_PKEY_DSA3"
| "asn1_into_raw Dsa4 = COAP_ASN1_PKEY_DSA4"
| "asn1_into_raw Dh = COAP_ASN1_PKEY_DH"
| "asn1_into_raw Dhx = COAP_ASN1_PKEY_DHX"
| "asn1_into_raw Ec = COAP_ASN1_PKEY_EC"
| "asn1_into_raw Hmac = COAP_ASN1_PKEY_HMAC"
| "asn1_into_raw Cmac = COAP_ASN1_PKEY_CMAC"
| "asn1_into_raw Tls1Prf = COAP_ASN1_PKEY_TLS1_PRF"
| "asn1_into_raw Hkdf = COAP_ASN1_PKEY_HKDF"

text \<open>
  \<^verbatim>\<open>FromPrimitive\<close> compares the number of the raw value with the discriminants of the variants, which
  are the numbers of the raw values they are declared with; the numbers are those of the bindings.
\<close>

definition asn1_variants :: "Asn1PrivateKeyType list" where
  "asn1_variants = [Asn1None, Rsa, Rsa2, Dsa, Dsa1, Dsa2, Dsa3, Dsa4, Dh, Dhx, Ec, Hmac, Cmac, Tls1Prf, Hkdf]"

definition asn1_from_raw ::
    "(coap_asn1_privatekey_type_t \<Rightarrow> int) \<Rightarrow> coap_asn1_privatekey_type_t \<Rightarrow> Asn1PrivateKeyType run" where
  "asn1_from_raw num raw = expect (List.find (\<lambda>t. num (asn1_into_raw t) = num raw) asn1_variants)"

section \<open>Key definitions\<close>

datatype coap_pki_define_t =
    COAP_PKI_KEY_DEF_PEM | COAP_PKI_KEY_DEF_PEM_BUF | COAP_PKI_KEY_DEF_DER | COAP_PKI_KEY_DEF_DER_BUF |
    COAP_PKI_KEY_DEF_PKCS11 | COAP_PKI_KEY_DEF_ENGINE | COAP_PKI_KEY_DEF_RPK_BUF | COAP_PKI_KEY_DEF_PKCS11_RPK

text \<open>\<^verbatim>\<open>DEFINE_TYPE\<close> of the components of certificates, and of raw public keys, which only two kinds may be.\<close>

fun pki_define_type :: "component_kind \<Rightarrow> coap_pki_define_t" where
  "pki_define_type PemFile = COAP_PKI_KEY_DEF_PEM"
| "pki_define_type PemMemory = COAP_PKI_KEY_DEF_PEM_BUF"
| "pki_define_type DerFile = COAP_PKI_KEY_DEF_DER"
| "pki_define_type DerMemory = COAP_PKI_KEY_DEF_DER_BUF"
| "pki_define_type Pkcs11 = COAP_PKI_KEY_DEF_PKCS11"
| "pki_define_type Engine = COAP_PKI_KEY_DEF_ENGINE"

datatype rpk_kind = RpkMemory | RpkPkcs11

fun rpk_component_kind :: "rpk_kind \<Rightarrow> component_kind" where
  "rpk_component_kind RpkMemory = PemMemory"
| "rpk_component_kind RpkPkcs11 = Pkcs11"

fun rpk_define_type :: "rpk_kind \<Rightarrow> coap_pki_define_t" where
  "rpk_define_type RpkMemory = COAP_PKI_KEY_DEF_RPK_BUF"
| "rpk_define_type RpkPkcs11 = COAP_PKI_KEY_DEF_PKCS11_RPK"

text \<open>The raw structure; a pointer is an address, null is \<open>0\<close>.\<close>

record coap_dtls_key_t =
  k_ca :: nat
  k_public_cert :: nat
  k_private_key :: nat
  k_ca_len :: nat
  k_public_cert_len :: nat
  k_private_key_len :: nat
  k_ca_def :: coap_pki_define_t
  k_public_cert_def :: coap_pki_define_t
  k_private_key_def :: coap_pki_define_t
  k_private_key_type :: coap_asn1_privatekey_type_t
  k_user_pin :: nat

text \<open>
  The kind of the CA certificate is a type parameter of the definition, known even without one. The
  user PIN is an owned C string: its address and stored length.
\<close>

record PkiKeyDef =
  ca_kind :: component_kind
  ca_cert :: "KeyComponent option"
  public_cert :: KeyComponent
  private_key :: KeyComponent
  user_pin :: "nat option"
  asn1_private_key_type :: Asn1PrivateKeyType

definition pki_key_new ::
    "component_kind \<Rightarrow> KeyComponent option \<Rightarrow> KeyComponent \<Rightarrow> KeyComponent \<Rightarrow> nat option \<Rightarrow> Asn1PrivateKeyType \<Rightarrow> PkiKeyDef" where
  "pki_key_new kind ca pub priv pin ty =
     \<lparr>ca_kind = kind, ca_cert = ca, public_cert = pub, private_key = priv, user_pin = pin, asn1_private_key_type = ty\<rparr>"

record RpkKeyDef =
  rpk_public_kind :: rpk_kind
  rpk_private_kind :: rpk_kind
  rpk_public_key :: KeyComponent
  rpk_private_key :: KeyComponent
  rpk_user_pin :: "nat option"
  rpk_asn1_type :: Asn1PrivateKeyType

definition rpk_key_new ::
    "rpk_kind \<Rightarrow> rpk_kind \<Rightarrow> KeyComponent \<Rightarrow> KeyComponent \<Rightarrow> nat option \<Rightarrow> Asn1PrivateKeyType \<Rightarrow> RpkKeyDef" where
  "rpk_key_new pk sk pub priv pin ty =
     \<lparr>rpk_public_kind = pk, rpk_private_kind = sk, rpk_public_key = pub, rpk_private_key = priv, rpk_user_pin = pin,
      rpk_asn1_type = ty\<rparr>"

definition pki_as_raw_dtls_key :: "PkiKeyDef \<Rightarrow> coap_dtls_key_t" where
  "pki_as_raw_dtls_key k =
     (let (ca, ca_len) = (case ca_cert k of Some v \<Rightarrow> as_raw_key_component v | None \<Rightarrow> (0, 0));
          (pub, pub_len) = as_raw_key_component (public_cert k);
          (priv, priv_len) = as_raw_key_component (private_key k)
      in \<lparr>k_ca = ca, k_public_cert = pub, k_private_key = priv, k_ca_len = ca_len, k_public_cert_len = pub_len,
          k_private_key_len = priv_len, k_ca_def = pki_define_type (ca_kind k),
          k_public_cert_def = pki_define_type (comp_kind (public_cert k)),
          k_private_key_def = pki_define_type (comp_kind (private_key k)),
          k_private_key_type = asn1_into_raw (asn1_private_key_type k),
          k_user_pin = (case user_pin k of Some a \<Rightarrow> a | None \<Rightarrow> 0)\<rparr>)"

definition rpk_as_raw_dtls_key :: "RpkKeyDef \<Rightarrow> coap_dtls_key_t" where
  "rpk_as_raw_dtls_key k =
     (let (pub, pub_len) = as_raw_key_component (rpk_public_key k);
          (priv, priv_len) = as_raw_key_component (rpk_private_key k)
      in \<lparr>k_ca = 0, k_public_cert = pub, k_private_key = priv, k_ca_len = 0, k_public_cert_len = pub_len,
          k_private_key_len = priv_len, k_ca_def = COAP_PKI_KEY_DEF_PEM,
          k_public_cert_def = rpk_define_type (rpk_public_kind k),
          k_private_key_def = rpk_define_type (rpk_private_kind k),
          k_private_key_type = asn1_into_raw (rpk_asn1_type k),
          k_user_pin = (case rpk_user_pin k of Some a \<Rightarrow> a | None \<Rightarrow> 0)\<rparr>)"

section \<open>The constructors of key definitions\<close>

text \<open>An optional component, converted as \<^verbatim>\<open>map\<close> over the option does.\<close>

definition component_from_opt ::
    "component_kind \<Rightarrow> bytes option \<Rightarrow> 'd key_heap \<Rightarrow> (KeyComponent option \<times> 'd key_heap) run" where
  "component_from_opt kind v h =
     (case v of None \<Rightarrow> Ret (None, h) | Some bs \<Rightarrow> run_map (\<lambda>(c, h). (Some c, h)) (component_from kind bs h))"

definition pki_with ::
    "component_kind \<Rightarrow> Asn1PrivateKeyType \<Rightarrow> bytes option \<Rightarrow> bytes \<Rightarrow> bytes \<Rightarrow> nat option \<Rightarrow> 'd key_heap \<Rightarrow>
      (PkiKeyDef \<times> 'd key_heap) run" where
  "pki_with kind ty ca pub priv pin h =
     run_bind (component_from_opt kind ca h) (\<lambda>(ca, h).
     run_bind (component_from kind pub h) (\<lambda>(pub, h).
     run_map (\<lambda>(priv, h). (pki_key_new kind ca pub priv pin ty, h)) (component_from kind priv h)))"

definition pki_with_pem_files :: "bytes option \<Rightarrow> bytes \<Rightarrow> bytes \<Rightarrow> 'd key_heap \<Rightarrow> (PkiKeyDef \<times> 'd key_heap) run" where
  "pki_with_pem_files ca pub priv = pki_with PemFile Asn1None ca pub priv None"

definition pki_with_pem_memory :: "bytes option \<Rightarrow> bytes \<Rightarrow> bytes \<Rightarrow> 'd key_heap \<Rightarrow> (PkiKeyDef \<times> 'd key_heap) run" where
  "pki_with_pem_memory ca pub priv = pki_with PemMemory Asn1None ca pub priv None"

definition pki_with_asn1_files ::
    "bytes option \<Rightarrow> bytes \<Rightarrow> bytes \<Rightarrow> Asn1PrivateKeyType \<Rightarrow> 'd key_heap \<Rightarrow> (PkiKeyDef \<times> 'd key_heap) run" where
  "pki_with_asn1_files ca pub priv ty = pki_with DerFile ty ca pub priv None"

definition pki_with_asn1_memory ::
    "bytes option \<Rightarrow> bytes \<Rightarrow> bytes \<Rightarrow> Asn1PrivateKeyType \<Rightarrow> 'd key_heap \<Rightarrow> (PkiKeyDef \<times> 'd key_heap) run" where
  "pki_with_asn1_memory ca pub priv ty = pki_with DerMemory ty ca pub priv None"

definition pki_with_pkcs11 ::
    "bytes option \<Rightarrow> bytes \<Rightarrow> bytes \<Rightarrow> nat option \<Rightarrow> 'd key_heap \<Rightarrow> (PkiKeyDef \<times> 'd key_heap) run" where
  "pki_with_pkcs11 ca pub priv pin = pki_with Pkcs11 Asn1None ca pub priv pin"

definition rpk_with ::
    "rpk_kind \<Rightarrow> bytes \<Rightarrow> bytes \<Rightarrow> nat option \<Rightarrow> 'd key_heap \<Rightarrow> (RpkKeyDef \<times> 'd key_heap) run" where
  "rpk_with kind pub priv pin h =
     run_bind (component_from (rpk_component_kind kind) pub h) (\<lambda>(pub, h).
     run_map (\<lambda>(priv, h). (rpk_key_new kind kind pub priv pin Asn1None, h))
       (component_from (rpk_component_kind kind) priv h))"

definition rpk_with_pem_memory :: "bytes \<Rightarrow> bytes \<Rightarrow> 'd key_heap \<Rightarrow> (RpkKeyDef \<times> 'd key_heap) run" where
  "rpk_with_pem_memory pub priv = rpk_with RpkMemory pub priv None"

definition rpk_with_pkcs11 :: "bytes \<Rightarrow> bytes \<Rightarrow> nat option \<Rightarrow> 'd key_heap \<Rightarrow> (RpkKeyDef \<times> 'd key_heap) run" where
  "rpk_with_pkcs11 pub priv pin = rpk_with RpkPkcs11 pub priv pin"

section \<open>What libcoap reads\<close>

text \<open>
  Through a pointer libcoap reads as many bytes as the length says, or up to the null byte if the
  length is zero; reading what is not allocated, beyond the allocation or a string without
  terminator gives nothing.
\<close>

definition read_string :: "'d key_heap \<Rightarrow> nat \<Rightarrow> bytes option" where
  "read_string h a =
     (case blocks h a of None \<Rightarrow> None
      | Some bs \<Rightarrow> if 0 \<in> set bs then Some (takeWhile (\<lambda>b. b \<noteq> 0) bs) else None)"

definition read_buffer :: "'d key_heap \<Rightarrow> nat \<Rightarrow> nat \<Rightarrow> bytes option" where
  "read_buffer h a n =
     (case blocks h a of None \<Rightarrow> None | Some bs \<Rightarrow> if n \<le> length bs then Some (take n bs) else None)"

fun string_define :: "coap_pki_define_t \<Rightarrow> bool" where
  "string_define COAP_PKI_KEY_DEF_PEM = True"
| "string_define COAP_PKI_KEY_DEF_PEM_BUF = False"
| "string_define COAP_PKI_KEY_DEF_DER = True"
| "string_define COAP_PKI_KEY_DEF_DER_BUF = False"
| "string_define COAP_PKI_KEY_DEF_PKCS11 = True"
| "string_define COAP_PKI_KEY_DEF_ENGINE = True"
| "string_define COAP_PKI_KEY_DEF_RPK_BUF = False"
| "string_define COAP_PKI_KEY_DEF_PKCS11_RPK = True"

definition read_component :: "'d key_heap \<Rightarrow> coap_pki_define_t \<Rightarrow> nat \<Rightarrow> nat \<Rightarrow> bytes option" where
  "read_component h def a n = (if string_define def then read_string h a else read_buffer h a n)"

text \<open>A component holds a byte string.\<close>

definition holds_bytes :: "'d key_heap \<Rightarrow> KeyComponent \<Rightarrow> bytes \<Rightarrow> bool" where
  "holds_bytes h c bs \<longleftrightarrow>
     blocks h (comp_block c) = Some (if is_cstring (comp_kind c) then bs @ [0] else bs) \<and>
     comp_len c = length bs + (if is_cstring (comp_kind c) then 1 else 0) \<and> (is_cstring (comp_kind c) \<longrightarrow> 0 \<notin> set bs)"

lemma takeWhile_terminated: "(0 :: u8) \<notin> set bs \<Longrightarrow> takeWhile (\<lambda>b. b \<noteq> 0) (bs @ [0]) = bs"
  by (induction bs) auto

lemma read_component_holds:
  assumes "holds_bytes h c bs" and "string_define def \<longleftrightarrow> is_cstring (comp_kind c)"
    and "as_raw_key_component c = (a, n)"
  shows "read_component h def a n = Some bs"
  using assms
  by (cases "comp_kind c")
    (auto simp: holds_bytes_def read_component_def read_string_def read_buffer_def as_raw_key_component_def
      takeWhile_terminated simp del: takeWhile_append)

lemma string_define_kind [simp]:
  "string_define (pki_define_type k) = is_cstring k" "string_define (rpk_define_type r) = is_cstring (rpk_component_kind r)"
  by (cases k; simp) (cases r; simp)

lemma component_from_holds:
  assumes "component_from kind bs h = Ret (c, h')"
  shows "holds_bytes h' c bs" "comp_kind c = kind" "comp_block c = next_block h"
    "blocks h' = (blocks h)(next_block h \<mapsto> (if is_cstring kind then bs @ [0] else bs))"
    "next_block h' = next_block h + 1" "descriptors h' = descriptors h"
  using assms by (auto simp: component_from_def alloc_block_def holds_bytes_def Let_def split: if_splits)

definition fresh_key_heap :: "'d key_heap \<Rightarrow> bool" where
  "fresh_key_heap h \<longleftrightarrow> 0 < next_block h \<and> (\<forall>a. next_block h \<le> a \<longrightarrow> blocks h a = None \<and> descriptors h a = None)"

lemma component_from_keeps:
  assumes "component_from kind bs h = Ret (c, h')" and "fresh_key_heap h" and "holds_bytes h d ds"
  shows "holds_bytes h' d ds"
proof -
  from assms(2,3) have "comp_block d \<noteq> next_block h" by (auto simp: holds_bytes_def fresh_key_heap_def)
  with assms(3) show ?thesis by (simp add: holds_bytes_def component_from_holds(4)[OF assms(1)])
qed

lemma component_from_fresh:
  assumes "component_from kind bs h = Ret (c, h')" and "fresh_key_heap h"
  shows "fresh_key_heap h'"
  using assms(2) by (auto simp: fresh_key_heap_def component_from_holds(4,5,6)[OF assms(1)])

section \<open>Properties\<close>

text \<open>
  Private key types. The conversion to the raw type and back is the identity in both directions,
  whatever distinct numbers the bindings give the raw types; in particular it never panics.
\<close>

lemma asn1_type_roundtrip:
  assumes "inj num"
  shows "asn1_from_raw num (asn1_into_raw t) = Ret t" and "\<exists>u. asn1_from_raw num raw = Ret u \<and> asn1_into_raw u = raw"
proof -
  have eq: "num a = num b \<longleftrightarrow> a = b" for a b using assms by (auto simp: inj_def)
  show again: "asn1_from_raw num (asn1_into_raw t) = Ret t" for t
    by (cases t) (simp_all add: asn1_from_raw_def asn1_variants_def eq)
  have "\<exists>u. raw = asn1_into_raw u"
    by (cases raw) (metis asn1_into_raw.simps)+
  with again show "\<exists>u. asn1_from_raw num raw = Ret u \<and> asn1_into_raw u = raw" by metis
qed

text \<open>The bytes that make a constructor of key definitions panic.\<close>

definition bad_string :: "component_kind \<Rightarrow> bytes \<Rightarrow> bool" where
  "bad_string kind bs \<longleftrightarrow> is_cstring kind \<and> 0 \<in> set bs"

lemma component_from_Panic: "component_from kind bs h = Panic \<longleftrightarrow> bad_string kind bs"
  by (simp add: component_from_def bad_string_def Let_def case_prod_beta)

text \<open>
  Certificate keys. Every constructor of a key definition panics exactly if a component that is
  stored as a C string contains a null byte. Otherwise libcoap reads through the raw structure of
  the definition exactly the bytes given for the certificate, the private key and the CA
  certificate, in the way the define type of each component says, and finds no CA certificate if none was given.
\<close>

theorem pki_key_readable:
  assumes "fresh_key_heap h"
  shows "case pki_with kind ty ca pub priv pin h of
     Panic \<Rightarrow> bad_string kind pub \<or> bad_string kind priv \<or> (\<exists>bs. ca = Some bs \<and> bad_string kind bs)
   | Ret (k, h') \<Rightarrow>
       (let r = pki_as_raw_dtls_key k in
        \<not> bad_string kind pub \<and> \<not> bad_string kind priv \<and> (\<forall>bs. ca = Some bs \<longrightarrow> \<not> bad_string kind bs) \<and>
        read_component h' (k_public_cert_def r) (k_public_cert r) (k_public_cert_len r) = Some pub \<and>
        read_component h' (k_private_key_def r) (k_private_key r) (k_private_key_len r) = Some priv \<and>
        (case ca of
           None \<Rightarrow> k_ca r = 0 \<and> k_ca_len r = 0
         | Some bs \<Rightarrow> k_ca r \<noteq> 0 \<and> read_component h' (k_ca_def r) (k_ca r) (k_ca_len r) = Some bs) \<and>
        k_private_key_type r = asn1_into_raw ty \<and> fresh_key_heap h')"
proof (cases "bad_string kind pub \<or> bad_string kind priv \<or> (\<exists>bs. ca = Some bs \<and> bad_string kind bs)")
  case True
  then have "pki_with kind ty ca pub priv pin h = Panic"
    by (auto simp: pki_with_def component_from_opt_def component_from_Panic[THEN iffD2] run_bind_def
        split: option.split run.split)
  with True show ?thesis by simp
next
  case False
  have some: "\<exists>c h'. component_from kind bs g = Ret (c, h')" if "\<not> bad_string kind bs" for bs and g :: "'a key_heap"
    using component_from_Panic[of kind bs g] that by (cases "component_from kind bs g") auto
  obtain c1 h1 where ca: "component_from_opt kind ca h = Ret (c1, h1)" "fresh_key_heap h1"
    "rel_option (holds_bytes h1) c1 ca" "pred_option (\<lambda>c. comp_kind c = kind \<and> comp_block c \<noteq> 0) c1"
  proof (cases ca)
    case (Some bs)
    with False some[of bs h] obtain c h1 where "component_from kind bs h = Ret (c, h1)" by auto
    from that[of "Some c" h1] component_from_holds[OF this] component_from_fresh[OF this assms] this Some assms show ?thesis
      by (simp add: component_from_opt_def fresh_key_heap_def)
  qed (use that assms in \<open>simp add: component_from_opt_def\<close>)
  obtain c2 h2 where pub: "component_from kind pub h1 = Ret (c2, h2)" using some[of pub h1] False by auto
  note fresh2 = component_from_fresh[OF pub ca(2)]
  obtain c3 h3 where priv: "component_from kind priv h2 = Ret (c3, h3)" using some[of priv h2] False by auto
  note holds2 = component_from_holds[OF pub] and holds3 = component_from_holds[OF priv]
  have ca3: "rel_option (holds_bytes h3) c1 ca"
    using ca(3) component_from_keeps[OF pub ca(2)] component_from_keeps[OF priv fresh2]
    by (cases c1; cases ca) auto
  have pub3: "holds_bytes h3 c2 pub" by (rule component_from_keeps[OF priv fresh2 holds2(1)])
  have run: "pki_with kind ty ca pub priv pin h = Ret (pki_key_new kind c1 c2 c3 pin ty, h3)"
    by (simp add: pki_with_def ca(1) pub priv)
  obtain a2 n2 a3 n3 where raw: "as_raw_key_component c2 = (a2, n2)" "as_raw_key_component c3 = (a3, n3)" by fastforce
  have "case ca of None \<Rightarrow> c1 = None
      | Some bs \<Rightarrow> \<exists>c a n. c1 = Some c \<and> as_raw_key_component c = (a, n) \<and> a \<noteq> 0 \<and>
          read_component h3 (pki_define_type kind) a n = Some bs"
  proof (cases ca)
    case (Some bs)
    with ca3 obtain c where c: "c1 = Some c" "holds_bytes h3 c bs" by (cases c1) auto
    moreover obtain a n where an: "as_raw_key_component c = (a, n)" by fastforce
    moreover have "a = comp_block c" using an by (simp add: as_raw_key_component_def split: component_kind.splits)
    ultimately show ?thesis
      using Some ca(4) read_component_holds[OF c(2), of "pki_define_type kind" a n] by simp
  qed (use ca3 in \<open>cases c1; simp\<close>)
  with False run raw component_from_fresh[OF priv fresh2] show ?thesis
    using read_component_holds[OF pub3 _ raw(1), of "pki_define_type kind"]
      read_component_holds[OF holds3(1) _ raw(2), of "pki_define_type kind"] holds2(2) holds3(2)
    by (auto simp: pki_as_raw_dtls_key_def pki_key_new_def split: option.splits)
qed

end
