(* ===== verification/Client_Life.thy ===== *)
theory Client_Life
  imports Session_Handles
begin

text \<open>
  Handles to shared sessions as a contract: while one handle exists another can be restored from the
  raw session, any handle can be dropped, and for some types any handle can be cloned. The contract
  is stated as the locales \<open>shared_handles\<close> and \<open>cloned_handles\<close>; server sessions
  implement the first, client sessions both, and the life of a client session follows.
\<close>

section \<open>Sequences of operations on handles\<close>

datatype handle_op = RestoreHandle | CopyHandle nat | DropHandle nat

text \<open>An operation that names no handle, or that restores one when none is left, is not possible and is skipped.\<close>

fun handle_step ::
    "('w \<Rightarrow> ('h \<times> 'w) run) \<Rightarrow> ('h \<Rightarrow> 'w \<Rightarrow> 'h \<times> 'w) \<Rightarrow> ('h \<Rightarrow> 'w \<Rightarrow> 'w run) \<Rightarrow> handle_op \<Rightarrow> 'w \<times> 'h list \<Rightarrow> ('w \<times> 'h list) run" where
  "handle_step restore copy release RestoreHandle (w, hs) =
     (if hs = [] then Ret (w, hs) else run_map (\<lambda>(h, w). (w, h # hs)) (restore w))"
| "handle_step restore copy release (CopyHandle i) (w, hs) =
     (if i < length hs then (case copy (hs ! i) w of (h, w) \<Rightarrow> Ret (w, h # hs)) else Ret (w, hs))"
| "handle_step restore copy release (DropHandle i) (w, hs) =
     (if i < length hs then run_map (\<lambda>w. (w, remove1 (hs ! i) hs)) (release (hs ! i) w) else Ret (w, hs))"

fun handle_run ::
    "('w \<Rightarrow> ('h \<times> 'w) run) \<Rightarrow> ('h \<Rightarrow> 'w \<Rightarrow> 'h \<times> 'w) \<Rightarrow> ('h \<Rightarrow> 'w \<Rightarrow> 'w run) \<Rightarrow> handle_op list \<Rightarrow> 'w \<times> 'h list \<Rightarrow> ('w \<times> 'h list) run" where
  "handle_run restore copy release [] s = Ret s"
| "handle_run restore copy release (op # ops) s =
     run_bind (handle_step restore copy release op s) (handle_run restore copy release ops)"

section \<open>The contract\<close>

locale shared_handles =
  fixes restore :: "'w \<Rightarrow> ('h \<times> 'w) run"
    and release :: "'h \<Rightarrow> 'w \<Rightarrow> 'w run"
    and inv :: "'w \<Rightarrow> 'h list \<Rightarrow> bool"
  assumes restore_inv: "inv w hs \<Longrightarrow> hs \<noteq> [] \<Longrightarrow> \<exists>h w'. restore w = Ret (h, w') \<and> inv w' (h # hs)"
    and release_inv: "inv w hs \<Longrightarrow> h \<in> set hs \<Longrightarrow> \<exists>w'. release h w = Ret w' \<and> inv w' (remove1 h hs)"
begin

text \<open>A handle restored for the duration of a callback leaves everything as it was.\<close>

lemma restore_release:
  assumes "inv w hs" and "hs \<noteq> []"
  shows "\<exists>h w' w''. restore w = Ret (h, w') \<and> release h w' = Ret w'' \<and> inv w'' hs"
  using restore_inv[OF assms] release_inv by fastforce

end

locale cloned_handles = shared_handles +
  fixes copy :: "'b \<Rightarrow> 'a \<Rightarrow> 'b \<times> 'a"
  assumes copy_inv: "inv w hs \<Longrightarrow> h \<in> set hs \<Longrightarrow> copy h w = (h', w') \<Longrightarrow> inv w' (h' # hs)"
begin

lemma step_inv:
  "inv w hs \<Longrightarrow> \<exists>w' hs'. handle_step restore copy release op (w, hs) = Ret (w', hs') \<and> inv w' hs'"
proof (cases op)
  case RestoreHandle
  assume "inv w hs"
  with restore_inv[of w hs] RestoreHandle show ?thesis by auto
next
  case (CopyHandle i)
  assume "inv w hs"
  with copy_inv[of w hs "hs ! i"] CopyHandle show ?thesis by (cases "copy (hs ! i) w") auto
next
  case (DropHandle i)
  assume "inv w hs"
  with release_inv[of w hs "hs ! i"] DropHandle show ?thesis by auto
qed

lemma run_inv:
  "inv (fst s) (snd s) \<Longrightarrow> \<exists>w' hs'. handle_run restore copy release ops s = Ret (w', hs') \<and> inv w' hs'"
proof (induction ops arbitrary: s)
  case (Cons op ops)
  from step_inv[OF Cons.prems, of op] obtain w' hs' where
    "handle_step restore copy release op s = Ret (w', hs')" "inv w' hs'" by auto
  with Cons.IH[of "(w', hs')"] show ?case by simp
qed auto

end

section \<open>Server sessions\<close>

interpretation server_handles: shared_handles "server_from_raw A p" "server_drop A"
    "\<lambda>w hs. raw_session_laws A refs \<and> server_inv A refs p c base w hs"
  for A p refs c base
  by unfold_locales (use server_inv_restore server_inv_drop in \<open>blast+\<close>)

section \<open>Client sessions\<close>

text \<open>
  What else is documented of the functions used to set up a client session: the initial token and the
  application data leave type, counter and context alone.
\<close>

definition client_setup_laws :: "'r raw_session_api \<Rightarrow> ('r \<Rightarrow> nat) \<Rightarrow> bool" where
  "client_setup_laws A refs \<longleftrightarrow>
     (\<forall>r token. coap_session_get_type A (coap_session_init_token A r token) = coap_session_get_type A r \<and>
       coap_session_get_context A (coap_session_init_token A r token) = coap_session_get_context A r \<and>
       refs (coap_session_init_token A r token) = refs r) \<and>
     (\<forall>r c. coap_session_get_context A (coap_session_set_app_data A r c) = coap_session_get_context A r)"

text \<open>
  The handles of a client session all refer to its cell. Together they own one reference of libcoap,
  the one the session was created with; the event handler is registered between the operations.
\<close>

definition client_inv ::
    "'r raw_session_api \<Rightarrow> ('r \<Rightarrow> nat) \<Rightarrow> nat \<Rightarrow> nat \<Rightarrow> nat \<Rightarrow> ('r, 'ty, 'v) heap \<Rightarrow> nat list \<Rightarrow> bool" where
  "client_inv A refs p c base w hs \<longleftrightarrow>
     p \<noteq> 0 \<and> c \<noteq> 0 \<and> set hs \<subseteq> {c} \<and> raw_session (inners w c) = p \<and> event_handler_set w \<and>
     strong (counts w c) = length hs \<and> weak (counts w c) = (if hs = [] then 0 else 1) \<and>
     refs (raws w p) = base + (if hs = [] then 0 else 1) \<and>
     (hs \<noteq> [] \<longrightarrow> coap_session_get_app_data A (raws w p) = c \<and> coap_session_get_context A (raws w p) \<noteq> 0 \<and>
        coap_session_get_type A (raws w p) = COAP_SESSION_TYPE_CLIENT)"

lemma event_handler_upd [simp]:
  "event_handler_set (upd_raw p f w) = event_handler_set w" "event_handler_set (upd_counts c g w) = event_handler_set w"
  by (simp_all add: upd_raw_def upd_counts_def)

lemma client_inv_restore:
  assumes "client_inv A refs p c base w hs" and "hs \<noteq> []"
  shows "\<exists>h w'. client_from_raw A p w = Ret (h, w') \<and> client_inv A refs p c base w' (h # hs)"
  using assms by (auto simp: client_inv_def client_from_raw_def Let_def)

lemma client_inv_clone:
  assumes "client_inv A refs p c base w hs" and "h \<in> set hs" and "client_clone h w = (h', w')"
  shows "client_inv A refs p c base w' (h' # hs)"
  using assms by (auto simp: client_inv_def client_clone_def)

lemma client_inner_drop_last:
  assumes "coap_session_get_app_data A (raws w p) = c" and "c \<noteq> 0" and "coap_session_get_context A (raws w p) \<noteq> 0"
    and "raw_session (inners w c) = p"
  shows "\<exists>w'. client_inner_drop A c w = Ret w' \<and> raws w' = (raws w)(p := coap_session_release A (raws w p)) \<and>
    counts w' = (counts w)(c := weak_drop (counts w c)) \<and> inners w' = inners w \<and> event_handler_set w'"
  using assms by (simp add: client_inner_drop_def Let_def upd_raw_def upd_counts_def)

lemma client_inv_drop:
  assumes laws: "raw_session_laws A refs" and inv: "client_inv A refs p c base w hs" and h: "h \<in> set hs"
  shows "\<exists>w'. client_drop A h w = Ret w' \<and> client_inv A refs p c base w' (remove1 h hs)"
proof (cases "length hs = 1")
  case True
  with h have hs: "hs = [h]" by (cases hs) auto
  let ?w = "upd_counts c rc_drop w"
  from inv hs have c: "h = c" and
    at: "coap_session_get_app_data A (raws ?w p) = c" "c \<noteq> 0" "coap_session_get_context A (raws ?w p) \<noteq> 0"
      "raw_session (inners ?w c) = p"
    by (auto simp: client_inv_def)
  from client_inner_drop_last[OF at] obtain w' where w': "client_inner_drop A c ?w = Ret w'"
    "raws w' = (raws w)(p := coap_session_release A (raws w p))"
    "counts w' = (counts w)(c := weak_drop (rc_drop (counts w c)))" "inners w' = inners w" "event_handler_set w'" by auto
  from inv hs have n: "strong (counts w c) = 1" "weak (counts w c) = 1" "refs (raws w p) = Suc base"
    by (simp_all add: client_inv_def)
  have "client_drop A h w = Ret w'" using w'(1) n(1) c by (simp add: client_drop_def cell_drop_def Let_def)
  moreover have "client_inv A refs p c base w' []"
    using inv[unfolded hs] w' n release_simps(1)[OF laws, of "raws w p"] by (simp add: client_inv_def)
  ultimately show ?thesis using hs by simp
next
  case False
  moreover from h have "0 < length hs" by auto
  ultimately have len: "1 < length hs" by linarith
  then have more: "remove1 h hs \<noteq> []" using length_remove1[of h hs] h by auto
  from inv h have c: "h = c" "strong (counts w c) = length hs" by (auto simp: client_inv_def)
  with len have "client_drop A h w = Ret (upd_counts c rc_drop w)"
    by (simp add: client_drop_def cell_drop_def Let_def)
  moreover have "client_inv A refs p c base (upd_counts c rc_drop w) (remove1 h hs)"
    using inv h more set_remove1_subset[of h hs] by (auto simp: client_inv_def length_remove1)
  ultimately show ?thesis by blast
qed

interpretation client_handles: cloned_handles "client_from_raw A p" "client_drop A"
    "\<lambda>w hs. raw_session_laws A refs \<and> client_inv A refs p c base w hs" client_clone
  for A p refs c base
proof (unfold_locales, goal_cases)
  case (1 w hs)
  then show ?case using client_inv_restore[of A refs p c base w hs] by blast
next
  case (2 w hs h)
  then show ?case using client_inv_drop[of A refs p c base w hs h] by blast
next
  case (3 w hs h h' w')
  then show ?case using client_inv_clone[of A refs p c base w hs h h' w'] by blast
qed

text \<open>Both constructors of client sessions establish the invariant.\<close>

lemma client_inv_new:
  assumes laws: "raw_session_laws A refs" "client_setup_laws A refs"
    and start: "client_inner_new A fill p w0 = Ret (c, w) \<or> client_new_with_crypto_ctx A p w0 = (c, w)"
    and "next_cell w0 \<noteq> 0" "p \<noteq> 0" "event_handler_set w0" "refs (raws w0 p) = Suc base"
    and "coap_session_get_type A (raws w0 p) = COAP_SESSION_TYPE_CLIENT" "coap_session_get_context A (raws w0 p) \<noteq> 0"
  shows "client_inv A refs p c base w [c]"
proof -
  note given = assms(3-)
  have kept: "coap_session_get_type A (coap_session_init_token A r token) = coap_session_get_type A r"
    "coap_session_get_context A (coap_session_init_token A r token) = coap_session_get_context A r"
    "refs (coap_session_init_token A r token) = refs r"
    "coap_session_get_context A (coap_session_set_app_data A r c) = coap_session_get_context A r" for r token c
    using laws(2) by (simp_all add: client_setup_laws_def)
  from given show ?thesis
    by (auto simp: client_inner_new_def client_new_with_crypto_ctx_def alloc_cell_def session_inner_new_def Let_def
        client_inv_def run_bind_eq_Ret set_app_data_simps[OF laws(1)] kept)
qed

text \<open>
  C14: the life of a client session. After it was created from a raw session that libcoap made for it,
  any sequence of restoring handles in callbacks, cloning and dropping them runs without a panic. The
  strong count is the number of handles; libcoap's reference is kept until the last handle is
  dropped and given back exactly then, after which the weak reference in the application data is
  gone too; and the event handler is registered again after every drop.
\<close>

theorem client_session_life:
  assumes "raw_session_laws A refs" and "client_setup_laws A refs"
    and "client_inner_new A fill p w0 = Ret (c, w) \<or> client_new_with_crypto_ctx A p w0 = (c, w)"
    and "next_cell w0 \<noteq> 0" and "p \<noteq> 0" and "event_handler_set w0" and "0 < refs (raws w0 p)"
    and "coap_session_get_type A (raws w0 p) = COAP_SESSION_TYPE_CLIENT" and "coap_session_get_context A (raws w0 p) \<noteq> 0"
  shows "\<exists>w' hs. handle_run (client_from_raw A p) client_clone (client_drop A) ops (w, [c]) = Ret (w', hs) \<and>
    strong (counts w' c) = length hs \<and> weak (counts w' c) = (if hs = [] then 0 else 1) \<and>
    refs (raws w' p) = (if hs = [] then refs (raws w0 p) - 1 else refs (raws w0 p)) \<and> event_handler_set w'"
proof -
  obtain base where base: "refs (raws w0 p) = Suc base" using assms(7) by (cases "refs (raws w0 p)") auto
  have "client_inv A refs p c base w [c]"
    using client_inv_new[OF assms(1-6) base assms(8,9)] .
  with assms(1) client_handles.run_inv[of A refs p c base "(w, [c])" ops] obtain w' hs where
    "handle_run (client_from_raw A p) client_clone (client_drop A) ops (w, [c]) = Ret (w', hs)"
    "client_inv A refs p c base w' hs" by auto
  with base show ?thesis by (auto simp: client_inv_def)
qed

text \<open>A fresh client session that is cloned, restored and dropped three times.\<close>

theorem client_session_life_witness:
  "let w0 = sample_heap\<lparr>raws := (\<lambda>p. (COAP_SESSION_TYPE_CLIENT, 0, 1))\<rparr>;
       (c, w) = client_new_with_crypto_ctx sample_raw_api 5 w0
   in \<exists>w' hs. handle_run (client_from_raw sample_raw_api 5) client_clone (client_drop sample_raw_api)
        [CopyHandle 0, RestoreHandle, DropHandle 0, DropHandle 0, DropHandle 0] (w, [c]) = Ret (w', hs) \<and>
      hs = [] \<and> sample_refs (raws w' 5) = 0"
proof -
  let ?w0 = "sample_heap\<lparr>raws := (\<lambda>p. (COAP_SESSION_TYPE_CLIENT, 0, 1))\<rparr>"
  let ?ops = "[CopyHandle 0, RestoreHandle, DropHandle 0, DropHandle 0, DropHandle 0]"
  obtain c w where new: "client_new_with_crypto_ctx sample_raw_api 5 ?w0 = (c, w)" by fastforce
  have kept: "client_setup_laws sample_raw_api sample_refs"
    by (auto simp: client_setup_laws_def sample_raw_api_def sample_refs_def)
  have "\<exists>w' hs. handle_run (client_from_raw sample_raw_api 5) client_clone (client_drop sample_raw_api) ?ops (w, [c]) = Ret (w', hs) \<and>
    strong (counts w' c) = length hs \<and> weak (counts w' c) = (if hs = [] then 0 else 1) \<and>
    sample_refs (raws w' 5) = (if hs = [] then sample_refs (raws ?w0 5) - 1 else sample_refs (raws ?w0 5)) \<and> event_handler_set w'"
    by (rule client_session_life[OF sample_raw_laws kept disjI2[OF new]])
      (simp_all add: sample_heap_def sample_raw_api_def sample_refs_def)
  moreover have "\<exists>w'. handle_run (client_from_raw sample_raw_api 5) client_clone (client_drop sample_raw_api) ?ops (w, [c]) = Ret (w', [])"
    using new by (auto simp: client_new_with_crypto_ctx_def alloc_cell_def sample_heap_def sample_raw_api_def Let_def
        client_clone_def client_from_raw_def client_drop_def cell_drop_def client_inner_drop_def session_inner_new_def)
  ultimately show ?thesis using new by (auto simp: sample_refs_def)
qed

end
