(* ===== verification/Pki_Context.thy ===== *)
theory Pki_Context
  imports Pki_Keys Client_Life
begin

text \<open>
  DTLS contexts for certificates and raw public keys (\<^verbatim>\<open>libcoap/src/crypto/pki_rpk/mod.rs\<close> with the
  parts of \<^verbatim>\<open>pki.rs\<close> and \<^verbatim>\<open>rpk.rs\<close> that configure them, and the choice between crypto contexts in
  \<^verbatim>\<open>crypto/mod.rs\<close>): the builder, the callbacks for common names and server names, and the
  destructor. Keys handed to libcoap are raw structures that point into key definitions, which the
  context must keep.
\<close>

section \<open>Configurations\<close>

datatype KeyType = Pki | Rpk

text \<open>The raw configuration; whether a callback is set and whether its argument is not null are flags.\<close>

record coap_dtls_pki_t =
  version :: u8
  verify_peer_cert :: u8
  check_common_ca :: u8
  allow_self_signed :: u8
  allow_expired_certs :: u8
  cert_chain_validation :: u8
  cert_chain_verify_depth :: u8
  check_cert_revocation :: u8
  allow_no_crl :: u8
  allow_expired_crl :: u8
  allow_bad_md_hash :: u8
  allow_short_rsa_length :: u8
  is_rpk_not_cert :: u8
  cfg_use_cid :: u8
  validate_cn_call_back :: bool
  cn_call_back_arg :: bool
  validate_sni_call_back :: bool
  cfg_sni_arg :: bool
  cfg_client_sni :: nat
  pki_key :: coap_dtls_key_t

datatype key_def = PkiKey PkiKeyDef | RpkKey RpkKeyDef

fun key_type :: "key_def \<Rightarrow> KeyType" where
  "key_type (PkiKey _) = Pki"
| "key_type (RpkKey _) = Rpk"

fun as_raw_dtls_key :: "key_def \<Rightarrow> coap_dtls_key_t" where
  "as_raw_dtls_key (PkiKey k) = pki_as_raw_dtls_key k"
| "as_raw_dtls_key (RpkKey k) = rpk_as_raw_dtls_key k"

text \<open>The user's validators of type \<open>'v\<close> and key provider of type \<open>'n\<close>.\<close>

datatype 'v CnCallback = PkiCn 'v | RpkCn 'v

record ('v, 'n) PkiRpkContextInner =
  raw_cfg :: coap_dtls_pki_t
  pki_provided_keys :: "key_def list"
  provided_key_descriptors :: "nat list"
  cn_callback_fn :: "'v CnCallback option"
  pki_sni_provider :: "'n option"
  sni_box :: "nat option"

type_synonym pki_heap = "coap_dtls_key_t key_heap"

section \<open>The builder\<close>

definition pki_key_type_defaults :: "coap_dtls_pki_t \<Rightarrow> coap_dtls_pki_t" where
  [simp]: "pki_key_type_defaults cfg = cfg\<lparr>is_rpk_not_cert := 0\<rparr>"

definition rpk_key_type_defaults :: "coap_dtls_pki_t \<Rightarrow> coap_dtls_pki_t" where
  [simp]: "rpk_key_type_defaults cfg = cfg\<lparr>is_rpk_not_cert := 1\<rparr>"

definition set_key_type_defaults :: "KeyType \<Rightarrow> coap_dtls_pki_t \<Rightarrow> coap_dtls_pki_t" where
  "set_key_type_defaults kty cfg =
     (case kty of Pki \<Rightarrow> pki_key_type_defaults cfg | Rpk \<Rightarrow> rpk_key_type_defaults cfg)"

text \<open>\<open>setup_version\<close> is \<^verbatim>\<open>COAP_DTLS_PKI_SETUP_VERSION\<close>, cast to a byte.\<close>

definition pki_builder_new :: "u32 \<Rightarrow> key_def \<Rightarrow> ('v, 'n) PkiRpkContextInner" where
  "pki_builder_new setup_version key =
     (let cfg = \<lparr>version = ucast setup_version, verify_peer_cert = 0, check_common_ca = 0, allow_self_signed = 0,
            allow_expired_certs = 0, cert_chain_validation = 0, cert_chain_verify_depth = 0, check_cert_revocation = 0,
            allow_no_crl = 0, allow_expired_crl = 0, allow_bad_md_hash = 0, allow_short_rsa_length = 0,
            is_rpk_not_cert = 0, cfg_use_cid = 0, validate_cn_call_back = False, cn_call_back_arg = False,
            validate_sni_call_back = False, cfg_sni_arg = False, cfg_client_sni = 0, pki_key = as_raw_dtls_key key\<rparr>
      in \<lparr>raw_cfg = set_key_type_defaults (key_type key) cfg, pki_provided_keys = [key], provided_key_descriptors = [],
          cn_callback_fn = None, pki_sni_provider = None, sni_box = None\<rparr>)"

abbreviation as_flag :: "bool \<Rightarrow> u8" where
  "as_flag b \<equiv> (if b then 1 else 0)"

abbreviation on_cfg ::
    "(coap_dtls_pki_t \<Rightarrow> coap_dtls_pki_t) \<Rightarrow> ('v, 'n) PkiRpkContextInner \<Rightarrow> ('v, 'n) PkiRpkContextInner" where
  "on_cfg f ctx \<equiv> ctx\<lparr>raw_cfg := f (raw_cfg ctx)\<rparr>"

definition set_verify_peer_cert :: "('v, 'n) PkiRpkContextInner \<Rightarrow> ('v, 'n) PkiRpkContextInner" where
  "set_verify_peer_cert ctx = on_cfg (\<lambda>c. c\<lparr>verify_peer_cert := 1\<rparr>) ctx"

text \<open>\<^verbatim>\<open>PkiRpkContextBuilder::<Pki, CertVerifying>::new\<close>.\<close>

definition pki_verifying_new :: "u32 \<Rightarrow> PkiKeyDef \<Rightarrow> ('v, 'n) PkiRpkContextInner" where
  "pki_verifying_new setup_version key = set_verify_peer_cert (pki_builder_new setup_version (PkiKey key))"

definition pki_use_cid :: "bool \<Rightarrow> ('v, 'n) PkiRpkContextInner \<Rightarrow> ('v, 'n) PkiRpkContextInner" where
  "pki_use_cid b ctx = on_cfg (\<lambda>c. c\<lparr>cfg_use_cid := as_flag b\<rparr>) ctx"

definition set_check_common_ca :: "bool \<Rightarrow> ('v, 'n) PkiRpkContextInner \<Rightarrow> ('v, 'n) PkiRpkContextInner" where
  "set_check_common_ca b ctx = on_cfg (\<lambda>c. c\<lparr>check_common_ca := as_flag b\<rparr>) ctx"

definition set_allow_self_signed :: "bool \<Rightarrow> ('v, 'n) PkiRpkContextInner \<Rightarrow> ('v, 'n) PkiRpkContextInner" where
  "set_allow_self_signed b ctx = on_cfg (\<lambda>c. c\<lparr>allow_self_signed := as_flag b\<rparr>) ctx"

definition set_allow_expired_certs :: "bool \<Rightarrow> ('v, 'n) PkiRpkContextInner \<Rightarrow> ('v, 'n) PkiRpkContextInner" where
  "set_allow_expired_certs b ctx = on_cfg (\<lambda>c. c\<lparr>allow_expired_certs := as_flag b\<rparr>) ctx"

definition set_cert_chain_validation :: "u8 \<Rightarrow> ('v, 'n) PkiRpkContextInner \<Rightarrow> ('v, 'n) PkiRpkContextInner" where
  "set_cert_chain_validation depth ctx =
     on_cfg (\<lambda>c. c\<lparr>cert_chain_validation := (if depth = 0 then 0 else 1), cert_chain_verify_depth := depth\<rparr>) ctx"

definition set_check_cert_revocation :: "bool \<Rightarrow> ('v, 'n) PkiRpkContextInner \<Rightarrow> ('v, 'n) PkiRpkContextInner" where
  "set_check_cert_revocation b ctx = on_cfg (\<lambda>c. c\<lparr>check_cert_revocation := as_flag b\<rparr>) ctx"

definition set_allow_no_crl :: "bool \<Rightarrow> ('v, 'n) PkiRpkContextInner \<Rightarrow> ('v, 'n) PkiRpkContextInner" where
  "set_allow_no_crl b ctx = on_cfg (\<lambda>c. c\<lparr>allow_no_crl := as_flag b\<rparr>) ctx"

definition set_allow_expired_crl :: "bool \<Rightarrow> ('v, 'n) PkiRpkContextInner \<Rightarrow> ('v, 'n) PkiRpkContextInner" where
  "set_allow_expired_crl b ctx = on_cfg (\<lambda>c. c\<lparr>allow_expired_crl := as_flag b\<rparr>) ctx"

definition set_allow_bad_md_hash :: "bool \<Rightarrow> ('v, 'n) PkiRpkContextInner \<Rightarrow> ('v, 'n) PkiRpkContextInner" where
  "set_allow_bad_md_hash b ctx = on_cfg (\<lambda>c. c\<lparr>allow_bad_md_hash := as_flag b\<rparr>) ctx"

definition set_allow_short_rsa_length :: "bool \<Rightarrow> ('v, 'n) PkiRpkContextInner \<Rightarrow> ('v, 'n) PkiRpkContextInner" where
  "set_allow_short_rsa_length b ctx = on_cfg (\<lambda>c. c\<lparr>allow_short_rsa_length := as_flag b\<rparr>) ctx"

text \<open>
  The server name a client sends is stored as an owned allocation that the raw configuration points
  to; the one set before is freed. The error is the position of a null byte; the outer \<open>None\<close> is a
  memory error.
\<close>

definition drop_box :: "nat option \<Rightarrow> 'd key_heap \<Rightarrow> 'd key_heap option" where
  "drop_box b h = (case b of None \<Rightarrow> Some h | Some a \<Rightarrow> free_block a h)"

definition pki_client_sni ::
    "bytes \<Rightarrow> ('v, 'n) PkiRpkContextInner \<Rightarrow> 'd key_heap \<Rightarrow>
      (nat + ('v, 'n) PkiRpkContextInner \<times> 'd key_heap) option" where
  "pki_client_sni sni ctx h =
     (if 0 \<in> set sni then Some (Inl (length (takeWhile (\<lambda>b. b \<noteq> 0) sni)))
      else let (a, h) = alloc_block (sni @ [0]) h
           in map_option (\<lambda>h. Inr (on_cfg (\<lambda>c. c\<lparr>cfg_client_sni := a\<rparr>) (ctx\<lparr>sni_box := Some a\<rparr>), h))
                (drop_box (sni_box ctx) h))"

definition pki_sni_key_provider :: "'n \<Rightarrow> ('v, 'n) PkiRpkContextInner \<Rightarrow> ('v, 'n) PkiRpkContextInner" where
  "pki_sni_key_provider p ctx = on_cfg (\<lambda>c. c\<lparr>validate_sni_call_back := True\<rparr>) (ctx\<lparr>pki_sni_provider := Some p\<rparr>)"

definition set_cn_validator :: "'v \<Rightarrow> ('v, 'n) PkiRpkContextInner \<Rightarrow> ('v, 'n) PkiRpkContextInner" where
  "set_cn_validator v ctx = on_cfg (\<lambda>c. c\<lparr>validate_cn_call_back := True\<rparr>) (ctx\<lparr>cn_callback_fn := Some (PkiCn v)\<rparr>)"

definition set_rpk_validator :: "'v \<Rightarrow> ('v, 'n) PkiRpkContextInner \<Rightarrow> ('v, 'n) PkiRpkContextInner" where
  "set_rpk_validator v ctx = on_cfg (\<lambda>c. c\<lparr>validate_cn_call_back := True\<rparr>) (ctx\<lparr>cn_callback_fn := Some (RpkCn v)\<rparr>)"

definition pki_build :: "('v, 'n) PkiRpkContextInner \<Rightarrow> ('v, 'n) PkiRpkContextInner \<times> rc_counts" where
  "pki_build ctx =
     (let n = rc_new;
          (ctx, n) = (if validate_cn_call_back (raw_cfg ctx)
                      then (on_cfg (\<lambda>c. c\<lparr>cn_call_back_arg := True\<rparr>) ctx, create_raw_weak n) else (ctx, n));
          (ctx, n) = (if validate_sni_call_back (raw_cfg ctx)
                      then (on_cfg (\<lambda>c. c\<lparr>cfg_sni_arg := True\<rparr>) ctx, create_raw_weak n) else (ctx, n))
      in (ctx, n))"

section \<open>Callbacks\<close>

definition pki_from_raw :: "bool \<Rightarrow> rc_counts \<Rightarrow> rc_counts run" where
  "pki_from_raw arg n = (if arg then clone_raw_weak n else Panic)"

text \<open>
  \<open>validate_cn\<close> and \<open>validate_rpk\<close> call the user's validators. The session is passed as the handle
  that was restored for the call.
\<close>

definition pki_cn_callback ::
    "('v \<Rightarrow> bytes \<Rightarrow> bytes \<Rightarrow> CoapSession \<Rightarrow> u32 \<Rightarrow> bool \<Rightarrow> bool) \<Rightarrow> ('v \<Rightarrow> bytes \<Rightarrow> CoapSession \<Rightarrow> bool \<Rightarrow> bool) \<Rightarrow>
      bytes \<Rightarrow> bytes \<Rightarrow> CoapSession \<Rightarrow> u32 \<Rightarrow> bool \<Rightarrow> ('v, 'n) PkiRpkContextInner \<Rightarrow> int run" where
  "pki_cn_callback validate_cn validate_rpk cn cert session depth validated ctx =
     run_map (\<lambda>cb. if (case cb of PkiCn v \<Rightarrow> validate_cn v cn cert session depth validated
                                 | RpkCn v \<Rightarrow> validate_rpk v cert session validated) then 1 else 0)
       (expect (cn_callback_fn ctx))"

definition dtls_pki_cn_callback ::
    "'r raw_session_api \<Rightarrow> ('v \<Rightarrow> bytes \<Rightarrow> bytes \<Rightarrow> CoapSession \<Rightarrow> u32 \<Rightarrow> bool \<Rightarrow> bool) \<Rightarrow>
      ('v \<Rightarrow> bytes \<Rightarrow> CoapSession \<Rightarrow> bool \<Rightarrow> bool) \<Rightarrow> bytes \<Rightarrow> bytes \<Rightarrow> nat \<Rightarrow> u32 \<Rightarrow> int \<Rightarrow>
      ('v, 'n) PkiRpkContextInner \<times> rc_counts \<Rightarrow> ('r, 'ty, 'w) heap \<Rightarrow> (int \<times> rc_counts \<times> ('r, 'ty, 'w) heap) run" where
  "dtls_pki_cn_callback A validate_cn validate_rpk cn cert p depth validated s w =
     (case s of (ctx, n) \<Rightarrow>
      run_bind (session_from_raw A p w) (\<lambda>(session, w).
      run_bind (pki_from_raw (cn_call_back_arg (raw_cfg ctx)) n) (\<lambda>n.
      run_bind (pki_cn_callback validate_cn validate_rpk cn cert session depth (validated = 1) ctx) (\<lambda>r.
      run_map (\<lambda>w. (r, rc_drop n, w)) (session_drop A session w)))))"

text \<open>
  A provider returns an owned key definition, which its author makes with one of the constructors; the
  model names that constructor call, which is run on the heap.
\<close>

datatype key_spec =
    PkiSpec component_kind Asn1PrivateKeyType "bytes option" bytes bytes "bytes option"
  | RpkSpec rpk_kind bytes bytes "bytes option"

definition make_pin :: "bytes option \<Rightarrow> 'd key_heap \<Rightarrow> nat option \<times> 'd key_heap" where
  "make_pin pin h = (case pin of None \<Rightarrow> (None, h) | Some bs \<Rightarrow> (case alloc_block (bs @ [0]) h of (a, h) \<Rightarrow> (Some a, h)))"

fun make_key :: "key_spec \<Rightarrow> 'd key_heap \<Rightarrow> (key_def \<times> 'd key_heap) run" where
  "make_key (PkiSpec kind ty ca pub priv pin) h =
     (case make_pin pin h of (pin, h) \<Rightarrow> run_map (\<lambda>(k, h). (PkiKey k, h)) (pki_with kind ty ca pub priv pin h))"
| "make_key (RpkSpec kind pub priv pin) h =
     (case make_pin pin h of (pin, h) \<Rightarrow> run_map (\<lambda>(k, h). (RpkKey k, h)) (rpk_with kind pub priv pin h))"

definition alloc_descriptor :: "'d \<Rightarrow> 'd key_heap \<Rightarrow> nat \<times> 'd key_heap" where
  "alloc_descriptor d h =
     (next_block h, h\<lparr>descriptors := (descriptors h)(next_block h \<mapsto> d), next_block := next_block h + 1\<rparr>)"

definition pki_sni_callback ::
    "('n \<Rightarrow> bytes \<Rightarrow> key_spec option) \<Rightarrow> bytes \<Rightarrow> ('v, 'n) PkiRpkContextInner \<times> pki_heap \<Rightarrow>
      (nat \<times> ('v, 'n) PkiRpkContextInner \<times> pki_heap) run" where
  "pki_sni_callback key_for_sni sni s =
     (case s of (ctx, h) \<Rightarrow>
      run_bind (expect (pki_sni_provider ctx)) (\<lambda>provider.
      case key_for_sni provider sni of
        Some spec \<Rightarrow>
          run_map (\<lambda>(key, h).
            let (key_ref, h) = alloc_descriptor (as_raw_dtls_key key) h
            in (key_ref, ctx\<lparr>pki_provided_keys := pki_provided_keys ctx @ [key],
                             provided_key_descriptors := provided_key_descriptors ctx @ [key_ref]\<rparr>, h))
            (make_key spec h)
      | None \<Rightarrow> Ret (0, ctx, h)))"

definition dtls_pki_sni_callback ::
    "('n \<Rightarrow> bytes \<Rightarrow> key_spec option) \<Rightarrow> bytes \<Rightarrow> ('v, 'n) PkiRpkContextInner \<times> rc_counts \<times> pki_heap \<Rightarrow>
      (nat \<times> ('v, 'n) PkiRpkContextInner \<times> rc_counts \<times> pki_heap) run" where
  "dtls_pki_sni_callback key_for_sni sni s =
     (case s of (ctx, n, h) \<Rightarrow>
      run_bind (pki_from_raw (cfg_sni_arg (raw_cfg ctx)) n) (\<lambda>n.
      run_map (\<lambda>(r, ctx, h). (r, ctx, rc_drop n, h)) (pki_sni_callback key_for_sni sni (ctx, h))))"

section \<open>Use and destruction\<close>

definition pki_create_raw_session ::
    "(coap_dtls_pki_t \<Rightarrow> coap_address_t \<Rightarrow> CoapProtocol \<Rightarrow> (nat \<Rightarrow> 'r) \<Rightarrow> nat \<times> (nat \<Rightarrow> 'r)) \<Rightarrow>
      ('v, 'n) PkiRpkContextInner \<Rightarrow> coap_address_t \<Rightarrow> CoapProtocol \<Rightarrow> (nat \<Rightarrow> 'r) \<Rightarrow>
      (SessionCreationError + nat) \<times> (nat \<Rightarrow> 'r)" where
  "pki_create_raw_session coap_new_client_session_pki ctx addr proto rs =
     (let (p, rs) = coap_new_client_session_pki (raw_cfg ctx) addr proto rs
      in (if p = 0 then Inl SessionUnknown else Inr p, rs))"

definition pki_apply_to_context ::
    "('k \<Rightarrow> coap_dtls_pki_t \<Rightarrow> int \<times> 'k) \<Rightarrow> ('v, 'n) PkiRpkContextInner \<Rightarrow> 'k \<Rightarrow>
      (ContextConfigurationError + unit) \<times> 'k" where
  "pki_apply_to_context coap_context_set_pki ctx k =
     (let (r, k) = coap_context_set_pki k (raw_cfg ctx) in (if r = 1 then Inr () else Inl ContextUnknown, k))"

text \<open>Contexts of either key type, for servers and for clients; the latter also with pre-shared keys.\<close>

datatype 'x ServerPkiRpkCryptoContext = ServerPki 'x | ServerRpk 'x

definition server_apply_to_context ::
    "('x \<Rightarrow> 'k \<Rightarrow> (ContextConfigurationError + unit) \<times> 'k) \<Rightarrow> 'x ServerPkiRpkCryptoContext \<Rightarrow> 'k \<Rightarrow>
      (ContextConfigurationError + unit) \<times> 'k" where
  "server_apply_to_context apply_ctx c k = (case c of ServerPki v \<Rightarrow> apply_ctx v k | ServerRpk v \<Rightarrow> apply_ctx v k)"

datatype ('p, 'x) ClientCryptoContext = ClientPsk 'p | ClientPki 'x | ClientRpk 'x

definition client_create_raw_session ::
    "('p \<Rightarrow> coap_address_t \<Rightarrow> CoapProtocol \<Rightarrow> (nat \<Rightarrow> 'r) \<Rightarrow> (SessionCreationError + nat) \<times> (nat \<Rightarrow> 'r)) \<Rightarrow>
      ('x \<Rightarrow> coap_address_t \<Rightarrow> CoapProtocol \<Rightarrow> (nat \<Rightarrow> 'r) \<Rightarrow> (SessionCreationError + nat) \<times> (nat \<Rightarrow> 'r)) \<Rightarrow>
      ('p, 'x) ClientCryptoContext \<Rightarrow> coap_address_t \<Rightarrow> CoapProtocol \<Rightarrow> (nat \<Rightarrow> 'r) \<Rightarrow>
      (SessionCreationError + nat) \<times> (nat \<Rightarrow> 'r)" where
  "client_create_raw_session psk pki c =
     (case c of ClientPsk v \<Rightarrow> psk v | ClientPki v \<Rightarrow> pki v | ClientRpk v \<Rightarrow> pki v)"

text \<open>Dropping a key definition frees its components in the order of its fields.\<close>

fun key_addrs :: "key_def \<Rightarrow> nat list" where
  "key_addrs (PkiKey k) =
     (case ca_cert k of Some c \<Rightarrow> [comp_block c] | None \<Rightarrow> []) @ [comp_block (public_cert k), comp_block (private_key k)] @
     (case user_pin k of Some a \<Rightarrow> [a] | None \<Rightarrow> [])"
| "key_addrs (RpkKey k) =
     [comp_block (rpk_public_key k), comp_block (rpk_private_key k)] @
     (case rpk_user_pin k of Some a \<Rightarrow> [a] | None \<Rightarrow> [])"

fun free_blocks :: "nat list \<Rightarrow> 'd key_heap \<Rightarrow> 'd key_heap option" where
  "free_blocks [] h = Some h"
| "free_blocks (a # as) h = (case free_block a h of None \<Rightarrow> None | Some h \<Rightarrow> free_blocks as h)"

definition free_descriptor :: "nat \<Rightarrow> 'd key_heap \<Rightarrow> 'd key_heap option" where
  "free_descriptor a h = (if descriptors h a = None then None else Some (h\<lparr>descriptors := (descriptors h)(a := None)\<rparr>))"

fun free_descriptors :: "nat list \<Rightarrow> 'd key_heap \<Rightarrow> 'd key_heap option" where
  "free_descriptors [] h = Some h"
| "free_descriptors (a # as) h = (case free_descriptor a h of None \<Rightarrow> None | Some h \<Rightarrow> free_descriptors as h)"

text \<open>The destructor, and then the drop of the fields: the keys and the server name.\<close>

definition pki_drop ::
    "('v, 'n) PkiRpkContextInner \<Rightarrow> rc_counts \<Rightarrow> pki_heap \<Rightarrow> (rc_counts \<times> pki_heap) option" where
  "pki_drop ctx n h =
     (case free_descriptors (provided_key_descriptors ctx) h of
        None \<Rightarrow> None
      | Some h \<Rightarrow>
          (let n = (if cn_call_back_arg (raw_cfg ctx) then weak_drop n else n);
               n = (if cfg_sni_arg (raw_cfg ctx) then weak_drop n else n)
           in case free_blocks (concat (map key_addrs (pki_provided_keys ctx))) h of
                None \<Rightarrow> None
              | Some h \<Rightarrow> map_option (\<lambda>h. (n, h)) (drop_box (sni_box ctx) h)))"

end
