(* ===== verification/Pki_Memory.thy ===== *)
theory Pki_Memory
  imports Pki_Context "HOL-Library.Multiset"
begin

text \<open>
  The memory of contexts for certificates and raw public keys: what libcoap reads through the raw
  structures it was given while a context lives, and that all of it is freed afterwards.
\<close>

section \<open>Maps that grow\<close>

text \<open>A heap that has, beyond what it had before, exactly the given allocations.\<close>

definition grown :: "('a \<rightharpoonup> 'b) \<Rightarrow> 'a list \<Rightarrow> ('a \<rightharpoonup> 'b) \<Rightarrow> bool" where
  "grown m0 as m \<longleftrightarrow>
     distinct as \<and> (\<forall>a \<in> set as. m0 a = None \<and> m a \<noteq> None) \<and> (\<forall>a. a \<notin> set as \<longrightarrow> m a = m0 a)"

lemma grown_Nil [simp]: "grown m0 [] m \<longleftrightarrow> m = m0"
  by (auto simp: grown_def)

lemma grown_add: "grown m0 as m \<Longrightarrow> m a = None \<Longrightarrow> grown m0 (as @ [a]) (m(a \<mapsto> v))"
  by (auto simp: grown_def)

lemma grown_perm: "grown m0 as m \<Longrightarrow> mset bs = mset as \<Longrightarrow> grown m0 bs m"
  using mset_eq_imp_distinct_iff[of bs as] mset_eq_setD[of bs as] by (simp add: grown_def)

lemma grown_remove: "grown m0 (a # as) m \<Longrightarrow> m a \<noteq> None \<and> grown m0 as (m(a := None))"
  by (auto simp: grown_def)

lemma free_blocks_grown:
  "grown m0 (as @ bs) (blocks h) \<Longrightarrow>
   \<exists>h'. free_blocks as h = Some h' \<and> grown m0 bs (blocks h') \<and> descriptors h' = descriptors h"
proof (induction as arbitrary: h)
  case (Cons a as)
  let ?h = "h\<lparr>blocks := (blocks h)(a := None)\<rparr>"
  from grown_remove[of m0 a "as @ bs" "blocks h"] Cons.prems
  have a: "blocks h a \<noteq> None" and "grown m0 (as @ bs) (blocks ?h)" by auto
  from Cons.IH[OF this(2)] a show ?case by (auto simp: free_block_def)
qed simp

lemma free_descriptors_grown:
  "grown m0 as (descriptors h) \<Longrightarrow> \<exists>h'. free_descriptors as h = Some h' \<and> descriptors h' = m0 \<and> blocks h' = blocks h"
proof (induction as arbitrary: h)
  case (Cons a as)
  let ?h = "h\<lparr>descriptors := (descriptors h)(a := None)\<rparr>"
  from grown_remove[of m0 a as "descriptors h"] Cons.prems
  have a: "descriptors h a \<noteq> None" and "grown m0 as (descriptors ?h)" by auto
  from Cons.IH[OF this(2)] a show ?case by (auto simp: free_descriptor_def)
qed simp

section \<open>Making keys\<close>

text \<open>A key definition holds what its constructor was given.\<close>

definition pin_holds :: "'d key_heap \<Rightarrow> nat option \<Rightarrow> bytes option \<Rightarrow> bool" where
  "pin_holds h a pin \<longleftrightarrow> rel_option (\<lambda>a bs. blocks h a = Some (bs @ [0])) a pin"

fun key_holds :: "'d key_heap \<Rightarrow> key_spec \<Rightarrow> key_def \<Rightarrow> bool" where
  "key_holds h (PkiSpec kind ty ca pub priv pin) (PkiKey k) \<longleftrightarrow>
     ca_kind k = kind \<and> rel_option (\<lambda>c bs. holds_bytes h c bs \<and> comp_kind c = kind) (ca_cert k) ca \<and>
     holds_bytes h (public_cert k) pub \<and> comp_kind (public_cert k) = kind \<and>
     holds_bytes h (private_key k) priv \<and> comp_kind (private_key k) = kind \<and>
     asn1_private_key_type k = ty \<and> pin_holds h (user_pin k) pin"
| "key_holds h (RpkSpec kind pub priv pin) (RpkKey k) \<longleftrightarrow>
     rpk_public_kind k = kind \<and> rpk_private_kind k = kind \<and>
     holds_bytes h (rpk_public_key k) pub \<and> comp_kind (rpk_public_key k) = rpk_component_kind kind \<and>
     holds_bytes h (rpk_private_key k) priv \<and> comp_kind (rpk_private_key k) = rpk_component_kind kind \<and>
     rpk_asn1_type k = Asn1None \<and> pin_holds h (rpk_user_pin k) pin"
| "key_holds h _ _ \<longleftrightarrow> False"

lemma key_holds_cong:
  assumes "key_holds h spec k" and "\<And>a. a \<in> set (key_addrs k) \<Longrightarrow> blocks h' a = blocks h a"
  shows "key_holds h' spec k"
proof -
  have comp: "holds_bytes h' c bs" if "holds_bytes h c bs" "comp_block c \<in> set (key_addrs k)" for c bs
    using that assms(2)[of "comp_block c"] by (simp add: holds_bytes_def)
  have pin: "pin_holds h' a pin" if "pin_holds h a pin" "set_option a \<subseteq> set (key_addrs k)" for a pin
    using that assms(2) by (cases a; cases pin) (simp_all add: pin_holds_def)
  have opt: "rel_option (\<lambda>c bs. holds_bytes h' c bs \<and> comp_kind c = kind) c v"
    if "rel_option (\<lambda>c bs. holds_bytes h c bs \<and> comp_kind c = kind) c v" "comp_block ` set_option c \<subseteq> set (key_addrs k)"
    for kind c v
    using that comp by (cases c; cases v) auto
  show ?thesis
  proof (cases k)
    case (PkiKey d)
    with assms(1) comp pin[of "user_pin d"] opt[of _ "ca_cert d"] show ?thesis
      by (cases spec; cases "user_pin d"; cases "ca_cert d") auto
  next
    case (RpkKey d)
    with assms(1) comp pin[of "rpk_user_pin d"] show ?thesis
      by (cases spec; cases "rpk_user_pin d") auto
  qed
qed

fun spec_ok :: "key_spec \<Rightarrow> bool" where
  "spec_ok (PkiSpec kind ty ca pub priv pin) \<longleftrightarrow>
     \<not> bad_string kind pub \<and> \<not> bad_string kind priv \<and> (\<forall>bs. ca = Some bs \<longrightarrow> \<not> bad_string kind bs) \<and>
     (\<forall>bs. pin = Some bs \<longrightarrow> 0 \<notin> set bs)"
| "spec_ok (RpkSpec kind pub priv pin) \<longleftrightarrow>
     \<not> bad_string (rpk_component_kind kind) pub \<and> \<not> bad_string (rpk_component_kind kind) priv \<and>
     (\<forall>bs. pin = Some bs \<longrightarrow> 0 \<notin> set bs)"

text \<open>Each step of a constructor allocates at the next address and keeps what is there.\<close>

definition allocates :: "'d key_heap \<Rightarrow> nat list \<Rightarrow> 'd key_heap \<Rightarrow> bool" where
  "allocates h as h' \<longleftrightarrow>
     (\<forall>m0 xs. grown m0 xs (blocks h) \<longrightarrow> grown m0 (xs @ as) (blocks h')) \<and> descriptors h' = descriptors h \<and>
     fresh_key_heap h' \<and> (\<forall>a. blocks h a \<noteq> None \<longrightarrow> blocks h' a = blocks h a)"

lemma allocates_trans: "allocates h as h1 \<Longrightarrow> allocates h1 bs h2 \<Longrightarrow> allocates h (as @ bs) h2"
  unfolding allocates_def append_assoc[symmetric] by metis

lemma allocates_holds: "allocates h as h' \<Longrightarrow> holds_bytes h c bs \<Longrightarrow> holds_bytes h' c bs"
  by (simp add: allocates_def holds_bytes_def)

lemma allocates_pin: "allocates h as h' \<Longrightarrow> pin_holds h a pin \<Longrightarrow> pin_holds h' a pin"
  by (cases a; cases pin) (simp_all add: allocates_def pin_holds_def)

lemma alloc_block_allocates:
  assumes "fresh_key_heap h" and "alloc_block bs h = (a, h')"
  shows "allocates h [a] h' \<and> blocks h' a = Some bs"
proof -
  have none: "blocks h (next_block h) = None" using assms(1) by (simp add: fresh_key_heap_def)
  show ?thesis
    using assms grown_add[where m = "blocks h" and a = "next_block h" and v = bs] by (auto simp: alloc_block_def allocates_def fresh_key_heap_def none)
qed

lemma component_allocates:
  assumes "fresh_key_heap h" and "component_from kind bs h = Ret (c, h')"
  shows "allocates h [comp_block c] h' \<and> holds_bytes h' c bs \<and> comp_kind c = kind"
proof -
  from assms(2) obtain a where "alloc_block (if is_cstring kind then bs @ [0] else bs) h = (a, h')" "comp_block c = a"
    by (auto simp: component_from_def Let_def split: if_splits prod.splits)
  with alloc_block_allocates[OF assms(1)] component_from_holds[OF assms(2)] show ?thesis by blast
qed

lemma component_opt_allocates:
  assumes "fresh_key_heap h" and "component_from_opt kind v h = Ret (c, h')"
  shows "allocates h (case c of Some c \<Rightarrow> [comp_block c] | None \<Rightarrow> []) h' \<and>
    rel_option (\<lambda>c bs. holds_bytes h' c bs \<and> comp_kind c = kind) c v"
proof (cases v)
  case None
  with assms show ?thesis by (auto simp: component_from_opt_def allocates_def)
next
  case (Some bs)
  with assms(2) obtain d where "component_from kind bs h = Ret (d, h')" "c = Some d"
    by (auto simp: component_from_opt_def run_map_eq_Ret)
  with component_allocates[OF assms(1)] Some show ?thesis by simp
qed

lemma make_pin_allocates:
  assumes "fresh_key_heap h" and "make_pin pin h = (a, h')"
  shows "allocates h (case a of Some a \<Rightarrow> [a] | None \<Rightarrow> []) h' \<and> pin_holds h' a pin"
proof (cases pin)
  case None
  with assms show ?thesis by (auto simp: make_pin_def allocates_def pin_holds_def)
next
  case (Some bs)
  with assms(2) obtain d where "alloc_block (bs @ [0]) h = (d, h')" "a = Some d"
    by (auto simp: make_pin_def split: prod.splits)
  with alloc_block_allocates[OF assms(1)] Some show ?thesis by (simp add: pin_holds_def)
qed

lemma allocates_fresh: "allocates h as h' \<Longrightarrow> fresh_key_heap h'"
  by (simp add: allocates_def)

lemma make_key_allocates:
  assumes fresh: "fresh_key_heap h" and make: "make_key spec h = Ret (k, h')"
  shows "\<exists>as. allocates h as h' \<and> mset as = mset (key_addrs k) \<and> key_holds h' spec k"
proof (cases spec)
  case (PkiSpec kind ty ca pub priv pin)
  with make obtain a0 h0 c1 h1 c2 h2 c3 where
    steps: "make_pin pin h = (a0, h0)" "component_from_opt kind ca h0 = Ret (c1, h1)"
      "component_from kind pub h1 = Ret (c2, h2)" "component_from kind priv h2 = Ret (c3, h')"
    and k: "k = PkiKey (pki_key_new kind c1 c2 c3 a0 ty)"
    by (auto simp: pki_with_def run_bind_eq_Ret run_map_eq_Ret split: prod.splits)
  note p0 = make_pin_allocates[OF fresh steps(1)]
  note p1 = component_opt_allocates[OF allocates_fresh[OF p0[THEN conjunct1]] steps(2)]
  note p2 = component_allocates[OF allocates_fresh[OF p1[THEN conjunct1]] steps(3)]
  note p3 = component_allocates[OF allocates_fresh[OF p2[THEN conjunct1]] steps(4)]
  let ?ca = "case c1 of Some c \<Rightarrow> [comp_block c] | None \<Rightarrow> []" and ?pin = "case a0 of Some a \<Rightarrow> [a] | None \<Rightarrow> []"
  have t23: "allocates h1 ([comp_block c2] @ [comp_block c3]) h'" using allocates_trans p2 p3 by blast
  have t13: "allocates h0 (?ca @ [comp_block c2] @ [comp_block c3]) h'" using allocates_trans p1 t23 by blast
  have "allocates h (?pin @ ?ca @ [comp_block c2] @ [comp_block c3]) h'" using allocates_trans p0 t13 by blast
  moreover have "rel_option (\<lambda>c bs. holds_bytes h' c bs \<and> comp_kind c = kind) c1 ca"
    using p1[THEN conjunct2] by (rule option.rel_mono_strong) (use allocates_holds[OF t23] in auto)
  moreover have "holds_bytes h' c2 pub" using p2 p3 allocates_holds by blast
  moreover have "pin_holds h' a0 pin" using p0 t13 allocates_pin by blast
  ultimately show ?thesis
    using p2 p3 k PkiSpec
    by (intro exI[of _ "?pin @ ?ca @ [comp_block c2] @ [comp_block c3]"]) (simp add: pki_key_new_def)
next
  case (RpkSpec kind pub priv pin)
  with make obtain a0 h0 c2 h2 c3 where
    steps: "make_pin pin h = (a0, h0)" "component_from (rpk_component_kind kind) pub h0 = Ret (c2, h2)"
      "component_from (rpk_component_kind kind) priv h2 = Ret (c3, h')"
    and k: "k = RpkKey (rpk_key_new kind kind c2 c3 a0 Asn1None)"
    by (auto simp: rpk_with_def run_bind_eq_Ret run_map_eq_Ret split: prod.splits)
  note p0 = make_pin_allocates[OF fresh steps(1)]
  note p2 = component_allocates[OF allocates_fresh[OF p0[THEN conjunct1]] steps(2)]
  note p3 = component_allocates[OF allocates_fresh[OF p2[THEN conjunct1]] steps(3)]
  let ?pin = "case a0 of Some a \<Rightarrow> [a] | None \<Rightarrow> []"
  have t23: "allocates h0 ([comp_block c2] @ [comp_block c3]) h'" using allocates_trans p2 p3 by blast
  have "allocates h (?pin @ [comp_block c2] @ [comp_block c3]) h'" using allocates_trans p0 t23 by blast
  moreover have "holds_bytes h' c2 pub" using p2 p3 allocates_holds by blast
  moreover have "pin_holds h' a0 pin" using p0 t23 allocates_pin by blast
  ultimately show ?thesis
    using p2 p3 k RpkSpec
    by (intro exI[of _ "?pin @ [comp_block c2] @ [comp_block c3]"]) (simp add: rpk_key_new_def)
qed

lemma make_key_ok: "spec_ok spec \<Longrightarrow> \<exists>k h'. make_key spec h = Ret (k, h')"
  by (cases spec)
    (auto simp: pki_with_def rpk_with_def component_from_opt_def component_from_def bad_string_def Let_def
      split: prod.split option.split)

section \<open>What libcoap finds in the memory of a context\<close>

definition pin_reads :: "'d key_heap \<Rightarrow> nat \<Rightarrow> bytes option \<Rightarrow> bool" where
  "pin_reads h a pin \<longleftrightarrow> (case pin of None \<Rightarrow> a = 0 | Some bs \<Rightarrow> read_string h a = Some bs)"

fun raw_reads :: "'d key_heap \<Rightarrow> coap_dtls_key_t \<Rightarrow> key_spec \<Rightarrow> bool" where
  "raw_reads h r (PkiSpec kind ty ca pub priv pin) \<longleftrightarrow>
     read_component h (k_public_cert_def r) (k_public_cert r) (k_public_cert_len r) = Some pub \<and>
     read_component h (k_private_key_def r) (k_private_key r) (k_private_key_len r) = Some priv \<and>
     (case ca of None \<Rightarrow> k_ca r = 0 | Some bs \<Rightarrow> read_component h (k_ca_def r) (k_ca r) (k_ca_len r) = Some bs) \<and>
     k_private_key_type r = asn1_into_raw ty \<and> pin_reads h (k_user_pin r) pin"
| "raw_reads h r (RpkSpec kind pub priv pin) \<longleftrightarrow>
     read_component h (k_public_cert_def r) (k_public_cert r) (k_public_cert_len r) = Some pub \<and>
     read_component h (k_private_key_def r) (k_private_key r) (k_private_key_len r) = Some priv \<and>
     k_ca r = 0 \<and> pin_reads h (k_user_pin r) pin"

lemma read_string_stored: "blocks h a = Some (bs @ [0]) \<Longrightarrow> 0 \<notin> set bs \<Longrightarrow> read_string h a = Some bs"
  by (simp add: read_string_def takeWhile_terminated del: takeWhile_append)

lemma pin_holds_reads:
  "pin_holds h a pin \<Longrightarrow> (\<forall>bs. pin = Some bs \<longrightarrow> 0 \<notin> set bs) \<Longrightarrow>
   pin_reads h (case a of Some a \<Rightarrow> a | None \<Rightarrow> 0) pin"
  by (cases a; cases pin) (simp_all add: pin_holds_def pin_reads_def read_string_stored)

lemma read_component_raw:
  assumes "holds_bytes h c bs" and "string_define def \<longleftrightarrow> is_cstring (comp_kind c)"
  shows "read_component h def (fst (as_raw_key_component c)) (snd (as_raw_key_component c)) = Some bs"
  using read_component_holds[OF assms] by (cases "as_raw_key_component c") simp

lemma key_holds_reads:
  assumes "key_holds h spec k" and "spec_ok spec"
  shows "raw_reads h (as_raw_dtls_key k) spec"
proof (cases spec)
  case (PkiSpec kind ty ca pub priv pin)
  with assms(1) obtain d where k: "k = PkiKey d" by (cases k) auto
  with assms PkiSpec have ca: "case ca of None \<Rightarrow> ca_cert d = None
      | Some bs \<Rightarrow> \<exists>c. ca_cert d = Some c \<and> holds_bytes h c bs \<and> comp_kind c = kind"
    by (cases ca; cases "ca_cert d") auto
  from assms k PkiSpec show ?thesis
    using ca pin_holds_reads[of h "user_pin d" pin]
    by (auto simp: pki_as_raw_dtls_key_def case_prod_beta Let_def read_component_raw split: option.splits)
next
  case (RpkSpec kind pub priv pin)
  with assms(1) obtain d where k: "k = RpkKey d" by (cases k) auto
  with assms RpkSpec show ?thesis
    using pin_holds_reads[of h "rpk_user_pin d" pin]
    by (auto simp: rpk_as_raw_dtls_key_def case_prod_beta Let_def read_component_raw)
qed

text \<open>
  The memory of a context with the keys \<open>specs\<close>, of which the first is its own: its keys hold them,
  the raw configuration and the descriptors are their raw forms, and beyond the original heap there
  are exactly the components of the keys, the server name and the descriptors.
\<close>

definition sni_addrs :: "('v, 'n) PkiRpkContextInner \<Rightarrow> nat list" where
  "sni_addrs ctx = (case sni_box ctx of Some a \<Rightarrow> [a] | None \<Rightarrow> [])"

definition sni_stored :: "('v, 'n) PkiRpkContextInner \<Rightarrow> pki_heap \<Rightarrow> bytes option \<Rightarrow> bool" where
  "sni_stored ctx h name \<longleftrightarrow>
     rel_option (\<lambda>a bs. cfg_client_sni (raw_cfg ctx) = a \<and> blocks h a = Some (bs @ [0])) (sni_box ctx) name"

definition keys_addrs :: "key_def list \<Rightarrow> nat list" where
  "keys_addrs ks = concat (map key_addrs ks)"

definition pki_mem ::
    "pki_heap \<Rightarrow> key_spec list \<Rightarrow> bytes option \<Rightarrow> ('v, 'n) PkiRpkContextInner \<times> pki_heap \<Rightarrow> bool" where
  "pki_mem h0 specs name s \<longleftrightarrow>
     (case s of (ctx, h) \<Rightarrow>
        fresh_key_heap h \<and> list_all2 (key_holds h) specs (pki_provided_keys ctx) \<and> specs \<noteq> [] \<and>
        grown (blocks h0) (keys_addrs (pki_provided_keys ctx) @ sni_addrs ctx) (blocks h) \<and>
        grown (descriptors h0) (provided_key_descriptors ctx) (descriptors h) \<and>
        pki_key (raw_cfg ctx) = as_raw_dtls_key (hd (pki_provided_keys ctx)) \<and>
        list_all2 (\<lambda>d k. descriptors h d = Some (as_raw_dtls_key k)) (provided_key_descriptors ctx) (tl (pki_provided_keys ctx)) \<and>
        sni_stored ctx h name)"

lemma keys_hold_cong:
  assumes "list_all2 (key_holds h) specs ks" and "\<And>a. a \<in> set (keys_addrs ks) \<Longrightarrow> blocks h' a = blocks h a"
  shows "list_all2 (key_holds h') specs ks"
  using assms(1)
proof (rule list.rel_mono_strong)
  fix spec k
  assume "k \<in> set ks" "key_holds h spec k"
  with assms(2) show "key_holds h' spec k" by (auto simp: keys_addrs_def intro: key_holds_cong)
qed

lemma pki_mem_new:
  assumes "fresh_key_heap h0" and "make_key spec h0 = Ret (key, h)"
  shows "pki_mem h0 [spec] None (pki_builder_new v key, h)"
proof -
  obtain as where al: "allocates h0 as h" "mset as = mset (key_addrs key)" "key_holds h spec key"
    using make_key_allocates[OF assms] by blast
  then have "grown (blocks h0) ([] @ as) (blocks h)" unfolding allocates_def by (metis grown_Nil)
  then have "grown (blocks h0) (key_addrs key) (blocks h)" by (rule grown_perm) (simp add: al(2))
  with al show ?thesis unfolding allocates_def
    by (cases "key_type key")
      (simp_all add: pki_mem_def pki_builder_new_def set_key_type_defaults_def Let_def sni_addrs_def sni_stored_def keys_addrs_def)
qed

lemma pki_mem_cfg:
  assumes "pki_mem h0 specs name (ctx, h)" and "pki_provided_keys ctx' = pki_provided_keys ctx"
    and "provided_key_descriptors ctx' = provided_key_descriptors ctx" and "sni_box ctx' = sni_box ctx"
    and "pki_key (raw_cfg ctx') = pki_key (raw_cfg ctx)" and "cfg_client_sni (raw_cfg ctx') = cfg_client_sni (raw_cfg ctx)"
  shows "pki_mem h0 specs name (ctx', h)"
  using assms by (simp add: pki_mem_def sni_addrs_def sni_stored_def)

lemma pki_mem_sni:
  assumes mem: "pki_mem h0 specs name (ctx, h)" and sni: "0 \<notin> set sni"
  shows "\<exists>ctx' h'. pki_client_sni sni ctx h = Some (Inr (ctx', h')) \<and> pki_mem h0 specs (Some sni) (ctx', h') \<and>
    pki_sni_provider ctx' = pki_sni_provider ctx \<and>
    validate_cn_call_back (raw_cfg ctx') = validate_cn_call_back (raw_cfg ctx) \<and>
    validate_sni_call_back (raw_cfg ctx') = validate_sni_call_back (raw_cfg ctx) \<and>
    cn_call_back_arg (raw_cfg ctx') = cn_call_back_arg (raw_cfg ctx) \<and> cfg_sni_arg (raw_cfg ctx') = cfg_sni_arg (raw_cfg ctx)"
proof -
  let ?K = "keys_addrs (pki_provided_keys ctx)"
  obtain a h1 where al: "alloc_block (sni @ [0]) h = (a, h1)" by fastforce
  from mem have fresh: "fresh_key_heap h" and g: "grown (blocks h0) (?K @ sni_addrs ctx) (blocks h)"
    and keys: "list_all2 (key_holds h) specs (pki_provided_keys ctx)"
    by (simp_all add: pki_mem_def)
  from alloc_block_allocates[OF fresh al] g have al1: "grown (blocks h0) ((?K @ sni_addrs ctx) @ [a]) (blocks h1)"
    "blocks h1 a = Some (sni @ [0])" "descriptors h1 = descriptors h" "fresh_key_heap h1"
    "\<And>b. blocks h b \<noteq> None \<Longrightarrow> blocks h1 b = blocks h b"
    unfolding allocates_def by blast+
  from al1(1) have "grown (blocks h0) (sni_addrs ctx @ ?K @ [a]) (blocks h1)" by (rule grown_perm) simp
  from free_blocks_grown[OF this] obtain h2 where h2: "free_blocks (sni_addrs ctx) h1 = Some h2"
    "grown (blocks h0) (?K @ [a]) (blocks h2)" "descriptors h2 = descriptors h1" by blast
  have drop: "drop_box (sni_box ctx) h1 = Some h2"
    using h2(1) by (auto simp: drop_box_def sni_addrs_def split: option.splits)
  have same: "blocks h2 b = blocks h1 b" "fresh_key_heap h2" if "b \<notin> set (sni_addrs ctx)" for b
    using drop that al1(4) by (auto simp: drop_box_def free_block_def sni_addrs_def fresh_key_heap_def split: option.splits if_splits)
  have fresh2: "fresh_key_heap h2"
    using drop al1(4) by (auto simp: drop_box_def free_block_def fresh_key_heap_def split: option.splits if_splits)
  have dist: "set (sni_addrs ctx) \<inter> set ?K = {}" "a \<notin> set (sni_addrs ctx)"
    using al1(1) by (auto simp: grown_def)
  have keys2: "list_all2 (key_holds h2) specs (pki_provided_keys ctx)"
  proof (rule keys_hold_cong[OF keys])
    fix b assume b: "b \<in> set ?K"
    with g have "blocks h b \<noteq> None" by (simp add: grown_def)
    with b dist(1) al1(5)[of b] same(1)[of b] show "blocks h2 b = blocks h b" by auto
  qed
  let ?ctx = "on_cfg (\<lambda>c. c\<lparr>cfg_client_sni := a\<rparr>) (ctx\<lparr>sni_box := Some a\<rparr>)"
  have "pki_mem h0 specs (Some sni) (?ctx, h2)"
    using mem h2 al1(2,3) same(1)[OF dist(2)] fresh2 keys2
    by (simp add: pki_mem_def sni_addrs_def sni_stored_def)
  moreover have "pki_client_sni sni ctx h = Some (Inr (?ctx, h2))"
    using sni al drop by (simp add: pki_client_sni_def)
  ultimately show ?thesis by auto
qed

lemma pki_callback_mem:
  assumes mem: "pki_mem h0 specs name (ctx, h)" and p: "pki_sni_provider ctx = Some p"
    and ok: "\<And>spec. key_for_sni p sni = Some spec \<Longrightarrow> spec_ok spec"
  shows "\<exists>r ctx' h'. pki_sni_callback key_for_sni sni (ctx, h) = Ret (r, ctx', h') \<and>
    pki_mem h0 (specs @ (case key_for_sni p sni of Some spec \<Rightarrow> [spec] | None \<Rightarrow> [])) name (ctx', h') \<and>
    raw_cfg ctx' = raw_cfg ctx \<and> pki_sni_provider ctx' = Some p"
proof (cases "key_for_sni p sni")
  case None
  with mem p show ?thesis by (simp add: pki_sni_callback_def)
next
  case (Some spec)
  obtain key h1 where mk: "make_key spec h = Ret (key, h1)" using make_key_ok[OF ok[OF Some], of h] by blast
  let ?ks = "pki_provided_keys ctx" and ?ds = "provided_key_descriptors ctx" and ?a = "next_block h1"
  let ?h = "h1\<lparr>descriptors := (descriptors h1)(?a \<mapsto> as_raw_dtls_key key), next_block := ?a + 1\<rparr>"
  let ?ctx = "ctx\<lparr>pki_provided_keys := ?ks @ [key], provided_key_descriptors := ?ds @ [?a]\<rparr>"
  from mem have m: "fresh_key_heap h" "list_all2 (key_holds h) specs ?ks" "specs \<noteq> []"
    "grown (blocks h0) (keys_addrs ?ks @ sni_addrs ctx) (blocks h)" "grown (descriptors h0) ?ds (descriptors h)"
    "pki_key (raw_cfg ctx) = as_raw_dtls_key (hd ?ks)"
    "list_all2 (\<lambda>d k. descriptors h d = Some (as_raw_dtls_key k)) ?ds (tl ?ks)" "sni_stored ctx h name"
    by (simp_all add: pki_mem_def)
  obtain as where al: "allocates h as h1" "mset as = mset (key_addrs key)" "key_holds h1 spec key"
    using make_key_allocates[OF m(1) mk] by blast
  then have h1: "fresh_key_heap h1" "descriptors h1 = descriptors h"
    "grown (blocks h0) ((keys_addrs ?ks @ sni_addrs ctx) @ as) (blocks h1)"
    and keep: "\<And>b. blocks h b \<noteq> None \<Longrightarrow> blocks h1 b = blocks h b"
    using m(4) unfolding allocates_def by blast+
  have none: "descriptors h1 ?a = None" using h1(1) by (simp add: fresh_key_heap_def)
  have old: "list_all2 (key_holds h1) specs ?ks"
    by (rule keys_hold_cong[OF m(2)]) (use m(4) keep in \<open>auto simp: grown_def\<close>)
  have keys: "list_all2 (key_holds ?h) (specs @ [spec]) (?ks @ [key])"
    using keys_hold_cong[of h1 "specs @ [spec]" "?ks @ [key]" ?h] old al(3)
    by (simp add: list_all2_appendI)
  have blk: "grown (blocks h0) (keys_addrs (?ks @ [key]) @ sni_addrs ctx) (blocks ?h)"
    using grown_perm[OF h1(3), of "keys_addrs (?ks @ [key]) @ sni_addrs ctx"] al(2) by (simp add: keys_addrs_def)
  have desc: "grown (descriptors h0) (?ds @ [?a]) (descriptors ?h)"
    using grown_add[of "descriptors h0" ?ds "descriptors h1" ?a] m(5) h1(2) none by simp
  have "?ks \<noteq> []" using m(2,3) by auto
  then have tl: "tl (?ks @ [key]) = tl ?ks @ [key]" "hd (?ks @ [key]) = hd ?ks" by simp_all
  have "list_all2 (\<lambda>d k. descriptors ?h d = Some (as_raw_dtls_key k)) ?ds (tl ?ks)"
    using m(7) by (rule list.rel_mono_strong) (use none h1(2) in auto)
  then have descs: "list_all2 (\<lambda>d k. descriptors ?h d = Some (as_raw_dtls_key k)) (?ds @ [?a]) (tl (?ks @ [key]))"
    by (simp add: tl list_all2_appendI)
  have "sni_stored ctx ?h name"
    using m(8) keep by (cases "sni_box ctx"; cases name) (auto simp: sni_stored_def)
  moreover have "fresh_key_heap ?h" using h1(1) by (simp add: fresh_key_heap_def)
  ultimately have "pki_mem h0 (specs @ [spec]) name (?ctx, ?h)"
    using m(6) keys blk desc descs tl by (simp add: pki_mem_def sni_addrs_def sni_stored_def)
  then show ?thesis using p Some mk by (simp add: pki_sni_callback_def alloc_descriptor_def)
qed

lemma pki_callbacks_mem:
  assumes "pki_mem h0 specs name (ctx, h)" and "pki_sni_provider ctx = Some p"
    and ok: "\<And>sni spec. key_for_sni p sni = Some spec \<Longrightarrow> spec_ok spec"
  shows "\<exists>ctx' h'. run_all (pki_sni_callback key_for_sni) snis (ctx, h) = Ret (ctx', h') \<and>
    pki_mem h0 (specs @ List.map_filter (key_for_sni p) snis) name (ctx', h') \<and> raw_cfg ctx' = raw_cfg ctx"
  using assms(1,2)
proof (induction snis arbitrary: specs ctx h)
  case Nil
  then show ?case by (simp add: map_filter_simps)
next
  case (Cons sni snis)
  have "\<exists>r ctx' h'. pki_sni_callback key_for_sni sni (ctx, h) = Ret (r, ctx', h') \<and>
    pki_mem h0 (specs @ (case key_for_sni p sni of Some spec \<Rightarrow> [spec] | None \<Rightarrow> [])) name (ctx', h') \<and>
    raw_cfg ctx' = raw_cfg ctx \<and> pki_sni_provider ctx' = Some p"
    by (rule pki_callback_mem[OF Cons.prems ok])
  then obtain r ctx1 h1 where step: "pki_sni_callback key_for_sni sni (ctx, h) = Ret (r, ctx1, h1)"
    "pki_mem h0 (specs @ (case key_for_sni p sni of Some spec \<Rightarrow> [spec] | None \<Rightarrow> [])) name (ctx1, h1)"
    "raw_cfg ctx1 = raw_cfg ctx" "pki_sni_provider ctx1 = Some p" by (elim exE conjE)
  from Cons.IH[OF step(2,4)] step(1,3) show ?case
    by (cases "key_for_sni p sni") (auto simp: map_filter_simps)
qed

lemma pki_drop_frees:
  assumes "pki_mem h0 specs name (ctx, h)"
  shows "\<exists>h'. pki_drop ctx n h =
      Some ((if cfg_sni_arg (raw_cfg ctx) then weak_drop else id) ((if cn_call_back_arg (raw_cfg ctx) then weak_drop else id) n), h') \<and>
    blocks h' = blocks h0 \<and> descriptors h' = descriptors h0"
proof -
  from assms have g: "grown (blocks h0) (keys_addrs (pki_provided_keys ctx) @ sni_addrs ctx) (blocks h)"
    "grown (descriptors h0) (provided_key_descriptors ctx) (descriptors h)" by (simp_all add: pki_mem_def)
  obtain h1 where h1: "free_descriptors (provided_key_descriptors ctx) h = Some h1" "descriptors h1 = descriptors h0"
    "blocks h1 = blocks h" using free_descriptors_grown[OF g(2)] by blast
  obtain h2 where h2: "free_blocks (keys_addrs (pki_provided_keys ctx)) h1 = Some h2"
    "grown (blocks h0) (sni_addrs ctx @ []) (blocks h2)" "descriptors h2 = descriptors h1"
    using free_blocks_grown[of "blocks h0" "keys_addrs (pki_provided_keys ctx)" "sni_addrs ctx" h1] g(1) h1(3) by auto
  obtain h3 where h3: "free_blocks (sni_addrs ctx) h2 = Some h3" "blocks h3 = blocks h0" "descriptors h3 = descriptors h2"
    using free_blocks_grown[OF h2(2)] by auto
  have "drop_box (sni_box ctx) h2 = Some h3"
    using h3(1) by (auto simp: drop_box_def sni_addrs_def split: option.splits)
  with h1 h2 h3 show ?thesis by (auto simp: pki_drop_def keys_addrs_def Let_def)
qed

section \<open>Properties\<close>

text \<open>
  C12: memory of a PKI or RPK context. For a context with a default key, a key provider and a server
  name, whatever server names clients ask for, the callbacks do not panic, and libcoap reads
  through the raw configuration the default key and the server name, and through the descriptors it
  was given exactly the keys the provider chose, in order, for as long as the context lives; the
  destructor then frees every component and every descriptor exactly once and gives the weak
  reference back.
\<close>

theorem pki_key_memory:
  fixes ctx1 :: "('v, 'n) PkiRpkContextInner"
  assumes "fresh_key_heap h0" and "spec_ok spec" and "\<forall>p sni s. key_for_sni p sni = Some s \<longrightarrow> spec_ok s"
    and "make_key spec h0 = Ret (key, h1)" and "0 \<notin> set name"
    and "pki_client_sni name (pki_sni_key_provider p (pki_builder_new v key)) h1 = Some (Inr (ctx1, h))"
    and "pki_build ctx1 = (ctx, n)"
  shows "\<exists>ctx' h'. run_all (pki_sni_callback key_for_sni) snis (ctx, h) = Ret (ctx', h') \<and>
    raw_reads h' (pki_key (raw_cfg ctx')) spec \<and> read_string h' (cfg_client_sni (raw_cfg ctx')) = Some name \<and>
    list_all2 (\<lambda>d s. \<exists>r. descriptors h' d = Some r \<and> raw_reads h' r s) (provided_key_descriptors ctx')
      (List.map_filter (key_for_sni p) snis) \<and>
    (\<exists>h''. pki_drop ctx' n h' = Some (rc_new, h'') \<and> blocks h'' = blocks h0 \<and> descriptors h'' = descriptors h0)"
proof -
  define ctx0 :: "('v, 'n) PkiRpkContextInner" where "ctx0 = pki_sni_key_provider p (pki_builder_new v key)"
  have "pki_mem h0 [spec] None (ctx0, h1)"
    using pki_mem_new[OF assms(1,4), of v] by (rule pki_mem_cfg) (simp_all add: ctx0_def pki_sni_key_provider_def)
  moreover have "pki_sni_provider ctx0 = Some p" "\<not> validate_cn_call_back (raw_cfg ctx0)" "validate_sni_call_back (raw_cfg ctx0)"
      "\<not> cn_call_back_arg (raw_cfg ctx0)"
    by (simp_all add: ctx0_def pki_sni_key_provider_def pki_builder_new_def set_key_type_defaults_def Let_def split: KeyType.split)
  ultimately have ctx1: "pki_mem h0 [spec] (Some name) (ctx1, h)"
      "pki_sni_provider ctx1 = Some p" "\<not> validate_cn_call_back (raw_cfg ctx1)" "validate_sni_call_back (raw_cfg ctx1)"
      "\<not> cn_call_back_arg (raw_cfg ctx1)"
    using pki_mem_sni[of h0 "[spec]" None ctx0 h1 name] assms(5) assms(6)[folded ctx0_def] by auto
  with assms(7) have ctx: "ctx = on_cfg (\<lambda>c. c\<lparr>cfg_sni_arg := True\<rparr>) ctx1" "n = create_raw_weak rc_new"
    by (simp_all add: pki_build_def Let_def)
  have "pki_mem h0 [spec] (Some name) (ctx, h)" by (rule pki_mem_cfg[OF ctx1(1)]) (simp_all add: ctx)
  moreover have "pki_sni_provider ctx = Some p" using ctx ctx1(2) by simp
  ultimately obtain ctx' h' where run: "run_all (pki_sni_callback key_for_sni) snis (ctx, h) = Ret (ctx', h')"
    and mem: "pki_mem h0 ([spec] @ List.map_filter (key_for_sni p) snis) (Some name) (ctx', h')" and cfg: "raw_cfg ctx' = raw_cfg ctx"
    using pki_callbacks_mem[of h0 "[spec]" "Some name" ctx h p key_for_sni snis] assms(3) by blast
  then obtain k ks where ks: "pki_provided_keys ctx' = k # ks" "key_holds h' spec k"
    "list_all2 (key_holds h') (List.map_filter (key_for_sni p) snis) ks"
    and raw: "pki_key (raw_cfg ctx') = as_raw_dtls_key k"
      "list_all2 (\<lambda>d k. descriptors h' d = Some (as_raw_dtls_key k)) (provided_key_descriptors ctx') ks"
      "sni_stored ctx' h' (Some name)"
    by (cases "pki_provided_keys ctx'") (auto simp: pki_mem_def)
  have oks: "\<forall>s \<in> set (List.map_filter (key_for_sni p) snis). spec_ok s"
    using assms(3) by (auto simp: map_filter_def)
  have "list_all2 (\<lambda>d s. \<exists>r. descriptors h' d = Some r \<and> raw_reads h' r s) (provided_key_descriptors ctx')
      (List.map_filter (key_for_sni p) snis)"
    using ks(3) raw(2) oks unfolding list_all2_conv_all_nth by (metis key_holds_reads nth_mem)
  moreover have "read_string h' (cfg_client_sni (raw_cfg ctx')) = Some name"
    using raw(3) assms(5) by (cases "sni_box ctx'") (auto simp: sni_stored_def read_string_stored)
  moreover have "\<exists>h''. pki_drop ctx' n h' = Some (rc_new, h'') \<and> blocks h'' = blocks h0 \<and> descriptors h'' = descriptors h0"
    using pki_drop_frees[OF mem, of n] cfg ctx ctx1(5) by (simp add: weak_drop_def create_raw_weak_def rc_new_def)
  ultimately show ?thesis using run raw(1) key_holds_reads[OF ks(2) assms(2)] by simp
qed

text \<open>A server with a PEM file key that hands out a raw key buffer for the name \<open>[97]\<close>.\<close>

definition empty_key_heap :: pki_heap where
  "empty_key_heap = \<lparr>blocks = Map.empty, descriptors = Map.empty, next_block = 1\<rparr>"

definition sample_key_for_sni :: "unit \<Rightarrow> bytes \<Rightarrow> key_spec option" where
  "sample_key_for_sni p sni = (if sni = [97] then Some (PkiSpec DerMemory Ec None [1, 0] [2] None) else None)"

theorem pki_key_memory_witness:
  "\<exists>key h1 (ctx1 :: (unit, unit) PkiRpkContextInner) h ctx n ctx' h' d r.
     make_key (PkiSpec PemFile Asn1None None [47, 99] [47, 107] None) empty_key_heap = Ret (key, h1) \<and>
     pki_client_sni [98] (pki_sni_key_provider () (pki_builder_new 1 key)) h1 = Some (Inr (ctx1, h)) \<and>
     pki_build ctx1 = (ctx, n) \<and>
     run_all (pki_sni_callback sample_key_for_sni) [[97], [99]] (ctx, h) = Ret (ctx', h') \<and>
     provided_key_descriptors ctx' = [d] \<and> descriptors h' d = Some r \<and>
     read_buffer h' (k_public_cert r) (k_public_cert_len r) = Some [1, 0]"
proof -
  let ?spec = "PkiSpec PemFile Asn1None None [47, 99] [47, 107] None"
  have fresh: "fresh_key_heap empty_key_heap" by (simp add: fresh_key_heap_def empty_key_heap_def)
  have ok: "spec_ok ?spec" by (simp add: bad_string_def)
  have oks: "\<forall>p sni s. sample_key_for_sni p sni = Some s \<longrightarrow> spec_ok s"
    by (auto simp: sample_key_for_sni_def bad_string_def split: if_splits)
  obtain key h1 where mk: "make_key ?spec empty_key_heap = Ret (key, h1)" using make_key_ok[OF ok] by blast
  obtain ctx1 :: "(unit, unit) PkiRpkContextInner" and h where
    sni: "pki_client_sni [98] (pki_sni_key_provider () (pki_builder_new 1 key)) h1 = Some (Inr (ctx1, h))"
    by (simp add: pki_client_sni_def alloc_block_def drop_box_def pki_sni_key_provider_def pki_builder_new_def Let_def)
  obtain ctx n where build: "pki_build ctx1 = (ctx, n)" by fastforce
  have nn: "0 \<notin> set [98 :: u8]" by simp
  from pki_key_memory[OF fresh ok oks mk nn sni build, of "[[97], [99]]"]
  obtain ctx' h' where run: "run_all (pki_sni_callback sample_key_for_sni) [[97], [99]] (ctx, h) = Ret (ctx', h')"
    and desc: "list_all2 (\<lambda>d s. \<exists>r. descriptors h' d = Some r \<and> raw_reads h' r s) (provided_key_descriptors ctx')
      (List.map_filter (sample_key_for_sni ()) [[97], [99]])" by (elim exE conjE)
  have "List.map_filter (sample_key_for_sni ()) [[97], [99]] = [PkiSpec DerMemory Ec None [1, 0] [2] None]"
    by (simp add: sample_key_for_sni_def map_filter_simps)
  with desc obtain d r where d: "provided_key_descriptors ctx' = [d]" "descriptors h' d = Some r"
    "raw_reads h' r (PkiSpec DerMemory Ec None [1, 0] [2] None)"
    by (auto simp: list_all2_Cons2)
  have "0 \<notin> set (takeWhile (\<lambda>b. b \<noteq> 0) bs)" for bs :: bytes by (auto dest: set_takeWhileD)
  then have "read_string h' a \<noteq> Some [1, 0]" for a
    by (auto simp: read_string_def split: option.splits if_splits) (metis list.set_intros(1) list.set_intros(2))
  with d(3) have "read_buffer h' (k_public_cert r) (k_public_cert_len r) = Some [1, 0]"
    by (auto simp: read_component_def split: if_splits)
  with mk sni build run d show ?thesis by blast
qed

end
