(* ===== verification/Pki_Configuration.thy ===== *)
theory Pki_Configuration
  imports Pki_Context
begin

text \<open>
  What the typed builder of contexts for certificates and raw public keys can configure, and the
  validation of peers through a built context.
\<close>

section \<open>The typed builder\<close>

text \<open>
  The contexts that the builder can make. Its type parameters are the key type and whether the builder
  verifies certificates: the verification settings need a verifying builder, which exists for
  certificates only; the validator has to be of the key type.
\<close>

inductive builder :: "KeyType \<Rightarrow> bool \<Rightarrow> ('v, 'n) PkiRpkContextInner \<Rightarrow> bool" where
  new: "builder (key_type key) False (pki_builder_new v key)"
| verifying_new: "builder Pki True (pki_verifying_new v d)"
| verify: "builder Pki False ctx \<Longrightarrow> builder Pki True (set_verify_peer_cert ctx)"
| cid: "builder kty ver ctx \<Longrightarrow> builder kty ver (pki_use_cid b ctx)"
| sni: "builder kty ver ctx \<Longrightarrow> pki_client_sni name ctx (h :: pki_heap) = Some (Inr (ctx', h')) \<Longrightarrow> builder kty ver ctx'"
| common_ca: "builder kty True ctx \<Longrightarrow> builder kty True (set_check_common_ca b ctx)"
| self_signed: "builder kty True ctx \<Longrightarrow> builder kty True (set_allow_self_signed b ctx)"
| expired_certs: "builder kty True ctx \<Longrightarrow> builder kty True (set_allow_expired_certs b ctx)"
| chain: "builder kty True ctx \<Longrightarrow> builder kty True (set_cert_chain_validation depth ctx)"
| revocation: "builder kty True ctx \<Longrightarrow> builder kty True (set_check_cert_revocation b ctx)"
| no_crl: "builder kty True ctx \<Longrightarrow> builder kty True (set_allow_no_crl b ctx)"
| expired_crl: "builder kty True ctx \<Longrightarrow> builder kty True (set_allow_expired_crl b ctx)"
| bad_hash: "builder kty True ctx \<Longrightarrow> builder kty True (set_allow_bad_md_hash b ctx)"
| short_rsa: "builder kty True ctx \<Longrightarrow> builder kty True (set_allow_short_rsa_length b ctx)"
| provider: "builder kty ver ctx \<Longrightarrow> builder kty ver (pki_sni_key_provider p ctx)"
| cn: "builder Pki ver ctx \<Longrightarrow> builder Pki ver (set_cn_validator v ctx)"
| rpk: "builder Rpk False ctx \<Longrightarrow> builder Rpk False (set_rpk_validator v ctx)"

text \<open>What the flags of a configuration mean, given the parameters of the builder.\<close>

definition cfg_flags_ok :: "KeyType \<Rightarrow> bool \<Rightarrow> coap_dtls_pki_t \<Rightarrow> bool" where
  "cfg_flags_ok kty ver c \<longleftrightarrow>
     verify_peer_cert c = as_flag ver \<and> is_rpk_not_cert c = as_flag (kty = Rpk) \<and> (kty = Rpk \<longrightarrow> \<not> ver) \<and>
     cert_chain_validation c = as_flag (cert_chain_verify_depth c \<noteq> 0) \<and>
     (\<not> ver \<longrightarrow> check_common_ca c = 0 \<and> allow_self_signed c = 0 \<and> allow_expired_certs c = 0 \<and>
        cert_chain_verify_depth c = 0 \<and> check_cert_revocation c = 0 \<and> allow_no_crl c = 0 \<and>
        allow_expired_crl c = 0 \<and> allow_bad_md_hash c = 0 \<and> allow_short_rsa_length c = 0)"

definition callbacks_ok :: "KeyType \<Rightarrow> ('v, 'n) PkiRpkContextInner \<Rightarrow> bool" where
  "callbacks_ok kty ctx \<longleftrightarrow>
     (validate_cn_call_back (raw_cfg ctx) \<longleftrightarrow> cn_callback_fn ctx \<noteq> None) \<and>
     (validate_sni_call_back (raw_cfg ctx) \<longleftrightarrow> pki_sni_provider ctx \<noteq> None) \<and>
     \<not> cn_call_back_arg (raw_cfg ctx) \<and> \<not> cfg_sni_arg (raw_cfg ctx) \<and>
     (\<forall>cb. cn_callback_fn ctx = Some cb \<longrightarrow> (case cb of PkiCn _ \<Rightarrow> kty = Pki | RpkCn _ \<Rightarrow> kty = Rpk))"

lemmas builder_ops = set_verify_peer_cert_def pki_use_cid_def set_check_common_ca_def set_allow_self_signed_def
  set_allow_expired_certs_def set_cert_chain_validation_def set_check_cert_revocation_def set_allow_no_crl_def
  set_allow_expired_crl_def set_allow_bad_md_hash_def set_allow_short_rsa_length_def pki_sni_key_provider_def
  set_cn_validator_def set_rpk_validator_def

lemma builder_flags: "builder kty ver ctx \<Longrightarrow> cfg_flags_ok kty ver (raw_cfg ctx)"
proof (induction rule: builder.induct)
  case (new key v)
  then show ?case
    by (cases "key_type key") (simp_all add: cfg_flags_ok_def pki_builder_new_def set_key_type_defaults_def Let_def)
qed (auto simp: cfg_flags_ok_def builder_ops pki_verifying_new_def pki_builder_new_def set_key_type_defaults_def Let_def
      pki_client_sni_def split: if_splits prod.splits)

lemma builder_callbacks: "builder kty ver ctx \<Longrightarrow> callbacks_ok kty ctx"
proof (induction rule: builder.induct)
  case (new key v)
  then show ?case
    by (cases "key_type key") (simp_all add: callbacks_ok_def pki_builder_new_def set_key_type_defaults_def Let_def)
qed (auto simp: callbacks_ok_def builder_ops pki_verifying_new_def pki_builder_new_def set_key_type_defaults_def Let_def
      pki_client_sni_def split: if_splits prod.splits)

text \<open>
  C40: built configurations. Whatever methods are called on a builder, within its types, the built
  context verifies certificates exactly if the builder is a verifying one, and is marked for raw
  public keys exactly if its keys are, in which case it verifies none; chain validation is on exactly
  if its depth is not zero, and without verification every verification setting is off. A callback
  is registered exactly if its argument is set and the validator or provider it unwraps is there,
  the validator being of the key type; the weak count is the number of callbacks.
\<close>

theorem built_configuration:
  assumes "builder kty ver ctx" and "pki_build ctx = (built, n)"
  shows "cfg_flags_ok kty ver (raw_cfg built) \<and>
    (validate_cn_call_back (raw_cfg built) \<longleftrightarrow> cn_callback_fn built \<noteq> None) \<and>
    (cn_call_back_arg (raw_cfg built) \<longleftrightarrow> cn_callback_fn built \<noteq> None) \<and>
    (validate_sni_call_back (raw_cfg built) \<longleftrightarrow> pki_sni_provider built \<noteq> None) \<and>
    (cfg_sni_arg (raw_cfg built) \<longleftrightarrow> pki_sni_provider built \<noteq> None) \<and>
    (\<forall>cb. cn_callback_fn built = Some cb \<longrightarrow> (case cb of PkiCn _ \<Rightarrow> kty = Pki | RpkCn _ \<Rightarrow> kty = Rpk)) \<and>
    strong n = 1 \<and> weak n = (if cn_callback_fn built \<noteq> None then 1 else 0) + (if pki_sni_provider built \<noteq> None then 1 else 0)"
proof -
  from builder_callbacks[OF assms(1)] have cb: "callbacks_ok kty ctx" .
  from assms(2) have same: "cn_callback_fn built = cn_callback_fn ctx" "pki_sni_provider built = pki_sni_provider ctx"
    and flags: "cfg_flags_ok kty ver (raw_cfg built) = cfg_flags_ok kty ver (raw_cfg ctx)"
    and n: "weak n = (if validate_cn_call_back (raw_cfg ctx) then 1 else 0) + (if validate_sni_call_back (raw_cfg ctx) then 1 else 0)"
      "strong n = 1"
    and args: "validate_cn_call_back (raw_cfg built) = validate_cn_call_back (raw_cfg ctx)"
      "validate_sni_call_back (raw_cfg built) = validate_sni_call_back (raw_cfg ctx)"
      "cn_call_back_arg (raw_cfg built) = (cn_call_back_arg (raw_cfg ctx) \<or> validate_cn_call_back (raw_cfg ctx))"
      "cfg_sni_arg (raw_cfg built) = (cfg_sni_arg (raw_cfg ctx) \<or> validate_sni_call_back (raw_cfg ctx))"
    by (auto simp: pki_build_def Let_def cfg_flags_ok_def split: if_splits)
  show ?thesis
    using builder_flags[OF assms(1)] cb unfolding same flags n args callbacks_ok_def by simp
qed

definition sample_pki_key :: PkiKeyDef where
  "sample_pki_key =
     (let c = \<lparr>comp_kind = PemFile, comp_block = 1, comp_len = 2\<rparr> in pki_key_new PemFile None c c None Asn1None)"

theorem built_configuration_witness:
  "let (built, n) = pki_build (set_cert_chain_validation 3 (set_cn_validator () (pki_verifying_new 1 sample_pki_key)) :: (unit, unit) PkiRpkContextInner)
   in verify_peer_cert (raw_cfg built) = 1 \<and> cert_chain_validation (raw_cfg built) = 1 \<and> weak n = 1"
proof -
  let ?ctx = "set_cert_chain_validation 3 (set_cn_validator () (pki_verifying_new 1 sample_pki_key)) :: (unit, unit) PkiRpkContextInner"
  have "builder Pki True ?ctx" by (rule builder.chain builder.cn builder.verifying_new)+
  moreover obtain built n where build: "pki_build ?ctx = (built, n)" by fastforce
  moreover have "cert_chain_verify_depth (raw_cfg built) = 3" "cn_callback_fn built = Some (PkiCn ())" "pki_sni_provider built = None"
    using build by (auto simp: pki_build_def Let_def set_cert_chain_validation_def set_cn_validator_def pki_verifying_new_def
        set_verify_peer_cert_def pki_builder_new_def set_key_type_defaults_def split: if_splits)
  ultimately show ?thesis
    using built_configuration[of Pki True ?ctx built n] by (simp add: cfg_flags_ok_def)
qed

section \<open>The callback for common names\<close>

text \<open>A restored session of either kind, used and dropped.\<close>

lemma server_session_restored:
  assumes "raw_session_laws A refs" and "server_inv A refs p c base w hs" and "hs \<noteq> []"
  shows "\<exists>w1 w'. session_from_raw A p w = Ret (ServerSession \<lparr>srv_inner = c, ref_counted = True\<rparr>, w1) \<and>
    session_drop A (ServerSession \<lparr>srv_inner = c, ref_counted = True\<rparr>) w1 = Ret w' \<and> server_inv A refs p c base w' hs"
proof -
  obtain h w1 w' where r: "server_from_raw A p w = Ret (h, w1)" "server_drop A h w1 = Ret w'" "server_inv A refs p c base w' hs"
    using server_handles.restore_release[of A refs p c base w hs] assms by blast
  moreover have "h = \<lparr>srv_inner = c, ref_counted = True\<rparr>"
    using r(1) assms(2) by (auto simp: from_raw_eq server_inv_def split: if_splits)
  moreover have "p \<noteq> 0" "server_type (coap_session_get_type A (raws w p))" using assms(2) by (simp_all add: server_inv_def)
  ultimately show ?thesis by (auto simp: session_from_raw_def session_drop_def server_type_def Let_def)
qed

lemma client_session_restored:
  assumes "raw_session_laws A refs" and "client_inv A refs p c base w hs" and "hs \<noteq> []"
  shows "\<exists>w1 w'. session_from_raw A p w = Ret (ClientSession c, w1) \<and>
    session_drop A (ClientSession c) w1 = Ret w' \<and> client_inv A refs p c base w' hs"
proof -
  obtain h w1 w' where r: "client_from_raw A p w = Ret (h, w1)" "client_drop A h w1 = Ret w'" "client_inv A refs p c base w' hs"
    using client_handles.restore_release[of A refs p c base w hs] assms by blast
  moreover have "h = c" "p \<noteq> 0" "coap_session_get_type A (raws w p) = COAP_SESSION_TYPE_CLIENT"
    using r(1) assms(2,3) by (auto simp: client_from_raw_def client_inv_def Let_def)
  ultimately show ?thesis by (auto simp: session_from_raw_def session_drop_def Let_def)
qed

definition verdict ::
    "('v \<Rightarrow> bytes \<Rightarrow> bytes \<Rightarrow> CoapSession \<Rightarrow> u32 \<Rightarrow> bool \<Rightarrow> bool) \<Rightarrow> ('v \<Rightarrow> bytes \<Rightarrow> CoapSession \<Rightarrow> bool \<Rightarrow> bool) \<Rightarrow>
      'v CnCallback \<Rightarrow> bytes \<Rightarrow> bytes \<Rightarrow> CoapSession \<Rightarrow> u32 \<Rightarrow> bool \<Rightarrow> bool" where
  "verdict validate_cn validate_rpk cb cn cert session depth validated =
     (case cb of PkiCn v \<Rightarrow> validate_cn v cn cert session depth validated
      | RpkCn v \<Rightarrow> validate_rpk v cert session validated)"

text \<open>
  Validation of peers. For a context with a validator and a session, of a server or of a client,
  that some handle keeps alive, the callback that libcoap calls with a certificate or raw public key
  accepts exactly if the validator does, asked with the session the raw pointer belongs to and with
  the TLS library's verdict; every reference it takes to session and context is given back.
\<close>

theorem peer_validation_exact:
  assumes "raw_session_laws A refs" and "cn_callback_fn ctx = Some cb" and "cn_call_back_arg (raw_cfg ctx)"
    and "0 < strong n" and "hs \<noteq> []" and "hc \<noteq> []"
  shows "(server_inv A refs p c base w hs \<longrightarrow>
      (\<exists>w'. dtls_pki_cn_callback A validate_cn validate_rpk cn cert p depth validated (ctx, n) w =
         Ret (if verdict validate_cn validate_rpk cb cn cert (ServerSession \<lparr>srv_inner = c, ref_counted = True\<rparr>) depth (validated = 1)
              then 1 else 0, n, w') \<and> server_inv A refs p c base w' hs)) \<and>
    (client_inv A refs p c base w hc \<longrightarrow>
      (\<exists>w'. dtls_pki_cn_callback A validate_cn validate_rpk cn cert p depth validated (ctx, n) w =
         Ret (if verdict validate_cn validate_rpk cb cn cert (ClientSession c) depth (validated = 1) then 1 else 0, n, w') \<and>
         client_inv A refs p c base w' hc))"
proof -
  obtain n' where n': "clone_raw_weak n = Ret n'" "rc_drop n' = n"
    using assms(4) by (auto simp: clone_raw_weak_def rc_drop_def)
  have eq: "dtls_pki_cn_callback A validate_cn validate_rpk cn cert p depth validated (ctx, n) w =
      Ret (if verdict validate_cn validate_rpk cb cn cert session depth (validated = 1) then 1 else 0, n, w')"
    if "session_from_raw A p w = Ret (session, w1)" "session_drop A session w1 = Ret w'" for session w1 w'
    using that assms(2,3) n' by (simp add: dtls_pki_cn_callback_def pki_from_raw_def pki_cn_callback_def verdict_def)
  show ?thesis
    using server_session_restored[OF assms(1) _ assms(5)] client_session_restored[OF assms(1) _ assms(6)] eq by meson
qed

end
