(* ===== verification/Session_Accessors.thy ===== *)
theory Session_Accessors
  imports Session_Handles
begin

text \<open>
  The remaining methods of \<^verbatim>\<open>CoapSessionCommon\<close> (\<^verbatim>\<open>libcoap/src/session/mod.rs\<close>): parameters of the
  transmission, the protocol and state of a session, its PSK data, tokens and pings. Each method
  calls one function of libcoap on the raw session; these are the fields of \<open>accessor_api\<close>.
\<close>

text \<open>\<^verbatim>\<open>coap_fixed_point_t\<close>: integer part and thousandths.\<close>

record coap_fixed_point_t =
  integer_part :: u16
  fractional_part :: u16

record 's accessor_api =
  coap_session_get_ack_random_factor :: "'s \<Rightarrow> coap_fixed_point_t"
  coap_session_set_ack_random_factor :: "'s \<Rightarrow> coap_fixed_point_t \<Rightarrow> 's"
  coap_session_get_ack_timeout :: "'s \<Rightarrow> coap_fixed_point_t"
  coap_session_set_ack_timeout :: "'s \<Rightarrow> coap_fixed_point_t \<Rightarrow> 's"
  coap_session_ifindex :: "'s \<Rightarrow> int"
  coap_session_get_max_retransmit :: "'s \<Rightarrow> u16"
  coap_session_set_max_retransmit :: "'s \<Rightarrow> u16 \<Rightarrow> 's"
  coap_session_get_proto :: "'s \<Rightarrow> coap_proto_t"
  coap_session_get_psk_hint :: "'s \<Rightarrow> bytes option"
  coap_session_get_psk_identity :: "'s \<Rightarrow> bytes option"
  coap_session_get_psk_key :: "'s \<Rightarrow> bytes option"
  coap_session_get_state :: "'s \<Rightarrow> coap_session_state_t"
  coap_session_token_init :: "'s \<Rightarrow> bytes \<Rightarrow> 's"
  coap_session_set_mtu :: "'s \<Rightarrow> u32 \<Rightarrow> 's"
  coap_session_send_ping :: "'s \<Rightarrow> int \<times> 's"

type_synonym ('s, 'ty, 'v) session = "('s, 'ty, 'v) CoapSessionInner"

definition ack_random_factor :: "'s accessor_api \<Rightarrow> ('s, 'ty, 'v) session \<Rightarrow> u16 \<times> u16" where
  "ack_random_factor C s =
     (let f = coap_session_get_ack_random_factor C (raw_session s) in (integer_part f, fractional_part f))"

definition set_ack_random_factor ::
    "'s accessor_api \<Rightarrow> u16 \<Rightarrow> u16 \<Rightarrow> ('s, 'ty, 'v) session \<Rightarrow> ('s, 'ty, 'v) session" where
  "set_ack_random_factor C i f s =
     s\<lparr>raw_session := coap_session_set_ack_random_factor C (raw_session s) \<lparr>integer_part = i, fractional_part = f\<rparr>\<rparr>"

definition ack_timeout :: "'s accessor_api \<Rightarrow> ('s, 'ty, 'v) session \<Rightarrow> u16 \<times> u16" where
  "ack_timeout C s =
     (let f = coap_session_get_ack_timeout C (raw_session s) in (integer_part f, fractional_part f))"

definition set_ack_timeout ::
    "'s accessor_api \<Rightarrow> u16 \<Rightarrow> u16 \<Rightarrow> ('s, 'ty, 'v) session \<Rightarrow> ('s, 'ty, 'v) session" where
  "set_ack_timeout C i f s =
     s\<lparr>raw_session := coap_session_set_ack_timeout C (raw_session s) \<lparr>integer_part = i, fractional_part = f\<rparr>\<rparr>"

definition if_index :: "'s accessor_api \<Rightarrow> ('s, 'ty, 'v) session \<Rightarrow> int" where
  "if_index C s = coap_session_ifindex C (raw_session s)"

definition max_retransmit :: "'s accessor_api \<Rightarrow> ('s, 'ty, 'v) session \<Rightarrow> u16" where
  "max_retransmit C s = coap_session_get_max_retransmit C (raw_session s)"

definition set_max_retransmit :: "'s accessor_api \<Rightarrow> u16 \<Rightarrow> ('s, 'ty, 'v) session \<Rightarrow> ('s, 'ty, 'v) session" where
  "set_max_retransmit C n s = s\<lparr>raw_session := coap_session_set_max_retransmit C (raw_session s) n\<rparr>"

definition session_proto :: "uri_bindings \<Rightarrow> 's accessor_api \<Rightarrow> ('s, 'ty, 'v) session \<Rightarrow> CoapProtocol run" where
  "session_proto U C s = protocol_from_raw U (coap_session_get_proto C (raw_session s))"

definition psk_hint :: "'s accessor_api \<Rightarrow> ('s, 'ty, 'v) session \<Rightarrow> bytes option" where
  "psk_hint C s = coap_session_get_psk_hint C (raw_session s)"

definition psk_identity :: "'s accessor_api \<Rightarrow> ('s, 'ty, 'v) session \<Rightarrow> bytes option" where
  "psk_identity C s = coap_session_get_psk_identity C (raw_session s)"

definition psk_key :: "'s accessor_api \<Rightarrow> ('s, 'ty, 'v) session \<Rightarrow> bytes option" where
  "psk_key C s = coap_session_get_psk_key C (raw_session s)"

definition session_state :: "'s accessor_api \<Rightarrow> ('s, 'ty, 'v) session \<Rightarrow> CoapSessionState run" where
  "session_state C s = session_state_from (coap_session_get_state C (raw_session s))"

definition init_token :: "'s accessor_api \<Rightarrow> bytes \<Rightarrow> ('s, 'ty, 'v) session \<Rightarrow> ('s, 'ty, 'v) session" where
  "init_token C token s = s\<lparr>raw_session := coap_session_token_init C (raw_session s) token\<rparr>"

definition max_pdu_size :: "('s, 'p) session_api \<Rightarrow> ('s, 'ty, 'v) session \<Rightarrow> nat" where
  "max_pdu_size api s = coap_session_max_pdu_size api (raw_session s)"

definition set_mtu :: "'s accessor_api \<Rightarrow> u32 \<Rightarrow> ('s, 'ty, 'v) session \<Rightarrow> ('s, 'ty, 'v) session" where
  "set_mtu C mtu s = s\<lparr>raw_session := coap_session_set_mtu C (raw_session s) mtu\<rparr>"

text \<open>The buffer for the token has eight bytes; the result is the length libcoap reports and the buffer.\<close>

definition new_token ::
    "('s, 'p) session_api \<Rightarrow> bytes \<Rightarrow> ('s, 'ty, 'v) session \<Rightarrow> (nat \<times> bytes) \<times> ('s, 'ty, 'v) session" where
  "new_token api token s =
     (let (len, token, raw) = coap_session_new_token api (raw_session s) 8 token
      in ((len, token), s\<lparr>raw_session := raw\<rparr>))"

definition send_ping :: "'s accessor_api \<Rightarrow> ('s, 'ty, 'v) session \<Rightarrow> int \<times> ('s, 'ty, 'v) session" where
  "send_ping C s =
     (let (mid, raw) = coap_session_send_ping C (raw_session s) in (mid, s\<lparr>raw_session := raw\<rparr>))"

text \<open>No accessor touches the response queues or the application data of the session.\<close>

lemma accessors_keep_queues:
  "received_responses (set_ack_random_factor C i f s) = received_responses s"
  "received_responses (set_ack_timeout C i f s) = received_responses s"
  "received_responses (set_max_retransmit C n s) = received_responses s"
  "received_responses (init_token C t s) = received_responses s"
  "received_responses (set_mtu C m s) = received_responses s"
  "received_responses (snd (new_token api t s)) = received_responses s"
  "received_responses (snd (send_ping C s)) = received_responses s"
  by (simp_all add: set_ack_random_factor_def set_ack_timeout_def set_max_retransmit_def init_token_def set_mtu_def
      new_token_def send_ping_def Let_def split: prod.split)

end
