(* ===== verification/Ffi_Boxes.thy ===== *)
theory Ffi_Boxes
  imports Ffi_Mem "HOL-Library.Multiset"
begin

text \<open>
  The ownership of a lendable cell (\<^verbatim>\<open>libcoap/src/mem.rs\<close>). A \<^verbatim>\<open>CoapLendableFfiRcCell\<close> is a pair of
  counted references, one to the value and one to the container of the lent pointer; a
  \<^verbatim>\<open>CoapLendableFfiWeakCell\<close> is the pair of weak ones. Both travel through libcoap in boxes, as raw
  pointers. The state machine of this theory follows the counts of the two allocations and the
  boxes through every operation; its invariant says who holds each count, from which it follows
  when a weak box can be restored and that nothing leaks.
\<close>

section \<open>Cells and boxes\<close>

text \<open>What a box on the heap holds: a counted or a weak cell.\<close>

datatype boxed = Rc_box | Weak_box

text \<open>
  The two allocations of a cell and the boxes made for it. A raw pointer is an index into the boxes;
  a box that was taken back from its raw pointer is \<^const>\<open>None\<close>.
\<close>

record shared_cell =
  value_rc :: rc_counts
  container_rc :: rc_counts
  boxes :: "boxed option list"

definition lendable_new :: shared_cell where
  "lendable_new = \<lparr>value_rc = rc_new, container_rc = rc_new, boxes = []\<rparr>"

definition lendable_clone :: "shared_cell \<Rightarrow> shared_cell" where
  "lendable_clone s = s\<lparr>value_rc := rc_clone (value_rc s), container_rc := rc_clone (container_rc s)\<rparr>"

definition lendable_drop :: "shared_cell \<Rightarrow> shared_cell" where
  "lendable_drop s = s\<lparr>value_rc := rc_drop (value_rc s), container_rc := rc_drop (container_rc s)\<rparr>"

text \<open>\<^verbatim>\<open>Rc::downgrade\<close> and \<^verbatim>\<open>Weak::clone\<close> both add a weak count to an allocation.\<close>

definition rc_downgrade :: "rc_counts \<Rightarrow> rc_counts" where
  "rc_downgrade c = c\<lparr>weak := weak c + 1\<rparr>"

definition rc_upgrade :: "rc_counts \<Rightarrow> rc_counts option" where
  "rc_upgrade c = (if strong c = 0 then None else Some (rc_clone c))"

definition downgrade :: "shared_cell \<Rightarrow> shared_cell" where
  "downgrade s = s\<lparr>value_rc := rc_downgrade (value_rc s), container_rc := rc_downgrade (container_rc s)\<rparr>"

definition weak_cell_clone :: "shared_cell \<Rightarrow> shared_cell" where
  "weak_cell_clone s = s\<lparr>value_rc := rc_downgrade (value_rc s), container_rc := rc_downgrade (container_rc s)\<rparr>"

definition weak_cell_drop :: "shared_cell \<Rightarrow> shared_cell" where
  "weak_cell_drop s = s\<lparr>value_rc := weak_drop (value_rc s), container_rc := weak_drop (container_rc s)\<rparr>"

text \<open>
  Upgrading needs both allocations; when only one of them is alive, the reference to it is dropped
  again and the counts are as before.
\<close>

definition upgrade :: "shared_cell \<Rightarrow> shared_cell option" where
  "upgrade s =
     (case (rc_upgrade (value_rc s), rc_upgrade (container_rc s)) of
        (Some v0, Some v1) \<Rightarrow> Some (s\<lparr>value_rc := v0, container_rc := v1\<rparr>)
      | _ \<Rightarrow> None)"

text \<open>
  Boxes. Reading a pointer that is not one of a live box of the right kind violates the safety
  requirement of the function; these calls have no result.
\<close>

definition box_at :: "shared_cell \<Rightarrow> nat \<Rightarrow> boxed option" where
  "box_at s p = (if p < length (boxes s) then boxes s ! p else None)"

definition box_into_raw :: "boxed \<Rightarrow> shared_cell \<Rightarrow> nat \<times> shared_cell" where
  "box_into_raw b s = (length (boxes s), s\<lparr>boxes := boxes s @ [Some b]\<rparr>)"

definition create_raw_rc_box :: "shared_cell \<Rightarrow> nat \<times> shared_cell" where
  "create_raw_rc_box s = box_into_raw Rc_box (lendable_clone s)"

definition create_raw_weak_box :: "shared_cell \<Rightarrow> nat \<times> shared_cell" where
  "create_raw_weak_box s = box_into_raw Weak_box (downgrade s)"

definition clone_raw_rc_box :: "nat \<Rightarrow> shared_cell \<Rightarrow> shared_cell option" where
  "clone_raw_rc_box p s = (if box_at s p = Some Rc_box then Some (lendable_clone s) else None)"

definition clone_raw_weak_box :: "nat \<Rightarrow> shared_cell \<Rightarrow> shared_cell run option" where
  "clone_raw_weak_box p s =
     (if box_at s p = Some Weak_box
      then Some (case upgrade s of None \<Rightarrow> Panic | Some s' \<Rightarrow> Ret s')
      else None)"

definition from_raw_rc_box :: "nat \<Rightarrow> shared_cell \<Rightarrow> shared_cell option" where
  "from_raw_rc_box p s = (if box_at s p = Some Rc_box then Some (s\<lparr>boxes := (boxes s)[p := None]\<rparr>) else None)"

definition from_raw_box :: "nat \<Rightarrow> shared_cell \<Rightarrow> shared_cell option" where
  "from_raw_box p s = (if box_at s p = Some Weak_box then Some (s\<lparr>boxes := (boxes s)[p := None]\<rparr>) else None)"

text \<open>
  A reference taken from the container keeps the container alive, the lender's token only a weak
  reference to it.
\<close>

definition borrowed_clone :: "shared_cell \<Rightarrow> shared_cell" where
  "borrowed_clone s = s\<lparr>container_rc := rc_clone (container_rc s)\<rparr>"

definition borrowed_release :: "shared_cell \<Rightarrow> shared_cell" where
  "borrowed_release s = s\<lparr>container_rc := rc_drop (container_rc s)\<rparr>"

definition lender_new :: "shared_cell \<Rightarrow> shared_cell" where
  "lender_new s = s\<lparr>container_rc := rc_downgrade (container_rc s)\<rparr>"

text \<open>Dropping the token looks at the container only when it still exists.\<close>

definition unlend :: "shared_cell \<Rightarrow> lend_cell \<Rightarrow> (shared_cell \<times> lend_cell) run" where
  "unlend s c =
     run_map (\<lambda>c'. (s\<lparr>container_rc := weak_drop (container_rc s)\<rparr>, c'))
       (if strong (container_rc s) > 0 then lender_drop c else Ret c)"

section \<open>Who holds the counts\<close>

datatype holder = Handle | Weak_handle | Borrow | Token

text \<open>
  The operations, with the values on the Rust side that hold a count. The rules do not require that
  a borrowed reference is released before the handle it was borrowed from, so that every order the
  compiler admits is included.
\<close>

inductive own_step :: "shared_cell \<times> holder multiset \<Rightarrow> shared_cell \<times> holder multiset \<Rightarrow> bool" where
  own_clone: "Handle \<in># H \<Longrightarrow> own_step (s, H) (lendable_clone s, add_mset Handle H)"
| own_downgrade: "Handle \<in># H \<Longrightarrow> own_step (s, H) (downgrade s, add_mset Weak_handle H)"
| own_weak_clone: "Weak_handle \<in># H \<Longrightarrow> own_step (s, H) (weak_cell_clone s, add_mset Weak_handle H)"
| own_upgrade: "Weak_handle \<in># H \<Longrightarrow> upgrade s = Some s' \<Longrightarrow> own_step (s, H) (s', add_mset Handle H)"
| own_rc_box: "Handle \<in># H \<Longrightarrow> own_step (s, H) (snd (create_raw_rc_box s), H)"
| own_weak_box: "Handle \<in># H \<Longrightarrow> own_step (s, H) (snd (create_raw_weak_box s), H)"
| own_clone_rc_box: "clone_raw_rc_box p s = Some s' \<Longrightarrow> own_step (s, H) (s', add_mset Handle H)"
| own_clone_weak_box: "clone_raw_weak_box p s = Some (Ret s') \<Longrightarrow> own_step (s, H) (s', add_mset Handle H)"
| own_take_rc_box: "from_raw_rc_box p s = Some s' \<Longrightarrow> own_step (s, H) (s', add_mset Handle H)"
| own_take_weak_box: "from_raw_box p s = Some s' \<Longrightarrow> own_step (s, H) (s', add_mset Weak_handle H)"
| own_borrow: "Handle \<in># H \<Longrightarrow> own_step (s, H) (borrowed_clone s, add_mset Borrow H)"
| own_lend: "Handle \<in># H \<Longrightarrow> own_step (s, H) (lender_new s, add_mset Token H)"
| own_drop: "own_step (s, add_mset Handle H) (lendable_drop s, H)"
| own_weak_drop: "own_step (s, add_mset Weak_handle H) (weak_cell_drop s, H)"
| own_release: "own_step (s, add_mset Borrow H) (borrowed_release s, H)"
| own_unlend: "unlend s c = Ret (s', c') \<Longrightarrow> own_step (s, add_mset Token H) (s', H)"

inductive own_reachable :: "shared_cell \<times> holder multiset \<Rightarrow> bool" where
  own_start: "own_reachable (lendable_new, {#Handle#})"
| own_more: "own_reachable x \<Longrightarrow> own_step x y \<Longrightarrow> own_reachable y"

definition live_boxes :: "boxed \<Rightarrow> shared_cell \<Rightarrow> nat" where
  "live_boxes b s = count (mset (boxes s)) (Some b)"

definition own_inv :: "shared_cell \<times> holder multiset \<Rightarrow> bool" where
  "own_inv x = (case x of (s, H) \<Rightarrow>
     strong (value_rc s) = count H Handle + live_boxes Rc_box s \<and>
     strong (container_rc s) = count H Handle + live_boxes Rc_box s + count H Borrow \<and>
     weak (value_rc s) = count H Weak_handle + live_boxes Weak_box s \<and>
     weak (container_rc s) = count H Weak_handle + live_boxes Weak_box s + count H Token)"

lemmas cell_ops = lendable_clone_def lendable_drop_def downgrade_def weak_cell_clone_def weak_cell_drop_def
  borrowed_clone_def borrowed_release_def lender_new_def rc_clone_def rc_drop_def weak_drop_def rc_downgrade_def

text \<open>Making a box adds one of its kind; taking it back removes one.\<close>

lemma live_boxes_into_raw [simp]:
  "live_boxes b (snd (box_into_raw b' s)) = live_boxes b s + (if b = b' then 1 else 0)"
  by (simp add: live_boxes_def box_into_raw_def)

lemma live_boxes_take:
  assumes "box_at s p = Some b'"
  shows "live_boxes b s = live_boxes b (s\<lparr>boxes := (boxes s)[p := None]\<rparr>) + (if b = b' then 1 else 0)"
proof -
  have p: "p < length (boxes s)" "boxes s ! p = Some b'"
    using assms by (auto simp: box_at_def split: if_splits)
  then have "Some b' \<in># mset (boxes s)" by (metis nth_mem_mset)
  with p show ?thesis by (auto simp: live_boxes_def mset_update)
qed

lemma live_boxes_counts [simp]:
  "live_boxes b (s\<lparr>value_rc := v\<rparr>) = live_boxes b s" "live_boxes b (s\<lparr>container_rc := v\<rparr>) = live_boxes b s"
  by (simp_all add: live_boxes_def)

lemma upgrade_clones: "upgrade s = Some s' \<Longrightarrow> s' = lendable_clone s"
  by (auto simp: upgrade_def rc_upgrade_def lendable_clone_def split: option.splits if_splits)

lemma box_into_raw_counts [simp]:
  "value_rc (snd (box_into_raw b s)) = value_rc s" "container_rc (snd (box_into_raw b s)) = container_rc s"
  by (simp_all add: box_into_raw_def)

lemma own_inv_step:
  assumes "own_step x y" and "own_inv x"
  shows "own_inv y"
  using assms
proof cases
  case (own_upgrade H s s')
  with assms(2) show ?thesis by (auto dest!: upgrade_clones simp: own_inv_def cell_ops)
next
  case (own_clone_rc_box p s s' H)
  with assms(2) show ?thesis
    by (auto simp: clone_raw_rc_box_def own_inv_def cell_ops split: if_splits)
next
  case (own_clone_weak_box p s s' H)
  with assms(2) show ?thesis
    by (auto dest!: upgrade_clones simp: clone_raw_weak_box_def own_inv_def cell_ops
        split: if_splits option.splits)
next
  case (own_take_rc_box p s s' H)
  with assms(2) live_boxes_take[of s p Rc_box] show ?thesis
    by (auto simp: from_raw_rc_box_def own_inv_def split: if_splits)
next
  case (own_take_weak_box p s s' H)
  with assms(2) live_boxes_take[of s p Weak_box] show ?thesis
    by (auto simp: from_raw_box_def own_inv_def split: if_splits)
next
  case (own_unlend s c s' c' H)
  with assms(2) show ?thesis
    by (auto simp: unlend_def own_inv_def run_map_eq_Ret weak_drop_def)
qed (auto simp: own_inv_def cell_ops create_raw_rc_box_def create_raw_weak_box_def)

lemma own_inv_reachable: "own_reachable x \<Longrightarrow> own_inv x"
proof (induction rule: own_reachable.induct)
  case own_start
  show ?case by (simp add: own_inv_def lendable_new_def rc_new_def live_boxes_def)
next
  case (own_more x y)
  then show ?case using own_inv_step by blast
qed

section \<open>Properties\<close>

lemma upgrade_eq_None: "upgrade s = None \<longleftrightarrow> strong (value_rc s) = 0 \<or> strong (container_rc s) = 0"
  by (auto simp: upgrade_def rc_upgrade_def)

text \<open>
  A weak box made from a handle can be taken back and dropped, which restores the counts; while it
  exists, a handle cloned from it is a clone of the cell.
\<close>

lemma weak_box_roundtrip:
  assumes "create_raw_weak_box s = (p, s')"
  shows "\<exists>t. from_raw_box p s' = Some t \<and> value_rc (weak_cell_drop t) = value_rc s \<and>
    container_rc (weak_cell_drop t) = container_rc s"
  using assms
  by (auto simp: create_raw_weak_box_def box_into_raw_def from_raw_box_def box_at_def cell_ops)

text \<open>
  C15: ownership of a lendable cell. In every state reached by any order of its operations, a weak
  box restores a handle exactly while a handle or a counted box exists, and panics otherwise, even
  when a borrowed reference still keeps the container alive; and once every holder is gone and every
  box taken back, no count of either allocation is left.
\<close>

theorem lendable_ownership:
  assumes "own_reachable (s, H)"
  shows "(box_at s p = Some Weak_box \<longrightarrow>
      clone_raw_weak_box p s =
        Some (if Handle \<in># H \<or> Some Rc_box \<in> set (boxes s) then Ret (lendable_clone s) else Panic)) \<and>
    (H = {#} \<and> (\<forall>b \<in> set (boxes s). b = None) \<longrightarrow>
      strong (value_rc s) = 0 \<and> weak (value_rc s) = 0 \<and>
      strong (container_rc s) = 0 \<and> weak (container_rc s) = 0)"
proof -
  have inv: "own_inv (s, H)" by (rule own_inv_reachable[OF assms])
  have up: "upgrade s = None \<longleftrightarrow> \<not> (Handle \<in># H \<or> Some Rc_box \<in> set (boxes s))"
    using inv by (auto simp: upgrade_eq_None own_inv_def live_boxes_def count_eq_zero_iff)
  show ?thesis
  proof (intro conjI impI)
    assume "box_at s p = Some Weak_box"
    then show "clone_raw_weak_box p s =
        Some (if Handle \<in># H \<or> Some Rc_box \<in> set (boxes s) then Ret (lendable_clone s) else Panic)"
      using up upgrade_clones by (cases "upgrade s") (auto simp: clone_raw_weak_box_def)
  next
    assume "H = {#} \<and> (\<forall>b \<in> set (boxes s). b = None)"
    moreover from this have "live_boxes b s = 0" for b
      by (auto simp: live_boxes_def count_eq_zero_iff)
    ultimately show "strong (value_rc s) = 0" "weak (value_rc s) = 0"
        "strong (container_rc s) = 0" "weak (container_rc s) = 0"
      using inv by (auto simp: own_inv_def)
  qed
qed

text \<open>The life of the context: a weak box for libcoap, then the last handle is dropped.\<close>

lemma own_sample:
  "own_reachable (\<lparr>value_rc = \<lparr>strong = 0, weak = 1\<rparr>, container_rc = \<lparr>strong = 0, weak = 1\<rparr>,
     boxes = [Some Weak_box]\<rparr>, {#})"
proof -
  have "own_reachable (snd (create_raw_weak_box lendable_new), {#Handle#})"
    by (rule own_more[OF own_start own_weak_box]) simp
  from own_more[OF this own_drop] show ?thesis
    by (simp add: create_raw_weak_box_def box_into_raw_def lendable_new_def rc_new_def cell_ops)
qed

theorem lendable_ownership_witness:
  "clone_raw_weak_box 0 \<lparr>value_rc = \<lparr>strong = 0, weak = 1\<rparr>, container_rc = \<lparr>strong = 0, weak = 1\<rparr>,
     boxes = [Some Weak_box]\<rparr> = Some Panic"
  using lendable_ownership[OF own_sample, of 0] by (simp add: box_at_def)

end
