(* ===== verification/Build_Script.thy ===== *)
theory Build_Script
  imports Utf8
begin

text \<open>
  The build scripts (\<^verbatim>\<open>libcoap-sys/build.rs\<close> and \<^verbatim>\<open>libcoap/build.rs\<close>): what is read from the macros of
  the headers of libcoap, the choice of the DTLS backend, the configuration of the vendored library,
  the instructions printed for Cargo, and the check that libcoap has the features asked for. The
  environment, the Cargo features, the file system, the tools that are run, the binding generator
  with the macros it reports and the library that compares versions are parameters.
\<close>

section \<open>Scripts\<close>

text \<open>
  A script panics or returns a value with what it did, in order. Paths and the values of environment
  variables are byte strings.
\<close>

datatype conf_opt =
    Enable string "string option" | Disable string "string option"
  | With string "string option" | Without string "string option"
  | Conf_env string string

datatype build_action =
    Print string | Set_env string string | Remove_dir string | Copy_dir string string | Chdir string
  | Exec string | Make_dir string | Copy_file string string | Make_library string string "conf_opt list"

type_synonym 'a script = "(build_action list \<times> 'a) run"

definition done_with :: "'a \<Rightarrow> 'a script" where
  "done_with a = Ret ([], a)"

definition perform :: "build_action list \<Rightarrow> unit script" where
  "perform as = Ret (as, ())"

definition script_bind :: "'a script \<Rightarrow> ('a \<Rightarrow> 'b script) \<Rightarrow> 'b script" where
  "script_bind m f = run_bind m (\<lambda>(out, a). run_map (\<lambda>(out', b). (out @ out', b)) (f a))"

definition required :: "'a option \<Rightarrow> 'a script" where
  "required x = (case x of Some a \<Rightarrow> Ret ([], a) | None \<Rightarrow> Panic)"

definition require :: "bool \<Rightarrow> unit script" where
  "require b = (if b then Ret ([], ()) else Panic)"

lemma script_simps [simp, run_simps]:
  "script_bind (done_with a) f = f a"
  "script_bind Panic f = Panic"
  "script_bind (required None) f = Panic"
  "script_bind (required (Some a)) f = f a"
  "script_bind (require b) g = (if b then g () else Panic)"
  by (auto simp: script_bind_def done_with_def required_def require_def run_map_def run_bind_def split: run.splits)

lemma script_bind_perform:
  "script_bind (perform as) f = run_map (\<lambda>(out, b). (as @ out, b)) (f ())"
  by (simp add: script_bind_def perform_def)

lemma script_bind_Ret:
  "script_bind m f = Ret r \<longleftrightarrow> (\<exists>out a out' b. m = Ret (out, a) \<and> f a = Ret (out', b) \<and> r = (out @ out', b))"
  by (cases m) (auto simp: script_bind_def run_map_eq_Ret split: prod.splits)

section \<open>What the headers say\<close>

definition COMPILE_TIME_FEATURE_CHECKS :: "string list" where
  "COMPILE_TIME_FEATURE_CHECKS =
     [''af-unix'', ''async'', ''client'', ''small-stack'', ''tcp'', ''epoll'', ''ipv4'', ''ipv6'', ''oscore'',
      ''q-block'', ''server'', ''thread-recursive-lock-detection'', ''thread-safe'', ''dtls'',
      ''observe-persist'', ''websockets'']"

datatype DtlsBackend = GnuTls | OpenSsl | MbedTls | TinyDtls

fun backend_fmt :: "DtlsBackend \<Rightarrow> string" where
  "backend_fmt GnuTls = ''gnutls''"
| "backend_fmt OpenSsl = ''openssl''"
| "backend_fmt MbedTls = ''mbedtls''"
| "backend_fmt TinyDtls = ''tinydtls''"

record LibcoapMetadata =
  package_version :: string
  libcoap_version :: int
  feature_defines_available :: bool
  feature_defines :: "string set"
  meta_backend :: "DtlsBackend option"

definition metadata_default :: LibcoapMetadata where
  "metadata_default =
     \<lparr>package_version = [], libcoap_version = 0, feature_defines_available = False,
      feature_defines = {''tcp''}, meta_backend = None\<rparr>"

definition add_feature :: "string \<Rightarrow> LibcoapMetadata \<Rightarrow> LibcoapMetadata" where
  "add_feature f d = d\<lparr>feature_defines := insert f (feature_defines d)\<rparr>"

definition with_backend :: "DtlsBackend \<Rightarrow> LibcoapMetadata \<Rightarrow> LibcoapMetadata" where
  "with_backend b d = add_feature ''dtls'' (d\<lparr>meta_backend := Some b\<rparr>)"

definition int_macro :: "string \<Rightarrow> int \<Rightarrow> LibcoapMetadata \<Rightarrow> LibcoapMetadata" where
  "int_macro name val d =
     (if name = ''LIBCOAP_VERSION'' then d\<lparr>libcoap_version := val\<rparr>
      else if name = ''COAP_AF_UNIX_SUPPORT'' then add_feature ''af-unix'' d
      else if name = ''COAP_ASYNC_SUPPORT'' then add_feature ''async'' d
      else if name = ''COAP_CLIENT_SUPPORT'' then add_feature ''client'' d
      else if name = ''COAP_CONSTRAINED_STACK'' then add_feature ''small-stack'' d
      else if name = ''COAP_DISABLE_TCP'' then
        (if val = 1 then d\<lparr>feature_defines := feature_defines d - {''tcp''}\<rparr> else d)
      else if name = ''COAP_EPOLL_SUPPORT'' then add_feature ''epoll'' d
      else if name = ''COAP_IPV4_SUPPORT'' then add_feature ''ipv4'' d
      else if name = ''COAP_IPV6_SUPPORT'' then add_feature ''ipv6'' d
      else if name = ''COAP_OSCORE_SUPPORT'' then add_feature ''oscore'' d
      else if name = ''COAP_Q_BLOCK_SUPPORT'' then add_feature ''q-block'' d
      else if name = ''COAP_SERVER_SUPPORT'' then add_feature ''server'' d
      else if name = ''COAP_THREAD_RECURSIVE_CHECK'' then add_feature ''thread-recursive-lock-detection'' d
      else if name = ''COAP_THREAD_SAFE'' then add_feature ''thread-safe'' d
      else if name = ''COAP_WITH_LIBGNUTLS'' then with_backend GnuTls d
      else if name = ''COAP_WITH_LIBMBEDTLS'' then with_backend MbedTls d
      else if name = ''COAP_WITH_LIBOPENSSL'' then with_backend OpenSsl d
      else if name = ''COAP_WITH_LIBTINYDTLS'' then with_backend TinyDtls d
      else if name = ''COAP_WITH_OBSERVE_PERSIST'' then add_feature ''observe-persist'' d
      else if name = ''COAP_WS_SUPPORT'' then add_feature ''websockets'' d
      else d)"

text \<open>
  Versions. The library that parses and compares them is a parameter, with the decoding of bytes that
  need not be UTF-8; its comparison has more results than these three, which the scripts do not tell
  apart.
\<close>

datatype Cmp = Lt | Eq | Gt | Other_cmp

record 'v version_lib =
  utf8_lossy :: "string \<Rightarrow> string"
  version_from :: "string \<Rightarrow> 'v option"
  version_compare :: "'v \<Rightarrow> 'v \<Rightarrow> Cmp"
  version_fmt :: "'v \<Rightarrow> string"

definition quoted :: "string \<Rightarrow> string" where
  "quoted s = CHR 0x22 # s @ [CHR 0x22]"

text \<open>Lines are printed to standard output, which Cargo reads.\<close>

definition str_macro ::
    "'v version_lib \<Rightarrow> string \<Rightarrow> string \<Rightarrow> LibcoapMetadata \<Rightarrow> LibcoapMetadata script" where
  "str_macro vl name val d =
     (if name = ''LIBCOAP_PACKAGE_VERSION'' then
        (let version_str = utf8_lossy vl val in
         script_bind (perform [Print (''cargo:rustc-cfg=libcoap_version='' @ quoted version_str),
                               Print (''cargo:libcoap_version='' @ version_str)]) (\<lambda>_.
         script_bind (required (version_from vl version_str)) (\<lambda>v.
         script_bind (required (version_from vl ''4.3.4'')) (\<lambda>base.
         script_bind (perform (if version_compare vl v base = Gt
                               then [Print ''cargo:rustc-cfg=non_inlined_coap_send_rst''] else [])) (\<lambda>_.
         done_with (d\<lparr>package_version := version_fmt vl v\<rparr>))))))
      else done_with d)"

text \<open>Components of a path, as \<^verbatim>\<open>std::path\<close> separates them on Unix, and its file name.\<close>

fun split_path :: "string \<Rightarrow> string \<Rightarrow> string list" where
  "split_path [] acc = [rev acc]"
| "split_path (c # cs) acc = (if c = CHR ''/'' then rev acc # split_path cs [] else split_path cs (c # acc))"

definition file_name :: "string \<Rightarrow> string option" where
  "file_name path =
     (case rev (filter (\<lambda>c. c \<noteq> [] \<and> c \<noteq> ''.'') (split_path path [])) of
        [] \<Rightarrow> None
      | c # _ \<Rightarrow> if c = ''..'' then None else Some c)"

definition include_file :: "string \<Rightarrow> LibcoapMetadata \<Rightarrow> LibcoapMetadata" where
  "include_file filename d =
     (if file_name filename = Some ''coap_defines.h'' then d\<lparr>feature_defines_available := True\<rparr> else d)"

text \<open>What the binding generator reports while it reads the headers.\<close>

datatype header_event = Int_macro string int | Str_macro string string | Include_file string

fun header_event_callback ::
    "'v version_lib \<Rightarrow> header_event \<Rightarrow> LibcoapMetadata \<Rightarrow> LibcoapMetadata script" where
  "header_event_callback vl (Int_macro name val) d = done_with (int_macro name val d)"
| "header_event_callback vl (Str_macro name val) d = str_macro vl name val d"
| "header_event_callback vl (Include_file filename) d = done_with (include_file filename d)"

fun read_headers ::
    "'v version_lib \<Rightarrow> header_event list \<Rightarrow> LibcoapMetadata \<Rightarrow> LibcoapMetadata script" where
  "read_headers vl [] d = done_with d"
| "read_headers vl (e # es) d = script_bind (header_event_callback vl e d) (read_headers vl es)"

section \<open>The environment\<close>

text \<open>
  \<^verbatim>\<open>env::var_os\<close> is the field itself; \<^verbatim>\<open>env::var\<close> and \<^verbatim>\<open>to_str\<close> also ask that the value is Unicode.
\<close>

record build_env =
  env :: "string \<Rightarrow> string option"
  cfg :: "string \<Rightarrow> bool"

definition to_str :: "string \<Rightarrow> string option" where
  "to_str s = (if utf8_valid (ascii s) then Some s else None)"

definition env_var :: "build_env \<Rightarrow> string \<Rightarrow> string option" where
  "env_var e name = Option.bind (env e name) to_str"

section \<open>The DTLS backend\<close>

text \<open>
  The choice of the backend: the backends in the order of the source, each overriding the ones
  before it. The result is the printed lines, whether more than one was enabled, and the backend.
\<close>

definition backend_order :: "(string \<times> DtlsBackend) list" where
  "backend_order =
     [(''dtls_backend_tinydtls'', TinyDtls), (''dtls_backend_mbedtls'', MbedTls),
      (''dtls_backend_openssl'', OpenSsl), (''dtls_backend_gnutls'', GnuTls)]"

fun choose_backend ::
    "(string \<Rightarrow> bool) \<Rightarrow> (string \<times> DtlsBackend) list \<Rightarrow> string list \<times> bool \<times> DtlsBackend option \<Rightarrow>
     string list \<times> bool \<times> DtlsBackend option" where
  "choose_backend feat [] st = st"
| "choose_backend feat ((f, b) # rest) (out, multiple, chosen) =
     choose_backend feat rest
       (if feat f then
          (out @ (if b = MbedTls then [''cargo:rerun-if-env-changed=MBEDTLS_LIBRARY_PATH''] else []),
           multiple \<or> chosen \<noteq> None, Some b)
        else (out, multiple, chosen))"

fun backend_debug :: "DtlsBackend \<Rightarrow> string" where
  "backend_debug GnuTls = ''GnuTls''"
| "backend_debug OpenSsl = ''OpenSsl''"
| "backend_debug MbedTls = ''MbedTls''"
| "backend_debug TinyDtls = ''TinyDtls''"

definition multiple_backends_warning :: "DtlsBackend \<Rightarrow> string" where
  "multiple_backends_warning b =
     ''cargo:warning=Multiple DTLS backends enabled for libcoap-sys. Only one can be enabled, choosing '' @
     backend_debug b @ '' as the backend to use. This may cause problems.''"

definition select_dtls_backend :: "build_env \<Rightarrow> DtlsBackend option script" where
  "select_dtls_backend e =
     (if cfg e ''dtls'' then
        (case choose_backend (cfg e) backend_order ([], False, None) of
           (out, multiple, None) \<Rightarrow> Panic
         | (out, multiple, Some b) \<Rightarrow>
             Ret (map Print (out @ (if multiple then [multiple_backends_warning b] else [])), Some b))
      else done_with None)"

end
