(* ===== verification/Build_Main.thy ===== *)
theory Build_Main
  imports Build_Script
begin

text \<open>
  The build of the vendored library, the bindings for ESP-IDF, and the main functions of the two
  build scripts (\<^verbatim>\<open>libcoap-sys/build.rs\<close>, \<^verbatim>\<open>libcoap/build.rs\<close>). A script is a list of actions with a
  result; the properties say which libcoap a build that succeeds is linked to.
\<close>

section \<open>Paths\<close>

definition path_join :: "string \<Rightarrow> string \<Rightarrow> string" where
  "path_join a b = (if a = [] \<or> last a = CHR ''/'' then a @ b else a @ CHR ''/'' # b)"

text \<open>The parent of a path, on the reversed path: trailing separators and dots do not count.\<close>

fun trim_rev :: "string \<Rightarrow> string" where
  "trim_rev (c # cs) =
     (if c = CHR ''/'' then trim_rev cs
      else if c = CHR ''.'' \<and> cs \<noteq> [] \<and> hd cs = CHR ''/'' then trim_rev (tl cs) else c # cs)"
| "trim_rev [] = []"

definition path_parent :: "string \<Rightarrow> string option" where
  "path_parent p =
     (let r = trim_rev (rev p); q = trim_rev (dropWhile (\<lambda>c. c \<noteq> CHR ''/'') r) in
      if r = [] then None
      else Some (if q = [] \<and> p \<noteq> [] \<and> hd p = CHR ''/'' then ''/'' else rev q))"

section \<open>The vendored library\<close>

datatype fs_result = Fs_ok | Fs_not_found | Fs_error

text \<open>The host: what the file system and the tools answer.\<close>

record host =
  manifest_dir :: string
  remove_dir_all :: "string \<Rightarrow> fs_result"
  dir_copy :: "string \<Rightarrow> string \<Rightarrow> bool"
  current_dir :: "string option"
  set_current_dir :: "string \<Rightarrow> bool"
  run_command :: "string \<Rightarrow> bool"
  create_dir_all :: "string \<Rightarrow> bool"
  file_copy :: "string \<Rightarrow> string \<Rightarrow> bool"
  autotools_build :: "string \<Rightarrow> string \<Rightarrow> conf_opt list \<Rightarrow> string"
  pkg_config_probe :: "bool \<Rightarrow> string \<Rightarrow> bool"

text \<open>The options that tell the library where its DTLS backend is.\<close>

definition tinydtls_options :: "build_env \<Rightarrow> conf_opt list script" where
  "tinydtls_options e =
     script_bind (case env e ''DEP_TINYDTLS_INCLUDE'' of
         None \<Rightarrow> done_with []
       | Some inc \<Rightarrow>
           script_bind (required (to_str inc)) (\<lambda>i.
           script_bind (required (to_str (path_join inc ''tinydtls''))) (\<lambda>j.
           done_with [Conf_env ''TinyDTLS_CFLAGS'' (''-I'' @ i @ '' -I'' @ j)]))) (\<lambda>inc_opts.
     script_bind (case env e ''DEP_TINYDTLS_LIBS'' of
         None \<Rightarrow> done_with []
       | Some libs \<Rightarrow>
           script_bind (required (to_str libs)) (\<lambda>l.
           done_with [Conf_env ''TinyDTLS_LIBS'' (''-L'' @ l),
                      Conf_env ''PKG_CONFIG_PATH'' (path_join (path_join libs ''lib'') ''pkgconfig'')])) (\<lambda>lib_opts.
     done_with (Without ''submodule-tinydtls'' None # inc_opts @ lib_opts)))"

definition openssl_options :: "build_env \<Rightarrow> conf_opt list script" where
  "openssl_options e =
     (case env e ''DEP_OPENSSL_INCLUDE'' of
        None \<Rightarrow> done_with []
      | Some inc \<Rightarrow>
          script_bind (required (to_str inc)) (\<lambda>i.
          script_bind (required (path_parent inc)) (\<lambda>par.
          done_with [Conf_env ''OpenSSL_CFLAGS'' (''-I'' @ i),
                     Conf_env ''PKG_CONFIG_PATH'' (path_join (path_join par ''lib'') ''pkgconfig'')])))"

definition mbedtls_options :: "build_env \<Rightarrow> host \<Rightarrow> string \<Rightarrow> conf_opt list script" where
  "mbedtls_options e h out_dir =
     (case env e ''DEP_MBEDTLS_INCLUDE'' of
        None \<Rightarrow> done_with []
      | Some inc \<Rightarrow>
          script_bind (required (env e ''DEP_MBEDTLS_CONFIG_H'')) (\<lambda>config_path.
          let out_include = path_join out_dir ''include'';
              target_dir = path_join out_include ''mbedtls'';
              target = path_join target_dir ''config.h'' in
          script_bind (perform [Make_dir target_dir]) (\<lambda>_.
          script_bind (require (create_dir_all h target_dir)) (\<lambda>_.
          script_bind (perform [Copy_file config_path target]) (\<lambda>_.
          script_bind (require (file_copy h config_path target)) (\<lambda>_.
          script_bind (required (path_parent config_path)) (\<lambda>par.
          script_bind (required (to_str out_include)) (\<lambda>o_inc.
          script_bind (required (to_str inc)) (\<lambda>i.
          script_bind (required (to_str (path_join (path_join par ''build'') ''library''))) (\<lambda>lib.
          done_with [Conf_env ''MbedTLS_CFLAGS'' (''-I'' @ o_inc @ '' -I'' @ i),
                     Conf_env ''MbedTLS_LIBS'' (''-L'' @ lib @ '' -l:libmbedtls.a -l:libmbedcrypto.a -l:libmbedx509.a'')]
          ))))))))))"

definition dtls_options :: "build_env \<Rightarrow> host \<Rightarrow> string \<Rightarrow> DtlsBackend option \<Rightarrow> conf_opt list script" where
  "dtls_options e h out_dir backend =
     (case backend of
        None \<Rightarrow> done_with [Disable ''dtls'' None]
      | Some b \<Rightarrow>
          script_bind (case b of TinyDtls \<Rightarrow> tinydtls_options e | OpenSsl \<Rightarrow> openssl_options e
                                | MbedTls \<Rightarrow> mbedtls_options e h out_dir | GnuTls \<Rightarrow> done_with []) (\<lambda>opts.
          done_with (Enable ''dtls'' None # With (backend_fmt b) None # opts)))"

definition disabled_options :: "conf_opt list" where
  "disabled_options = map (\<lambda>n. Disable n None)
     [''shared'', ''documentation'', ''doxygen'', ''manpages'', ''license-install'', ''tests'', ''examples'', ''gcov'']"

definition debug_options :: "build_env \<Rightarrow> conf_opt list script" where
  "debug_options e =
     script_bind (required (env e ''DEBUG'')) (\<lambda>raw.
     script_bind (required (to_str raw)) (\<lambda>v.
     done_with (if v = ''0'' \<or> v = ''false'' then [] else [With ''debug'' None])))"

definition yes_no :: "bool \<Rightarrow> string option" where
  "yes_no b = Some (if b then ''yes'' else ''no'')"

definition feature_options :: "(string \<Rightarrow> bool) \<Rightarrow> conf_opt list" where
  "feature_options feat =
     [Enable ''oscore'' (yes_no (feat ''oscore'')),
      Enable ''ipv4-support'' (yes_no (feat ''ipv4'')),
      Enable ''ipv6-support'' (yes_no (feat ''ipv6'')),
      Enable ''af-unix-support'' (yes_no (feat ''af-unix'')),
      Enable ''tcp'' (yes_no (feat ''tcp'')),
      Enable ''websockets'' (yes_no (feat ''websockets'')),
      Enable ''async'' (yes_no (feat ''async'')),
      Enable ''observe-persist'' (yes_no (feat ''observe-persist'')),
      Enable ''q-block'' (yes_no (feat ''q-block'')),
      Enable ''thread-safe'' (yes_no (feat ''thread-safe'')),
      Enable ''thread-recursive-lock-detection'' (yes_no (feat ''thread-recursive-lock-detection'')),
      Enable ''small-stack'' (yes_no (feat ''small-stack'')),
      Enable ''server-mode'' (yes_no (feat ''server'')),
      Enable ''client-mode'' (yes_no (feat ''client'')),
      With ''epoll'' (yes_no (feat ''epoll''))]"

text \<open>The calls made on the builder of the bindings: the method and its argument.\<close>

type_synonym builder = "(string \<times> string) list"

abbreviation clang_arg :: "string \<Rightarrow> string \<times> string" where
  "clang_arg a \<equiv> (''clang_arg'', a)"

definition build_vendored_library ::
    "build_env \<Rightarrow> host \<Rightarrow> string \<Rightarrow> DtlsBackend option \<Rightarrow> builder \<Rightarrow> builder script" where
  "build_vendored_library e h out_dir backend bldr =
     (let src_dir = path_join out_dir ''libcoap'';
          orig = path_join (path_join (manifest_dir h) ''src'') ''libcoap'' in
      script_bind (perform [Remove_dir src_dir]) (\<lambda>_.
      script_bind (require (remove_dir_all h src_dir \<noteq> Fs_error)) (\<lambda>_.
      script_bind (perform [Copy_dir orig out_dir]) (\<lambda>_.
      script_bind (require (dir_copy h orig out_dir)) (\<lambda>_.
      script_bind (required (current_dir h)) (\<lambda>backup.
      script_bind (perform [Chdir src_dir]) (\<lambda>_.
      script_bind (require (set_current_dir h src_dir)) (\<lambda>_.
      script_bind (perform [Exec (path_join src_dir ''autogen.sh'')]) (\<lambda>_.
      script_bind (require (run_command h (path_join src_dir ''autogen.sh''))) (\<lambda>_.
      script_bind (dtls_options e h out_dir backend) (\<lambda>dtls_opts.
      script_bind (debug_options e) (\<lambda>dbg.
      let opts = dtls_opts @ disabled_options @ dbg @ feature_options (cfg e);
          dst = autotools_build h src_dir out_dir opts in
      script_bind (perform [Make_library src_dir out_dir opts]) (\<lambda>_.
      script_bind (required (to_str (path_join dst ''lib''))) (\<lambda>lib.
      script_bind (required (to_str (path_join dst ''include''))) (\<lambda>inc.
      script_bind (perform [Print (''cargo:rustc-link-search=native='' @ lib), Print (''cargo:include='' @ inc)]) (\<lambda>_.
      script_bind (perform [Chdir backup]) (\<lambda>_.
      script_bind (require (set_current_dir h backup)) (\<lambda>_.
      done_with (bldr @ [clang_arg (''-I'' @ inc), clang_arg (''-L'' @ lib)])))))))))))))))))))"

section \<open>Bindings for ESP-IDF\<close>

text \<open>What the build system of ESP-IDF reports; the splitting of its arguments is a parameter too.\<close>

record espidf =
  idf_cfg_args :: "(string \<Rightarrow> bool) option"
  idf_path :: "string option"
  idf_cincl_args :: "string option"
  idf_env_path :: "string option"
  idf_compiler :: "string \<Rightarrow> string option"
  split_args :: "string \<Rightarrow> string list"
  bindgen_factory :: "string list \<Rightarrow> string \<Rightarrow> builder option"

definition mcus :: "string list" where
  "mcus = [''esp32'', ''esp32s2'', ''esp32s3'', ''esp32c3'', ''esp32c2'', ''esp32h2'', ''esp32c5'', ''esp32c6'', ''esp32p4'']"

definition get_target_mcu :: "espidf \<Rightarrow> string script" where
  "get_target_mcu idf =
     script_bind (required (idf_cfg_args idf)) (\<lambda>flags. required (find flags mcus))"

definition starts_with :: "string \<Rightarrow> string \<Rightarrow> bool" where
  "starts_with pre s \<longleftrightarrow> take (length pre) s = pre"

definition esp_arguments :: "string \<Rightarrow> string \<Rightarrow> string \<Rightarrow> string \<Rightarrow> string \<Rightarrow> builder" where
  "esp_arguments esp_idf_path buildroot clang_target short_target mcu =
     map clang_arg
      ([''-target'', clang_target, ''-DESP_PLATFORM'', ''-DLWIP_IPV4=1'', ''-DLWIP_IPV6=1'',
        ''-DconfigUSE_PASSIVE_IDLE_HOOK=1''] @
       map (\<lambda>d. ''-I'' @ esp_idf_path @ ''/components/'' @ d)
        [''newlib/platform_include'', ''lwip/port/include'', ''lwip/port/esp32xx/include'',
         ''lwip/lwip/src/include'', ''lwip/port/freertos/include'', ''esp_system/include'',
         ''freertos/config/include/freertos'', ''freertos/esp_additions/include'',
         ''freertos/esp_additions/include/freertos'',
         ''freertos/esp_additions/arch/'' @ short_target @ ''/include'',
         ''freertos/config/'' @ short_target @ ''/include'',
         short_target @ ''/include'',
         short_target @ ''/'' @ mcu @ ''/include'',
         ''esp_hw_support/include'', ''esp_common/include'', ''freertos/FreeRTOS-Kernel-SMP/include'',
         ''freertos/FreeRTOS-Kernel-SMP/portable/'' @ short_target @ ''/include/freertos'',
         ''soc/'' @ mcu @ ''/include'', ''heap/include'', ''esp_rom/include''] @
       map (\<lambda>d. ''-I'' @ buildroot @ d)
        [''/managed_components/espressif__coap/port/include'',
         ''/managed_components/espressif__coap/libcoap/include'', ''/build/config/'']) @
     [(''allowlist_type'', ''epoll_event'')]"

definition get_builder_espidf :: "build_env \<Rightarrow> espidf \<Rightarrow> builder script" where
  "get_builder_espidf e idf =
     script_bind (required (idf_path idf)) (\<lambda>esp_idf_path.
     script_bind (required (env_var e ''DEP_ESP_IDF_ROOT'')) (\<lambda>buildroot.
     script_bind (required (idf_cincl_args idf)) (\<lambda>incl.
     script_bind (required (idf_env_path idf)) (\<lambda>embuild_env.
     script_bind (required (env_var e ''CARGO_CFG_TARGET_ARCH'')) (\<lambda>esp_arch.
     script_bind (perform [Set_env ''PATH'' embuild_env]) (\<lambda>_.
     script_bind (required (idf_compiler idf (path_join buildroot ''build''))) (\<lambda>compiler.
     let esp_clang_args = split_args idf incl in
     script_bind (required (bindgen_factory idf esp_clang_args compiler)) (\<lambda>bldr.
     script_bind (get_target_mcu idf) (\<lambda>mcu.
     done_with (bldr @ map clang_arg esp_clang_args @
       esp_arguments esp_idf_path buildroot
         (if starts_with ''riscv32'' esp_arch then ''riscv32'' else esp_arch)
         (if starts_with ''riscv32'' esp_arch then ''riscv'' else esp_arch) mcu))))))))))"

definition get_builder :: builder where
  "get_builder = [(''blocklist_type'', ''epoll_event'')]"

section \<open>Linking\<close>

definition link_line :: "build_env \<Rightarrow> DtlsBackend option \<Rightarrow> string" where
  "link_line e backend =
     ''cargo:rustc-link-lib='' @ (if cfg e ''static'' then ''static='' else ''dylib='') @ ''coap-3-'' @
     (case backend of Some b \<Rightarrow> backend_fmt b | None \<Rightarrow> ''notls'')"

definition link_backend :: "build_env \<Rightarrow> host \<Rightarrow> DtlsBackend option \<Rightarrow> string list" where
  "link_backend e h backend =
     (case backend of
        None \<Rightarrow> []
      | Some TinyDtls \<Rightarrow> []
      | Some OpenSsl \<Rightarrow> []
      | Some MbedTls \<Rightarrow>
          if env e ''DEP_MBEDTLS_INCLUDE'' = None \<and> \<not> pkg_config_probe h (cfg e ''static'') ''mbedtls''
          then [''cargo:rustc-link-lib=mbedtls'', ''cargo:rustc-link-lib=mbedx509'', ''cargo:rustc-link-lib=mbedcrypto'']
          else []
      | Some GnuTls \<Rightarrow> if \<not> pkg_config_probe h False ''gnutls'' then [''cargo:rustc-link-lib=gnutls''] else [])"

section \<open>The main functions\<close>

definition binding_options :: builder where
  "binding_options =
     [(''header'', ''src/wrapper.h''), (''default_enum_style'', ''Rust non_exhaustive''),
      (''generate_comments'', ''false''), (''dynamic_link_require_all'', ''true''),
      (''allowlist_function'', ''(oscore|coap)_.*''), (''allowlist_type'', ''(oscore|coap)_.*''),
      (''allowlist_var'', ''(oscore|coap)_.*''), (''allowlist_function'', ''(OSCORE|COAP)_.*''),
      (''allowlist_type'', ''(OSCORE|COAP)_.*''), (''allowlist_var'', ''(OSCORE|COAP|LIBCOAP)_.*''),
      (''blocklist_type'', ''sockaddr(_in|_in6)?''), (''blocklist_type'', ''in6?_(addr|port)(_t)?''),
      (''blocklist_type'', ''in6_addr__bindgen_ty_1''), (''blocklist_type'', ''(__)?socklen_t''),
      (''blocklist_type'', ''fd_set''), (''blocklist_type'', ''sa_family_t''), (''blocklist_type'', ''(__)?time_t''),
      (''blocklist_type'', ''__fd_mask''), (''blocklist_type'', ''__(u)?int(8|16|32|64|128)_t''),
      (''size_t_is_usize'', ''true''), (''parse_callbacks'', ''CoapDefineParser'')]"

text \<open>The variable that Cargo sets for a feature: its name in upper case, with underscores.\<close>

definition to_upper :: "char \<Rightarrow> char" where
  "to_upper c =
     (if (97::nat) \<le> of_char c \<and> (of_char c :: nat) \<le> 122 then char_of ((of_char c :: nat) - 32) else c)"

definition feature_env_var_name :: "string \<Rightarrow> string" where
  "feature_env_var_name f =
     ''CARGO_FEATURE_'' @ map (\<lambda>c. to_upper (if c = CHR ''-'' then CHR ''_'' else c)) f"

text \<open>The feature the build panics about, if any.\<close>

fun first_missing :: "build_env \<Rightarrow> string set \<Rightarrow> string list \<Rightarrow> string option" where
  "first_missing e defined [] = None"
| "first_missing e defined (f # fs) =
     (if env_var e (feature_env_var_name f) \<noteq> None \<and> f \<notin> defined then Some f
      else first_missing e defined fs)"

definition backend_mismatch_warning :: string where
  "backend_mismatch_warning =
     ''cargo:warning=DTLS library used by libcoap does not match chosen one. This might lead to issues.''"

definition no_defines_warning :: string where
  "no_defines_warning =
     ''cargo:warning=The used version of libcoap does not provide a coap_defines.h file, either because it is too old (<4.3.5) or because this file is somehow not included. Compile-time feature checks are not available, and the availability of some features (small-stack, IPv4/IPv6,) cannot be asserted at all!''"

definition check_features :: "build_env \<Rightarrow> DtlsBackend option \<Rightarrow> LibcoapMetadata \<Rightarrow> unit script" where
  "check_features e backend d =
     (if feature_defines_available d then
        script_bind (perform [Print ''cargo:rustc-cfg=feature_checks_available'']) (\<lambda>_.
        script_bind (require (first_missing e (feature_defines d) COMPILE_TIME_FEATURE_CHECKS = None)) (\<lambda>_.
        perform (if backend \<noteq> meta_backend d then [Print backend_mismatch_warning] else [])))
      else perform [Print no_defines_warning])"

text \<open>
  The binding generator: given the builder it fails, or reports what it sees in the headers and
  makes the bindings, which are written to a file.
\<close>

definition sys_main ::
    "build_env \<Rightarrow> host \<Rightarrow> espidf \<Rightarrow> 'v version_lib \<Rightarrow> (builder \<Rightarrow> header_event list option) \<Rightarrow>
     (string \<Rightarrow> bool) \<Rightarrow> LibcoapMetadata script" where
  "sys_main e h idf vl generate write_to_file =
     script_bind (perform [Print ''cargo::rustc-check-cfg=cfg(feature_checks_available)'',
                           Print ''cargo::rustc-check-cfg=cfg(non_inlined_coap_send_rst)'',
                           Print ''cargo:rerun-if-changed=src/libcoap/'',
                           Print ''cargo:rerun-if-changed=src/wrapper.h'']) (\<lambda>_.
     script_bind (required (env e ''OUT_DIR'')) (\<lambda>out_dir.
     script_bind (required (env_var e ''CARGO_CFG_TARGET_OS'')) (\<lambda>target_os.
     script_bind (if target_os = ''espidf'' then get_builder_espidf e idf else done_with get_builder) (\<lambda>bldr.
     script_bind (select_dtls_backend e) (\<lambda>backend.
     script_bind (if cfg e ''vendored'' \<and> target_os \<noteq> ''espidf''
                  then build_vendored_library e h out_dir backend bldr else done_with bldr) (\<lambda>bldr.
     script_bind (perform (if target_os \<noteq> ''espidf''
                  then map Print (link_line e backend # link_backend e h backend) else [])) (\<lambda>_.
     let bldr = bldr @ binding_options @
           (if cfg e ''vendored'' then [] else [(''parse_callbacks'', ''CargoCallbacks'')]) in
     script_bind (required (generate bldr)) (\<lambda>events.
     script_bind (read_headers vl events metadata_default) (\<lambda>defines.
     script_bind (check_features e backend defines) (\<lambda>_.
     script_bind (require (write_to_file (path_join out_dir ''bindings.rs''))) (\<lambda>_.
     done_with defines)))))))))))"

text \<open>
  The script of the crate \<^verbatim>\<open>libcoap-rs\<close> sets what depends on the version of libcoap.
\<close>

definition at_least :: "'v version_lib \<Rightarrow> 'v \<Rightarrow> string \<Rightarrow> bool script" where
  "at_least vl v base =
     script_bind (required (version_from vl base)) (\<lambda>b.
     done_with (version_compare vl v b = Gt \<or> version_compare vl v b = Eq))"

definition rs_main :: "build_env \<Rightarrow> 'v version_lib \<Rightarrow> unit script" where
  "rs_main e vl =
     script_bind (perform [Print ''cargo::rustc-check-cfg=cfg(dtls_ec_jpake_support)'',
                           Print ''cargo::rustc-check-cfg=cfg(dtls_cid_support)'',
                           Print ''cargo::rustc-check-cfg=cfg(coap_uri_buf_unused)'',
                           Print ''cargo::rustc-check-cfg=cfg(dtls)'']) (\<lambda>_.
     script_bind (case env_var e ''DEP_COAP_3_LIBCOAP_VERSION'' of
         None \<Rightarrow> done_with ()
       | Some ver \<Rightarrow>
           script_bind (required (version_from vl ver)) (\<lambda>v.
           script_bind (at_least vl v ''4.3.5rc2'') (\<lambda>rc2.
           script_bind (perform (if rc2 then [Print ''cargo:rustc-cfg=coap_uri_buf_unused''] else [])) (\<lambda>_.
           script_bind (at_least vl v ''4.3.5rc3'') (\<lambda>rc3.
           perform (if rc3 then [Print ''cargo:rustc-cfg=dtls_ec_jpake_support'',
                                 Print ''cargo:rustc-cfg=dtls_cid_support''] else [])))))) (\<lambda>_.
     perform (if cfg e ''dtls-pki'' \<or> cfg e ''dtls-rpk'' \<or> cfg e ''dtls-psk''
              then [Print ''cargo:rustc-cfg=dtls''] else [])))"

section \<open>What the headers promise\<close>

text \<open>The reading of the macros as a table: the feature or the backend each macro stands for.\<close>

definition backend_macros :: "(string \<times> DtlsBackend) list" where
  "backend_macros =
     [(''COAP_WITH_LIBGNUTLS'', GnuTls), (''COAP_WITH_LIBMBEDTLS'', MbedTls),
      (''COAP_WITH_LIBOPENSSL'', OpenSsl), (''COAP_WITH_LIBTINYDTLS'', TinyDtls)]"

definition feature_macros :: "(string \<times> string) list" where
  "feature_macros =
     [(''COAP_AF_UNIX_SUPPORT'', ''af-unix''), (''COAP_ASYNC_SUPPORT'', ''async''),
      (''COAP_CLIENT_SUPPORT'', ''client''), (''COAP_CONSTRAINED_STACK'', ''small-stack''),
      (''COAP_EPOLL_SUPPORT'', ''epoll''), (''COAP_IPV4_SUPPORT'', ''ipv4''), (''COAP_IPV6_SUPPORT'', ''ipv6''),
      (''COAP_OSCORE_SUPPORT'', ''oscore''), (''COAP_Q_BLOCK_SUPPORT'', ''q-block''),
      (''COAP_SERVER_SUPPORT'', ''server''),
      (''COAP_THREAD_RECURSIVE_CHECK'', ''thread-recursive-lock-detection''),
      (''COAP_THREAD_SAFE'', ''thread-safe''), (''COAP_WITH_OBSERVE_PERSIST'', ''observe-persist''),
      (''COAP_WS_SUPPORT'', ''websockets'')] @ map (\<lambda>(m, b). (m, ''dtls'')) backend_macros"

definition announced :: "header_event list \<Rightarrow> string \<Rightarrow> bool" where
  "announced es f \<longleftrightarrow>
     (if f = ''tcp'' then Int_macro ''COAP_DISABLE_TCP'' 1 \<notin> set es
      else \<exists>ev \<in> set es. case ev of Int_macro m v \<Rightarrow> map_of feature_macros m = Some f | _ \<Rightarrow> False)"

text \<open>The effect of one macro, by the table.\<close>

lemma int_macro_features:
  "feature_defines (int_macro name val d) =
     (case map_of feature_macros name of
        Some f \<Rightarrow> insert f (feature_defines d)
      | None \<Rightarrow> if name = ''COAP_DISABLE_TCP'' \<and> val = 1 then feature_defines d - {''tcp''} else feature_defines d)"
  by (simp add: int_macro_def add_feature_def with_backend_def feature_macros_def backend_macros_def)

lemma feature_macros_not_tcp: "map_of feature_macros m \<noteq> Some ''tcp''"
  by (simp add: feature_macros_def backend_macros_def)

lemma disable_tcp_no_feature: "map_of feature_macros ''COAP_DISABLE_TCP'' = None"
  by (simp add: feature_macros_def backend_macros_def)

lemma str_macro_features: "str_macro vl name val d = Ret (out, d') \<Longrightarrow> feature_defines d' = feature_defines d"
  by (auto simp: str_macro_def script_bind_Ret done_with_def Let_def split: if_splits)

lemma header_event_features:
  assumes "header_event_callback vl ev d = Ret (out, d')"
  shows "f \<in> feature_defines d' \<longleftrightarrow>
    (if f = ''tcp'' then f \<in> feature_defines d \<and> ev \<noteq> Int_macro ''COAP_DISABLE_TCP'' 1
     else f \<in> feature_defines d \<or> (case ev of Int_macro m v \<Rightarrow> map_of feature_macros m = Some f | _ \<Rightarrow> False))"
proof (cases ev)
  case (Int_macro m v)
  with assms show ?thesis
    using feature_macros_not_tcp[of m] disable_tcp_no_feature
    by (auto simp: done_with_def int_macro_features split: option.splits if_splits)
next
  case (Str_macro name val)
  with assms str_macro_features[of vl name val d out d'] show ?thesis by simp
next
  case (Include_file filename)
  with assms show ?thesis by (auto simp: done_with_def include_file_def split: if_splits)
qed

lemma read_headers_features:
  assumes "read_headers vl es d = Ret (out, d')"
  shows "f \<in> feature_defines d' \<longleftrightarrow>
    (if f = ''tcp'' then f \<in> feature_defines d \<and> announced es f else f \<in> feature_defines d \<or> announced es f)"
  using assms
proof (induction es arbitrary: d out)
  case Nil
  then show ?case by (simp add: done_with_def announced_def)
next
  case (Cons ev es)
  then obtain out1 d1 out2 where "header_event_callback vl ev d = Ret (out1, d1)"
      and "read_headers vl es d1 = Ret (out2, d')"
    by (auto simp: script_bind_Ret)
  with Cons.IH header_event_features[of vl ev d out1 d1 f] show ?case
    by (auto simp: announced_def)
qed

text \<open>
  The features found are those the headers announce: any macro of the table counts, whatever its
  value, and TCP counts unless it is switched off.
\<close>

lemma headers_announce:
  assumes "read_headers vl es metadata_default = Ret (out, d)"
  shows "f \<in> feature_defines d \<longleftrightarrow> announced es f"
  using read_headers_features[OF assms, of f] by (simp add: metadata_default_def)

lemma first_missing_None:
  "first_missing e defined fs = None \<longleftrightarrow>
     (\<forall>f \<in> set fs. env_var e (feature_env_var_name f) \<noteq> None \<longrightarrow> f \<in> defined)"
  by (induction fs) auto

section \<open>Properties\<close>

text \<open>
  The backend chosen is the enabled one of highest priority (GnuTLS, OpenSSL, Mbed TLS, TinyDTLS);
  the build panics exactly when DTLS is enabled without a backend, and warns exactly when several
  backends are enabled.
\<close>

theorem backend_choice:
  "select_dtls_backend e =
     (if \<not> cfg e ''dtls'' then done_with None
      else case find (\<lambda>(f, b). cfg e f) (rev backend_order) of
          None \<Rightarrow> Panic
        | Some (f, b) \<Rightarrow>
            Ret (map Print
                  ((if cfg e ''dtls_backend_mbedtls'' then [''cargo:rerun-if-env-changed=MBEDTLS_LIBRARY_PATH''] else []) @
                   (if length (filter (\<lambda>(f, b). cfg e f) backend_order) \<ge> 2 then [multiple_backends_warning b] else [])),
                 Some b))"
  by (cases "cfg e ''dtls_backend_tinydtls''"; cases "cfg e ''dtls_backend_mbedtls''";
      cases "cfg e ''dtls_backend_openssl''"; cases "cfg e ''dtls_backend_gnutls''")
    (simp_all add: select_dtls_backend_def backend_order_def done_with_def)

lemma required_eq_Ret: "required x = Ret r \<longleftrightarrow> (\<exists>a. x = Some a \<and> r = ([], a))"
  by (cases x) (auto simp: required_def)

lemma if_Panic_eq_Ret: "(if b then m else Panic) = Ret r \<longleftrightarrow> b \<and> m = Ret r"
  by simp

text \<open>What a run of the script went through.\<close>

lemma sys_main_run:
  assumes "sys_main e h idf vl generate write_to_file = Ret (out, d)"
  obtains bldr es out1 out2 backend where "generate bldr = Some es"
    and "read_headers vl es metadata_default = Ret (out1, d)"
    and "check_features e backend d = Ret (out2, ())"
  using assms
  by (auto simp: sys_main_def script_bind_Ret required_eq_Ret if_Panic_eq_Ret Let_def done_with_def intro: that)

text \<open>
  C28: a build that succeeds has the features that can be checked. When the main script returns and the
  headers come with their list of features, then each of the sixteen features named here that Cargo
  enabled was announced by a macro of the headers of libcoap (TCP: was not switched off by one). The
  other features of the crate (\<^verbatim>\<open>tls\<close>, \<^verbatim>\<open>secure-websockets\<close>, the details of DTLS) are not checked.
\<close>

theorem build_has_features:
  assumes "sys_main e h idf vl generate write_to_file = Ret (out, d)" and "feature_defines_available d"
    and "f \<in> {''dtls'', ''oscore'', ''ipv4'', ''ipv6'', ''af-unix'', ''tcp'', ''websockets'', ''async'', ''observe-persist'',
      ''q-block'', ''thread-safe'', ''thread-recursive-lock-detection'', ''small-stack'', ''server'', ''client'', ''epoll''}"
    and "env_var e (feature_env_var_name f) \<noteq> None"
  shows "\<exists>bldr es out1. generate bldr = Some es \<and>
    read_headers vl es metadata_default = Ret (out1, d) \<and> announced es f"
proof -
  obtain bldr es out1 out2 backend where run: "generate bldr = Some es"
      "read_headers vl es metadata_default = Ret (out1, d)" "check_features e backend d = Ret (out2, ())"
    using assms(1) by (rule sys_main_run)
  from run(3) assms(2) have "first_missing e (feature_defines d) COMPILE_TIME_FEATURE_CHECKS = None"
    by (auto simp: check_features_def script_bind_Ret if_Panic_eq_Ret)
  moreover have "f \<in> set COMPILE_TIME_FEATURE_CHECKS" using assms(3) by (elim insertE emptyE) (simp_all add: COMPILE_TIME_FEATURE_CHECKS_def)
  ultimately have "f \<in> feature_defines d" using assms(4) by (simp add: first_missing_None)
  with run headers_announce show ?thesis by blast
qed

text \<open>
  The vendored build changes the working directory to the copy of the sources and back to where it
  was, and builds the library once, with DTLS exactly when a backend is chosen and with each feature
  switched on or off as Cargo has it.
\<close>

fun is_chdir :: "build_action \<Rightarrow> bool" where
  "is_chdir (Chdir d) = True"
| "is_chdir _ = False"

lemma dtls_options_run:
  assumes "dtls_options e h out_dir backend = Ret (out, opts)"
  shows "filter is_chdir out = []" and "Enable ''dtls'' None \<in> set opts \<longleftrightarrow> backend \<noteq> None"
  using assms
  by (auto simp: dtls_options_def tinydtls_options_def openssl_options_def mbedtls_options_def
      script_bind_Ret required_eq_Ret if_Panic_eq_Ret perform_def done_with_def Let_def
      split: option.splits DtlsBackend.splits)

lemma debug_options_run:
  assumes "debug_options e = Ret (out, opts)"
  shows "out = []" and "Enable ''dtls'' None \<notin> set opts"
  using assms by (auto simp: debug_options_def script_bind_Ret required_eq_Ret done_with_def split: if_splits)

lemma other_options: "Enable ''dtls'' None \<notin> set (disabled_options @ feature_options feat)"
  by (simp add: disabled_options_def feature_options_def yes_no_def)

theorem vendored_build:
  assumes "build_vendored_library e h out_dir backend bldr = Ret (out, bldr')"
  shows "\<exists>dir opts. current_dir h = Some dir \<and>
    filter is_chdir out = [Chdir (path_join out_dir ''libcoap''), Chdir dir] \<and>
    Make_library (path_join out_dir ''libcoap'') out_dir opts \<in> set out \<and>
    set (feature_options (cfg e)) \<subseteq> set opts \<and> (Enable ''dtls'' None \<in> set opts \<longleftrightarrow> backend \<noteq> None)"
proof -
  define src where "src = path_join out_dir ''libcoap''"
  from assms obtain dir as opts1 ds opts2 where run: "current_dir h = Some dir"
      "dtls_options e h out_dir backend = Ret (as, opts1)" "debug_options e = Ret (ds, opts2)"
    and out: "filter is_chdir out = Chdir src # filter is_chdir as @ filter is_chdir ds @ [Chdir dir]"
      "Make_library src out_dir (opts1 @ disabled_options @ opts2 @ feature_options (cfg e)) \<in> set out"
    by (auto simp: build_vendored_library_def src_def script_bind_Ret required_eq_Ret if_Panic_eq_Ret
        perform_def done_with_def Let_def)
  let ?opts = "opts1 @ disabled_options @ opts2 @ feature_options (cfg e)"
  have "Enable ''dtls'' None \<in> set ?opts \<longleftrightarrow> backend \<noteq> None"
    using dtls_options_run(2)[OF run(2)] debug_options_run(2)[OF run(3)] other_options[of "cfg e"] by auto
  moreover have "filter is_chdir out = [Chdir src, Chdir dir]"
    using out(1) dtls_options_run(1)[OF run(2)] debug_options_run(1)[OF run(3)] by simp
  moreover have "set (feature_options (cfg e)) \<subseteq> set ?opts" by auto
  ultimately show ?thesis using run(1) out(2) unfolding src_def by blast
qed

text \<open>A build for Linux with the feature \<^verbatim>\<open>ipv4\<close>.\<close>

definition sample_env :: build_env where
  "sample_env =
     \<lparr>env = (\<lambda>n. if n = ''OUT_DIR'' then Some ''out'' else if n = ''CARGO_CFG_TARGET_OS'' then Some ''linux''
                 else if n = ''CARGO_FEATURE_IPV4'' then Some ''1'' else None),
      cfg = (\<lambda>f. f = ''ipv4'')\<rparr>"

definition sample_host :: host where
  "sample_host =
     \<lparr>manifest_dir = ''src'', remove_dir_all = (\<lambda>_. Fs_ok), dir_copy = (\<lambda>_ _. True), current_dir = Some ''.'',
      set_current_dir = (\<lambda>_. True), run_command = (\<lambda>_. True), create_dir_all = (\<lambda>_. True),
      file_copy = (\<lambda>_ _. True), autotools_build = (\<lambda>_ out _. out), pkg_config_probe = (\<lambda>_ _. True)\<rparr>"

definition sample_idf :: espidf where
  "sample_idf =
     \<lparr>idf_cfg_args = None, idf_path = None, idf_cincl_args = None, idf_env_path = None,
      idf_compiler = (\<lambda>_. None), split_args = (\<lambda>s. [s]), bindgen_factory = (\<lambda>_ _. None)\<rparr>"

definition sample_versions :: "string version_lib" where
  "sample_versions =
     \<lparr>utf8_lossy = (\<lambda>s. s), version_from = Some, version_compare = (\<lambda>v w. if v = w then Eq else Other_cmp),
      version_fmt = (\<lambda>v. v)\<rparr>"

definition sample_headers :: "header_event list" where
  "sample_headers = [Include_file ''coap3/coap_defines.h'', Int_macro ''COAP_IPV4_SUPPORT'' 1]"

lemma sample_env_vars:
  "env_var sample_env ''CARGO_CFG_TARGET_OS'' = Some ''linux''"
  "env_var sample_env (feature_env_var_name ''ipv4'') = Some ''1''"
  by code_simp+

lemma sample_none_missing:
  "first_missing sample_env {''ipv4'', ''tcp''} COMPILE_TIME_FEATURE_CHECKS = None"
  by code_simp

lemma sample_build:
  "\<exists>out d. sys_main sample_env sample_host sample_idf sample_versions (\<lambda>_. Some sample_headers) (\<lambda>_. True) =
      Ret (out, d) \<and> feature_defines_available d"
proof -
  have "env sample_env ''OUT_DIR'' = Some ''out''" and "\<not> cfg sample_env ''vendored''"
      and "\<not> cfg sample_env ''dtls''"
    by (simp_all add: sample_env_def)
  then show ?thesis
    by (simp add: sys_main_def script_bind_perform sample_env_vars sample_none_missing sample_headers_def
      select_dtls_backend_def check_features_def metadata_default_def include_file_def file_name_def
      int_macro_def add_feature_def) (simp add: perform_def script_bind_def done_with_def)
qed

theorem build_has_features_witness:
  "\<exists>out d. sys_main sample_env sample_host sample_idf sample_versions (\<lambda>_. Some sample_headers) (\<lambda>_. True) = Ret (out, d) \<and>
     feature_defines_available d \<and> env_var sample_env (feature_env_var_name ''ipv4'') \<noteq> None \<and>
     announced sample_headers ''ipv4''"
proof -
  obtain out d where run: "sys_main sample_env sample_host sample_idf sample_versions
      (\<lambda>_. Some sample_headers) (\<lambda>_. True) = Ret (out, d)" and avail: "feature_defines_available d"
    using sample_build by blast
  have "env_var sample_env (feature_env_var_name ''ipv4'') \<noteq> None" using sample_env_vars by simp
  with build_has_features[OF run avail, of "''ipv4''"] run avail show ?thesis by auto
qed

end
